(* ===== verification/XPrelude.thy ===== *)
theory XPrelude
  imports Main "HOL-Library.Word" "HOL-Library.Char_ord" "HOL-Library.List_Lexorder"
    "HOL-Library.Monad_Syntax"
begin

text \<open>
  Shared vocabulary of the development: machine integer types, \<open>std::map\<close> as a key-sorted
  association list behind a map interface, fixed-width little-endian byte strings, the
  \<open>std::to_string\<close>/\<open>std::stoull\<close> pair and the checked arithmetic of \<open>xbasic/xutility.h\<close>.

  Conventions used everywhere below.
  \<^item> An unsigned or signed C++ integer of width w is a w-bit word.  Conversions between the
    signed and unsigned type of one width keep the bits, so they are the identity here; a
    signed comparison is written with \<open>sint\<close>, an unsigned one with the order of words.
  \<^item> A \<open>std::string\<close> is a \<open>string\<close>, one \<open>char\<close> per byte.  The order of HOL strings
    (\<open>List_Lexorder\<close>, \<open>Char_ord\<close>) is the byte-lexicographic order of \<open>std::less<std::string>\<close>.
    A call that passes only \<open>c_str()\<close> sees the string up to its first zero byte: \<open>c_str\<close>.
  \<^item> A C++ exception that leaves a function is the value \<open>None\<close> of an \<open>option\<close>.
  \<^item> \<open>assert\<close>, \<open>xassert\<close> and log macros have no effect, as in a release build.
\<close>

named_theorems omap_simps \<open>lookup laws of the ordered map\<close>
named_theorems codec_simps \<open>decode-after-encode laws\<close>
named_theorems word_bounds \<open>no-wrap facts on machine integers\<close>

type_synonym u8 = "8 word"
type_synonym u16 = "16 word"
type_synonym u32 = "32 word"
type_synonym u64 = "64 word"
type_synonym i32 = "32 word"
type_synonym i64 = "64 word"
type_synonym bytes = string

lemma unat64_lt [word_bounds]: "unat (w :: u64) < 18446744073709551616"
  using unsigned_less [where 'a = nat, of w] by simp

lemma unat32_lt [word_bounds]: "unat (w :: u32) < 4294967296"
  using unsigned_less [where 'a = nat, of w] by simp

lemma unat16_lt [word_bounds]: "unat (w :: u16) < 65536"
  using unsigned_less [where 'a = nat, of w] by simp

lemma unat8_lt [word_bounds]: "unat (w :: u8) < 256"
  using unsigned_less [where 'a = nat, of w] by simp

lemma unat64_add [word_bounds]:
  "unat (a + b :: u64) = (if unat a + unat b < 18446744073709551616 then unat a + unat b
                          else unat a + unat b - 18446744073709551616)"
  by (simp add: unat_plus_if')

lemma unat64_sub [word_bounds]:
  "unat (a - b :: u64) = (if unat b \<le> unat a then unat a - unat b
                          else unat a + 18446744073709551616 - unat b)"
  by (simp add: unat_sub_if')

lemma take_bit_small: "unat (w :: 'a::len word) < 2 ^ n \<Longrightarrow> take_bit n w = w"
  by (simp add: word_unat_eq_iff unsigned_take_bit_eq take_bit_nat_eq_self)

lemma mask_numerals:
  "(0x07 :: 'a::len word) = mask 3" "(0x0F :: 'a word) = mask 4" "(0x1F :: 'a word) = mask 5"
  "(0xFF :: 'a word) = mask 8" "(0xFFF :: 'a word) = mask 12" "(0xFFFF :: 'a word) = mask 16"
  by (simp_all add: mask_eq_exp_minus_1)


section \<open>C strings\<close>

text \<open>A \<open>std::string\<close> that is handed on as \<open>const char *\<close> by \<open>c_str()\<close>, without a size, is read up
  to the first zero byte.\<close>

definition c_str :: "string \<Rightarrow> string" where
  "c_str s = takeWhile (\<lambda>c. c \<noteq> CHR 0x00) s"

lemma c_str_id: "CHR 0x00 \<notin> set s \<Longrightarrow> c_str s = s"
  by (auto simp: c_str_def)

lemma c_str_truncates: "CHR 0x00 \<notin> set s \<Longrightarrow> c_str (s @ CHR 0x00 # t) = s"
  by (induction s) (auto simp: c_str_def)


section \<open>Ordered maps\<close>

text \<open>\<open>std::map\<close>: the entries in key order, each key once.\<close>

type_synonym ('k, 'v) omap = "('k \<times> 'v) list"

definition om_inv :: "('k::linorder, 'v) omap \<Rightarrow> bool" where
  "om_inv m \<longleftrightarrow> sorted_wrt (<) (map fst m)"

definition om_find :: "('k::linorder, 'v) omap \<Rightarrow> 'k \<Rightarrow> 'v option" where
  "om_find m k = map_of m k"

fun om_set :: "'k::linorder \<Rightarrow> 'v \<Rightarrow> ('k, 'v) omap \<Rightarrow> ('k, 'v) omap" where
  "om_set k v [] = [(k, v)]"
| "om_set k v ((k', v') # m) =
     (if k < k' then (k, v) # (k', v') # m
      else if k = k' then (k, v) # m
      else (k', v') # om_set k v m)"

definition om_emplace :: "'k::linorder \<Rightarrow> 'v \<Rightarrow> ('k, 'v) omap \<Rightarrow> ('k, 'v) omap" where
  "om_emplace k v m = (case om_find m k of None \<Rightarrow> om_set k v m | Some _ \<Rightarrow> m)"

definition om_erase :: "'k::linorder \<Rightarrow> ('k, 'v) omap \<Rightarrow> ('k, 'v) omap" where
  "om_erase k m = filter (\<lambda>p. fst p \<noteq> k) m"

text \<open>The interface the components use: a lookup, an overwriting store and an erase.\<close>

locale keyed_map =
  fixes find :: "'m \<Rightarrow> 'k \<Rightarrow> 'v option"
    and store :: "'k \<Rightarrow> 'v \<Rightarrow> 'm \<Rightarrow> 'm"
    and erase :: "'k \<Rightarrow> 'm \<Rightarrow> 'm"
    and inv :: "'m \<Rightarrow> bool"
  assumes find_store: "find (store k v m) k' = (if k' = k then Some v else find m k')"
    and find_erase: "find (erase k m) k' = (if k' = k then None else find m k')"
    and inv_store: "inv m \<Longrightarrow> inv (store k v m)"
    and inv_erase: "inv m \<Longrightarrow> inv (erase k m)"
    and ext: "inv m \<Longrightarrow> inv n \<Longrightarrow> (\<And>k. find m k = find n k) \<Longrightarrow> m = n"
begin

lemma store_store_same: "inv m \<Longrightarrow> store k v (store k w m) = store k v m"
  by (rule ext) (simp_all add: find_store inv_store)

lemma store_store_other: "inv m \<Longrightarrow> k \<noteq> l \<Longrightarrow> store k v (store l w m) = store l w (store k v m)"
  by (rule ext) (simp_all add: find_store inv_store)

lemma erase_store: "inv m \<Longrightarrow> erase k (store k v m) = erase k m"
  by (rule ext) (simp_all add: find_store find_erase inv_store inv_erase)

lemma store_erase: "inv m \<Longrightarrow> store k v (erase k m) = store k v m"
  by (rule ext) (simp_all add: find_store find_erase inv_store inv_erase)

lemma erase_absent: "inv m \<Longrightarrow> find m k = None \<Longrightarrow> erase k m = m"
  by (rule ext) (auto simp: find_erase inv_erase)

lemma store_present: "inv m \<Longrightarrow> find m k = Some v \<Longrightarrow> store k v m = m"
  by (rule ext) (auto simp: find_store inv_store)

lemma erase_erase: "inv m \<Longrightarrow> erase k (erase k m) = erase k m"
  by (rule ext) (simp_all add: find_erase inv_erase)

lemma erase_store_other: "inv m \<Longrightarrow> k \<noteq> l \<Longrightarrow> erase k (store l v m) = store l v (erase k m)"
  by (rule ext) (auto simp: find_store find_erase inv_store inv_erase)

end

lemma om_find_Nil [simp]: "om_find [] k = None"
  by (simp add: om_find_def)

lemma om_inv_Nil [simp]: "om_inv []"
  by (simp add: om_inv_def)

lemma om_find_set [simp, omap_simps]:
  "om_find (om_set k v m) k' = (if k' = k then Some v else om_find m k')"
  by (induction m) (auto simp: om_find_def)

lemma om_find_erase [simp, omap_simps]:
  "om_find (om_erase k m) k' = (if k' = k then None else om_find m k')"
  by (induction m) (auto simp: om_find_def om_erase_def)

lemma om_find_emplace [omap_simps]:
  "om_find (om_emplace k v m) k' =
     (if k' = k \<and> om_find m k = None then Some v else om_find m k')"
  by (auto simp: om_emplace_def split: option.splits)

lemma om_set_keys: "fst ` set (om_set k v m) = insert k (fst ` set m)"
proof (induction m)
  case (Cons p m)
  then show ?case
    by (cases p) (simp add: insert_commute)
qed simp

lemma om_inv_set [simp, intro]: "om_inv m \<Longrightarrow> om_inv (om_set k v m)"
proof (induction m)
  case (Cons p m)
  have "\<forall>q \<in> set (om_set k v m). fst q = k \<or> fst q \<in> fst ` set m"
    using om_set_keys [of k v m] by blast
  with Cons show ?case
    by (cases p) (fastforce simp: om_inv_def)
qed (simp add: om_inv_def)

lemma om_inv_erase [simp, intro]: "om_inv m \<Longrightarrow> om_inv (om_erase k m)"
  by (induction m) (auto simp: om_inv_def om_erase_def)

lemma om_inv_emplace [simp, intro]: "om_inv m \<Longrightarrow> om_inv (om_emplace k v m)"
  by (simp add: om_emplace_def split: option.splits)

lemma om_inv_distinct: "om_inv m \<Longrightarrow> distinct (map fst m)"
  unfolding om_inv_def using strict_sorted_iff by blast

lemma om_ext:
  assumes "om_inv m" "om_inv n" and eq: "\<And>k. om_find m k = om_find n k"
  shows "m = n"
proof -
  have d: "distinct (map fst m)" "distinct (map fst n)"
    using assms om_inv_distinct by blast+
  have mo: "map_of m = map_of n"
    using eq by (auto simp: om_find_def)
  have "fst ` set m = fst ` set n"
    using mo by (metis dom_map_of_conv_image_fst)
  then have k: "map fst m = map fst n"
    using assms(1,2) strict_sorted_equal [of "map fst m" "map fst n"] by (simp add: om_inv_def)
  have entries: "xs = map (\<lambda>k. (k, the (map_of xs k))) (map fst xs)"
    if "distinct (map fst xs)" for xs :: "('a \<times> 'b) list"
    using that by (auto simp: comp_def intro!: map_idI [symmetric])
  show ?thesis
    using entries [OF d(1)] entries [OF d(2)] k mo by metis
qed

interpretation om: keyed_map om_find om_set om_erase om_inv
  by unfold_locales (auto intro: om_ext)


section \<open>Little-endian byte strings\<close>

text \<open>
  The object representation of an unsigned integer on the little-endian targets of the code
  base: \<open>le_bytes n v\<close> is the \<open>n\<close>-byte representation of \<open>v\<close>.
\<close>

primrec le_bytes :: "nat \<Rightarrow> nat \<Rightarrow> bytes" where
  "le_bytes 0 v = []"
| "le_bytes (Suc n) v = char_of (v mod 256) # le_bytes n (v div 256)"

primrec le_val :: "bytes \<Rightarrow> nat" where
  "le_val [] = 0"
| "le_val (c # cs) = of_char c + 256 * le_val cs"

lemma length_le_bytes [simp]: "length (le_bytes n v) = n"
  by (induction n arbitrary: v) simp_all

lemma le_val_le_bytes [codec_simps]: "le_val (le_bytes n v) = v mod 256 ^ n"
proof (induction n arbitrary: v)
  case (Suc n)
  have "v mod 256 ^ Suc n = v mod 256 + 256 * (v div 256 mod 256 ^ n)"
    by (simp add: mod_mult2_eq)
  then show ?case
    by (simp add: Suc of_char_of)
qed simp

lemma of_char_lt [simp]: "(of_char c :: nat) < 256"
  using of_char_mod_256 [of c, where 'a = nat] by (metis mod_less_divisor zero_less_numeral)

lemma le_bytes_le_val [codec_simps]: "le_bytes (length cs) (le_val cs) = cs"
  by (induction cs) simp_all

lemma le_val_lt: "le_val cs < 256 ^ length cs"
proof (induction cs)
  case (Cons c cs)
  have "of_char c + 256 * le_val cs < 256 * (le_val cs + 1)"
    using of_char_lt [of c] by (simp only: distrib_left)
  also have "\<dots> \<le> 256 * 256 ^ length cs"
    using Cons by (intro mult_le_mono2) simp
  finally show ?case
    by simp
qed simp


section \<open>Decimal strings\<close>

text \<open>\<open>std::to_string(uint64_t)\<close> and \<open>std::stoull\<close> in base 10: leading white space and one
  sign are accepted, conversion stops at the first character that is not a digit, a string
  without digits throws \<open>std::invalid_argument\<close> and a value that does not fit throws
  \<open>std::out_of_range\<close>; a minus sign negates modulo \<open>2^64\<close>.\<close>

fun dec_digits :: "nat \<Rightarrow> string" where
  "dec_digits n = (if n < 10 then [char_of (48 + n)]
                   else dec_digits (n div 10) @ [char_of (48 + n mod 10)])"

declare dec_digits.simps [simp del]

definition to_string :: "u64 \<Rightarrow> string" where
  "to_string w = dec_digits (unat w)"

definition is_digit :: "char \<Rightarrow> bool" where
  "is_digit c \<longleftrightarrow> 48 \<le> (of_char c :: nat) \<and> (of_char c :: nat) \<le> 57"

definition is_space :: "char \<Rightarrow> bool" where
  "is_space c \<longleftrightarrow> (of_char c :: nat) = 32 \<or> 9 \<le> (of_char c :: nat) \<and> (of_char c :: nat) \<le> 13"

definition dec_val :: "string \<Rightarrow> nat" where
  "dec_val s = foldl (\<lambda>a c. 10 * a + (of_char c - 48)) 0 s"

definition stoull_digits :: "string \<Rightarrow> u64 option" where
  "stoull_digits s =
     (let ds = takeWhile is_digit s
      in if ds = [] then None
         else if dec_val ds < 2 ^ 64 then Some (of_nat (dec_val ds)) else None)"

definition stoull :: "string \<Rightarrow> u64 option" where
  "stoull s =
     (case dropWhile is_space s of
        [] \<Rightarrow> None
      | c # cs \<Rightarrow>
          if c = CHR ''-'' then map_option uminus (stoull_digits cs)
          else if c = CHR ''+'' then stoull_digits cs
          else stoull_digits (c # cs))"

lemma of_char_digit: "n < 10 \<Longrightarrow> (of_char (char_of (48 + n) :: char) :: nat) = 48 + n"
  by (simp add: of_char_of)

lemma dec_digits_is_digit: "c \<in> set (dec_digits n) \<Longrightarrow> is_digit c"
proof (induction n rule: dec_digits.induct)
  case (1 n)
  show ?case
  proof (cases "n < 10")
    case True
    then show ?thesis
      using 1(2) of_char_digit [of n] by (simp add: dec_digits.simps [of n] is_digit_def)
  next
    case False
    then show ?thesis
      using 1 of_char_digit [of "n mod 10"]
      by (auto simp: dec_digits.simps [of n] is_digit_def)
  qed
qed

lemma dec_digits_nonempty [simp]: "dec_digits n \<noteq> []"
  by (subst dec_digits.simps) simp

lemma dec_val_dec_digits: "dec_val (dec_digits n) = n"
proof (induction n rule: dec_digits.induct)
  case (1 n)
  then show ?case
    using of_char_digit [of n] of_char_digit [of "n mod 10"]
    by (subst dec_digits.simps) (simp add: dec_val_def)
qed

lemma to_string_nonempty [simp]: "to_string w \<noteq> []"
  by (simp add: to_string_def)

lemma stoull_to_string [simp]: "stoull (to_string w) = Some w"
proof -
  let ?s = "dec_digits (unat w)"
  obtain c cs where s: "?s = c # cs"
    by (cases ?s) simp_all
  have d: "\<And>x. x \<in> set ?s \<Longrightarrow> is_digit x"
    by (rule dec_digits_is_digit)
  then have c: "is_digit c"
    by (simp add: s)
  have "\<not> is_space c" "c \<noteq> CHR ''-''" "c \<noteq> CHR ''+''"
    using c by (auto simp: is_digit_def is_space_def)
  moreover have "takeWhile is_digit ?s = ?s"
    using d by (simp add: takeWhile_eq_all_conv)
  then have "stoull_digits ?s = Some w"
    using unat64_lt [of w] unfolding stoull_digits_def Let_def
    by (simp only: dec_val_dec_digits) simp
  ultimately show ?thesis
    by (simp add: stoull_def to_string_def s)
qed

lemmas stoull_eval = stoull_def stoull_digits_def dec_val_def is_space_def is_digit_def of_char_def


section \<open>Checked arithmetic\<close>

text \<open>\<open>add\<close> and \<open>sub\<close> of \<open>xbasic/xutility.h\<close>: they throw instead of wrapping around.\<close>

definition xadd :: "u64 \<Rightarrow> u64 \<Rightarrow> u64 option" where
  "xadd i j = (let r = i + j in if r < j then None else Some r)"

definition xsub :: "u64 \<Rightarrow> u64 \<Rightarrow> u64 option" where
  "xsub a b = (let x = a - b in if a < b then None else Some x)"

lemma xadd_Some_iff: "xadd i j = Some r \<longleftrightarrow> unat r = unat i + unat j"
  using unat64_lt [of i] unat64_lt [of j] unat64_lt [of r]
  by (auto simp: xadd_def Let_def word_less_nat_alt unat64_add word_unat_eq_iff
      split: if_splits)

lemma xsub_Some_iff: "xsub a b = Some r \<longleftrightarrow> unat a = unat r + unat b"
  by (auto simp: xsub_def Let_def word_less_nat_alt unat64_sub word_unat_eq_iff
      split: if_splits)

text \<open>Integer division; a zero divisor traps.\<close>

definition udiv :: "'a::len word \<Rightarrow> 'a word \<Rightarrow> 'a word option" where
  "udiv a b = (if b = 0 then None else Some (a div b))"

lemma udiv_Some [simp]: "b \<noteq> 0 \<Longrightarrow> udiv a b = Some (a div b)"
  by (simp add: udiv_def)

end
