(* ===== verification/XStream.thy ===== *)
theory XStream
  imports XPrelude
begin

text \<open>
  The binary stream of \<open>xbase/xmem.h\<close> (\<open>xbuffer_t\<close>, \<open>xstream_t\<close>): the \<open><<\<close> and \<open>>>\<close>
  operators for machine integers, strings and containers.  The stream is the byte string
  between its front and back offset, so \<open>size()\<close> is its length; \<open>push_back\<close> appends and
  \<open>pop_front\<close> drops.  A writer is the string it appends.  A reader returns the value and the
  remaining stream, or \<open>None\<close> where the code throws \<open>enum_xerror_code_bad_packet\<close>.
  Buffers stay below the 256 MB limit of \<open>max_allow_size\<close>, so the \<open>int32_t\<close> size never
  overflows.
\<close>

section \<open>Machine integers\<close>

definition get_uint :: "nat \<Rightarrow> bytes \<Rightarrow> (nat \<times> bytes) option" where
  "get_uint n s = (if length s < n then None else Some (le_val (take n s), drop n s))"

definition put_bool :: "bool \<Rightarrow> bytes" where
  "put_bool b = le_bytes 1 (if b then 1 else 0)"

definition put_u8 :: "u8 \<Rightarrow> bytes" where "put_u8 w = le_bytes 1 (unat w)"
definition put_u16 :: "u16 \<Rightarrow> bytes" where "put_u16 w = le_bytes 2 (unat w)"
definition put_u32 :: "u32 \<Rightarrow> bytes" where "put_u32 w = le_bytes 4 (unat w)"
definition put_u64 :: "u64 \<Rightarrow> bytes" where "put_u64 w = le_bytes 8 (unat w)"

definition get_bool :: "bytes \<Rightarrow> (bool \<times> bytes) option" where
  "get_bool s = do { (v, r) \<leftarrow> get_uint 1 s; Some (v \<noteq> 0, r) }"

definition get_u8 :: "bytes \<Rightarrow> (u8 \<times> bytes) option" where
  "get_u8 s = do { (v, r) \<leftarrow> get_uint 1 s; Some (of_nat v, r) }"
definition get_u16 :: "bytes \<Rightarrow> (u16 \<times> bytes) option" where
  "get_u16 s = do { (v, r) \<leftarrow> get_uint 2 s; Some (of_nat v, r) }"
definition get_u32 :: "bytes \<Rightarrow> (u32 \<times> bytes) option" where
  "get_u32 s = do { (v, r) \<leftarrow> get_uint 4 s; Some (of_nat v, r) }"
definition get_u64 :: "bytes \<Rightarrow> (u64 \<times> bytes) option" where
  "get_u64 s = do { (v, r) \<leftarrow> get_uint 8 s; Some (of_nat v, r) }"


section \<open>Strings\<close>

text \<open>The length header is the size cut to the width of the header, and that many bytes
  follow.\<close>

definition put_string :: "string \<Rightarrow> bytes" where
  "put_string v = (let n = (of_nat (length v) :: u32) in put_u32 n @ take (unat n) v)"

definition write_short_string :: "string \<Rightarrow> bytes" where
  "write_short_string v = (let n = (of_nat (length v) :: u16) in put_u16 n @ take (unat n) v)"

definition write_tiny_string :: "string \<Rightarrow> bytes" where
  "write_tiny_string v = (let n = (of_nat (length v) :: u8) in put_u8 n @ take (unat n) v)"

definition get_body :: "nat \<Rightarrow> bytes \<Rightarrow> (string \<times> bytes) option" where
  "get_body n s =
     (if n = 0 then Some ([], s)
      else if length s < n then None
      else Some (take n s, drop n s))"

definition get_string :: "bytes \<Rightarrow> (string \<times> bytes) option" where
  "get_string s = do { (n, r) \<leftarrow> get_u32 s; get_body (unat n) r }"

definition read_short_string :: "bytes \<Rightarrow> (string \<times> bytes) option" where
  "read_short_string s = do { (n, r) \<leftarrow> get_u16 s; get_body (unat n) r }"

definition read_tiny_string :: "bytes \<Rightarrow> (string \<times> bytes) option" where
  "read_tiny_string s = do { (n, r) \<leftarrow> get_u8 s; get_body (unat n) r }"

text \<open>\<open>serialize_to_front\<close> puts the body and then the header in front of the stream.\<close>

definition string_to_front :: "string \<Rightarrow> bytes \<Rightarrow> bytes" where
  "string_to_front v s =
     (let n = (of_nat (length v) :: u32)
      in if n \<noteq> 0 then put_u32 n @ (take (unat n) v @ s) else put_u32 n @ s)"


text \<open>Writing one stream into another, and \<open>serialize_to\<close>/\<open>serialize_from\<close> of
  \<open>xserializable_based_on<void>\<close>: the object goes through an internal stream of its own, and
  bytes that its \<open>do_read\<close> leaves there are dropped.\<close>

definition put_buffer :: "bytes \<Rightarrow> bytes" where
  "put_buffer b =
     (let n = (of_nat (length b) :: u32)
      in if n \<noteq> 0 then put_u32 n @ take (unat n) b else put_u32 n)"

definition get_buffer :: "bytes \<Rightarrow> (bytes \<times> bytes) option" where
  "get_buffer s = do { (n, r) \<leftarrow> get_u32 s; get_body (unat n) r }"

definition serialize_to :: "('a \<Rightarrow> bytes) \<Rightarrow> 'a \<Rightarrow> bytes" where
  "serialize_to do_write x = put_buffer (do_write x)"

definition serialize_from :: "(bytes \<Rightarrow> ('a \<times> bytes) option) \<Rightarrow> bytes \<Rightarrow> ('a \<times> bytes) option" where
  "serialize_from do_read s =
     do { (b, r) \<leftarrow> get_buffer s; (x, _) \<leftarrow> do_read b; Some (x, r) }"


section \<open>Containers\<close>

text \<open>The item loop of every container reader: \<open>n\<close> times an item is read and added to the
  container by \<open>ins\<close>.\<close>

fun get_loop :: "nat \<Rightarrow> (bytes \<Rightarrow> ('a \<times> bytes) option) \<Rightarrow> ('a \<Rightarrow> 'c \<Rightarrow> 'c) \<Rightarrow> 'c \<Rightarrow> bytes
    \<Rightarrow> ('c \<times> bytes) option" where
  "get_loop 0 rd ins c s = Some (c, s)"
| "get_loop (Suc n) rd ins c s = do { (x, r) \<leftarrow> rd s; get_loop n rd ins (ins x c) r }"

definition emplace_back :: "'a \<Rightarrow> 'a list \<Rightarrow> 'a list" where
  "emplace_back x xs = xs @ [x]"

definition get_pair :: "(bytes \<Rightarrow> ('a \<times> bytes) option) \<Rightarrow> (bytes \<Rightarrow> ('b \<times> bytes) option)
    \<Rightarrow> bytes \<Rightarrow> (('a \<times> 'b) \<times> bytes) option" where
  "get_pair rda rdb s = do { (a, r) \<leftarrow> rda s; (b, r') \<leftarrow> rdb r; Some ((a, b), r') }"

definition put_pair :: "('a \<Rightarrow> bytes) \<Rightarrow> ('b \<Rightarrow> bytes) \<Rightarrow> 'a \<times> 'b \<Rightarrow> bytes" where
  "put_pair pa pb p = pa (fst p) @ pb (snd p)"

definition put_vector :: "('a \<Rightarrow> bytes) \<Rightarrow> 'a list \<Rightarrow> bytes" where
  "put_vector put xs = put_u32 (of_nat (length xs)) @ concat (map put xs)"

definition get_vector :: "(bytes \<Rightarrow> ('a \<times> bytes) option) \<Rightarrow> 'a list \<Rightarrow> bytes
    \<Rightarrow> ('a list \<times> bytes) option" where
  "get_vector rd c s =
     do { (n, r) \<leftarrow> get_u32 s;
          if length r < unat n then None else get_loop (unat n) rd emplace_back c r }"

definition put_vector_bytes :: "bytes \<Rightarrow> bytes" where
  "put_vector_bytes v = (let n = (of_nat (length v) :: u32) in put_u32 n @ take (unat n) v)"

definition get_vector_bytes :: "bytes \<Rightarrow> bytes \<Rightarrow> (bytes \<times> bytes) option" where
  "get_vector_bytes c s =
     do { (n, r) \<leftarrow> get_u32 s;
          if length r < unat n then None else Some (c @ take (unat n) r, drop (unat n) r) }"

definition get_set :: "(bytes \<Rightarrow> ('a::linorder \<times> bytes) option) \<Rightarrow> 'a list \<Rightarrow> bytes
    \<Rightarrow> ('a list \<times> bytes) option" where
  "get_set rd c s =
     do { (n, r) \<leftarrow> get_u32 s;
          if length r < unat n then None else get_loop (unat n) rd insort_insert c r }"

definition put_map :: "('k \<Rightarrow> bytes) \<Rightarrow> ('v \<Rightarrow> bytes) \<Rightarrow> ('k, 'v) omap \<Rightarrow> bytes" where
  "put_map pk pv m = put_u32 (of_nat (length m)) @ concat (map (put_pair pk pv) m)"

definition get_map :: "(bytes \<Rightarrow> ('k::linorder \<times> bytes) option) \<Rightarrow> (bytes \<Rightarrow> ('v \<times> bytes) option)
    \<Rightarrow> ('k, 'v) omap \<Rightarrow> bytes \<Rightarrow> (('k, 'v) omap \<times> bytes) option" where
  "get_map rk rv c s =
     do { (n, r) \<leftarrow> get_u32 s;
          let ask_size = 2 * n;
          if length r < unat ask_size then None
          else get_loop (unat n) (get_pair rk rv) (\<lambda>(k, v). om_emplace k v) c r }"


section \<open>The codec interface\<close>

text \<open>What a writer and a reader of one type promise each other: reading back what was
  written gives the value and leaves the rest of the stream, a value takes at least one byte,
  and a successful read consumes a non-empty prefix.\<close>

locale codec =
  fixes put :: "'a \<Rightarrow> bytes"
    and get :: "bytes \<Rightarrow> ('a \<times> bytes) option"
    and ok :: "'a \<Rightarrow> bool"
  assumes get_put: "ok x \<Longrightarrow> get (put x @ s) = Some (x, s)"
    and put_pos: "0 < length (put x)"
    and get_suffix: "get s = Some (x, r) \<Longrightarrow> \<exists>p. p \<noteq> [] \<and> s = p @ r"
begin

lemma get_loop_put:
  "list_all ok xs \<Longrightarrow> get_loop (length xs) get ins c (concat (map put xs) @ s) = Some (fold ins xs c, s)"
  by (induction xs arbitrary: c) (simp_all add: get_put)

lemma length_items: "length xs \<le> length (concat (map put xs))"
proof (induction xs)
  case (Cons x xs)
  then show ?case
    using put_pos [of x] by (simp only: list.map concat.simps length_append list.size)
qed simp

lemma get_loop_consumes:
  "get_loop n get ins c s = Some (c', r) \<Longrightarrow> n + length r \<le> length s"
proof (induction n arbitrary: c s)
  case (Suc n)
  then obtain x s' where "get s = Some (x, s')" "get_loop n get ins (ins x c) s' = Some (c', r)"
    by (auto split: bind_splits)
  moreover obtain p where "p \<noteq> []" "s = p @ s'"
    using get_suffix calculation(1) by blast
  ultimately show ?case
    using Suc.IH by (cases p) fastforce+
qed simp

lemma get_loop_suffix:
  "get_loop n get ins c s = Some (c', r) \<Longrightarrow> \<exists>p. s = p @ r"
proof (induction n arbitrary: c s)
  case (Suc n)
  then obtain x s' where "get s = Some (x, s')" "get_loop n get ins (ins x c) s' = Some (c', r)"
    by (auto split: bind_splits)
  then show ?case
    using Suc.IH get_suffix by (metis append.assoc)
qed simp

end

lemma get_uint_le: "get_uint n (le_bytes n v @ s) = Some (v mod 256 ^ n, s)"
  by (simp add: get_uint_def le_val_le_bytes)

lemma get_uint_suffix: "get_uint n s = Some (v, r) \<Longrightarrow> 0 < n \<Longrightarrow> \<exists>p. p \<noteq> [] \<and> s = p @ r"
  by (rule exI [of _ "take n s"]) (auto simp: get_uint_def split: if_splits)

lemma unat_mod_len [simp]:
  "unat (w :: u8) mod 256 = unat w" "unat (x :: u16) mod 65536 = unat x"
  "unat (y :: u32) mod 4294967296 = unat y"
  "unat (z :: u64) mod 18446744073709551616 = unat z"
  using unat8_lt [of w] unat16_lt [of x] unat32_lt [of y] unat64_lt [of z] by simp_all

lemmas put_uint_defs = put_u8_def put_u16_def put_u32_def put_u64_def
lemmas get_uint_defs = get_u8_def get_u16_def get_u32_def get_u64_def

interpretation u8: codec put_u8 get_u8 "\<lambda>_. True"
  by unfold_locales
    (auto simp: put_u8_def get_u8_def get_uint_le simp del: le_bytes.simps split: bind_splits
      dest!: get_uint_suffix)

interpretation u16: codec put_u16 get_u16 "\<lambda>_. True"
  by unfold_locales
    (auto simp: put_u16_def get_u16_def get_uint_le simp del: le_bytes.simps split: bind_splits
      dest!: get_uint_suffix)

interpretation u32: codec put_u32 get_u32 "\<lambda>_. True"
  by unfold_locales
    (auto simp: put_u32_def get_u32_def get_uint_le simp del: le_bytes.simps split: bind_splits
      dest!: get_uint_suffix)

interpretation u64: codec put_u64 get_u64 "\<lambda>_. True"
  by unfold_locales
    (auto simp: put_u64_def get_u64_def get_uint_le simp del: le_bytes.simps split: bind_splits
      dest!: get_uint_suffix)

interpretation xbool: codec put_bool get_bool "\<lambda>_. True"
  by unfold_locales
    (auto simp: put_bool_def get_bool_def get_uint_le simp del: le_bytes.simps split: bind_splits
      dest!: get_uint_suffix)

lemmas uint_round [simp, codec_simps] =
  u8.get_put [OF TrueI] u16.get_put [OF TrueI] u32.get_put [OF TrueI] u64.get_put [OF TrueI]
  xbool.get_put [OF TrueI]


section \<open>Strings: reading back\<close>

definition str_ok :: "string \<Rightarrow> bool" where
  "str_ok v \<longleftrightarrow> length v < 2 ^ 32"

lemma get_body_take: "n \<le> length v \<Longrightarrow> get_body n (take n v @ s) = Some (take n v, s)"
  by (auto simp: get_body_def)

lemma get_body_suffix: "get_body n s = Some (v, r) \<Longrightarrow> \<exists>p. s = p @ r"
  by (rule exI [of _ "take n s"]) (auto simp: get_body_def split: if_splits)

lemma get_string_put: "get_string (put_string v @ s) = Some (take (length v mod 2 ^ 32) v, s)"
  by (simp add: get_string_def put_string_def Let_def unat_of_nat get_body_take)

lemma read_short_string_write:
  "read_short_string (write_short_string v @ s) = Some (take (length v mod 2 ^ 16) v, s)"
  by (simp add: read_short_string_def write_short_string_def Let_def unat_of_nat get_body_take)

lemma read_tiny_string_write:
  "read_tiny_string (write_tiny_string v @ s) = Some (take (length v mod 2 ^ 8) v, s)"
  by (simp add: read_tiny_string_def write_tiny_string_def Let_def unat_of_nat get_body_take)

lemma string_to_front_put: "string_to_front v s = put_string v @ s"
  by (simp add: string_to_front_def put_string_def Let_def)

lemma put_u32_nonempty [simp]: "put_u32 n \<noteq> []"
  using u32.put_pos [of n] by simp

lemma get_string_suffix:
  assumes "get_string s = Some (v, r)"
  shows "\<exists>p. p \<noteq> [] \<and> s = p @ r"
proof -
  obtain n s' where "get_u32 s = Some (n, s')" "get_body (unat n) s' = Some (v, r)"
    using assms by (auto simp: get_string_def split: bind_splits)
  then show ?thesis
    using u32.get_suffix get_body_suffix by (metis append.assoc append_is_Nil_conv)
qed

interpretation str: codec put_string get_string str_ok
proof (unfold_locales, goal_cases)
  case (1 x s)
  then show ?case
    by (simp add: get_string_put str_ok_def)
next
  case (2 x)
  then show ?case
    by (simp add: put_string_def Let_def)
next
  case (3 s x r)
  then show ?case
    by (rule get_string_suffix)
qed

lemmas string_round [simp, codec_simps] = str.get_put


section \<open>Pairs, vectors and maps: reading back\<close>

locale codec_pair = k: codec putk getk okk + v: codec putv getv okv
  for putk :: "'k::linorder \<Rightarrow> bytes" and getk and okk and putv :: "'v \<Rightarrow> bytes" and getv and okv
begin

lemma get_pair_put:
  "okk (fst p) \<Longrightarrow> okv (snd p) \<Longrightarrow>
    get_pair getk getv (put_pair putk putv p @ s) = Some (p, s)"
  by (simp add: get_pair_def put_pair_def k.get_put v.get_put)

lemma put_pair_pos: "2 \<le> length (put_pair putk putv p)"
  using k.put_pos [of "fst p"] v.put_pos [of "snd p"]
  by (simp only: put_pair_def length_append)

lemma get_pair_suffix:
  assumes "get_pair getk getv s = Some (p, r)"
  shows "\<exists>b. b \<noteq> [] \<and> s = b @ r"
proof -
  obtain a r1 b where 1: "getk s = Some (a, r1)" and 2: "getv r1 = Some (b, r)"
    using assms by (auto simp: get_pair_def split: bind_splits)
  obtain p1 where "p1 \<noteq> []" "s = p1 @ r1"
    using k.get_suffix [OF 1] by blast
  moreover obtain p2 where "r1 = p2 @ r"
    using v.get_suffix [OF 2] by blast
  ultimately show ?thesis
    by (intro exI [of _ "p1 @ p2"]) simp
qed

end

sublocale codec_pair \<subseteq> p: codec "put_pair putk putv" "get_pair getk getv" "\<lambda>p. okk (fst p) \<and> okv (snd p)"
proof (unfold_locales, goal_cases)
  case (1 x s)
  then show ?case
    by (simp add: get_pair_put)
next
  case (2 x)
  then show ?case
    using put_pair_pos [of x] by linarith
next
  case (3 s x r)
  then show ?case
    by (rule get_pair_suffix)
qed

lemma fold_emplace_back [simp]: "fold emplace_back xs c = c @ xs"
  by (induction xs arbitrary: c) (simp_all add: emplace_back_def)

lemma om_set_last: "\<forall>q \<in> set m. fst q < k \<Longrightarrow> om_set k v m = m @ [(k, v)]"
  by (induction m) auto

lemma om_find_None_iff: "om_find m k = None \<longleftrightarrow> k \<notin> fst ` set m"
  by (simp add: om_find_def map_of_eq_None_iff)

lemma om_emplace_last: "\<forall>q \<in> set m. fst q < k \<Longrightarrow> om_emplace k v m = m @ [(k, v)]"
  by (auto simp: om_emplace_def om_set_last om_find_None_iff split: option.splits
      dest: om_find_None_iff [THEN iffD2, rotated])

lemma om_inv_append_Cons:
  "om_inv (c @ p # m) \<Longrightarrow> om_inv ((c @ [p]) @ m) \<and> (\<forall>q \<in> set c. fst q < fst p)"
  by (auto simp: om_inv_def sorted_wrt_append)

lemma fold_om_set_append: "om_inv (c @ m) \<Longrightarrow> fold (\<lambda>(k, v). om_set k v) m c = c @ m"
proof (induction m arbitrary: c)
  case (Cons p m)
  then show ?case
    using om_inv_append_Cons [OF Cons.prems] om_set_last [of c "fst p" "snd p"]
    by (cases p) simp
qed simp

lemma fold_om_emplace_append: "om_inv (c @ m) \<Longrightarrow> fold (\<lambda>(k, v). om_emplace k v) m c = c @ m"
proof (induction m arbitrary: c)
  case (Cons p m)
  then show ?case
    using om_inv_append_Cons [OF Cons.prems] om_emplace_last [of c "fst p" "snd p"]
    by (cases p) simp
qed simp

lemma get_buffer_put: "length b < 2 ^ 32 \<Longrightarrow> get_buffer (put_buffer b @ s) = Some (b, s)"
  by (auto simp: get_buffer_def put_buffer_def Let_def unat_of_nat get_body_def word_unat_eq_iff)

lemma get_buffer_suffix:
  assumes "get_buffer s = Some (v, r)"
  shows "\<exists>p. p \<noteq> [] \<and> s = p @ r"
  using get_string_suffix [of s v r] assms by (simp add: get_buffer_def get_string_def)

lemma put_buffer_pos [simp]: "put_buffer b \<noteq> []"
  by (simp add: put_buffer_def Let_def)

text \<open>An object that is read back through its own stream.\<close>

locale object_codec =
  fixes do_write :: "'a \<Rightarrow> bytes"
    and do_read :: "bytes \<Rightarrow> ('a \<times> bytes) option"
    and fits :: "'a \<Rightarrow> bool"
  assumes read_write: "fits x \<Longrightarrow> do_read (do_write x @ s) = Some (x, s)"
begin

lemma serialize_round:
  "fits x \<Longrightarrow> length (do_write x) < 2 ^ 32 \<Longrightarrow>
    serialize_from do_read (serialize_to do_write x @ s) = Some (x, s)"
  using read_write [of x "[]"] by (simp add: serialize_from_def serialize_to_def get_buffer_put)

end

sublocale object_codec \<subseteq> ser: codec "serialize_to do_write" "serialize_from do_read"
  "\<lambda>x. fits x \<and> length (do_write x) < 2 ^ 32"
proof (unfold_locales, goal_cases)
  case (1 x s)
  then show ?case
    by (simp add: serialize_round)
next
  case (2 x)
  then show ?case
    by (simp add: serialize_to_def)
next
  case (3 s x r)
  then show ?case
    by (auto simp: serialize_from_def split: bind_splits dest: get_buffer_suffix)
qed

context codec
begin

lemma get_vector_put:
  assumes "list_all ok xs" "length xs < 2 ^ 32"
  shows "get_vector get c (put_vector put xs @ s) = Some (c @ xs, s)"
  using assms length_items [of xs]
  by (simp add: get_vector_def put_vector_def unat_of_nat get_loop_put)

end

context codec_pair
begin

lemma get_map_put:
  assumes ok: "list_all (\<lambda>p. okk (fst p) \<and> okv (snd p)) m" and len: "length m < 2 ^ 32"
    and inv: "om_inv m"
  shows "get_map getk getv [] (put_map putk putv m @ s) = Some (m, s)"
proof -
  let ?b = "concat (map (put_pair putk putv) m)"
  have "2 * length m \<le> length ?b"
  proof (induction m)
    case (Cons p m)
    then show ?case
      using put_pair_pos [of p] by simp
  qed simp
  moreover have "unat (2 * of_nat (length m) :: u32) \<le> 2 * length m"
    by (simp add: unat_word_ariths unat_of_nat mod_mult_right_eq)
  ultimately have "\<not> length (?b @ s) < unat (2 * of_nat (length m) :: u32)"
    by simp
  then show ?thesis
    using len fold_om_emplace_append [of "[]" m] inv
    by (simp add: get_map_def put_map_def unat_of_nat p.get_loop_put [OF ok])
qed

end

interpretation strstr: codec_pair put_string get_string str_ok put_string get_string str_ok
  by unfold_locales


section \<open>Hashes in the stream\<close>

text \<open>\<open>uint256_t\<close> holds 32 bytes; the word is their little-endian value.\<close>

type_synonym uint256 = "256 word"

definition uint256_data :: "uint256 \<Rightarrow> bytes" where
  "uint256_data w = le_bytes 32 (unat w)"

definition put_uint256 :: "uint256 \<Rightarrow> bytes" where
  "put_uint256 w = uint256_data w"

definition get_uint256 :: "bytes \<Rightarrow> (uint256 \<times> bytes) option" where
  "get_uint256 s = do { (v, r) \<leftarrow> get_uint 32 s; Some (of_nat v, r) }"

interpretation u256: codec put_uint256 get_uint256 "\<lambda>_. True"
proof (unfold_locales, goal_cases)
  case (1 x s)
  have "unat x < 256 ^ 32" using unsigned_less [where 'a = nat, of x] by simp
  then show ?case
    by (simp add: put_uint256_def uint256_data_def get_uint256_def get_uint_le del: le_bytes.simps)
next
  case (2 x)
  then show ?case by (simp add: put_uint256_def uint256_data_def)
next
  case (3 s x r)
  then show ?case
    by (auto simp: get_uint256_def split: bind_splits dest!: get_uint_suffix)
qed

lemmas uint256_round [simp, codec_simps] = u256.get_put [OF TrueI]

end
