(* ===== verification/XDataUnit.thy ===== *)
theory XDataUnit
  imports XStream
begin

text \<open>
  The property objects of \<open>xbase/xdata.h\<close>: \<open>xstring_t\<close>, \<open>xdeque_t<std::string>\<close> and
  \<open>xmap_t<std::string>\<close>, with their operations and their \<open>do_write\<close>/\<open>do_read\<close>.  An object is
  modelled by its content; the bookkeeping fields of the base class (hash, version, expiry,
  \<open>m_modified_count\<close>) are neither serialized by \<open>do_write\<close> nor read by the modelled code.
  An operation that reports through a \<open>bool\<close> and an output parameter returns an option.
\<close>

section \<open>String objects\<close>

type_synonym xstring_t = string

definition xstring_set :: "string \<Rightarrow> xstring_t \<Rightarrow> xstring_t" where
  "xstring_set v s = v"

definition xstring_get :: "xstring_t \<Rightarrow> string \<times> bool" where
  "xstring_get s = (s, s \<noteq> [])"

definition xstring_clear :: "xstring_t \<Rightarrow> xstring_t" where
  "xstring_clear s = (if s \<noteq> [] then [] else s)"

definition xstring_do_write :: "xstring_t \<Rightarrow> bytes" where
  "xstring_do_write s = put_string s"

definition xstring_do_read :: "xstring_t \<Rightarrow> bytes \<Rightarrow> (xstring_t \<times> bytes) option" where
  "xstring_do_read s st = get_string st"


section \<open>Deque objects\<close>

type_synonym xstrdeque_t = "string list"

definition xdeque_push_back :: "string \<Rightarrow> xstrdeque_t \<Rightarrow> xstrdeque_t" where
  "xdeque_push_back v q = q @ [v]"

definition xdeque_pop_back :: "xstrdeque_t \<Rightarrow> (string \<times> xstrdeque_t) option" where
  "xdeque_pop_back q = (if q = [] then None else Some (last q, butlast q))"

definition xdeque_get_back :: "xstrdeque_t \<Rightarrow> string option" where
  "xdeque_get_back q = (if q = [] then None else Some (last q))"

definition xdeque_push_front :: "string \<Rightarrow> xstrdeque_t \<Rightarrow> xstrdeque_t" where
  "xdeque_push_front v q = v # q"

definition xdeque_pop_front :: "xstrdeque_t \<Rightarrow> (string \<times> xstrdeque_t) option" where
  "xdeque_pop_front q = (case q of [] \<Rightarrow> None | v # r \<Rightarrow> Some (v, r))"

definition xdeque_get_front :: "xstrdeque_t \<Rightarrow> string option" where
  "xdeque_get_front q = (case q of [] \<Rightarrow> None | v # r \<Rightarrow> Some v)"

definition xdeque_get :: "nat \<Rightarrow> xstrdeque_t \<Rightarrow> string option" where
  "xdeque_get i q =
     (if q = [] then None else if i < length q then Some (q ! i) else None)"

fun xdeque_erase :: "string \<Rightarrow> xstrdeque_t \<Rightarrow> xstrdeque_t option" where
  "xdeque_erase v [] = None"
| "xdeque_erase v (x # q) = (if x = v then Some q else map_option ((#) x) (xdeque_erase v q))"

definition xdeque_clear :: "xstrdeque_t \<Rightarrow> xstrdeque_t" where
  "xdeque_clear q = (if q \<noteq> [] then [] else q)"

definition xdeque_do_write :: "xstrdeque_t \<Rightarrow> bytes" where
  "xdeque_do_write q = put_u32 (of_nat (length q)) @ concat (map put_string q)"

text \<open>The count is an \<open>int32_t\<close>: a negative one reads no item.\<close>

definition xdeque_do_read :: "xstrdeque_t \<Rightarrow> bytes \<Rightarrow> (xstrdeque_t \<times> bytes) option" where
  "xdeque_do_read q st =
     do { (n, r) \<leftarrow> get_u32 st; get_loop (nat (sint n)) get_string emplace_back q r }"


section \<open>Map objects\<close>

type_synonym xstrmap_t = "(string, string) omap"

definition xmap_get :: "string \<Rightarrow> xstrmap_t \<Rightarrow> string option" where
  "xmap_get k m = om_find m k"

definition xmap_set :: "string \<Rightarrow> string \<Rightarrow> xstrmap_t \<Rightarrow> xstrmap_t" where
  "xmap_set k v m = om_set k v m"

definition xmap_remove :: "string \<Rightarrow> xstrmap_t \<Rightarrow> xstrmap_t option" where
  "xmap_remove k m = (case om_find m k of Some _ \<Rightarrow> Some (om_erase k m) | None \<Rightarrow> None)"

definition xmap_clear :: "xstrmap_t \<Rightarrow> xstrmap_t" where
  "xmap_clear m = (if m \<noteq> [] then [] else m)"

definition xmap_do_write :: "xstrmap_t \<Rightarrow> bytes" where
  "xmap_do_write m = put_u32 (of_nat (length m)) @ concat (map (put_pair put_string put_string) m)"

definition xmap_do_read :: "xstrmap_t \<Rightarrow> bytes \<Rightarrow> (xstrmap_t \<times> bytes) option" where
  "xmap_do_read m st =
     do { (n, r) \<leftarrow> get_u32 st;
          get_loop (nat (sint n)) (get_pair get_string get_string) (\<lambda>(k, v). xmap_set k v) m r }"


section \<open>The object and its type tag\<close>

datatype xdataunit =
    XString xstring_t
  | XDeque xstrdeque_t
  | XMap xstrmap_t

fun as_string :: "xdataunit \<Rightarrow> xstring_t option" where
  "as_string (XString s) = Some s"
| "as_string _ = None"

fun as_deque :: "xdataunit \<Rightarrow> xstrdeque_t option" where
  "as_deque (XDeque q) = Some q"
| "as_deque _ = None"

fun as_map :: "xdataunit \<Rightarrow> xstrmap_t option" where
  "as_map (XMap m) = Some m"
| "as_map _ = None"

text \<open>The well-formedness the code keeps: map entries stay in key order, each key once.\<close>

fun unit_inv :: "xdataunit \<Rightarrow> bool" where
  "unit_inv (XMap m) = om_inv m"
| "unit_inv _ = True"

text \<open>What fits the 31-bit counts and 32-bit lengths of the serialized form.\<close>

fun unit_fits :: "xdataunit \<Rightarrow> bool" where
  "unit_fits (XString s) = str_ok s"
| "unit_fits (XDeque q) = (length q < 2 ^ 31 \<and> list_all str_ok q)"
| "unit_fits (XMap m) = (length m < 2 ^ 31 \<and> list_all (\<lambda>p. str_ok (fst p) \<and> str_ok (snd p)) m)"

fun unit_do_write :: "xdataunit \<Rightarrow> bytes" where
  "unit_do_write (XString s) = xstring_do_write s"
| "unit_do_write (XDeque q) = xdeque_do_write q"
| "unit_do_write (XMap m) = xmap_do_write m"

fun unit_do_read :: "xdataunit \<Rightarrow> bytes \<Rightarrow> (xdataunit \<times> bytes) option" where
  "unit_do_read (XString s) st = map_option (map_prod XString id) (xstring_do_read s st)"
| "unit_do_read (XDeque q) st = map_option (map_prod XDeque id) (xdeque_do_read q st)"
| "unit_do_read (XMap m) st = map_option (map_prod XMap id) (xmap_do_read m st)"

text \<open>The freshly constructed object of the same class, on which \<open>do_read\<close> is called.\<close>

fun unit_fresh :: "xdataunit \<Rightarrow> xdataunit" where
  "unit_fresh (XString _) = XString []"
| "unit_fresh (XDeque _) = XDeque []"
| "unit_fresh (XMap _) = XMap []"

lemmas xdata_op_defs =
  xstring_set_def xstring_get_def xstring_clear_def
  xdeque_push_back_def xdeque_pop_back_def xdeque_get_back_def xdeque_push_front_def
  xdeque_pop_front_def xdeque_get_front_def xdeque_get_def xdeque_clear_def
  xmap_get_def xmap_set_def xmap_remove_def xmap_clear_def

lemma sint_of_nat_count: "n < 2 ^ 31 \<Longrightarrow> nat (sint (of_nat n :: u32)) = n"
  by (simp add: signed_of_nat signed_take_bit_int_eq_self)

lemma xdeque_erase_remove1:
  "xdeque_erase v q = (if v \<in> set q then Some (remove1 v q) else None)"
  by (induction q) auto

lemma xdeque_erase_None: "xdeque_erase v q = None \<longleftrightarrow> v \<notin> set q"
  by (simp add: xdeque_erase_remove1)

lemma xdeque_do_read_write:
  assumes "length q < 2 ^ 31" "list_all str_ok q"
  shows "xdeque_do_read c (xdeque_do_write q @ s) = Some (c @ q, s)"
  using assms by (simp add: xdeque_do_read_def xdeque_do_write_def sint_of_nat_count str.get_loop_put)

lemma xmap_set_eq: "xmap_set = om_set"
  by (intro ext) (simp add: xmap_set_def)

lemma xmap_do_read_write:
  assumes "length m < 2 ^ 31" "list_all (\<lambda>p. str_ok (fst p) \<and> str_ok (snd p)) m" "om_inv m"
  shows "xmap_do_read [] (xmap_do_write m @ s) = Some (m, s)"
  using assms fold_om_set_append [of "[]" m]
  by (simp add: xmap_do_read_def xmap_do_write_def sint_of_nat_count strstr.p.get_loop_put
      xmap_set_eq)

text \<open>
  A property object survives serialization: for every string, deque and map object whose
  counts fit the 31-bit and 32-bit length fields, \<open>do_read\<close> on a fresh object of the same
  class, applied to the output of \<open>do_write\<close> followed by arbitrary further data, rebuilds
  exactly that object and leaves exactly the further data.
\<close>

lemma unit_write_read:
  assumes "unit_inv u" "unit_fits u"
  shows "unit_do_read (unit_fresh u) (unit_do_write u @ s) = Some (u, s)"
proof (cases u)
  case (XString v)
  then show ?thesis
    using assms by (simp add: xstring_do_read_def xstring_do_write_def)
next
  case (XDeque q)
  then show ?thesis
    using assms xdeque_do_read_write [of q "[]"] by simp
next
  case (XMap m)
  then show ?thesis
    using assms xmap_do_read_write [of m] by simp
qed

theorem unit_write_read_witness:
  "unit_do_read (unit_fresh (XMap [(''a'', ''1''), (''b'', [])]))
     (unit_do_write (XMap [(''a'', ''1''), (''b'', [])]) @ ''rest'')
   = Some (XMap [(''a'', ''1''), (''b'', [])], ''rest'')"
  by (rule unit_write_read) (simp_all add: om_inv_def str_ok_def)

end
