(* ===== verification/XErrors.thy ===== *)
theory XErrors
  imports XPrelude
begin

text \<open>
  Return codes: the error enumerations of \<open>xdata/xdata_error.h\<close>, \<open>xstore/xstore_error.h\<close> and
  \<open>xtxexecutor/xunit_service_error.h\<close>, their numeric codes (a module base plus the position in
  the enumeration, \<open>xbasic/xmodule_type.h\<close>), the tables that print them and the dispatcher
  \<open>xmodule_error_to_str\<close>.  The datatypes hold the enumerators that
  the modelled handlers return, the tables hold every enumerator.  Enumerators of the
  transaction executor that share their name with one of the store carry the suffix \<open>_tx\<close>.
\<close>

unbundle bit_operations_syntax

section \<open>Return values\<close>

datatype xdata_error =
    xdata_error_native_property_not_exist
  | xdata_error_native_property_value_not_exist
  | xchain_error_action_param_zero
  | xchain_error_action_param_not_empty
  | xchain_error_action_param_empty
  | xchain_error_action_param_code_length_too_long
  | xchain_error_action_param_size_too_large
  | xchain_error_action_type_invalid
  | xchain_error_lock_token_pubkey_size_beyond_limit
  | xchain_error_lock_token_time_param_invalid
  | xchain_error_set_account_key_len_invalid
  | xchain_error_unlock_keys_num_invalid
  | xchain_error_unlock_keys_len_invalid

datatype xstore_error =
    xaccount_balance_not_enough
  | xaccount_account_not_exist
  | xaccount_lock_less_min_deposit
  | xaccount_transfer_less_than_safe_amount
  | xaccount_unit_height_should_not_zero
  | xaccount_unit_height_should_zero
  | xaccount_property_number_exceed_max
  | xaccount_property_name_length_exceed_max
  | xaccount_property_contract_code_size_invalid
  | xaccount_property_set_value_same
  | xaccount_property_not_create
  | xaccount_property_map_field_not_create
  | xaccount_property_behind_not_exist
  | xaccount_property_has_already_create
  | xaccount_property_has_already_delete
  | xaccount_property_operate_type_unmatch
  | xaccount_property_not_exist
  | xaccount_property_operate_fail
  | xaccount_property_cmd_invalid
  | xaccount_property_lock_token_key_same
  | xaccount_property_unlock_token_key_not_exist
  | xaccount_property_unlock_token_sign_illegal
  | xaccount_property_unlock_token_time_not_reach
  | xaccount_property_parent_account_exist
  | xaccount_property_parent_account_not_exist
  | xaccount_property_sub_account_exist
  | xaccount_property_contract_sub_account_exist
  | xaccount_property_sub_account_overflow
  | xaccount_set_keys_key_illegal
  | xaccount_contract_number_exceed_max
  | xstore_user_contract_can_not_initiate_transaction
  | xstore_user_contract_should_not_do_native_property
  | xtransaction_not_enough_pledge_token_tgas
  | xtransaction_not_enough_pledge_token_disk
  | xtransaction_not_enough_token
  | xtransaction_non_positive_pledge_token
  | xtransaction_pledge_too_much_token
  | xtransaction_contract_not_enough_tgas
  | xtransaction_pledge_redeem_vote_err
  | xtransaction_param_invalid

datatype xtx_error =
    xconsensus_service_error_balance_not_enough
  | xconsensus_service_error_min_deposit_error
  | xconsensus_service_error_action_not_valid
  | xconsensus_service_error_addr_type_error
  | xconsensus_service_error_sign_error
  | xtransaction_parse_type_invalid
  | xchain_error_action_parse_exception
  | xunit_contract_exec_no_property_change
  | xtransaction_not_enough_deposit
  | xtransaction_too_much_deposit
  | xtransaction_contract_pledge_token_source_target_mismatch
  | xtransaction_pledge_redeem_vote_err_tx
  | enum_xtxexecutor_error_tx_nonce_not_match

text \<open>The value a handler returns: success, one of the enumerated errors, or a bare \<open>-1\<close>.\<close>

datatype xret =
    xsuccess
  | xminus_one
  | EData xdata_error
  | EStore xstore_error
  | ETx xtx_error

section \<open>Enumerations and print tables\<close>

text \<open>\<open>*_enum\<close> lists the enumerators of the \<open>enum\<close> after its base, in order; \<open>*_names\<close> is the
  \<open>names\<close> array of the print function.\<close>

definition xdata_error_enum :: "string list" where
  "xdata_error_enum = [
     ''xdata_error_native_property_not_exist'',
     ''xdata_error_native_property_value_not_exist'',
     ''xchain_error_action_param_zero'',
     ''xchain_error_action_param_not_empty'',
     ''xchain_error_action_param_empty'',
     ''xchain_error_action_param_memo_too_long'',
     ''xchain_error_action_param_code_length_too_long'',
     ''xchain_error_action_param_size_too_large'',
     ''xchain_error_action_type_invalid'',
     ''xchain_error_action_action_name_invalid'',
     ''xchain_error_lock_token_pubkey_size_beyond_limit'',
     ''xchain_error_lock_token_time_param_invalid'',
     ''xchain_error_set_account_key_len_invalid'',
     ''xchain_error_unlock_keys_num_invalid'',
     ''xchain_error_unlock_keys_len_invalid'',
     ''xdata_error_add_block_repeat'',
     ''xdata_error_add_block_prev_hash_not_match'',
     ''xdata_error_add_block_invalid'',
     ''xreceipt_check_no_block_header'',
     ''xreceipt_check_transaction_hash_check_fail'',
     ''xreceipt_check_transaction_hash_not_match'',
     ''xreceipt_check_transaction_hash_not_in_root'',
     ''xreceipt_check_block_hash_check_fail'',
     ''xreceipt_check_invalid_receipt'',
     ''xblock_check_header_hash_check_fail'',
     ''xblock_check_body_hash_check_fail'',
     ''xblock_check_body_hash_not_match_in_block'']"

definition xdata_error_names :: "string list" where
  "xdata_error_names = [
     ''xdata_error_native_property_not_exist'',
     ''xdata_error_native_property_value_not_exist'',
     ''xchain_error_action_param_zero'',
     ''xchain_error_action_param_not_empty'',
     ''xchain_error_action_param_empty'',
     ''xchain_error_action_param_memo_too_long'',
     ''xchain_error_action_param_code_length_too_long'',
     ''xchain_error_action_param_size_too_large'',
     ''xchain_error_action_type_invalid'',
     ''xchain_error_action_action_name_invalid'',
     ''xchain_error_lock_token_pubkey_size_beyond_limit'',
     ''xchain_error_lock_token_time_param_invalid'',
     ''xchain_error_set_account_key_len_invalid'',
     ''xchain_error_unlock_keys_num_invalid'',
     ''xdata_error_add_block_repeat'',
     ''xdata_error_add_block_prev_hash_not_match'',
     ''xdata_error_add_block_invalid'',
     ''xreceipt_check_no_block_header'',
     ''xreceipt_check_transaction_hash_check_fail'',
     ''xreceipt_check_transaction_hash_not_match'',
     ''xreceipt_check_transaction_hash_not_in_root'',
     ''xreceipt_check_block_hash_check_fail'',
     ''xreceipt_check_invalid_receipt'',
     ''xblock_check_header_hash_check_fail'',
     ''xblock_check_body_hash_check_fail'',
     ''xblock_check_body_hash_not_match_in_block'']"

fun xdata_error_name :: "xdata_error \<Rightarrow> string" where
  "xdata_error_name xdata_error_native_property_not_exist = ''xdata_error_native_property_not_exist''"
| "xdata_error_name xdata_error_native_property_value_not_exist = ''xdata_error_native_property_value_not_exist''"
| "xdata_error_name xchain_error_action_param_zero = ''xchain_error_action_param_zero''"
| "xdata_error_name xchain_error_action_param_not_empty = ''xchain_error_action_param_not_empty''"
| "xdata_error_name xchain_error_action_param_empty = ''xchain_error_action_param_empty''"
| "xdata_error_name xchain_error_action_param_code_length_too_long = ''xchain_error_action_param_code_length_too_long''"
| "xdata_error_name xchain_error_action_param_size_too_large = ''xchain_error_action_param_size_too_large''"
| "xdata_error_name xchain_error_action_type_invalid = ''xchain_error_action_type_invalid''"
| "xdata_error_name xchain_error_lock_token_pubkey_size_beyond_limit = ''xchain_error_lock_token_pubkey_size_beyond_limit''"
| "xdata_error_name xchain_error_lock_token_time_param_invalid = ''xchain_error_lock_token_time_param_invalid''"
| "xdata_error_name xchain_error_set_account_key_len_invalid = ''xchain_error_set_account_key_len_invalid''"
| "xdata_error_name xchain_error_unlock_keys_num_invalid = ''xchain_error_unlock_keys_num_invalid''"
| "xdata_error_name xchain_error_unlock_keys_len_invalid = ''xchain_error_unlock_keys_len_invalid''"

definition xstore_error_enum :: "string list" where
  "xstore_error_enum = [
     ''xaccount_name_length_illegal'',
     ''xaccount_balance_not_enough'',
     ''xaccount_account_not_exist'',
     ''xaccount_lock_less_min_deposit'',
     ''xaccount_transfer_less_than_safe_amount'',
     ''xaccount_unit_height_should_not_zero'',
     ''xaccount_unit_height_should_zero'',
     ''xreceiver_address_same_with_sender'',
     ''xaccount_contract_address_create_repeat'',
     ''xaccount_not_exist'',
     ''xaccount_state_behind'',
     ''xaccount_property_number_exceed_max'',
     ''xaccount_property_name_length_exceed_max'',
     ''xaccount_property_contract_count_exceed_max'',
     ''xaccount_property_contract_code_size_invalid'',
     ''xaccount_property_can_only_set_once'',
     ''xaccount_property_set_value_same'',
     ''xaccount_property_not_create'',
     ''xaccount_property_map_field_not_create'',
     ''xaccount_property_behind_not_exist'',
     ''xaccount_property_behind_not_match'',
     ''xaccount_property_has_already_create'',
     ''xaccount_property_has_already_delete'',
     ''xaccount_property_operate_type_unmatch'',
     ''xaccount_property_create_fail'',
     ''xaccount_property_not_exist'',
     ''xaccount_property_operate_fail'',
     ''xaccount_property_cmd_invalid'',
     ''xaccount_property_exec_exception'',
     ''xaccount_property_lock_token_key_same'',
     ''xaccount_property_unlock_token_key_not_exist'',
     ''xaccount_property_unlock_token_sign_illegal'',
     ''xaccount_property_unlock_token_time_not_reach'',
     ''xaccount_property_set_hash_not_match'',
     ''xaccount_property_parent_account_exist'',
     ''xaccount_property_parent_account_not_exist'',
     ''xaccount_property_sub_account_exist'',
     ''xaccount_property_contract_sub_account_exist'',
     ''xaccount_property_sub_account_overflow'',
     ''xaccount_set_keys_key_illegal'',
     ''xstore_check_repeat_block'',
     ''xstore_check_block_flags_change'',
     ''xstore_check_block_hash_error'',
     ''xstore_check_block_prev_hash_error'',
     ''xstore_check_block_horizontal_consistency_invalid'',
     ''xstore_check_block_not_exist'',
     ''xstore_check_not_lightunit'',
     ''xstore_check_transaction_hash_error'',
     ''xstore_check_transaction_already_exist'',
     ''xstore_check_transaction_not_include_in_unit'',
     ''xstore_check_property_log_not_include_in_unit'',
     ''xstore_check_property_log_future_binlog_error'',
     ''xstore_check_property_log_hash_error'',
     ''xstore_check_property_hash_error'',
     ''xstore_create_new_block_fail'',
     ''xstore_blockchain_state_behind'',
     ''xaccount_contract_number_exceed_max'',
     ''xstore_user_contract_can_not_initiate_transaction'',
     ''xstore_user_contract_should_not_do_native_property'',
     ''xaccount_property_confirm_height_conflict'',
     ''xaccount_property_mortgage_invalid'',
     ''xaccount_property_log_not_exist'',
     ''xstore_check_block_verify_fail'',
     ''xstore_check_block_verify_lack_auth_data'',
     ''xtransaction_not_enough_pledge_token_tgas'',
     ''xtransaction_not_enough_pledge_token_disk'',
     ''xtransaction_not_enough_token'',
     ''xtransaction_non_positive_pledge_token'',
     ''xtransaction_pledge_too_much_token'',
     ''xtransaction_contract_not_enough_tgas'',
     ''xtransaction_pledge_redeem_vote_err'',
     ''xtransaction_param_invalid'']"

definition xstore_error_names :: "string list" where
  "xstore_error_names = [
     ''xaccount_name_length_illegal'',
     ''xaccount_balance_not_enough'',
     ''xaccount_account_not_exist'',
     ''xaccount_lock_less_min_deposit'',
     ''xaccount_transfer_less_than_safe_amount'',
     ''xaccount_unit_height_should_not_zero'',
     ''xaccount_unit_height_should_zero'',
     ''xreceiver_address_same_with_sender'',
     ''xaccount_contract_address_create_repeat'',
     ''xaccount_not_exist'',
     ''xaccount_state_behind'',
     ''xaccount_property_number_exceed_max'',
     ''xaccount_property_name_length_exceed_max'',
     ''xaccount_property_contract_count_exceed_max'',
     ''xaccount_property_contract_code_size_invalid'',
     ''xaccount_property_can_only_set_once'',
     ''xaccount_property_set_value_same'',
     ''xaccount_property_not_create'',
     ''xaccount_property_map_field_not_create'',
     ''xaccount_property_behind_not_exist'',
     ''xaccount_property_behind_not_match'',
     ''xaccount_property_has_already_create'',
     ''xaccount_property_has_already_delete'',
     ''xaccount_property_operate_type_unmatch'',
     ''xaccount_property_create_fail'',
     ''xaccount_property_not_exist'',
     ''xaccount_property_operate_fail'',
     ''xaccount_property_cmd_invalid'',
     ''xaccount_property_exec_exception'',
     ''xaccount_property_lock_token_key_same'',
     ''xaccount_property_unlock_token_key_not_exist'',
     ''xaccount_property_unlock_token_sign_illegal'',
     ''xaccount_property_unlock_token_time_not_reach'',
     ''xaccount_property_set_hash_not_match'',
     ''xaccount_property_parent_account_exist'',
     ''xaccount_property_parent_account_not_exist'',
     ''xaccount_property_sub_account_exist'',
     ''xaccount_property_contract_sub_account_exist'',
     ''xaccount_property_sub_account_overflow'',
     ''xaccount_set_keys_key_illegal'',
     ''xstore_check_repeat_block'',
     ''xstore_check_block_flags_change'',
     ''xstore_check_block_hash_error'',
     ''xstore_check_block_prev_hash_error'',
     ''xstore_check_block_horizontal_consistency_invalid'',
     ''xstore_check_block_not_exist'',
     ''xstore_check_not_lightunit'',
     ''xstore_check_transaction_hash_error'',
     ''xstore_check_transaction_already_exist'',
     ''xstore_check_transaction_not_include_in_unit'',
     ''xstore_check_property_log_not_include_in_unit'',
     ''xstore_check_property_log_hash_error'',
     ''xstore_check_property_log_future_binlog_error'',
     ''xstore_check_property_hash_error'',
     ''xstore_create_new_block_fail'',
     ''xstore_blockchain_state_behind'',
     ''xaccount_contract_number_exceed_max'',
     ''xstore_user_contract_can_not_initiate_transaction'',
     ''xstore_user_contract_should_not_do_native_property'',
     ''xaccount_property_confirm_height_conflict'',
     ''xaccount_property_mortgage_invalid'',
     ''xaccount_property_log_not_exist'',
     ''xstore_check_block_verify_fail'',
     ''xstore_check_block_verify_lack_auth_data'',
     ''xtransaction_not_enough_pledge_token_tgas'',
     ''xtransaction_not_enough_pledge_token_disk'',
     ''xtransaction_not_enough_token'',
     ''xtransaction_non_positive_pledge_token'',
     ''xtransaction_pledge_too_much_token'',
     ''xtransaction_contract_not_enough_tgas'',
     ''xtransaction_pledge_redeem_vote_err'',
     ''xtransaction_param_invalid'']"

fun xstore_error_name :: "xstore_error \<Rightarrow> string" where
  "xstore_error_name xaccount_balance_not_enough = ''xaccount_balance_not_enough''"
| "xstore_error_name xaccount_account_not_exist = ''xaccount_account_not_exist''"
| "xstore_error_name xaccount_lock_less_min_deposit = ''xaccount_lock_less_min_deposit''"
| "xstore_error_name xaccount_transfer_less_than_safe_amount = ''xaccount_transfer_less_than_safe_amount''"
| "xstore_error_name xaccount_unit_height_should_not_zero = ''xaccount_unit_height_should_not_zero''"
| "xstore_error_name xaccount_unit_height_should_zero = ''xaccount_unit_height_should_zero''"
| "xstore_error_name xaccount_property_number_exceed_max = ''xaccount_property_number_exceed_max''"
| "xstore_error_name xaccount_property_name_length_exceed_max = ''xaccount_property_name_length_exceed_max''"
| "xstore_error_name xaccount_property_contract_code_size_invalid = ''xaccount_property_contract_code_size_invalid''"
| "xstore_error_name xaccount_property_set_value_same = ''xaccount_property_set_value_same''"
| "xstore_error_name xaccount_property_not_create = ''xaccount_property_not_create''"
| "xstore_error_name xaccount_property_map_field_not_create = ''xaccount_property_map_field_not_create''"
| "xstore_error_name xaccount_property_behind_not_exist = ''xaccount_property_behind_not_exist''"
| "xstore_error_name xaccount_property_has_already_create = ''xaccount_property_has_already_create''"
| "xstore_error_name xaccount_property_has_already_delete = ''xaccount_property_has_already_delete''"
| "xstore_error_name xaccount_property_operate_type_unmatch = ''xaccount_property_operate_type_unmatch''"
| "xstore_error_name xaccount_property_not_exist = ''xaccount_property_not_exist''"
| "xstore_error_name xaccount_property_operate_fail = ''xaccount_property_operate_fail''"
| "xstore_error_name xaccount_property_cmd_invalid = ''xaccount_property_cmd_invalid''"
| "xstore_error_name xaccount_property_lock_token_key_same = ''xaccount_property_lock_token_key_same''"
| "xstore_error_name xaccount_property_unlock_token_key_not_exist = ''xaccount_property_unlock_token_key_not_exist''"
| "xstore_error_name xaccount_property_unlock_token_sign_illegal = ''xaccount_property_unlock_token_sign_illegal''"
| "xstore_error_name xaccount_property_unlock_token_time_not_reach = ''xaccount_property_unlock_token_time_not_reach''"
| "xstore_error_name xaccount_property_parent_account_exist = ''xaccount_property_parent_account_exist''"
| "xstore_error_name xaccount_property_parent_account_not_exist = ''xaccount_property_parent_account_not_exist''"
| "xstore_error_name xaccount_property_sub_account_exist = ''xaccount_property_sub_account_exist''"
| "xstore_error_name xaccount_property_contract_sub_account_exist = ''xaccount_property_contract_sub_account_exist''"
| "xstore_error_name xaccount_property_sub_account_overflow = ''xaccount_property_sub_account_overflow''"
| "xstore_error_name xaccount_set_keys_key_illegal = ''xaccount_set_keys_key_illegal''"
| "xstore_error_name xaccount_contract_number_exceed_max = ''xaccount_contract_number_exceed_max''"
| "xstore_error_name xstore_user_contract_can_not_initiate_transaction = ''xstore_user_contract_can_not_initiate_transaction''"
| "xstore_error_name xstore_user_contract_should_not_do_native_property = ''xstore_user_contract_should_not_do_native_property''"
| "xstore_error_name xtransaction_not_enough_pledge_token_tgas = ''xtransaction_not_enough_pledge_token_tgas''"
| "xstore_error_name xtransaction_not_enough_pledge_token_disk = ''xtransaction_not_enough_pledge_token_disk''"
| "xstore_error_name xtransaction_not_enough_token = ''xtransaction_not_enough_token''"
| "xstore_error_name xtransaction_non_positive_pledge_token = ''xtransaction_non_positive_pledge_token''"
| "xstore_error_name xtransaction_pledge_too_much_token = ''xtransaction_pledge_too_much_token''"
| "xstore_error_name xtransaction_contract_not_enough_tgas = ''xtransaction_contract_not_enough_tgas''"
| "xstore_error_name xtransaction_pledge_redeem_vote_err = ''xtransaction_pledge_redeem_vote_err''"
| "xstore_error_name xtransaction_param_invalid = ''xtransaction_param_invalid''"

definition xtx_error_enum :: "string list" where
  "xtx_error_enum = [
     ''xconsensus_service_error_balance_not_enough'',
     ''xconsensus_service_error_min_deposit_error'',
     ''xconsensus_service_error_action_not_valid'',
     ''xconsensus_service_error_addr_type_error'',
     ''xconsensus_service_error_sign_error'',
     ''xtransaction_parse_type_invalid'',
     ''xchain_error_action_parse_exception'',
     ''xunit_contract_exec_no_property_change'',
     ''xtransaction_pledge_token_overflow'',
     ''xtransaction_not_enough_pledge_token_tgas'',
     ''xtransaction_not_enough_pledge_token_disk'',
     ''xtransaction_over_half_total_pledge_token'',
     ''xtransaction_not_enough_deposit'',
     ''xtransaction_too_much_deposit'',
     ''xtransaction_not_enough_token'',
     ''xtransaction_non_positive_pledge_token'',
     ''xtransaction_non_top_token_illegal'',
     ''xtransaction_non_zero_frozen_tgas'',
     ''xtransaction_pledge_too_much_token'',
     ''xtransaction_contract_pledge_token_illegal'',
     ''xtransaction_contract_pledge_token_target_illegal'',
     ''xtransaction_contract_pledge_token_source_target_mismatch'',
     ''xtransaction_contract_not_enough_tgas'',
     ''xtransaction_pledge_token_source_target_type_mismatch'',
     ''xtransaction_pledge_contract_type_illegal'',
     ''xtransaction_pledge_contract_owner_sign_err'',
     ''xtransaction_pledge_redeem_vote_err'',
     ''enum_xtxexecutor_error_proposal_unit_not_match_last_unit'',
     ''enum_xtxexecutor_error_proposal_unit_should_be_fullunit'',
     ''enum_xtxexecutor_error_proposal_unit_should_be_lightunit'',
     ''enum_xtxexecutor_error_proposal_unit_not_match_leader_output'',
     ''enum_xtxexecutor_error_proposal_unit_input_invalid'',
     ''enum_xtxexecutor_error_unit_height_less_than_leader'',
     ''enum_xtxexecutor_error_unit_height_larger_than_leader'',
     ''enum_xtxexecutor_error_unit_leader_hash_not_equal_backup'',
     ''enum_xtxexecutor_error_unit_height_not_equal_blockchain_height'',
     ''enum_xtxexecutor_error_unit_state_behind'',
     ''enum_xtxexecutor_error_unit_property_behind'',
     ''enum_xtxexecutor_error_unit_usable_timestamp_not_arrive'',
     ''enum_xtxexecutor_error_proposal_tableblock_should_not_empty_block'',
     ''enum_xtxexecutor_error_leader_tableblock_behind'',
     ''enum_xtxexecutor_error_backup_tableblock_behind'',
     ''enum_xtxexecutor_error_account_have_no_tx'',
     ''enum_xtxexecutor_error_txpool_empty'',
     ''enum_xtxexecutor_error_tx_nonce_not_match'',
     ''enum_xtxexecutor_error_backup_verify_fail_table_input_hash'',
     ''enum_xtxexecutor_error_backup_verify_fail_table_output_hash'',
     ''enum_xtxexecutor_error_backup_verify_fail_table_header_hash'',
     ''enum_xtxexecutor_error_backup_verify_fail_check_consensus_para'']"

definition xtx_error_names :: "string list" where
  "xtx_error_names = [
     ''xconsensus_service_error_balance_not_enough'',
     ''xconsensus_service_error_min_deposit_error'',
     ''xconsensus_service_error_action_not_valid'',
     ''xconsensus_service_error_addr_type_error'',
     ''xconsensus_service_error_sign_error'',
     ''xtransaction_parse_type_invalid'',
     ''xchain_error_action_parse_exception'',
     ''xunit_contract_exec_no_property_change'',
     ''xtransaction_pledge_token_overflow'',
     ''xtransaction_not_enough_pledge_token_tgas'',
     ''xtransaction_not_enough_pledge_token_disk'',
     ''xtransaction_over_half_total_pledge_token'',
     ''xtransaction_not_enough_deposit'',
     ''xtransaction_too_much_deposit'',
     ''xtransaction_not_enough_token'',
     ''xtransaction_non_positive_pledge_token'',
     ''xtransaction_non_top_token_illegal'',
     ''xtransaction_non_zero_frozen_tgas'',
     ''xtransaction_pledge_too_much_token'',
     ''xtransaction_contract_pledge_token_illegal'',
     ''xtransaction_contract_pledge_token_target_illegal'',
     ''xtransaction_contract_pledge_token_source_target_mismatch'',
     ''xtransaction_contract_not_enough_tgas'',
     ''xtransaction_pledge_token_source_target_type_mismatch'',
     ''xtransaction_pledge_contract_type_illegal'',
     ''xtransaction_pledge_contract_owner_sign_err'',
     ''xtransaction_pledge_redeem_vote_err'',
     ''enum_xtxexecutor_error_proposal_unit_not_match_last_unit'',
     ''enum_xtxexecutor_error_proposal_unit_should_be_fullunit'',
     ''enum_xtxexecutor_error_proposal_unit_should_be_lightunit'',
     ''enum_xtxexecutor_error_proposal_unit_not_match_leader_output'',
     ''enum_xtxexecutor_error_proposal_unit_input_invalid'',
     ''enum_xtxexecutor_error_unit_height_less_than_leader'',
     ''enum_xtxexecutor_error_unit_height_larger_than_leader'',
     ''enum_xtxexecutor_error_unit_leader_hash_not_equal_backup'',
     ''enum_xtxexecutor_error_unit_height_not_equal_blockchain_height'',
     ''enum_xtxexecutor_error_unit_state_behind'',
     ''enum_xtxexecutor_error_unit_property_behind'',
     ''enum_xtxexecutor_error_unit_usable_timestamp_not_arrive'',
     ''enum_xtxexecutor_error_proposal_tableblock_should_not_empty_block'',
     ''enum_xtxexecutor_error_leader_tableblock_behind'',
     ''enum_xtxexecutor_error_backup_tableblock_behind'',
     ''enum_xtxexecutor_error_account_have_no_tx'',
     ''enum_xtxexecutor_error_txpool_empty'',
     ''enum_xtxexecutor_error_tx_nonce_not_match'',
     ''enum_xtxexecutor_error_backup_verify_fail_table_input_hash'',
     ''enum_xtxexecutor_error_backup_verify_fail_table_output_hash'',
     ''enum_xtxexecutor_error_backup_verify_fail_table_header_hash'',
     ''enum_xtxexecutor_error_backup_verify_fail_check_consensus_para'']"

fun xtx_error_name :: "xtx_error \<Rightarrow> string" where
  "xtx_error_name xconsensus_service_error_balance_not_enough = ''xconsensus_service_error_balance_not_enough''"
| "xtx_error_name xconsensus_service_error_min_deposit_error = ''xconsensus_service_error_min_deposit_error''"
| "xtx_error_name xconsensus_service_error_action_not_valid = ''xconsensus_service_error_action_not_valid''"
| "xtx_error_name xconsensus_service_error_addr_type_error = ''xconsensus_service_error_addr_type_error''"
| "xtx_error_name xconsensus_service_error_sign_error = ''xconsensus_service_error_sign_error''"
| "xtx_error_name xtransaction_parse_type_invalid = ''xtransaction_parse_type_invalid''"
| "xtx_error_name xchain_error_action_parse_exception = ''xchain_error_action_parse_exception''"
| "xtx_error_name xunit_contract_exec_no_property_change = ''xunit_contract_exec_no_property_change''"
| "xtx_error_name xtransaction_not_enough_deposit = ''xtransaction_not_enough_deposit''"
| "xtx_error_name xtransaction_too_much_deposit = ''xtransaction_too_much_deposit''"
| "xtx_error_name xtransaction_contract_pledge_token_source_target_mismatch = ''xtransaction_contract_pledge_token_source_target_mismatch''"
| "xtx_error_name xtransaction_pledge_redeem_vote_err_tx = ''xtransaction_pledge_redeem_vote_err''"
| "xtx_error_name enum_xtxexecutor_error_tx_nonce_not_match = ''enum_xtxexecutor_error_tx_nonce_not_match''"

section \<open>Numeric codes\<close>

definition xmodule_type_xstore :: i32 where "xmodule_type_xstore = 0x00220000"
definition xmodule_type_xdata :: i32 where "xmodule_type_xdata = 0x002C0000"
definition xmodule_type_xtxexecutor :: i32 where "xmodule_type_xtxexecutor = 0x002F0000"

text \<open>An enumerator has the base of its module plus one plus its position.\<close>

fun position :: "'a \<Rightarrow> 'a list \<Rightarrow> nat" where
  "position x [] = 0"
| "position x (y # ys) = (if x = y then 0 else Suc (position x ys))"

definition xdata_error_code :: "xdata_error \<Rightarrow> i32" where
  "xdata_error_code e = xmodule_type_xdata + 1 + of_nat (position (xdata_error_name e) xdata_error_enum)"

definition xstore_error_code :: "xstore_error \<Rightarrow> i32" where
  "xstore_error_code e = xmodule_type_xstore + 1 + of_nat (position (xstore_error_name e) xstore_error_enum)"

definition xtx_error_code :: "xtx_error \<Rightarrow> i32" where
  "xtx_error_code e = xmodule_type_xtxexecutor + 1 + of_nat (position (xtx_error_name e) xtx_error_enum)"

fun xret_code :: "xret \<Rightarrow> i32" where
  "xret_code xsuccess = 0"
| "xret_code xminus_one = -1"
| "xret_code (EData e) = xdata_error_code e"
| "xret_code (EStore e) = xstore_error_code e"
| "xret_code (ETx e) = xtx_error_code e"

text \<open>\<open>names[code - base - 1]\<close>; reading past the end of the table is \<open>None\<close>.\<close>

definition table_at :: "string list \<Rightarrow> i32 \<Rightarrow> string option" where
  "table_at names i = (if unat i < length names then Some (names ! unat i) else None)"

definition xdata_error_to_string :: "i32 \<Rightarrow> string option" where
  "xdata_error_to_string code = table_at xdata_error_names (code - xmodule_type_xdata - 1)"

definition xstore_error_to_string :: "i32 \<Rightarrow> string option" where
  "xstore_error_to_string code = table_at xstore_error_names (code - xmodule_type_xstore - 1)"

definition xunit_error_to_string :: "i32 \<Rightarrow> string option" where
  "xunit_error_to_string code = table_at xtx_error_names (code - xmodule_type_xtxexecutor - 1)"

text \<open>The print functions registered by \<open>xstore.cpp\<close> and \<open>xtransaction_executor.cpp\<close>; the
  table of \<open>xdata\<close> is not registered, so its codes print as decimal numbers.\<close>

definition get_module_type :: "i32 \<Rightarrow> i32" where
  "get_module_type code = code AND 0xFFFF0000"

definition to_string_i32 :: "i32 \<Rightarrow> string" where
  "to_string_i32 c = (if sint c < 0 then CHR ''-'' # dec_digits (nat (- sint c))
                      else dec_digits (nat (sint c)))"

definition xmodule_error_to_str :: "i32 \<Rightarrow> string option" where
  "xmodule_error_to_str code =
     (if code = 0 then Some ''success''
      else let t = get_module_type code
           in if t = xmodule_type_xstore then xstore_error_to_string code
              else if t = xmodule_type_xtxexecutor then xunit_error_to_string code
              else Some (to_string_i32 code))"

text \<open>The codes of the whole \<open>xdata\<close> enumeration, in order.\<close>

definition xdata_codes :: "i32 list" where
  "xdata_codes = map (\<lambda>i. xmodule_type_xdata + 1 + of_nat i) [0..<length xdata_error_enum]"


section \<open>The codes are distinct and print their names\<close>

lemma position_nth: "x \<in> set xs \<Longrightarrow> position x xs < length xs \<and> xs ! position x xs = x"
  by (induction xs) auto

lemma xdata_name_in: "xdata_error_name e \<in> set xdata_error_enum"
  by (cases e) (simp_all add: xdata_error_enum_def)

lemma xstore_name_in: "xstore_error_name e \<in> set xstore_error_enum"
  by (cases e) (simp_all add: xstore_error_enum_def)

lemma xtx_name_in: "xtx_error_name e \<in> set xtx_error_enum"
  by (cases e) (simp_all add: xtx_error_enum_def)

lemma xdata_name_inj: "xdata_error_name e = xdata_error_name f \<Longrightarrow> e = f"
  by (cases e; cases f) simp_all

lemma xstore_name_inj: "xstore_error_name e = xstore_error_name f \<Longrightarrow> e = f"
  by (cases e; cases f) simp_all

lemma xtx_name_inj: "xtx_error_name e = xtx_error_name f \<Longrightarrow> e = f"
  by (cases e; cases f) simp_all

lemma error_table_lengths:
  "length xdata_error_enum = 27" "length xstore_error_enum = 72" "length xtx_error_enum = 49"
  "length xdata_error_names = 26" "length xstore_error_names = 72" "length xtx_error_names = 49"
  by (simp_all add: xdata_error_enum_def xstore_error_enum_def xtx_error_enum_def
      xdata_error_names_def xstore_error_names_def xtx_error_names_def)

lemma position_inj: "x \<in> set xs \<Longrightarrow> y \<in> set xs \<Longrightarrow> position x xs = position y xs \<Longrightarrow> x = y"
  by (metis position_nth)

lemma enumerator_unat:
  assumes "n < 100" "b \<in> {xmodule_type_xdata, xmodule_type_xstore, xmodule_type_xtxexecutor}"
  shows "unat (b + 1 + of_nat n :: i32) = unat b + 1 + n"
proof -
  have "unat b + 1 + n < 2 ^ 32"
    using assms by (auto simp: xmodule_type_xdata_def xmodule_type_xstore_def xmodule_type_xtxexecutor_def)
  moreover have "b + 1 + of_nat n = of_nat (unat b + 1 + n)" by simp
  ultimately show ?thesis by (simp only: unat_of_nat) simp
qed

lemma code_unat:
  "unat (xdata_error_code d) = 0x2C0001 + position (xdata_error_name d) xdata_error_enum"
  "unat (xstore_error_code s) = 0x220001 + position (xstore_error_name s) xstore_error_enum"
  "unat (xtx_error_code t) = 0x2F0001 + position (xtx_error_name t) xtx_error_enum"
  using position_nth [OF xdata_name_in [of d]] position_nth [OF xstore_name_in [of s]]
    position_nth [OF xtx_name_in [of t]]
  unfolding xdata_error_code_def xstore_error_code_def xtx_error_code_def
  by (subst enumerator_unat; simp add: error_table_lengths xmodule_type_xdata_def
      xmodule_type_xstore_def xmodule_type_xtxexecutor_def)+

lemma code_range:
  "0x2C0000 < unat (xdata_error_code d) \<and> unat (xdata_error_code d) \<le> 0x2C0064"
  "0x220000 < unat (xstore_error_code s) \<and> unat (xstore_error_code s) \<le> 0x220064"
  "0x2F0000 < unat (xtx_error_code t) \<and> unat (xtx_error_code t) \<le> 0x2F0064"
  using position_nth [OF xdata_name_in [of d]] position_nth [OF xstore_name_in [of s]]
    position_nth [OF xtx_name_in [of t]]
  by (simp_all add: code_unat error_table_lengths)

lemma code_inj:
  "xdata_error_code d = xdata_error_code d' \<longleftrightarrow> d = d'"
  "xstore_error_code s = xstore_error_code s' \<longleftrightarrow> s = s'"
  "xtx_error_code t = xtx_error_code t' \<longleftrightarrow> t = t'"
  by (metis code_unat(1) add_left_cancel position_inj xdata_name_in xdata_name_inj,
      metis code_unat(2) add_left_cancel position_inj xstore_name_in xstore_name_inj,
      metis code_unat(3) add_left_cancel position_inj xtx_name_in xtx_name_inj)

lemma code_apart:
  "xdata_error_code d \<noteq> xstore_error_code s" "xdata_error_code d \<noteq> xtx_error_code t"
  "xstore_error_code s \<noteq> xtx_error_code t"
  using code_range(1) [of d] code_range(2) [of s] code_range(3) [of t] by auto

lemma unat_special: "unat (0 :: i32) = 0" "unat (- 1 :: i32) = 0xFFFFFFFF"
  by (simp_all add: unsigned_minus_1_eq_mask mask_eq_exp_minus_1)

lemma code_special:
  "xdata_error_code d \<noteq> 0" "xdata_error_code d \<noteq> - 1" "xstore_error_code s \<noteq> 0"
  "xstore_error_code s \<noteq> - 1" "xtx_error_code t \<noteq> 0" "xtx_error_code t \<noteq> - 1"
  using code_range(1) [of d] code_range(2) [of s] code_range(3) [of t] by (auto simp: unat_special)

text \<open>
  Different outcomes of a handler have different integer codes: success, the bare -1 and the
  enumerators of the three modules never share a return code.
\<close>

lemma xret_code_inj: "xret_code r = xret_code q \<longleftrightarrow> r = q"
  by (cases r; cases q)
     (simp_all add: code_inj code_apart code_apart [symmetric] code_special code_special [symmetric])

lemma module_of_code:
  assumes "n < 100" "b \<in> {xmodule_type_xstore, xmodule_type_xtxexecutor}"
  shows "get_module_type (b + 1 + of_nat n) = b" "(b + 1 + of_nat n :: i32) \<noteq> 0"
    "table_at names (b + 1 + of_nat n - b - 1) = (if n < length names then Some (names ! n) else None)"
proof -
  have u: "unat (of_nat n + 1 :: i32) = n + 1" "unat (of_nat n :: i32) = n"
    using assms(1) by (simp_all add: unat_word_ariths unat_of_nat)
  have eb: "unat (b + 1 + of_nat n) = unat b + 1 + n"
    using enumerator_unat [OF assms(1)] assms(2) by auto
  have m: "(0xFFFF0000 :: i32) = NOT (mask 16)"
    by (simp add: mask_eq_exp_minus_1 not_eq_complement)
  have p: "get_module_type x = push_bit 16 (drop_bit 16 x)" for x
    unfolding get_module_type_def m by (rule bit_word_eqI) (auto simp: bit_simps)
  show "get_module_type (b + 1 + of_nat n) = b"
  proof (rule unsigned_word_eqI [where ?'a = nat])
    have "unat (push_bit 16 (drop_bit 16 (b + 1 + of_nat n))) = unat b"
      unfolding unsigned_push_bit_eq unat_drop_bit_eq eb using assms
      by (auto simp: push_bit_eq_mult drop_bit_eq_div take_bit_eq_mod
          xmodule_type_xstore_def xmodule_type_xtxexecutor_def)
    then show "unat (get_module_type (b + 1 + of_nat n)) = unat b" by (simp only: p)
  qed
  show "(b + 1 + of_nat n :: i32) \<noteq> 0" using eb by auto
  show "table_at names (b + 1 + of_nat n - b - 1) = (if n < length names then Some (names ! n) else None)"
    by (simp add: table_at_def u)
qed

lemma xstore_names_swap:
  "xstore_error_names = xstore_error_enum[51 := xstore_error_enum ! 52, 52 := xstore_error_enum ! 51]"
  by (simp add: xstore_error_names_def xstore_error_enum_def)

lemma xstore_swapped_nth:
  "xstore_error_enum ! 51 = ''xstore_check_property_log_future_binlog_error''"
  "xstore_error_enum ! 52 = ''xstore_check_property_log_hash_error''"
  by (simp_all add: xstore_error_enum_def)

lemma xstore_name_unswapped:
  "xstore_error_name e \<noteq> xstore_error_enum ! 51" "xstore_error_name e \<noteq> xstore_error_enum ! 52"
  by (cases e; simp add: xstore_swapped_nth)+

text \<open>
  The error printer finds the enumerator's own name for every code of the store and of the
  transaction executor that a handler of the development returns, and prints success for 0.
\<close>

lemma handler_code_text:
  "xmodule_error_to_str (xret_code (EStore e)) = Some (xstore_error_name e) \<and>
   xmodule_error_to_str (xret_code (ETx f)) = Some (xtx_error_name f) \<and>
   xmodule_error_to_str (xret_code xsuccess) = Some ''success''"
proof -
  let ?p = "position (xstore_error_name e) xstore_error_enum"
    and ?q = "position (xtx_error_name f) xtx_error_enum"
  have p: "?p < 72" "?q < 49" "xtx_error_enum ! ?q = xtx_error_name f"
    using position_nth [OF xstore_name_in] position_nth [OF xtx_name_in] by (simp_all add: error_table_lengths)
  moreover have "xstore_error_names ! ?p = xstore_error_name e"
    using position_nth [OF xstore_name_in [of e]] xstore_name_unswapped [of e]
    by (metis xstore_names_swap nth_list_update_neq)
  moreover have "xtx_error_names = xtx_error_enum"
    by (simp add: xtx_error_enum_def xtx_error_names_def)
  moreover have "xmodule_type_xstore \<noteq> xmodule_type_xtxexecutor"
    by (simp add: xmodule_type_xstore_def xmodule_type_xtxexecutor_def)
  ultimately show ?thesis
    using module_of_code [of ?p xmodule_type_xstore] module_of_code [of ?q xmodule_type_xtxexecutor]
    by (simp add: xmodule_error_to_str_def xstore_error_code_def xtx_error_code_def Let_def
        xstore_error_to_string_def xunit_error_to_string_def error_table_lengths)
qed

text \<open>
  The name table of the xdata errors has no entry for the fifteenth enumerator: the first
  fourteen codes print their own name, every later code prints the name of the next enumerator,
  and the last code reads past the end of the table.
\<close>

lemma xdata_text_shifted:
  "map xdata_error_to_string xdata_codes =
     map Some (take 14 xdata_error_enum) @ map Some (drop 15 xdata_error_enum) @ [None]"
  by (simp add: xdata_codes_def xdata_error_to_string_def table_at_def error_table_lengths upt_conv_Cons) 
    (simp add: xdata_error_enum_def xdata_error_names_def)

text \<open>
  The name table of the store errors exchanges two entries: the two property-log codes at
  offsets 51 and 52 print each other's name.
\<close>

lemma xstore_text_swapped:
  "xstore_error_to_string (xmodule_type_xstore + 1 + 51) = Some (xstore_error_enum ! 52) \<and>
   xstore_error_to_string (xmodule_type_xstore + 1 + 52) = Some (xstore_error_enum ! 51)"
  by (simp add: xstore_error_to_string_def table_at_def error_table_lengths xstore_names_swap)

end
