(* ===== verification/XPropertyLog.thy ===== *)
theory XPropertyLog
  imports XStream
begin

text \<open>
  \<open>xdata/xpropertylog.h\<close> and \<open>.cpp\<close>: the instructions recorded for the properties of an
  account, the per-property log with its compaction (\<open>add_binlog\<close>), the log of an account and
  its serialization.
\<close>

section \<open>Instructions\<close>

text \<open>The enumeration is stored in one byte; a byte without an enumerator is kept as it is.\<close>

datatype xproperty_op_code =
    xproperty_cmd_type_invalid
  | xproperty_cmd_type_delete
  | xproperty_cmd_type_int64_create
  | xproperty_cmd_type_int64_add
  | xproperty_cmd_type_int64_sub
  | xproperty_cmd_type_string_create
  | xproperty_cmd_type_string_set
  | xproperty_cmd_type_list_create
  | xproperty_cmd_type_list_push_back
  | xproperty_cmd_type_list_push_front
  | xproperty_cmd_type_list_pop_back
  | xproperty_cmd_type_list_pop_front
  | xproperty_cmd_type_list_clear
  | xproperty_cmd_type_map_create
  | xproperty_cmd_type_map_set
  | xproperty_cmd_type_map_remove
  | xproperty_cmd_type_map_clear
  | xproperty_cmd_other u8

definition op_codes :: "xproperty_op_code list" where
  "op_codes = [
     xproperty_cmd_type_invalid,
     xproperty_cmd_type_delete,
     xproperty_cmd_type_int64_create,
     xproperty_cmd_type_int64_add,
     xproperty_cmd_type_int64_sub,
     xproperty_cmd_type_string_create,
     xproperty_cmd_type_string_set,
     xproperty_cmd_type_list_create,
     xproperty_cmd_type_list_push_back,
     xproperty_cmd_type_list_push_front,
     xproperty_cmd_type_list_pop_back,
     xproperty_cmd_type_list_pop_front,
     xproperty_cmd_type_list_clear,
     xproperty_cmd_type_map_create,
     xproperty_cmd_type_map_set,
     xproperty_cmd_type_map_remove,
     xproperty_cmd_type_map_clear]"

definition op_of_u8 :: "u8 \<Rightarrow> xproperty_op_code" where
  "op_of_u8 b = (if unat b < length op_codes then op_codes ! unat b else xproperty_cmd_other b)"

fun op_to_u8 :: "xproperty_op_code \<Rightarrow> u8" where
  "op_to_u8 xproperty_cmd_type_invalid = 0"
| "op_to_u8 xproperty_cmd_type_delete = 1"
| "op_to_u8 xproperty_cmd_type_int64_create = 2"
| "op_to_u8 xproperty_cmd_type_int64_add = 3"
| "op_to_u8 xproperty_cmd_type_int64_sub = 4"
| "op_to_u8 xproperty_cmd_type_string_create = 5"
| "op_to_u8 xproperty_cmd_type_string_set = 6"
| "op_to_u8 xproperty_cmd_type_list_create = 7"
| "op_to_u8 xproperty_cmd_type_list_push_back = 8"
| "op_to_u8 xproperty_cmd_type_list_push_front = 9"
| "op_to_u8 xproperty_cmd_type_list_pop_back = 10"
| "op_to_u8 xproperty_cmd_type_list_pop_front = 11"
| "op_to_u8 xproperty_cmd_type_list_clear = 12"
| "op_to_u8 xproperty_cmd_type_map_create = 13"
| "op_to_u8 xproperty_cmd_type_map_set = 14"
| "op_to_u8 xproperty_cmd_type_map_remove = 15"
| "op_to_u8 xproperty_cmd_type_map_clear = 16"
| "op_to_u8 (xproperty_cmd_other b) = b"

record xproperty_instruction =
  m_op_code :: xproperty_op_code
  m_op_para1 :: string
  m_op_para2 :: string

definition instr :: "xproperty_op_code \<Rightarrow> string \<Rightarrow> string \<Rightarrow> xproperty_instruction" where
  "instr op p1 p2 = \<lparr>m_op_code = op, m_op_para1 = p1, m_op_para2 = p2\<rparr>"

definition instruction_do_write :: "xproperty_instruction \<Rightarrow> bytes" where
  "instruction_do_write i =
     put_u8 (op_to_u8 (m_op_code i)) @ put_string (m_op_para1 i) @ put_string (m_op_para2 i)"

definition instruction_do_read :: "bytes \<Rightarrow> (xproperty_instruction \<times> bytes) option" where
  "instruction_do_read s =
     do { (op, s1) \<leftarrow> get_u8 s;
          (p1, s2) \<leftarrow> get_string s1;
          (p2, s3) \<leftarrow> get_string s2;
          Some (instr (op_of_u8 op) p1 p2, s3) }"


section \<open>The log of one property\<close>

type_synonym binlog = "xproperty_instruction list"

definition binlog_do_write :: "binlog \<Rightarrow> bytes" where
  "binlog_do_write l =
     put_u32 (of_nat (length l)) @ concat (map (serialize_to instruction_do_write) l)"

definition binlog_do_read :: "binlog \<Rightarrow> bytes \<Rightarrow> (binlog \<times> bytes) option" where
  "binlog_do_read l s =
     do { (n, r) \<leftarrow> get_u32 s;
          get_loop (unat n) (serialize_from instruction_do_read) emplace_back l r }"

text \<open>The compaction helpers: each looks at the end of the log (or, for a map field, at its
  first assignment) and removes what the new instruction makes superfluous.\<close>

definition delete_binlog_string_set :: "xproperty_op_code \<Rightarrow> binlog \<Rightarrow> binlog" where
  "delete_binlog_string_set op l =
     (if l = [] then l else if m_op_code (last l) = op then butlast l else l)"

function delete_back_until :: "xproperty_op_code \<Rightarrow> binlog \<Rightarrow> binlog" where
  "delete_back_until op l =
     (if l = [] then l else if m_op_code (last l) = op then l else delete_back_until op (butlast l))"
  by auto
termination
  by (relation "measure (length \<circ> snd)") auto

declare delete_back_until.simps [simp del]

definition delete_binlog_list_clear :: "binlog \<Rightarrow> binlog" where
  "delete_binlog_list_clear l = delete_back_until xproperty_cmd_type_list_create l"

definition delete_binlog_map_clear :: "binlog \<Rightarrow> binlog" where
  "delete_binlog_map_clear l = delete_back_until xproperty_cmd_type_map_create l"

definition delete_binlog_deque_push :: "xproperty_op_code \<Rightarrow> binlog \<Rightarrow> binlog option" where
  "delete_binlog_deque_push op l =
     (if l = [] then None else if m_op_code (last l) = op then Some (butlast l) else None)"

fun delete_binlog_map_set :: "xproperty_op_code \<Rightarrow> string \<Rightarrow> binlog \<Rightarrow> binlog option" where
  "delete_binlog_map_set op key [] = None"
| "delete_binlog_map_set op key (i # l) =
     (if m_op_code i = op \<and> m_op_para1 i = key then Some l
      else map_option ((#) i) (delete_binlog_map_set op key l))"

definition add_binlog :: "xproperty_instruction \<Rightarrow> binlog \<Rightarrow> binlog" where
  "add_binlog i l =
     (if m_op_code i = xproperty_cmd_type_list_pop_back then
        (case delete_binlog_deque_push xproperty_cmd_type_list_push_back l of
           Some l' \<Rightarrow> l' | None \<Rightarrow> l @ [i])
      else if m_op_code i = xproperty_cmd_type_list_pop_front then
        (case delete_binlog_deque_push xproperty_cmd_type_list_push_front l of
           Some l' \<Rightarrow> l' | None \<Rightarrow> l @ [i])
      else if m_op_code i = xproperty_cmd_type_map_remove then
        (case delete_binlog_map_set xproperty_cmd_type_map_set (m_op_para1 i) l of
           Some l' \<Rightarrow> l' | None \<Rightarrow> l @ [i])
      else if m_op_code i = xproperty_cmd_type_string_set then
        delete_binlog_string_set xproperty_cmd_type_string_set l @ [i]
      else if m_op_code i = xproperty_cmd_type_list_clear then
        delete_binlog_list_clear l @ [i]
      else if m_op_code i = xproperty_cmd_type_map_clear then
        delete_binlog_map_clear l @ [i]
      else l @ [i])"


section \<open>The log of an account\<close>

record xaccount_binlog =
  m_unit_height :: u64
  m_property_logs :: "(string, binlog) omap"

definition add_instruction :: "string \<Rightarrow> xproperty_instruction \<Rightarrow> xaccount_binlog \<Rightarrow> xaccount_binlog" where
  "add_instruction name i b =
     (case om_find (m_property_logs b) name of
        Some l \<Rightarrow>
          let l' = add_binlog i l
          in if l' = [] then b\<lparr>m_property_logs := om_erase name (m_property_logs b)\<rparr>
             else b\<lparr>m_property_logs := om_set name l' (m_property_logs b)\<rparr>
      | None \<Rightarrow> b\<lparr>m_property_logs := om_set name (add_binlog i []) (m_property_logs b)\<rparr>)"

definition is_property_changed :: "string \<Rightarrow> xaccount_binlog \<Rightarrow> bool" where
  "is_property_changed name b = (om_find (m_property_logs b) name \<noteq> None)"

definition get_property_size :: "xaccount_binlog \<Rightarrow> nat" where
  "get_property_size b = length (m_property_logs b)"

definition get_instruction_size :: "xaccount_binlog \<Rightarrow> i32" where
  "get_instruction_size b =
     fold (\<lambda>p size. size + of_nat (length (snd p))) (m_property_logs b) 0"

definition account_binlog_do_write :: "xaccount_binlog \<Rightarrow> bytes" where
  "account_binlog_do_write b =
     put_u64 (m_unit_height b) @ put_u32 (of_nat (length (m_property_logs b))) @
     concat (map (put_pair put_string (serialize_to binlog_do_write)) (m_property_logs b))"

definition account_binlog_do_read :: "bytes \<Rightarrow> (xaccount_binlog \<times> bytes) option" where
  "account_binlog_do_read s =
     do { (h, s1) \<leftarrow> get_u64 s;
          (n, s2) \<leftarrow> get_u32 s1;
          (m, s3) \<leftarrow> get_loop (unat n) (get_pair get_string (serialize_from (binlog_do_read [])))
                      (\<lambda>(k, v). om_emplace k v) [] s2;
          Some (\<lparr>m_unit_height = h, m_property_logs = m\<rparr>, s3) }"


section \<open>Reading the log back\<close>

fun op_wf :: "xproperty_op_code \<Rightarrow> bool" where
  "op_wf (xproperty_cmd_other b) = (17 \<le> unat b)"
| "op_wf _ = True"

lemma op_round: "op_wf op \<Longrightarrow> op_of_u8 (op_to_u8 op) = op"
  by (cases op) (simp_all add: op_of_u8_def op_codes_def)

definition instr_fits :: "xproperty_instruction \<Rightarrow> bool" where
  "instr_fits i \<longleftrightarrow> op_wf (m_op_code i) \<and> str_ok (m_op_para1 i) \<and> str_ok (m_op_para2 i)"

interpretation ins: object_codec instruction_do_write instruction_do_read instr_fits
  by unfold_locales
    (simp add: instruction_do_write_def instruction_do_read_def instr_fits_def op_round instr_def)

definition binlog_fits :: "binlog \<Rightarrow> bool" where
  "binlog_fits l \<longleftrightarrow> length l < 2 ^ 32 \<and>
     list_all (\<lambda>i. instr_fits i \<and> length (instruction_do_write i) < 2 ^ 32) l"

interpretation blog: object_codec binlog_do_write "binlog_do_read []" binlog_fits
  by unfold_locales
    (simp add: binlog_do_write_def binlog_do_read_def binlog_fits_def unat_of_nat ins.ser.get_loop_put)

interpretation logs: codec_pair put_string get_string str_ok
  "serialize_to binlog_do_write" "serialize_from (binlog_do_read [])"
  "\<lambda>l. binlog_fits l \<and> length (binlog_do_write l) < 2 ^ 32"
  by unfold_locales

definition account_binlog_fits :: "xaccount_binlog \<Rightarrow> bool" where
  "account_binlog_fits b \<longleftrightarrow> om_inv (m_property_logs b) \<and> length (m_property_logs b) < 2 ^ 32 \<and>
     list_all (\<lambda>p. str_ok (fst p) \<and> binlog_fits (snd p) \<and> length (binlog_do_write (snd p)) < 2 ^ 32)
       (m_property_logs b)"

text \<open>
  The property log of an account survives serialization: \<open>do_read\<close> applied to the output of
  \<open>do_write\<close> (unit height, then every property name with its nested instruction streams)
  followed by further data gives back the same log and the further data.
\<close>

lemma account_binlog_write_read:
  assumes "account_binlog_fits b"
  shows "account_binlog_do_read (account_binlog_do_write b @ s) = Some (b, s)"
  using assms fold_om_emplace_append [of "[]" "m_property_logs b"]
  by (simp add: account_binlog_fits_def account_binlog_do_write_def account_binlog_do_read_def
      unat_of_nat logs.p.get_loop_put)

theorem account_binlog_write_read_witness:
  "account_binlog_do_read (account_binlog_do_write
      \<lparr>m_unit_height = 5, m_property_logs =
         [(''p'', [instr xproperty_cmd_type_map_create [] [], instr xproperty_cmd_type_map_set ''k'' ''v''])]\<rparr> @ ''x'') =
   Some (\<lparr>m_unit_height = 5, m_property_logs =
         [(''p'', [instr xproperty_cmd_type_map_create [] [], instr xproperty_cmd_type_map_set ''k'' ''v''])]\<rparr>, ''x'')"
  by (rule account_binlog_write_read)
    (simp add: account_binlog_fits_def om_inv_def binlog_fits_def instr_fits_def instr_def str_ok_def
      binlog_do_write_def instruction_do_write_def serialize_to_def put_buffer_def put_uint_defs
      put_string_def)


section \<open>Shape of a compacted log\<close>

lemma delete_back_until_prefix:
  "\<exists>r. l = delete_back_until op l @ r \<and> (\<forall>i \<in> set r. m_op_code i \<noteq> op) \<and>
       (delete_back_until op l = [] \<or> m_op_code (last (delete_back_until op l)) = op)"
proof (induction op l rule: delete_back_until.induct)
  case (1 op l)
  show ?case
  proof (cases "l = [] \<or> m_op_code (last l) = op")
    case True
    then show ?thesis
      by (auto simp: delete_back_until.simps [of op l])
  next
    case False
    then obtain r where r: "butlast l = delete_back_until op (butlast l) @ r"
      "\<forall>i \<in> set r. m_op_code i \<noteq> op"
      "delete_back_until op (butlast l) = [] \<or> m_op_code (last (delete_back_until op (butlast l))) = op"
      using 1 by auto
    have e: "delete_back_until op l = delete_back_until op (butlast l)"
      using False by (simp add: delete_back_until.simps [of op l])
    have "l = delete_back_until op l @ (r @ [last l])"
      using False r(1) e by (metis append.assoc append_butlast_last_id)
    then show ?thesis
      using False r(2,3) e by (intro exI [of _ "r @ [last l]"]) auto
  qed
qed

lemma delete_binlog_map_set_split:
  "delete_binlog_map_set op key l = Some l' \<Longrightarrow>
    \<exists>A i B. l = A @ i # B \<and> l' = A @ B \<and> m_op_code i = op \<and> m_op_para1 i = key"
proof (induction l arbitrary: l')
  case (Cons i l)
  show ?case
  proof (cases "m_op_code i = op \<and> m_op_para1 i = key")
    case True
    then show ?thesis
      using Cons.prems by (intro exI [of _ "[]"]) auto
  next
    case False
    then obtain k where "delete_binlog_map_set op key l = Some k" "l' = i # k"
      using Cons.prems by auto
    then show ?thesis
      using Cons.IH by (metis append_Cons)
  qed
qed simp

lemma delete_binlog_map_set_None:
  "delete_binlog_map_set op key l = None \<longleftrightarrow>
    (\<forall>j \<in> set l. \<not> (m_op_code j = op \<and> m_op_para1 j = key))"
  by (induction l) auto

end
