(* ===== verification/XAccountCmd.thy ===== *)
theory XAccountCmd
  imports XDataUnit XErrors XPropertyLog
begin

text \<open>
  \<open>xstore/xaccount_cmd.h\<close> and \<open>.cpp\<close>: user properties of one account.  Objects are cloned
  from the store on first use into \<open>m_clone_objs\<close> (a null pointer marks a deleted property),
  operations change the clone and record an instruction in \<open>m_proplogs\<close>, and
  \<open>do_property_log\<close> replays recorded instructions; it passes the name of a property on as \<open>const char *\<close>, so a
  name ends at its first zero byte there.  The account's property hashes and the
  store's \<open>clone_property\<close> are the parameter record \<open>xprop_source\<close>.
\<close>

section \<open>State\<close>

record xprop_source =
  has_property_hash :: "string \<Rightarrow> bool"
  clone_property :: "string \<Rightarrow> xdataunit option"

record xaccount_cmd =
  m_clone_objs :: "(string, xdataunit option) omap"
  m_proplogs :: xaccount_binlog

definition cmd_new :: "u64 \<Rightarrow> xaccount_cmd" where
  "cmd_new chain_height =
     \<lparr>m_clone_objs = [], m_proplogs = \<lparr>m_unit_height = chain_height + 1, m_property_logs = []\<rparr>\<rparr>"

definition put_obj :: "string \<Rightarrow> xdataunit option \<Rightarrow> xaccount_cmd \<Rightarrow> xaccount_cmd" where
  "put_obj n u c = c\<lparr>m_clone_objs := om_set n u (m_clone_objs c)\<rparr>"

definition log_add :: "string \<Rightarrow> xproperty_instruction \<Rightarrow> xaccount_cmd \<Rightarrow> xaccount_cmd" where
  "log_add n i c = c\<lparr>m_proplogs := add_instruction n i (m_proplogs c)\<rparr>"


section \<open>Access\<close>

definition get_property :: "xprop_source \<Rightarrow> string \<Rightarrow> xaccount_cmd
    \<Rightarrow> (xret + xdataunit) \<times> xaccount_cmd" where
  "get_property S n c =
     (case om_find (m_clone_objs c) n of
        Some (Some u) \<Rightarrow> (Inr u, c)
      | Some None \<Rightarrow> (Inl (EStore xaccount_property_has_already_delete), c)
      | None \<Rightarrow>
          if has_property_hash S n then
            (case clone_property S n of
               None \<Rightarrow> (Inl (EStore xaccount_property_behind_not_exist), c)
             | Some u \<Rightarrow> (Inr u, put_obj n (Some u) c))
          else (Inl (EStore xaccount_property_not_create), c))"

definition get_property_with_type :: "(xdataunit \<Rightarrow> 'x option) \<Rightarrow> xprop_source \<Rightarrow> string \<Rightarrow> xaccount_cmd
    \<Rightarrow> (xret + 'x) \<times> xaccount_cmd" where
  "get_property_with_type as S n c =
     (case get_property S n c of
        (Inl e, c') \<Rightarrow> (Inl e, c')
      | (Inr u, c') \<Rightarrow>
          (case as u of
             None \<Rightarrow> (Inl (EStore xaccount_property_operate_type_unmatch), c')
           | Some x \<Rightarrow> (Inr x, c')))"

text \<open>The macro \<open>CLONE_PROPERTY\<close>: return the error, or go on with the typed object.\<close>

definition clone_then :: "(xdataunit \<Rightarrow> 'x option) \<Rightarrow> xprop_source \<Rightarrow> string \<Rightarrow> xaccount_cmd
    \<Rightarrow> ('x \<Rightarrow> xaccount_cmd \<Rightarrow> xret \<times> xaccount_cmd) \<Rightarrow> xret \<times> xaccount_cmd" where
  "clone_then as S n c k =
     (case get_property_with_type as S n c of
        (Inl e, c') \<Rightarrow> (e, c')
      | (Inr x, c') \<Rightarrow> k x c')"

datatype obj_type = TString | TDeque | TMap

fun make_object :: "obj_type \<Rightarrow> xdataunit" where
  "make_object TString = XString []"
| "make_object TDeque = XDeque []"
| "make_object TMap = XMap []"

definition make_property :: "string \<Rightarrow> obj_type \<Rightarrow> xaccount_cmd \<Rightarrow> xaccount_cmd" where
  "make_property n t c = put_obj n (Some (make_object t)) c"

definition create_property :: "xprop_source \<Rightarrow> string \<Rightarrow> obj_type \<Rightarrow> xaccount_cmd
    \<Rightarrow> xret \<times> xaccount_cmd" where
  "create_property S n t c =
     (case get_property S n c of
        (Inr u, c') \<Rightarrow> (EStore xaccount_property_has_already_create, c')
      | (Inl e, c') \<Rightarrow>
          if e \<noteq> EStore xaccount_property_not_create
          then (EStore xaccount_property_has_already_create, c')
          else (xsuccess, make_property n t c'))"

definition delete_property :: "xprop_source \<Rightarrow> string \<Rightarrow> bool \<Rightarrow> xaccount_cmd \<Rightarrow> xret \<times> xaccount_cmd" where
  "delete_property S n add_flag c =
     (case get_property S n c of
        (r, c') \<Rightarrow>
          if r = Inl (EStore xaccount_property_has_already_delete)
          then (EStore xaccount_property_has_already_delete, c')
          else if r = Inl (EStore xaccount_property_not_create)
          then (EStore xaccount_property_not_create, c')
          else
            let c'' = put_obj n None c'
            in (xsuccess,
                if add_flag then log_add n (instr xproperty_cmd_type_delete [] []) c'' else c''))"


section \<open>Object level operations\<close>

definition string_set_obj :: "string \<Rightarrow> xstring_t \<Rightarrow> xret \<times> xstring_t" where
  "string_set_obj v s =
     (if v \<noteq> fst (xstring_get s) then (xsuccess, xstring_set v s)
      else (EStore xaccount_property_set_value_same, s))"

definition list_push_back_obj :: "string \<Rightarrow> xstrdeque_t \<Rightarrow> xret \<times> xstrdeque_t" where
  "list_push_back_obj v q = (xsuccess, xdeque_push_back v q)"

definition list_push_front_obj :: "string \<Rightarrow> xstrdeque_t \<Rightarrow> xret \<times> xstrdeque_t" where
  "list_push_front_obj v q = (xsuccess, xdeque_push_front v q)"

definition list_pop_back_obj :: "xstrdeque_t \<Rightarrow> xret \<times> xstrdeque_t" where
  "list_pop_back_obj q =
     (case xdeque_pop_back q of
        Some (v, q') \<Rightarrow> (xsuccess, q')
      | None \<Rightarrow> (EStore xaccount_property_operate_fail, q))"

definition list_pop_front_obj :: "xstrdeque_t \<Rightarrow> xret \<times> xstrdeque_t" where
  "list_pop_front_obj q =
     (case xdeque_pop_front q of
        Some (v, q') \<Rightarrow> (xsuccess, q')
      | None \<Rightarrow> (EStore xaccount_property_operate_fail, q))"

definition list_clear_obj :: "xstrdeque_t \<Rightarrow> xret \<times> xstrdeque_t" where
  "list_clear_obj q = (xsuccess, xdeque_clear q)"

definition map_set_obj :: "string \<Rightarrow> string \<Rightarrow> xstrmap_t \<Rightarrow> xret \<times> xstrmap_t" where
  "map_set_obj k v m = (xsuccess, xmap_set k v m)"

definition map_remove_obj :: "string \<Rightarrow> xstrmap_t \<Rightarrow> xret \<times> xstrmap_t" where
  "map_remove_obj k m =
     (case xmap_remove k m of
        Some m' \<Rightarrow> (xsuccess, m')
      | None \<Rightarrow> (EStore xaccount_property_operate_fail, m))"

definition map_clear_obj :: "xstrmap_t \<Rightarrow> xret \<times> xstrmap_t" where
  "map_clear_obj m = (xsuccess, xmap_clear m)"

lemmas obj_op_defs =
  string_set_obj_def list_push_back_obj_def list_push_front_obj_def list_pop_back_obj_def
  list_pop_front_obj_def list_clear_obj_def map_set_obj_def map_remove_obj_def map_clear_obj_def


section \<open>Operations by property name\<close>

definition string_create :: "xprop_source \<Rightarrow> string \<Rightarrow> bool \<Rightarrow> xaccount_cmd \<Rightarrow> xret \<times> xaccount_cmd" where
  "string_create S n add_flag c =
     (case create_property S n TString c of
        (r, c') \<Rightarrow> (r, if add_flag \<and> r = xsuccess
                      then log_add n (instr xproperty_cmd_type_string_create [] []) c' else c'))"

definition list_create :: "xprop_source \<Rightarrow> string \<Rightarrow> bool \<Rightarrow> xaccount_cmd \<Rightarrow> xret \<times> xaccount_cmd" where
  "list_create S n add_flag c =
     (case create_property S n TDeque c of
        (r, c') \<Rightarrow> (r, if add_flag \<and> r = xsuccess
                      then log_add n (instr xproperty_cmd_type_list_create [] []) c' else c'))"

definition map_create :: "xprop_source \<Rightarrow> string \<Rightarrow> bool \<Rightarrow> xaccount_cmd \<Rightarrow> xret \<times> xaccount_cmd" where
  "map_create S n add_flag c =
     (case create_property S n TMap c of
        (r, c') \<Rightarrow> (r, if add_flag \<and> r = xsuccess
                      then log_add n (instr xproperty_cmd_type_map_create [] []) c' else c'))"

text \<open>The shared tail: store the changed object, record the instruction on success.\<close>

definition finish :: "string \<Rightarrow> bool \<Rightarrow> xproperty_instruction \<Rightarrow> xret \<Rightarrow> xdataunit \<Rightarrow> xaccount_cmd
    \<Rightarrow> xaccount_cmd" where
  "finish n add_flag i r u c =
     (let c' = put_obj n (Some u) c in if r = xsuccess \<and> add_flag then log_add n i c' else c')"

definition string_set :: "xprop_source \<Rightarrow> string \<Rightarrow> string \<Rightarrow> bool \<Rightarrow> xaccount_cmd \<Rightarrow> xret \<times> xaccount_cmd" where
  "string_set S n v add_flag c =
     clone_then as_string S n c (\<lambda>s c'.
       let (r, s') = string_set_obj v s
       in (xsuccess, finish n add_flag (instr xproperty_cmd_type_string_set v []) r (XString s') c'))"

definition list_push_back :: "xprop_source \<Rightarrow> string \<Rightarrow> string \<Rightarrow> bool \<Rightarrow> xaccount_cmd \<Rightarrow> xret \<times> xaccount_cmd" where
  "list_push_back S n v add_flag c =
     clone_then as_deque S n c (\<lambda>q c'.
       let (r, q') = list_push_back_obj v q
       in (r, finish n add_flag (instr xproperty_cmd_type_list_push_back v []) r (XDeque q') c'))"

definition list_push_front :: "xprop_source \<Rightarrow> string \<Rightarrow> string \<Rightarrow> bool \<Rightarrow> xaccount_cmd \<Rightarrow> xret \<times> xaccount_cmd" where
  "list_push_front S n v add_flag c =
     clone_then as_deque S n c (\<lambda>q c'.
       let (r, q') = list_push_front_obj v q
       in (r, finish n add_flag (instr xproperty_cmd_type_list_push_front v []) r (XDeque q') c'))"

definition list_pop_back :: "xprop_source \<Rightarrow> string \<Rightarrow> bool \<Rightarrow> xaccount_cmd \<Rightarrow> xret \<times> xaccount_cmd" where
  "list_pop_back S n add_flag c =
     clone_then as_deque S n c (\<lambda>q c'.
       let (r, q') = list_pop_back_obj q
       in (r, finish n add_flag (instr xproperty_cmd_type_list_pop_back [] []) r (XDeque q') c'))"

text \<open>The recorded parameter of \<open>pop_front\<close> is the popped value.\<close>

definition list_pop_front :: "xprop_source \<Rightarrow> string \<Rightarrow> bool \<Rightarrow> xaccount_cmd \<Rightarrow> xret \<times> xaccount_cmd" where
  "list_pop_front S n add_flag c =
     clone_then as_deque S n c (\<lambda>q c'.
       let (r, q') = list_pop_front_obj q;
           v = (case xdeque_pop_front q of Some (x, _) \<Rightarrow> x | None \<Rightarrow> [])
       in (r, finish n add_flag (instr xproperty_cmd_type_list_pop_front v []) r (XDeque q') c'))"

definition list_clear :: "xprop_source \<Rightarrow> string \<Rightarrow> bool \<Rightarrow> xaccount_cmd \<Rightarrow> xret \<times> xaccount_cmd" where
  "list_clear S n add_flag c =
     clone_then as_deque S n c (\<lambda>q c'.
       let (r, q') = list_clear_obj q
       in (r, finish n add_flag (instr xproperty_cmd_type_list_clear [] []) r (XDeque q') c'))"

definition map_set :: "xprop_source \<Rightarrow> string \<Rightarrow> string \<Rightarrow> string \<Rightarrow> bool \<Rightarrow> xaccount_cmd
    \<Rightarrow> xret \<times> xaccount_cmd" where
  "map_set S n k v add_flag c =
     clone_then as_map S n c (\<lambda>m c'.
       (xsuccess, finish n add_flag (instr xproperty_cmd_type_map_set k v) xsuccess
                    (XMap (xmap_set k v m)) c'))"

definition map_remove :: "xprop_source \<Rightarrow> string \<Rightarrow> string \<Rightarrow> bool \<Rightarrow> xaccount_cmd \<Rightarrow> xret \<times> xaccount_cmd" where
  "map_remove S n k add_flag c =
     clone_then as_map S n c (\<lambda>m c'.
       let (r, m') = map_remove_obj k m
       in (r, finish n add_flag (instr xproperty_cmd_type_map_remove k []) r (XMap m') c'))"

definition map_clear :: "xprop_source \<Rightarrow> string \<Rightarrow> bool \<Rightarrow> xaccount_cmd \<Rightarrow> xret \<times> xaccount_cmd" where
  "map_clear S n add_flag c =
     clone_then as_map S n c (\<lambda>m c'.
       let (r, m') = map_clear_obj m
       in (xsuccess, finish n add_flag (instr xproperty_cmd_type_map_clear [] []) r (XMap m') c'))"

lemmas name_op_defs =
  string_create_def list_create_def map_create_def string_set_def list_push_back_def
  list_push_front_def list_pop_back_def list_pop_front_def list_clear_def map_set_def
  map_remove_def map_clear_def delete_property_def


section \<open>Queries by property name\<close>

text \<open>A query returns the error or the value; the only state change is the cached clone.\<close>

definition query :: "(xdataunit \<Rightarrow> 'x option) \<Rightarrow> ('x \<Rightarrow> xret + 'y) \<Rightarrow> xprop_source \<Rightarrow> string
    \<Rightarrow> xaccount_cmd \<Rightarrow> (xret + 'y) \<times> xaccount_cmd" where
  "query as f S n c =
     (case get_property_with_type as S n c of
        (Inl e, c') \<Rightarrow> (Inl e, c')
      | (Inr x, c') \<Rightarrow> (f x, c'))"

definition or_fail :: "xstore_error \<Rightarrow> 'y option \<Rightarrow> xret + 'y" where
  "or_fail e r = (case r of Some v \<Rightarrow> Inr v | None \<Rightarrow> Inl (EStore e))"

definition cmd_string_get :: "xprop_source \<Rightarrow> string \<Rightarrow> xaccount_cmd \<Rightarrow> (xret + string) \<times> xaccount_cmd" where
  "cmd_string_get = query as_string (\<lambda>s. Inr s)"

definition cmd_string_empty :: "xprop_source \<Rightarrow> string \<Rightarrow> xaccount_cmd \<Rightarrow> (xret + bool) \<times> xaccount_cmd" where
  "cmd_string_empty = query as_string (\<lambda>s. Inr (s = []))"

definition cmd_string_size :: "xprop_source \<Rightarrow> string \<Rightarrow> xaccount_cmd \<Rightarrow> (xret + i32) \<times> xaccount_cmd" where
  "cmd_string_size = query as_string (\<lambda>s. Inr (of_nat (length s)))"

definition cmd_list_get_back :: "xprop_source \<Rightarrow> string \<Rightarrow> xaccount_cmd \<Rightarrow> (xret + string) \<times> xaccount_cmd" where
  "cmd_list_get_back = query as_deque (\<lambda>q. or_fail xaccount_property_operate_fail (xdeque_get_back q))"

definition cmd_list_get_front :: "xprop_source \<Rightarrow> string \<Rightarrow> xaccount_cmd \<Rightarrow> (xret + string) \<times> xaccount_cmd" where
  "cmd_list_get_front = query as_deque (\<lambda>q. or_fail xaccount_property_operate_fail (xdeque_get_front q))"

definition cmd_list_get :: "u32 \<Rightarrow> xprop_source \<Rightarrow> string \<Rightarrow> xaccount_cmd \<Rightarrow> (xret + string) \<times> xaccount_cmd" where
  "cmd_list_get i = query as_deque (\<lambda>q. or_fail xaccount_property_operate_fail (xdeque_get (unat i) q))"

definition cmd_list_empty :: "xprop_source \<Rightarrow> string \<Rightarrow> xaccount_cmd \<Rightarrow> (xret + bool) \<times> xaccount_cmd" where
  "cmd_list_empty = query as_deque (\<lambda>q. Inr (q = []))"

definition cmd_list_size :: "xprop_source \<Rightarrow> string \<Rightarrow> xaccount_cmd \<Rightarrow> (xret + i32) \<times> xaccount_cmd" where
  "cmd_list_size = query as_deque (\<lambda>q. Inr (of_nat (length q)))"

text \<open>The index runs as an \<open>int32_t\<close> and is passed as a \<open>uint32_t\<close>; an index that is out of
  range leaves the freshly made empty string.\<close>

definition deque_at :: "xstrdeque_t \<Rightarrow> int \<Rightarrow> string" where
  "deque_at q i = (case xdeque_get (unat (of_int i :: u32)) q of Some v \<Rightarrow> v | None \<Rightarrow> [])"

definition cmd_list_get_range :: "i32 \<Rightarrow> i32 \<Rightarrow> xprop_source \<Rightarrow> string \<Rightarrow> xaccount_cmd
    \<Rightarrow> (xret + string list) \<times> xaccount_cmd" where
  "cmd_list_get_range start stop =
     query as_deque (\<lambda>q.
       let size = sint (of_nat (length q) :: i32);
           stop' = (if sint stop > size then size else sint stop)
       in Inr (map (deque_at q) [sint start..stop' - 1]))"

definition cmd_list_get_all :: "xprop_source \<Rightarrow> string \<Rightarrow> xaccount_cmd \<Rightarrow> (xret + string list) \<times> xaccount_cmd" where
  "cmd_list_get_all =
     query as_deque (\<lambda>q. Inr (map (deque_at q) [0..sint (of_nat (length q) :: i32) - 1]))"

definition cmd_list_copy_get :: "xprop_source \<Rightarrow> string \<Rightarrow> xaccount_cmd \<Rightarrow> (xret + xstrdeque_t) \<times> xaccount_cmd" where
  "cmd_list_copy_get = query as_deque Inr"

definition cmd_map_get :: "string \<Rightarrow> xprop_source \<Rightarrow> string \<Rightarrow> xaccount_cmd \<Rightarrow> (xret + string) \<times> xaccount_cmd" where
  "cmd_map_get field = query as_map (\<lambda>m. or_fail xaccount_property_map_field_not_create (xmap_get field m))"

definition cmd_map_empty :: "xprop_source \<Rightarrow> string \<Rightarrow> xaccount_cmd \<Rightarrow> (xret + bool) \<times> xaccount_cmd" where
  "cmd_map_empty = query as_map (\<lambda>m. Inr (m = []))"

definition cmd_map_size :: "xprop_source \<Rightarrow> string \<Rightarrow> xaccount_cmd \<Rightarrow> (xret + i32) \<times> xaccount_cmd" where
  "cmd_map_size = query as_map (\<lambda>m. Inr (of_nat (length m)))"

definition cmd_map_copy_get :: "xprop_source \<Rightarrow> string \<Rightarrow> xaccount_cmd \<Rightarrow> (xret + xstrmap_t) \<times> xaccount_cmd" where
  "cmd_map_copy_get = query as_map Inr"


section \<open>Executing and replaying instructions\<close>

definition restore_log_instruction :: "xprop_source \<Rightarrow> string \<Rightarrow> xproperty_instruction \<Rightarrow> xaccount_cmd
    \<Rightarrow> xret \<times> xaccount_cmd" where
  "restore_log_instruction S n i c =
     (case m_op_code i of
        xproperty_cmd_type_string_create \<Rightarrow> (xsuccess, make_property n TString c)
      | xproperty_cmd_type_list_create \<Rightarrow> (xsuccess, make_property n TDeque c)
      | xproperty_cmd_type_map_create \<Rightarrow> (xsuccess, make_property n TMap c)
      | xproperty_cmd_type_delete \<Rightarrow> delete_property S n False c
      | xproperty_cmd_type_string_set \<Rightarrow> string_set S n (m_op_para1 i) False c
      | xproperty_cmd_type_list_push_back \<Rightarrow> list_push_back S n (m_op_para1 i) False c
      | xproperty_cmd_type_list_push_front \<Rightarrow> list_push_front S n (m_op_para1 i) False c
      | xproperty_cmd_type_list_pop_back \<Rightarrow> list_pop_back S n False c
      | xproperty_cmd_type_list_pop_front \<Rightarrow> list_pop_front S n False c
      | xproperty_cmd_type_list_clear \<Rightarrow> list_clear S n False c
      | xproperty_cmd_type_map_set \<Rightarrow> map_set S n (m_op_para1 i) (m_op_para2 i) False c
      | xproperty_cmd_type_map_remove \<Rightarrow> map_remove S n (m_op_para1 i) False c
      | xproperty_cmd_type_map_clear \<Rightarrow> map_clear S n False c
      | _ \<Rightarrow> (EStore xaccount_property_cmd_invalid, c))"

definition do_instruction :: "xprop_source \<Rightarrow> string \<Rightarrow> xproperty_instruction \<Rightarrow> bool \<Rightarrow> xaccount_cmd
    \<Rightarrow> xret \<times> xaccount_cmd" where
  "do_instruction S n i add_flag c =
     (case m_op_code i of
        xproperty_cmd_type_string_create \<Rightarrow> string_create S n add_flag c
      | xproperty_cmd_type_list_create \<Rightarrow> list_create S n add_flag c
      | xproperty_cmd_type_map_create \<Rightarrow> map_create S n add_flag c
      | xproperty_cmd_type_delete \<Rightarrow> delete_property S n add_flag c
      | xproperty_cmd_type_string_set \<Rightarrow> string_set S n (m_op_para1 i) add_flag c
      | xproperty_cmd_type_list_push_back \<Rightarrow> list_push_back S n (m_op_para1 i) add_flag c
      | xproperty_cmd_type_list_push_front \<Rightarrow> list_push_front S n (m_op_para1 i) add_flag c
      | xproperty_cmd_type_list_pop_back \<Rightarrow> list_pop_back S n add_flag c
      | xproperty_cmd_type_list_pop_front \<Rightarrow> list_pop_front S n add_flag c
      | xproperty_cmd_type_list_clear \<Rightarrow> list_clear S n add_flag c
      | xproperty_cmd_type_map_set \<Rightarrow> map_set S n (m_op_para1 i) (m_op_para2 i) add_flag c
      | xproperty_cmd_type_map_remove \<Rightarrow> map_remove S n (m_op_para1 i) add_flag c
      | xproperty_cmd_type_map_clear \<Rightarrow> map_clear S n add_flag c
      | _ \<Rightarrow> (EStore xaccount_property_cmd_invalid, c))"

text \<open>Replay on an object pointer; \<open>None\<close> is the dereference of a null pointer that the cast
  of a missing object or of an object of another type gives.\<close>

definition on_obj :: "(xdataunit \<Rightarrow> 'x option) \<Rightarrow> ('x \<Rightarrow> xdataunit) \<Rightarrow> ('x \<Rightarrow> xret \<times> 'x) \<Rightarrow> xdataunit option
    \<Rightarrow> (xret \<times> xdataunit option) option" where
  "on_obj as mk f obj =
     do { u \<leftarrow> obj; x \<leftarrow> as u; Some (let (r, x') = f x in (r, Some (mk x'))) }"

definition restore_obj_instruction :: "xproperty_instruction \<Rightarrow> xdataunit option
    \<Rightarrow> (xret \<times> xdataunit option) option" where
  "restore_obj_instruction i obj =
     (case m_op_code i of
        xproperty_cmd_type_string_create \<Rightarrow> Some (xsuccess, Some (make_object TString))
      | xproperty_cmd_type_list_create \<Rightarrow> Some (xsuccess, Some (make_object TDeque))
      | xproperty_cmd_type_map_create \<Rightarrow> Some (xsuccess, Some (make_object TMap))
      | xproperty_cmd_type_delete \<Rightarrow> Some (xsuccess, None)
      | xproperty_cmd_type_string_set \<Rightarrow> on_obj as_string XString (string_set_obj (m_op_para1 i)) obj
      | xproperty_cmd_type_list_push_back \<Rightarrow> on_obj as_deque XDeque (list_push_back_obj (m_op_para1 i)) obj
      | xproperty_cmd_type_list_push_front \<Rightarrow> on_obj as_deque XDeque (list_push_front_obj (m_op_para1 i)) obj
      | xproperty_cmd_type_list_pop_back \<Rightarrow> on_obj as_deque XDeque list_pop_back_obj obj
      | xproperty_cmd_type_list_pop_front \<Rightarrow> on_obj as_deque XDeque list_pop_front_obj obj
      | xproperty_cmd_type_list_clear \<Rightarrow> on_obj as_deque XDeque list_clear_obj obj
      | xproperty_cmd_type_map_set \<Rightarrow> on_obj as_map XMap (map_set_obj (m_op_para1 i) (m_op_para2 i)) obj
      | xproperty_cmd_type_map_remove \<Rightarrow> on_obj as_map XMap (map_remove_obj (m_op_para1 i)) obj
      | xproperty_cmd_type_map_clear \<Rightarrow> on_obj as_map XMap map_clear_obj obj
      | _ \<Rightarrow> Some (EStore xaccount_property_cmd_invalid, obj))"

fun restore_instructions :: "xprop_source \<Rightarrow> string \<Rightarrow> binlog \<Rightarrow> xaccount_cmd \<Rightarrow> xret \<times> xaccount_cmd" where
  "restore_instructions S n [] c = (xsuccess, c)"
| "restore_instructions S n (i # is) c =
     (case restore_log_instruction S n i c of
        (r, c') \<Rightarrow> if r \<noteq> xsuccess then (r, c') else restore_instructions S n is c')"

text \<open>The name of a property reaches the replay as \<open>const char *\<close>.\<close>

fun do_property_logs :: "xprop_source \<Rightarrow> (string, binlog) omap \<Rightarrow> xaccount_cmd \<Rightarrow> xret \<times> xaccount_cmd" where
  "do_property_logs S [] c = (xsuccess, c)"
| "do_property_logs S ((n, is) # logs) c =
     (case restore_instructions S (c_str n) is c of
        (r, c') \<Rightarrow> if r \<noteq> xsuccess then (r, c') else do_property_logs S logs c')"

definition do_property_log :: "xprop_source \<Rightarrow> xaccount_binlog \<Rightarrow> xaccount_cmd \<Rightarrow> xret \<times> xaccount_cmd" where
  "do_property_log S log c = do_property_logs S (m_property_logs log) c"

definition get_change_property :: "xaccount_cmd \<Rightarrow> (string, xdataunit option) omap" where
  "get_change_property c =
     filter (\<lambda>p. is_property_changed (fst p) (m_proplogs c)) (m_clone_objs c)"

definition get_property_log :: "xaccount_cmd \<Rightarrow> xaccount_binlog option" where
  "get_property_log c = (if get_property_size (m_proplogs c) = 0 then None else Some (m_proplogs c))"

text \<open>The hash of a data unit is computed outside the sources: the parameter \<open>hash\<close>.\<close>

definition get_property_hashes :: "(xdataunit option \<Rightarrow> string) \<Rightarrow> xaccount_cmd \<Rightarrow> (string, string) omap" where
  "get_property_hashes hash c =
     fold (\<lambda>(n, u). om_set n (hash u)) (get_change_property c) []"


section \<open>The value of a property\<close>

text \<open>What a caller sees of a property: the object, or the error that explains its absence.
  Every operation acts on this value alone.\<close>

type_synonym pval = "xret + xdataunit"

definition cmd_val :: "xprop_source \<Rightarrow> xaccount_cmd \<Rightarrow> string \<Rightarrow> pval" where
  "cmd_val S c n = fst (get_property S n c)"

abbreviation "deleted \<equiv> EStore xaccount_property_has_already_delete"
abbreviation "not_created \<equiv> EStore xaccount_property_not_create"

definition val_typed :: "(xdataunit \<Rightarrow> 'x option) \<Rightarrow> ('x \<Rightarrow> xdataunit) \<Rightarrow> ('x \<Rightarrow> xret \<times> 'x) \<Rightarrow> pval \<Rightarrow> xret \<times> pval" where
  "val_typed as mk f v =
     (case v of
        Inl e \<Rightarrow> (e, v)
      | Inr u \<Rightarrow>
          (case as u of
             None \<Rightarrow> (EStore xaccount_property_operate_type_unmatch, v)
           | Some x \<Rightarrow> (fst (f x), Inr (mk (snd (f x))))))"

definition val_step :: "xproperty_instruction \<Rightarrow> pval \<Rightarrow> xret \<times> pval" where
  "val_step i v =
     (case m_op_code i of
        xproperty_cmd_type_string_create \<Rightarrow> (xsuccess, Inr (XString []))
      | xproperty_cmd_type_list_create \<Rightarrow> (xsuccess, Inr (XDeque []))
      | xproperty_cmd_type_map_create \<Rightarrow> (xsuccess, Inr (XMap []))
      | xproperty_cmd_type_delete \<Rightarrow>
          if v = Inl deleted then (deleted, v)
          else if v = Inl not_created then (not_created, v)
          else (xsuccess, Inl deleted)
      | xproperty_cmd_type_string_set \<Rightarrow>
          val_typed as_string XString (\<lambda>s. (xsuccess, snd (string_set_obj (m_op_para1 i) s))) v
      | xproperty_cmd_type_list_push_back \<Rightarrow> val_typed as_deque XDeque (list_push_back_obj (m_op_para1 i)) v
      | xproperty_cmd_type_list_push_front \<Rightarrow> val_typed as_deque XDeque (list_push_front_obj (m_op_para1 i)) v
      | xproperty_cmd_type_list_pop_back \<Rightarrow> val_typed as_deque XDeque list_pop_back_obj v
      | xproperty_cmd_type_list_pop_front \<Rightarrow> val_typed as_deque XDeque list_pop_front_obj v
      | xproperty_cmd_type_list_clear \<Rightarrow> val_typed as_deque XDeque list_clear_obj v
      | xproperty_cmd_type_map_set \<Rightarrow> val_typed as_map XMap (map_set_obj (m_op_para1 i) (m_op_para2 i)) v
      | xproperty_cmd_type_map_remove \<Rightarrow> val_typed as_map XMap (map_remove_obj (m_op_para1 i)) v
      | xproperty_cmd_type_map_clear \<Rightarrow> val_typed as_map XMap map_clear_obj v
      | _ \<Rightarrow> (EStore xaccount_property_cmd_invalid, v))"

lemma get_property_val:
  assumes "get_property S n c = (v, c')"
  shows "v = cmd_val S c n" "cmd_val S c' m = cmd_val S c m" "m_proplogs c' = m_proplogs c"
  using assms by (auto simp: cmd_val_def get_property_def put_obj_def split: option.splits if_splits)

lemma cmd_val_put_obj [simp]:
  "cmd_val S (put_obj n u c) m =
    (if m = n then (case u of Some x \<Rightarrow> Inr x | None \<Rightarrow> Inl deleted) else cmd_val S c m)"
  by (auto simp: cmd_val_def get_property_def put_obj_def split: option.splits)

lemma cmd_val_log_add [simp]: "cmd_val S (log_add n i c) m = cmd_val S c m"
  by (auto simp: cmd_val_def get_property_def log_add_def put_obj_def split: option.splits)

lemma proplogs_put_obj [simp]: "m_proplogs (put_obj n u c) = m_proplogs c"
  by (simp add: put_obj_def)

lemma proplogs_log_add [simp]: "m_proplogs (log_add n i c) = add_instruction n i (m_proplogs c)"
  by (simp add: log_add_def)

definition typed :: "(xdataunit \<Rightarrow> 'x option) \<Rightarrow> pval \<Rightarrow> 'x option" where
  "typed as v = (case v of Inl _ \<Rightarrow> None | Inr u \<Rightarrow> as u)"

lemma clone_then_val:
  assumes "clone_then as S n c (\<lambda>x c'. (R x, finish n flag (I x) (r x) (mk (g x)) c')) = (ret, c2)"
  shows "val_typed as mk (\<lambda>x. (R x, g x)) (cmd_val S c n) = (ret, cmd_val S c2 n)"
    and "m \<noteq> n \<Longrightarrow> cmd_val S c2 m = cmd_val S c m"
    and "m_proplogs c2 =
      (case typed as (cmd_val S c n) of
         None \<Rightarrow> m_proplogs c
       | Some x \<Rightarrow> if flag \<and> r x = xsuccess then add_instruction n (I x) (m_proplogs c) else m_proplogs c)"
proof -
  obtain v c1 where g: "get_property S n c = (v, c1)"
    by (cases "get_property S n c")
  note p = get_property_val [OF g]
  show "val_typed as mk (\<lambda>x. (R x, g x)) (cmd_val S c n) = (ret, cmd_val S c2 n)"
    and "m \<noteq> n \<Longrightarrow> cmd_val S c2 m = cmd_val S c m"
    and "m_proplogs c2 =
      (case typed as (cmd_val S c n) of
         None \<Rightarrow> m_proplogs c
       | Some x \<Rightarrow> if flag \<and> r x = xsuccess then add_instruction n (I x) (m_proplogs c) else m_proplogs c)"
    using assms p
    by (auto simp: clone_then_def get_property_with_type_def g val_typed_def finish_def Let_def typed_def
        split: sum.splits option.splits if_splits)
qed

text \<open>What an operation does: its effect on the value of the property, no effect on others, and
  the recorded instruction.  \<open>cmd_effect S n c flag f I l res\<close>: the value moves by \<open>f\<close>, and if
  \<open>I\<close> of the old value is an instruction and the flag is set, it is appended to the log.\<close>

definition cmd_effect :: "xprop_source \<Rightarrow> string \<Rightarrow> bool \<Rightarrow> (pval \<Rightarrow> xret \<times> pval)
    \<Rightarrow> (pval \<Rightarrow> xproperty_instruction option) \<Rightarrow> xaccount_cmd \<Rightarrow> xret \<times> xaccount_cmd \<Rightarrow> bool" where
  "cmd_effect S n flag f I c res \<longleftrightarrow>
     (case res of (r, c') \<Rightarrow>
        f (cmd_val S c n) = (r, cmd_val S c' n) \<and>
        (\<forall>m. m \<noteq> n \<longrightarrow> cmd_val S c' m = cmd_val S c m) \<and>
        m_proplogs c' =
          (case I (cmd_val S c n) of
             None \<Rightarrow> m_proplogs c
           | Some i \<Rightarrow> if flag then add_instruction n i (m_proplogs c) else m_proplogs c))"

definition log_typed :: "(xdataunit \<Rightarrow> 'x option) \<Rightarrow> ('x \<Rightarrow> bool) \<Rightarrow> ('x \<Rightarrow> xproperty_instruction)
    \<Rightarrow> pval \<Rightarrow> xproperty_instruction option" where
  "log_typed as p I v = (case typed as v of None \<Rightarrow> None | Some x \<Rightarrow> if p x then Some (I x) else None)"

lemma clone_then_effect:
  "cmd_effect S n flag (val_typed as mk (\<lambda>x. (R x, g x))) (log_typed as (\<lambda>x. r x = xsuccess) I) c
     (clone_then as S n c (\<lambda>x c'. (R x, finish n flag (I x) (r x) (mk (g x)) c')))"
proof -
  obtain ret c2 where e: "clone_then as S n c (\<lambda>x c'. (R x, finish n flag (I x) (r x) (mk (g x)) c')) = (ret, c2)"
    by (cases "clone_then as S n c (\<lambda>x c'. (R x, finish n flag (I x) (r x) (mk (g x)) c'))")
  show ?thesis
    unfolding e using clone_then_val [where mk = mk and g = g, OF e]
    by (auto simp: cmd_effect_def log_typed_def split: option.splits)
qed

definition val_create :: "obj_type \<Rightarrow> pval \<Rightarrow> xret \<times> pval" where
  "val_create t v =
     (if v = Inl not_created then (xsuccess, Inr (make_object t))
      else (EStore xaccount_property_has_already_create, v))"

lemma create_effect:
  assumes "create_property S n t c = (r, c1)"
  shows "cmd_effect S n flag (val_create t) (\<lambda>v. if v = Inl not_created then Some i else None) c
    (r, if flag \<and> r = xsuccess then log_add n i c1 else c1)"
proof -
  obtain v c0 where g: "get_property S n c = (v, c0)"
    by (cases "get_property S n c")
  show ?thesis
    using assms get_property_val [OF g]
    by (auto simp: create_property_def g make_property_def cmd_effect_def val_create_def
        split: sum.splits if_splits)
qed

lemma delete_effect:
  "cmd_effect S n flag (val_step (instr xproperty_cmd_type_delete [] []))
    (\<lambda>v. if v = Inl deleted \<or> v = Inl not_created then None
          else Some (instr xproperty_cmd_type_delete [] [])) c (delete_property S n flag c)"
proof -
  obtain v c0 where g: "get_property S n c = (v, c0)"
    by (cases "get_property S n c")
  show ?thesis
    using get_property_val [OF g]
    by (auto simp: delete_property_def g cmd_effect_def val_step_def instr_def Let_def)
qed

definition logged :: "('x \<Rightarrow> xret \<times> 'x) \<Rightarrow> 'x \<Rightarrow> bool" where
  "logged f x \<longleftrightarrow> fst (f x) = xsuccess"

text \<open>Value change and recorded instruction of \<open>do_instruction\<close>.\<close>

definition do_val :: "xproperty_instruction \<Rightarrow> pval \<Rightarrow> xret \<times> pval" where
  "do_val i v =
     (case m_op_code i of
        xproperty_cmd_type_string_create \<Rightarrow> val_create TString v
      | xproperty_cmd_type_list_create \<Rightarrow> val_create TDeque v
      | xproperty_cmd_type_map_create \<Rightarrow> val_create TMap v
      | _ \<Rightarrow> val_step i v)"

definition do_log :: "xproperty_instruction \<Rightarrow> pval \<Rightarrow> xproperty_instruction option" where
  "do_log i v =
     (case m_op_code i of
        xproperty_cmd_type_string_create \<Rightarrow>
          if v = Inl not_created then Some (instr xproperty_cmd_type_string_create [] []) else None
      | xproperty_cmd_type_list_create \<Rightarrow>
          if v = Inl not_created then Some (instr xproperty_cmd_type_list_create [] []) else None
      | xproperty_cmd_type_map_create \<Rightarrow>
          if v = Inl not_created then Some (instr xproperty_cmd_type_map_create [] []) else None
      | xproperty_cmd_type_delete \<Rightarrow>
          if v = Inl deleted \<or> v = Inl not_created then None
          else Some (instr xproperty_cmd_type_delete [] [])
      | xproperty_cmd_type_string_set \<Rightarrow>
          log_typed as_string (logged (string_set_obj (m_op_para1 i)))
            (\<lambda>_. instr xproperty_cmd_type_string_set (m_op_para1 i) []) v
      | xproperty_cmd_type_list_push_back \<Rightarrow>
          log_typed as_deque (logged (list_push_back_obj (m_op_para1 i)))
            (\<lambda>_. instr xproperty_cmd_type_list_push_back (m_op_para1 i) []) v
      | xproperty_cmd_type_list_push_front \<Rightarrow>
          log_typed as_deque (logged (list_push_front_obj (m_op_para1 i)))
            (\<lambda>_. instr xproperty_cmd_type_list_push_front (m_op_para1 i) []) v
      | xproperty_cmd_type_list_pop_back \<Rightarrow>
          log_typed as_deque (logged list_pop_back_obj)
            (\<lambda>_. instr xproperty_cmd_type_list_pop_back [] []) v
      | xproperty_cmd_type_list_pop_front \<Rightarrow>
          log_typed as_deque (logged list_pop_front_obj)
            (\<lambda>q. instr xproperty_cmd_type_list_pop_front
                   (case xdeque_pop_front q of Some (x, _) \<Rightarrow> x | None \<Rightarrow> []) []) v
      | xproperty_cmd_type_list_clear \<Rightarrow>
          log_typed as_deque (logged list_clear_obj) (\<lambda>_. instr xproperty_cmd_type_list_clear [] []) v
      | xproperty_cmd_type_map_set \<Rightarrow>
          log_typed as_map (\<lambda>_. True)
            (\<lambda>_. instr xproperty_cmd_type_map_set (m_op_para1 i) (m_op_para2 i)) v
      | xproperty_cmd_type_map_remove \<Rightarrow>
          log_typed as_map (logged (map_remove_obj (m_op_para1 i)))
            (\<lambda>_. instr xproperty_cmd_type_map_remove (m_op_para1 i) []) v
      | xproperty_cmd_type_map_clear \<Rightarrow>
          log_typed as_map (logged map_clear_obj) (\<lambda>_. instr xproperty_cmd_type_map_clear [] []) v
      | _ \<Rightarrow> None)"

lemma clone_op_effect:
  "cmd_effect S n flag (val_typed as mk f) (log_typed as (logged f) I) c
     (clone_then as S n c (\<lambda>x c'. let (r, x') = f x in (r, finish n flag (I x) r (mk x') c')))"
  using clone_then_effect [of S n flag as mk "\<lambda>x. fst (f x)" "\<lambda>x. snd (f x)" "\<lambda>x. fst (f x)" I c]
  by (simp add: case_prod_beta logged_def [abs_def])

lemma pop_front_effect:
  "cmd_effect S n flag (val_typed as_deque XDeque list_pop_front_obj)
    (log_typed as_deque (logged list_pop_front_obj)
       (\<lambda>q. instr xproperty_cmd_type_list_pop_front
              (case xdeque_pop_front q of Some (x, _) \<Rightarrow> x | None \<Rightarrow> []) [])) c (list_pop_front S n flag c)"
  using clone_op_effect [of S n flag as_deque XDeque list_pop_front_obj] unfolding list_pop_front_def Let_def .

lemma string_set_effect:
  "cmd_effect S n flag (val_typed as_string XString (\<lambda>s. (xsuccess, snd (string_set_obj v s))))
    (log_typed as_string (logged (string_set_obj v)) (\<lambda>_. instr xproperty_cmd_type_string_set v [])) c
    (string_set S n v flag c)"
  using clone_then_effect [of S n flag as_string XString "\<lambda>_. xsuccess" "\<lambda>s. snd (string_set_obj v s)"
      "\<lambda>s. fst (string_set_obj v s)" "\<lambda>_. instr xproperty_cmd_type_string_set v []" c]
  by (simp add: string_set_def case_prod_beta logged_def [abs_def])

lemma map_set_effect:
  "cmd_effect S n flag (val_typed as_map XMap (map_set_obj k v))
    (log_typed as_map (\<lambda>_. True) (\<lambda>_. instr xproperty_cmd_type_map_set k v)) c (map_set S n k v flag c)"
  using clone_then_effect [of S n flag as_map XMap "\<lambda>_. xsuccess" "xmap_set k v"
      "\<lambda>_. xsuccess" "\<lambda>_. instr xproperty_cmd_type_map_set k v" c]
  by (simp add: map_set_def map_set_obj_def [abs_def])

lemma map_clear_effect:
  "cmd_effect S n flag (val_typed as_map XMap map_clear_obj)
    (log_typed as_map (logged map_clear_obj) (\<lambda>_. instr xproperty_cmd_type_map_clear [] [])) c
    (map_clear S n flag c)"
  using clone_op_effect [of S n flag as_map XMap map_clear_obj]
  by (simp add: map_clear_def map_clear_obj_def [abs_def])

lemma list_push_back_effect:
  "cmd_effect S n flag (val_typed as_deque XDeque (list_push_back_obj v))
    (log_typed as_deque (logged (list_push_back_obj v)) (\<lambda>_. instr xproperty_cmd_type_list_push_back v [])) c
    (list_push_back S n v flag c)"
  unfolding list_push_back_def by (rule clone_op_effect)

lemma list_push_front_effect:
  "cmd_effect S n flag (val_typed as_deque XDeque (list_push_front_obj v))
    (log_typed as_deque (logged (list_push_front_obj v)) (\<lambda>_. instr xproperty_cmd_type_list_push_front v [])) c
    (list_push_front S n v flag c)"
  unfolding list_push_front_def by (rule clone_op_effect)

lemma list_pop_back_effect:
  "cmd_effect S n flag (val_typed as_deque XDeque list_pop_back_obj)
    (log_typed as_deque (logged list_pop_back_obj) (\<lambda>_. instr xproperty_cmd_type_list_pop_back [] [])) c
    (list_pop_back S n flag c)"
  unfolding list_pop_back_def by (rule clone_op_effect)

lemma list_clear_effect:
  "cmd_effect S n flag (val_typed as_deque XDeque list_clear_obj)
    (log_typed as_deque (logged list_clear_obj) (\<lambda>_. instr xproperty_cmd_type_list_clear [] [])) c
    (list_clear S n flag c)"
  unfolding list_clear_def by (rule clone_op_effect)

lemma map_remove_effect:
  "cmd_effect S n flag (val_typed as_map XMap (map_remove_obj k))
    (log_typed as_map (logged (map_remove_obj k)) (\<lambda>_. instr xproperty_cmd_type_map_remove k [])) c
    (map_remove S n k flag c)"
  unfolding map_remove_def by (rule clone_op_effect)

lemma do_instruction_effect:
  "cmd_effect S n flag (do_val i) (do_log i) c (do_instruction S n i flag c)"
proof (cases "m_op_code i")
  case xproperty_cmd_type_string_create
  then show ?thesis
    using create_effect [of S n TString c] unfolding do_val_def do_log_def do_instruction_def
    by (simp add: string_create_def split: prod.splits)
next
  case xproperty_cmd_type_list_create
  then show ?thesis
    using create_effect [of S n TDeque c] unfolding do_val_def do_log_def do_instruction_def
    by (simp add: list_create_def split: prod.splits)
next
  case xproperty_cmd_type_map_create
  then show ?thesis
    using create_effect [of S n TMap c] unfolding do_val_def do_log_def do_instruction_def
    by (simp add: map_create_def split: prod.splits)
next
  case xproperty_cmd_type_delete
  then show ?thesis
    using delete_effect [of S n flag c]
    by (simp add: do_val_def [abs_def] do_log_def [abs_def] do_instruction_def val_step_def [abs_def]
        instr_def cong: if_cong)
qed (simp_all add: do_val_def [abs_def] do_log_def [abs_def] do_instruction_def val_step_def [abs_def]
    string_set_effect list_push_back_effect list_push_front_effect list_pop_back_effect
    pop_front_effect list_clear_effect map_set_effect map_remove_effect map_clear_effect,
    simp_all add: cmd_effect_def)

lemma restore_effect:
  "cmd_effect S n False (val_step i) (\<lambda>_. None) c (restore_log_instruction S n i c)"
proof -
  have drop: "cmd_effect S n False f I c res \<Longrightarrow> cmd_effect S n False f (\<lambda>_. None) c res" for f I res
    by (auto simp: cmd_effect_def split: option.splits)
  show ?thesis
  proof (cases "m_op_code i \<in> {xproperty_cmd_type_string_create, xproperty_cmd_type_list_create,
      xproperty_cmd_type_map_create}")
    case True
    then show ?thesis
      by (auto simp: restore_log_instruction_def val_step_def make_property_def cmd_effect_def)
  next
    case False
    then have "restore_log_instruction S n i c = do_instruction S n i False c" "val_step i = do_val i"
      by (auto simp: restore_log_instruction_def do_instruction_def do_val_def fun_eq_iff
          split: xproperty_op_code.splits)
    then show ?thesis
      using drop [OF do_instruction_effect [of S n False i c]] by simp
  qed
qed


section \<open>Replaying a log\<close>

fun replay :: "binlog \<Rightarrow> pval \<Rightarrow> pval option" where
  "replay [] v = Some v"
| "replay (i # is) v = (case val_step i v of (r, v') \<Rightarrow> if r = xsuccess then replay is v' else None)"

fun val_inv :: "pval \<Rightarrow> bool" where
  "val_inv (Inl e) = (e \<noteq> xsuccess)"
| "val_inv (Inr u) = unit_inv u"

lemma replay_append: "replay (A @ B) v = Option.bind (replay A v) (replay B)"
  by (induction A arbitrary: v) (auto split: prod.splits)

lemma replay_snoc: "replay A v = Some w \<Longrightarrow> val_step i w = (xsuccess, w') \<Longrightarrow> replay (A @ [i]) v = Some w'"
  by (simp add: replay_append)

lemma replay_lastD:
  assumes "replay L v = Some w" "L \<noteq> []"
  shows "\<exists>w0. replay (butlast L) v = Some w0 \<and> val_step (last L) w0 = (xsuccess, w)"
proof -
  have "replay (butlast L @ [last L]) v = Some w"
    using assms by simp
  then obtain w0 where "replay (butlast L) v = Some w0" "replay [last L] w0 = Some w"
    unfolding replay_append by (auto split: bind_splits)
  then show ?thesis
    by (auto split: prod.splits if_splits)
qed

lemma xmap_remove_inv: "xmap_remove k m = Some m' \<Longrightarrow> om_inv m \<Longrightarrow> om_inv m'"
  by (auto simp: xmap_remove_def split: option.splits)

lemma val_step_inv: "val_inv v \<Longrightarrow> val_inv (snd (val_step i v))"
  by (cases v; cases "projr v")
    (auto simp: val_step_def val_typed_def obj_op_defs xmap_set_eq xmap_clear_def xmap_remove_inv
      split: xproperty_op_code.splits option.splits)

lemma replay_inv: "replay L v = Some w \<Longrightarrow> val_inv v \<Longrightarrow> val_inv w"
proof (induction L arbitrary: v)
  case (Cons i L)
  then show ?case
    using val_step_inv [of v i] by (auto split: prod.splits if_splits)
qed simp

lemma val_step_deque_back:
  "val_step i w = (xsuccess, Inr (XDeque q)) \<Longrightarrow> m_op_code i \<noteq> xproperty_cmd_type_list_create \<Longrightarrow>
    \<exists>q'. w = Inr (XDeque q')"
  by (cases w; cases "projr w")
    (auto simp: val_step_def val_typed_def split: xproperty_op_code.splits if_splits)

lemma val_step_map_back:
  "val_step i w = (xsuccess, Inr (XMap m)) \<Longrightarrow> m_op_code i \<noteq> xproperty_cmd_type_map_create \<Longrightarrow>
    \<exists>m'. w = Inr (XMap m')"
  by (cases w; cases "projr w")
    (auto simp: val_step_def val_typed_def split: xproperty_op_code.splits if_splits)

lemma replay_deque_back:
  "replay R w = Some (Inr (XDeque q)) \<Longrightarrow> \<forall>i \<in> set R. m_op_code i \<noteq> xproperty_cmd_type_list_create \<Longrightarrow>
    \<exists>q'. w = Inr (XDeque q')"
proof (induction R arbitrary: w)
  case (Cons i R)
  then show ?case
    using val_step_deque_back [of i w] by (auto split: prod.splits if_splits)
qed simp

lemma replay_map_back:
  "replay R w = Some (Inr (XMap m)) \<Longrightarrow> \<forall>i \<in> set R. m_op_code i \<noteq> xproperty_cmd_type_map_create \<Longrightarrow>
    \<exists>m'. w = Inr (XMap m')"
proof (induction R arbitrary: w)
  case (Cons i R)
  then show ?case
    using val_step_map_back [of i w] by (auto split: prod.splits if_splits)
qed simp

text \<open>When removing a map field may drop the first recorded assignment of that field: there is
  none, or the field was absent when it was recorded and nothing recorded after it concerns the
  field.\<close>

definition sets_key :: "string \<Rightarrow> xproperty_instruction \<Rightarrow> bool" where
  "sets_key k i \<longleftrightarrow> m_op_code i = xproperty_cmd_type_map_set \<and> m_op_para1 i = k"

definition other_key :: "string \<Rightarrow> xproperty_instruction \<Rightarrow> bool" where
  "other_key k i \<longleftrightarrow>
     (m_op_code i = xproperty_cmd_type_map_set \<or> m_op_code i = xproperty_cmd_type_map_remove) \<and>
     m_op_para1 i \<noteq> k"

definition remove_safe :: "pval \<Rightarrow> binlog \<Rightarrow> string \<Rightarrow> bool" where
  "remove_safe v0 L k \<longleftrightarrow>
     list_all (\<lambda>i. \<not> sets_key k i) L \<or>
     (case replay (takeWhile (\<lambda>i. \<not> sets_key k i) L) v0 of
        Some (Inr (XMap m)) \<Rightarrow> om_find m k = None
      | _ \<Rightarrow> False) \<and>
     list_all (other_key k) (tl (dropWhile (\<lambda>i. \<not> sets_key k i) L))"

lemma replay_erase_other:
  assumes "replay B (Inr (XMap m)) = Some v" "list_all (other_key k) B" "om_inv m"
  shows "\<exists>m'. v = Inr (XMap m') \<and> om_inv m' \<and>
    replay B (Inr (XMap (om_erase k m))) = Some (Inr (XMap (om_erase k m')))"
  using assms
proof (induction B arbitrary: m)
  case (Cons i B)
  let ?k = "m_op_para1 i"
  have k: "?k \<noteq> k"
    using Cons.prems(2) by (simp add: other_key_def)
  consider (set) "m_op_code i = xproperty_cmd_type_map_set"
    | (remove) "m_op_code i = xproperty_cmd_type_map_remove"
    using Cons.prems(2) by (auto simp: other_key_def)
  then show ?case
  proof cases
    case set
    then have r: "replay B (Inr (XMap (om_set ?k (m_op_para2 i) m))) = Some v"
      using Cons.prems(1) by (simp add: val_step_def val_typed_def map_set_obj_def xmap_set_eq)
    show ?thesis
      using Cons.IH [OF r] Cons.prems(2,3) set k om.erase_store_other [of m k ?k "m_op_para2 i"]
      by (simp add: val_step_def val_typed_def map_set_obj_def xmap_set_eq)
  next
    case remove
    then obtain x where x: "om_find m ?k = Some x"
      and r: "replay B (Inr (XMap (om_erase ?k m))) = Some v"
      using Cons.prems(1)
      by (auto simp: val_step_def val_typed_def map_remove_obj_def xmap_remove_def split: option.splits if_splits)
    have "om_erase ?k (om_erase k m) = om_erase k (om_erase ?k m)"
      by (auto simp: om_erase_def intro: filter_cong)
    then show ?thesis
      using Cons.IH [OF r] Cons.prems(2,3) remove k x
      by (auto simp: val_step_def val_typed_def map_remove_obj_def xmap_remove_def)
  qed
qed auto

lemma add_binlog_map_remove:
  assumes r: "replay L v0 = Some v" and st: "val_step i v = (xsuccess, v')"
    and op: "m_op_code i = xproperty_cmd_type_map_remove"
    and safe: "remove_safe v0 L (m_op_para1 i)" and inv: "val_inv v0"
  shows "replay (add_binlog i L) v0 = Some v'"
proof (cases "list_all (\<lambda>j. \<not> sets_key (m_op_para1 i) j) L")
  case True
  then have "delete_binlog_map_set xproperty_cmd_type_map_set (m_op_para1 i) L = None"
    by (auto simp: delete_binlog_map_set_None list_all_iff sets_key_def)
  then show ?thesis
    using replay_snoc [OF r st] op by (simp add: add_binlog_def)
next
  case False
  let ?k = "m_op_para1 i" and ?P = "\<lambda>j. \<not> sets_key (m_op_para1 i) j"
  let ?A = "takeWhile ?P L"
  obtain x B where x: "dropWhile ?P L = x # B"
    using False by (cases "dropWhile ?P L") (auto simp: list_all_iff dropWhile_eq_Nil_conv)
  have L: "L = ?A @ x # B"
    using x by (metis takeWhile_dropWhile_id)
  have sx: "sets_key ?k x"
    using x by (metis dropWhile_eq_Cons_conv)
  obtain m where m: "replay ?A v0 = Some (Inr (XMap m))" "om_find m ?k = None"
    and B: "list_all (other_key ?k) B"
    using safe False x
    by (auto simp: remove_safe_def split: option.splits sum.splits xdataunit.splits)
  have om: "om_inv m"
    using replay_inv [OF m(1) inv] by simp
  have "replay B (Inr (XMap (om_set ?k (m_op_para2 x) m))) = Some v"
    using r sx m(1) replay_append [of ?A "x # B" v0] unfolding L [symmetric]
    by (simp add: val_step_def val_typed_def map_set_obj_def xmap_set_eq sets_key_def)
  then obtain m' where m': "v = Inr (XMap m')" "om_inv m'"
    "replay B (Inr (XMap (om_erase ?k (om_set ?k (m_op_para2 x) m)))) = Some (Inr (XMap (om_erase ?k m')))"
    using replay_erase_other [OF _ B] om om_inv_set by blast
  have "om_erase ?k (om_set ?k (m_op_para2 x) m) = m"
    using om.erase_store [OF om] om.erase_absent [OF om m(2)] by simp
  then have "replay (?A @ B) v0 = Some (Inr (XMap (om_erase ?k m')))"
    using m(1) m'(3) by (simp add: replay_append)
  moreover have "v' = Inr (XMap (om_erase ?k m'))"
    using st op m'(1)
    by (auto simp: val_step_def val_typed_def map_remove_obj_def xmap_remove_def split: option.splits)
  moreover have "delete_binlog_map_set xproperty_cmd_type_map_set ?k L = Some (?A @ B)"
  proof -
    have "delete_binlog_map_set xproperty_cmd_type_map_set ?k (C @ x # B) = Some (C @ B)"
      if "\<forall>j \<in> set C. \<not> sets_key ?k j" for C
      using that sx by (induction C) (auto simp: sets_key_def)
    then show ?thesis
      using L set_takeWhileD by metis
  qed
  ultimately show ?thesis
    using op by (simp add: add_binlog_def)
qed

lemma add_binlog_pop:
  assumes r: "replay L v0 = Some v" and st: "val_step i v = (xsuccess, v')"
    and op: "m_op_code i = xproperty_cmd_type_list_pop_back \<and> push = xproperty_cmd_type_list_push_back \<or>
             m_op_code i = xproperty_cmd_type_list_pop_front \<and> push = xproperty_cmd_type_list_push_front"
    and L: "L \<noteq> []" "m_op_code (last L) = push"
  shows "replay (butlast L) v0 = Some v'"
proof -
  obtain w where w: "replay (butlast L) v0 = Some w" "val_step (last L) w = (xsuccess, v)"
    using replay_lastD [OF r L(1)] by blast
  then have "w = v'"
    using st op L(2)
    by (cases w; cases "projr w")
      (auto simp: val_step_def val_typed_def obj_op_defs xdata_op_defs)
  then show ?thesis
    using w by simp
qed

lemma add_binlog_string_set:
  assumes r: "replay L v0 = Some v" and st: "val_step i v = (xsuccess, v')"
    and op: "m_op_code i = xproperty_cmd_type_string_set"
    and L: "L \<noteq> []" "m_op_code (last L) = xproperty_cmd_type_string_set"
  shows "replay (butlast L @ [i]) v0 = Some v'"
proof -
  obtain w where w: "replay (butlast L) v0 = Some w" "val_step (last L) w = (xsuccess, v)"
    using replay_lastD [OF r L(1)] by blast
  then have "val_step i w = (xsuccess, v')"
    using st op L(2)
    by (cases w; cases "projr w")
      (auto simp: val_step_def val_typed_def string_set_obj_def xdata_op_defs split: if_splits)
  then show ?thesis
    using w by (simp add: replay_append)
qed

lemma add_binlog_list_clear:
  assumes r: "replay L v0 = Some v" and st: "val_step i v = (xsuccess, v')"
    and op: "m_op_code i = xproperty_cmd_type_list_clear" and inv: "val_inv v0"
  shows "replay (delete_binlog_list_clear L @ [i]) v0 = Some v'"
proof -
  let ?P = "delete_binlog_list_clear L"
  obtain R where R: "L = ?P @ R" "\<forall>j \<in> set R. m_op_code j \<noteq> xproperty_cmd_type_list_create"
    "?P = [] \<or> m_op_code (last ?P) = xproperty_cmd_type_list_create"
    using delete_back_until_prefix [of L xproperty_cmd_type_list_create]
    by (auto simp: delete_binlog_list_clear_def)
  obtain w where w: "replay ?P v0 = Some w" "replay R w = Some v"
    using r R(1) by (metis replay_append bind_eq_Some_conv)
  obtain q where v: "v = Inr (XDeque q)" "v' = Inr (XDeque [])"
    using st op replay_inv [OF r inv] by (cases v; cases "projr v")
      (auto simp: val_step_def val_typed_def list_clear_obj_def xdeque_clear_def)
  then obtain q' where "w = Inr (XDeque q')"
    using w(2) R(2) replay_deque_back by blast
  then have "val_step i w = (xsuccess, v')"
    using op v by (simp add: val_step_def val_typed_def list_clear_obj_def xdeque_clear_def)
  then show ?thesis
    using w(1) by (simp add: replay_append)
qed

lemma add_binlog_map_clear:
  assumes r: "replay L v0 = Some v" and st: "val_step i v = (xsuccess, v')"
    and op: "m_op_code i = xproperty_cmd_type_map_clear" and inv: "val_inv v0"
  shows "replay (delete_binlog_map_clear L @ [i]) v0 = Some v'"
proof -
  let ?P = "delete_binlog_map_clear L"
  obtain R where R: "L = ?P @ R" "\<forall>j \<in> set R. m_op_code j \<noteq> xproperty_cmd_type_map_create"
    using delete_back_until_prefix [of L xproperty_cmd_type_map_create]
    by (auto simp: delete_binlog_map_clear_def)
  obtain w where w: "replay ?P v0 = Some w" "replay R w = Some v"
    using r R(1) by (metis replay_append bind_eq_Some_conv)
  obtain m where v: "v = Inr (XMap m)" "v' = Inr (XMap [])"
    using st op replay_inv [OF r inv] by (cases v; cases "projr v")
      (auto simp: val_step_def val_typed_def map_clear_obj_def xmap_clear_def)
  then obtain m' where "w = Inr (XMap m')"
    using w(2) R(2) replay_map_back by blast
  then have "val_step i w = (xsuccess, v')"
    using op v by (simp add: val_step_def val_typed_def map_clear_obj_def xmap_clear_def)
  then show ?thesis
    using w(1) by (simp add: replay_append)
qed

lemma add_binlog_replay:
  assumes r: "replay L v0 = Some v" and st: "val_step i v = (xsuccess, v')" and inv: "val_inv v0"
    and safe: "m_op_code i = xproperty_cmd_type_map_remove \<Longrightarrow> remove_safe v0 L (m_op_para1 i)"
  shows "replay (add_binlog i L) v0 = Some v'"
proof (cases "m_op_code i = xproperty_cmd_type_map_remove")
  case True
  then show ?thesis
    using add_binlog_map_remove [OF r st True safe inv] by simp
next
  case False
  then show ?thesis
    using replay_snoc [OF r st] add_binlog_pop [OF r st] add_binlog_string_set [OF r st]
      add_binlog_list_clear [OF r st _ inv] add_binlog_map_clear [OF r st _ inv]
    by (auto simp: add_binlog_def delete_binlog_deque_push_def delete_binlog_string_set_def)
qed


section \<open>Runs\<close>

fun cmd_run :: "xprop_source \<Rightarrow> (string \<times> xproperty_instruction) list \<Rightarrow> xaccount_cmd \<Rightarrow> xaccount_cmd" where
  "cmd_run S [] c = c"
| "cmd_run S ((n, i) # ops) c = cmd_run S ops (snd (do_instruction S n i True c))"

definition log_of :: "xaccount_binlog \<Rightarrow> string \<Rightarrow> binlog" where
  "log_of b n = (case om_find (m_property_logs b) n of None \<Rightarrow> [] | Some l \<Rightarrow> l)"

fun run_safe :: "xprop_source \<Rightarrow> (string \<times> xproperty_instruction) list \<Rightarrow> xaccount_cmd \<Rightarrow> bool" where
  "run_safe S [] c = True"
| "run_safe S ((n, i) # ops) c =
     ((m_op_code i = xproperty_cmd_type_map_remove \<longrightarrow>
         remove_safe (cmd_val S (cmd_new 0) n) (log_of (m_proplogs c) n) (m_op_para1 i)) \<and>
      run_safe S ops (snd (do_instruction S n i True c)))"

definition logs_wf :: "xaccount_binlog \<Rightarrow> bool" where
  "logs_wf b \<longleftrightarrow> om_inv (m_property_logs b) \<and> (\<forall>n. om_find (m_property_logs b) n \<noteq> Some [])"

lemma add_binlog_Nil: "add_binlog i [] \<noteq> []"
  by (simp add: add_binlog_def delete_binlog_deque_push_def)

lemma add_instruction_log:
  assumes "logs_wf b"
  shows "log_of (add_instruction n i b) m = (if m = n then add_binlog i (log_of b n) else log_of b m)"
    and "logs_wf (add_instruction n i b)"
  using assms
  by (auto simp: add_instruction_def log_of_def logs_wf_def Let_def add_binlog_Nil split: option.splits)

lemma log_typed_Some:
  "log_typed as p I v = Some li \<longleftrightarrow> (\<exists>u x. v = Inr u \<and> as u = Some x \<and> p x \<and> li = I x)"
  by (auto simp: log_typed_def typed_def split: sum.splits option.splits if_splits)

lemma val_typed_Some:
  "v = Inr u \<Longrightarrow> as u = Some x \<Longrightarrow> val_typed as mk f v = (fst (f x), Inr (mk (snd (f x))))"
  by (simp add: val_typed_def)

lemma do_log_Some:
  assumes "do_log i v = Some li"
  shows "\<exists>v'. do_val i v = (xsuccess, v') \<and> val_step li v = (xsuccess, v')" "m_op_code li = m_op_code i"
    "m_op_code i = xproperty_cmd_type_map_remove \<Longrightarrow> m_op_para1 li = m_op_para1 i"
proof -
  note defs = do_log_def do_val_def val_create_def val_step_def instr_def log_typed_Some logged_def
  show "\<exists>v'. do_val i v = (xsuccess, v') \<and> val_step li v = (xsuccess, v')"
    using assms by (cases "m_op_code i") (auto simp: defs val_typed_Some map_set_obj_def split: if_splits)
  show "m_op_code li = m_op_code i"
    using assms by (cases "m_op_code i") (auto simp: defs split: if_splits)
  show "m_op_code i = xproperty_cmd_type_map_remove \<Longrightarrow> m_op_para1 li = m_op_para1 i"
    using assms by (auto simp: defs)
qed

lemma do_log_None:
  assumes "do_log i v = None"
  shows "snd (do_val i v) = v"
proof (cases v)
  case (Inl e)
  then show ?thesis
    using assms
    by (cases "m_op_code i")
      (auto simp: do_log_def do_val_def val_create_def val_step_def val_typed_def split: if_splits)
next
  case (Inr u)
  note defs = do_log_def do_val_def val_create_def val_step_def log_typed_def typed_def val_typed_def
    logged_def
  show ?thesis
    using assms
    by (cases u; cases "m_op_code i")
      (auto simp: Inr defs obj_op_defs xdata_op_defs split: if_splits option.splits list.splits)
qed

definition cmd_ok :: "xprop_source \<Rightarrow> xaccount_cmd \<Rightarrow> bool" where
  "cmd_ok S c \<longleftrightarrow> logs_wf (m_proplogs c) \<and>
     (\<forall>n. replay (log_of (m_proplogs c) n) (cmd_val S (cmd_new 0) n) = Some (cmd_val S c n))"

lemma cmd_val_new: "cmd_val S (cmd_new h) n = cmd_val S (cmd_new 0) n"
  by (simp add: cmd_val_def get_property_def cmd_new_def split: option.splits)

definition source_inv :: "xprop_source \<Rightarrow> bool" where
  "source_inv S \<longleftrightarrow> (\<forall>n u. clone_property S n = Some u \<longrightarrow> unit_inv u)"

lemma cmd_val_new_inv: "source_inv S \<Longrightarrow> val_inv (cmd_val S (cmd_new h) n)"
  by (auto simp: cmd_val_def get_property_def cmd_new_def source_inv_def split: option.splits)

lemma do_instruction_ok:
  assumes ok: "cmd_ok S c" and src: "source_inv S"
    and safe: "m_op_code i = xproperty_cmd_type_map_remove \<Longrightarrow>
      remove_safe (cmd_val S (cmd_new 0) n) (log_of (m_proplogs c) n) (m_op_para1 i)"
  shows "cmd_ok S (snd (do_instruction S n i True c))"
proof -
  obtain r c' where e: "do_instruction S n i True c = (r, c')"
    by (cases "do_instruction S n i True c")
  have eff: "do_val i (cmd_val S c n) = (r, cmd_val S c' n)"
    "\<And>m. m \<noteq> n \<Longrightarrow> cmd_val S c' m = cmd_val S c m"
    "m_proplogs c' = (case do_log i (cmd_val S c n) of None \<Rightarrow> m_proplogs c
       | Some li \<Rightarrow> add_instruction n li (m_proplogs c))"
    using do_instruction_effect [of S n True i c] by (auto simp: cmd_effect_def e split: option.splits)
  have wf: "logs_wf (m_proplogs c)"
    using ok by (simp add: cmd_ok_def)
  show ?thesis
  proof (cases "do_log i (cmd_val S c n)")
    case None
    then have "cmd_val S c' m = cmd_val S c m" for m
      using eff do_log_None [OF None] by (cases "m = n") auto
    then show ?thesis
      using ok eff(3) None by (simp add: e cmd_ok_def)
  next
    case (Some li)
    note li = do_log_Some [OF Some]
    have st: "val_step li (cmd_val S c n) = (xsuccess, cmd_val S c' n)"
      using li(1) eff(1) by auto
    have "replay (add_binlog li (log_of (m_proplogs c) n)) (cmd_val S (cmd_new 0) n) = Some (cmd_val S c' n)"
      using ok safe li(2,3)
      by (intro add_binlog_replay [OF _ st cmd_val_new_inv [OF src]]) (auto simp: cmd_ok_def)
    then show ?thesis
      using ok eff(2,3) Some add_instruction_log [OF wf] by (auto simp: e cmd_ok_def)
  qed
qed

lemma cmd_run_ok: "cmd_ok S c \<Longrightarrow> source_inv S \<Longrightarrow> run_safe S ops c \<Longrightarrow> cmd_ok S (cmd_run S ops c)"
  by (induction S ops c rule: cmd_run.induct) (auto intro: do_instruction_ok)

lemma cmd_new_ok: "cmd_ok S (cmd_new h)"
  using cmd_val_new [of S h] by (auto simp: cmd_ok_def logs_wf_def log_of_def cmd_new_def)

text \<open>An instruction touches the log and the value of its own property only.\<close>

lemma do_instruction_other:
  assumes "logs_wf (m_proplogs c)" "m \<noteq> n"
  shows "logs_wf (m_proplogs (snd (do_instruction S n i True c)))"
    and "log_of (m_proplogs (snd (do_instruction S n i True c))) m = log_of (m_proplogs c) m"
    and "cmd_val S (snd (do_instruction S n i True c)) m = cmd_val S c m"
  using do_instruction_effect [of S n True i c] add_instruction_log [OF assms(1)] assms
  by (auto simp: cmd_effect_def split: option.splits prod.splits)

lemma cmd_run_wf: "logs_wf (m_proplogs c) \<Longrightarrow> logs_wf (m_proplogs (cmd_run S ops c))"
proof (induction S ops c rule: cmd_run.induct)
  case (2 S n i ops c)
  obtain m :: string where "m \<noteq> n"
    using not_Cons_self by blast
  then show ?case
    using 2 do_instruction_other(1) by simp
qed simp

lemma cmd_run_other:
  assumes "logs_wf (m_proplogs c)" "m \<notin> fst ` set ops"
  shows "log_of (m_proplogs (cmd_run S ops c)) m = log_of (m_proplogs c) m \<and> cmd_val S (cmd_run S ops c) m = cmd_val S c m"
  using assms by (induction S ops c rule: cmd_run.induct) (auto simp: do_instruction_other)

lemma cmd_new_log: "logs_wf (m_proplogs (cmd_new h))" "log_of (m_proplogs (cmd_new h)) n = []"
  by (simp_all add: logs_wf_def log_of_def cmd_new_def om_inv_def om_find_def)

lemma cmd_run_log_names:
  assumes "n \<in> fst ` set (m_property_logs (m_proplogs (cmd_run S ops (cmd_new h))))"
  shows "n \<in> fst ` set ops"
proof (rule ccontr)
  assume "n \<notin> fst ` set ops"
  then have "log_of (m_proplogs (cmd_run S ops (cmd_new h))) n = []"
    using cmd_run_other [OF cmd_new_log(1)] cmd_new_log(2) by simp
  moreover have "logs_wf (m_proplogs (cmd_run S ops (cmd_new h)))"
    by (rule cmd_run_wf [OF cmd_new_log(1)])
  ultimately show False
    using assms om_find_None_iff by (fastforce simp: log_of_def logs_wf_def split: option.splits)
qed

lemma restore_instructions_other:
  "m \<noteq> n \<Longrightarrow> cmd_val S (snd (restore_instructions S n L c)) m = cmd_val S c m"
proof (induction L arbitrary: c)
  case (Cons i L)
  then show ?case
    using restore_effect [of S n i c] by (auto simp: cmd_effect_def split: prod.splits)
qed simp


lemma restore_instructions_val:
  assumes "replay L (cmd_val S c n) = Some v"
  shows "\<exists>c'. restore_instructions S n L c = (xsuccess, c') \<and> cmd_val S c' n = v \<and>
    (\<forall>m. m \<noteq> n \<longrightarrow> cmd_val S c' m = cmd_val S c m)"
  using assms
proof (induction L arbitrary: c)
  case (Cons i L)
  obtain r c1 where e: "restore_log_instruction S n i c = (r, c1)"
    by (cases "restore_log_instruction S n i c")
  have eff: "val_step i (cmd_val S c n) = (r, cmd_val S c1 n)"
    "\<And>m. m \<noteq> n \<Longrightarrow> cmd_val S c1 m = cmd_val S c m"
    using restore_effect [of S n i c] by (auto simp: cmd_effect_def e)
  then have "r = xsuccess" "replay L (cmd_val S c1 n) = Some v"
    using Cons.prems by (auto split: if_splits)
  then show ?case
    using Cons.IH [of c1] eff(2) by (auto simp: e)
qed simp

lemma do_property_logs_val:
  assumes "distinct (map fst logs)" "list_all (\<lambda>p. c_str (fst p) = fst p) logs"
    and "\<And>n L. (n, L) \<in> set logs \<Longrightarrow> replay L (cmd_val S c n) = Some (V n)"
  shows "\<exists>c'. do_property_logs S logs c = (xsuccess, c') \<and>
    (\<forall>n. cmd_val S c' n = (if n \<in> fst ` set logs then V n else cmd_val S c n))"
  using assms
proof (induction logs arbitrary: c)
  case (Cons p logs)
  obtain n L where p: "p = (n, L)"
    by (cases p)
  obtain c1 where c1: "restore_instructions S n L c = (xsuccess, c1)" "cmd_val S c1 n = V n"
    "\<forall>m. m \<noteq> n \<longrightarrow> cmd_val S c1 m = cmd_val S c m"
    using restore_instructions_val [of L S c n "V n"] Cons.prems(3) [of n L] p by auto
  have n: "n \<notin> fst ` set logs"
    using Cons.prems(1) p by simp
  have r: "replay K (cmd_val S c1 m) = Some (V m)" if mK: "(m, K) \<in> set logs" for m K
  proof -
    have "m \<noteq> n"
      using mK n image_eqI [of m fst "(m, K)" "set logs"] by auto
    then show ?thesis
      using Cons.prems(3) [of m K] mK c1(3) by simp
  qed
  have d: "distinct (map fst logs)" "list_all (\<lambda>p. c_str (fst p) = fst p) logs"
    using Cons.prems(1,2) by simp_all
  obtain c' where "do_property_logs S logs c1 = (xsuccess, c')"
    "\<forall>n. cmd_val S c' n = (if n \<in> fst ` set logs then V n else cmd_val S c1 n)"
    using Cons.IH [OF d r] by blast
  then show ?case
    using c1 p n Cons.prems(2) by auto
qed simp

text \<open>
  C4 The recorded log reproduces the state: after any sequence of instructions on properties whose
  names hold no zero byte, in which no removal of a map field drops an assignment that matters,
  replaying the recorded and compacted log on the original account succeeds on every instruction
  and gives every property the value it had at the end of the original run.
\<close>

theorem property_log_replays:
  assumes "source_inv S" "run_safe S ops (cmd_new h)" "list_all (\<lambda>(n, i). CHR 0x00 \<notin> set n) ops"
  shows "\<exists>c'. do_property_log S (m_proplogs (cmd_run S ops (cmd_new h))) (cmd_new h) = (xsuccess, c') \<and>
    (\<forall>n. cmd_val S c' n = cmd_val S (cmd_run S ops (cmd_new h)) n)"
proof -
  let ?c = "cmd_run S ops (cmd_new h)"
  let ?logs = "m_property_logs (m_proplogs ?c)"
  have ok: "cmd_ok S ?c"
    by (rule cmd_run_ok [OF cmd_new_ok assms(1,2)])
  have inv: "om_inv ?logs" and wf: "\<And>n. om_find ?logs n \<noteq> Some []"
    and rep: "\<And>n. replay (log_of (m_proplogs ?c) n) (cmd_val S (cmd_new h) n) = Some (cmd_val S ?c n)"
    using ok cmd_val_new [of S h] by (auto simp: cmd_ok_def logs_wf_def)
  have r: "replay L (cmd_val S (cmd_new h) n) = Some (cmd_val S ?c n)" if "(n, L) \<in> set ?logs" for n L
  proof -
    have "om_find ?logs n = Some L"
      using that inv by (simp add: om_find_def om_inv_distinct)
    then show ?thesis
      using rep [of n] by (simp add: log_of_def)
  qed
  have names: "list_all (\<lambda>p. c_str (fst p) = fst p) ?logs"
    using cmd_run_log_names [of _ S ops h] assms(3) by (fastforce simp: list_all_iff intro: c_str_id)
  obtain c' where c': "do_property_logs S ?logs (cmd_new h) = (xsuccess, c')"
    "\<forall>n. cmd_val S c' n = (if n \<in> fst ` set ?logs then cmd_val S ?c n else cmd_val S (cmd_new h) n)"
    using do_property_logs_val [OF om_inv_distinct [OF inv] names r] by blast
  have "cmd_val S (cmd_new h) n = cmd_val S ?c n" if "n \<notin> fst ` set ?logs" for n
    using that rep [of n] om_find_None_iff [of ?logs n] by (simp add: log_of_def)
  then show ?thesis
    using c' by (auto simp: do_property_log_def)
qed

theorem property_log_replays_witness:
  "\<exists>c'. do_property_log \<lparr>has_property_hash = (\<lambda>_. False), clone_property = (\<lambda>_. None)\<rparr>
      (m_proplogs (cmd_run \<lparr>has_property_hash = (\<lambda>_. False), clone_property = (\<lambda>_. None)\<rparr>
        [(''m'', instr xproperty_cmd_type_map_create [] []), (''m'', instr xproperty_cmd_type_map_set ''k'' ''v''),
         (''m'', instr xproperty_cmd_type_map_remove ''k'' [])] (cmd_new 0))) (cmd_new 0) = (xsuccess, c') \<and>
    (\<forall>n. cmd_val \<lparr>has_property_hash = (\<lambda>_. False), clone_property = (\<lambda>_. None)\<rparr> c' n =
      cmd_val \<lparr>has_property_hash = (\<lambda>_. False), clone_property = (\<lambda>_. None)\<rparr>
       (cmd_run \<lparr>has_property_hash = (\<lambda>_. False), clone_property = (\<lambda>_. None)\<rparr>
        [(''m'', instr xproperty_cmd_type_map_create [] []), (''m'', instr xproperty_cmd_type_map_set ''k'' ''v''),
         (''m'', instr xproperty_cmd_type_map_remove ''k'' [])] (cmd_new 0)) n)"
  by (rule property_log_replays)
    (simp_all add: source_inv_def run_safe.simps remove_safe_def sets_key_def other_key_def cmd_val_def
      do_instruction_def instr_def name_op_defs create_property_def get_property_def cmd_new_def
      make_property_def put_obj_def log_add_def add_instruction_def add_binlog_def clone_then_def
      get_property_with_type_def finish_def xmap_set_def log_of_def om_find_def val_step_def)

text \<open>
  C26 A property that is not listed as changed keeps its value: under the same condition every
  property whose value differs from the stored one has an entry in the log.
\<close>

theorem changed_property_listed:
  assumes "source_inv S" "run_safe S ops (cmd_new h)"
    and "cmd_val S (cmd_run S ops (cmd_new h)) n \<noteq> cmd_val S (cmd_new h) n"
  shows "is_property_changed n (m_proplogs (cmd_run S ops (cmd_new h)))"
proof (rule ccontr)
  let ?c = "cmd_run S ops (cmd_new h)"
  assume "\<not> is_property_changed n (m_proplogs ?c)"
  then have "log_of (m_proplogs ?c) n = []"
    by (simp add: is_property_changed_def log_of_def)
  moreover have "cmd_ok S ?c"
    by (rule cmd_run_ok [OF cmd_new_ok assms(1,2)])
  ultimately have "cmd_val S ?c n = cmd_val S (cmd_new 0) n"
    by (auto simp: cmd_ok_def dest: spec [of _ n])
  then show False
    using assms(3) cmd_val_new [of S h n] by simp
qed

theorem changed_property_listed_witness:
  "is_property_changed ''s'' (m_proplogs
     (cmd_run \<lparr>has_property_hash = (\<lambda>_. False), clone_property = (\<lambda>_. None)\<rparr>
        [(''s'', instr xproperty_cmd_type_string_create [] [])] (cmd_new 0)))"
  by (rule changed_property_listed)
    (simp_all add: source_inv_def cmd_val_def do_instruction_def instr_def string_create_def
      create_property_def get_property_def cmd_new_def make_property_def put_obj_def log_add_def
      om_find_def)

text \<open>Without the condition on the names, the log of a property whose name holds a zero byte is replayed
  on the property that is named by the part before it.\<close>

lemma zero_byte_name_replayed_elsewhere:
  assumes "CHR 0x00 \<notin> set s"
  shows "do_property_log S \<lparr>m_unit_height = u, m_property_logs = [(s @ CHR 0x00 # t, L)]\<rparr> c = restore_instructions S s L c"
    and "cmd_val S (snd (do_property_log S \<lparr>m_unit_height = u, m_property_logs = [(s @ CHR 0x00 # t, L)]\<rparr> c)) (s @ CHR 0x00 # t) =
      cmd_val S c (s @ CHR 0x00 # t)"
proof -
  show "do_property_log S \<lparr>m_unit_height = u, m_property_logs = [(s @ CHR 0x00 # t, L)]\<rparr> c = restore_instructions S s L c"
    using assms by (auto simp: do_property_log_def c_str_truncates split: prod.splits)
  then show "cmd_val S (snd (do_property_log S \<lparr>m_unit_height = u, m_property_logs = [(s @ CHR 0x00 # t, L)]\<rparr> c))
      (s @ CHR 0x00 # t) = cmd_val S c (s @ CHR 0x00 # t)"
    using restore_instructions_other by simp
qed






text \<open>
  Replay by name and replay on the object agree: for a property that is present, an
  instruction that the object level accepts gives the same object by name, and succeeds by name
  exactly if it succeeds on the object or only repeats the stored string; where the object level
  would dereference a null pointer, the by-name level returns a type mismatch and changes
  nothing.
\<close>

lemma restore_obj_agrees:
  assumes "cmd_val S c n = Inr u" "restore_log_instruction S n i c = (r, c')"
  shows "(case restore_obj_instruction i (Some u) of
      None \<Rightarrow> r = EStore xaccount_property_operate_type_unmatch \<and> cmd_val S c' n = Inr u
    | Some (r', obj) \<Rightarrow>
        cmd_val S c' n = (case obj of Some x \<Rightarrow> Inr x | None \<Rightarrow> Inl deleted) \<and>
        (r = xsuccess \<longleftrightarrow> r' = xsuccess \<or> r' = EStore xaccount_property_set_value_same))"
proof -
  have "val_step i (Inr u) = (r, cmd_val S c' n)"
    using restore_effect [of S n i c] assms by (simp add: cmd_effect_def)
  then show ?thesis
    by (cases "m_op_code i"; cases u)
      (auto simp: val_step_def val_typed_def restore_obj_instruction_def on_obj_def Let_def obj_op_defs
        split: option.splits if_splits)
qed

theorem restore_obj_agrees_witness:
  "case restore_obj_instruction (instr xproperty_cmd_type_map_clear [] []) (Some (XString ''a'')) of
     None \<Rightarrow> EStore xaccount_property_operate_type_unmatch = EStore xaccount_property_operate_type_unmatch \<and>
       cmd_val \<lparr>has_property_hash = (\<lambda>_. False), clone_property = (\<lambda>_. None)\<rparr>
         (put_obj ''p'' (Some (XString ''a'')) (cmd_new 0)) ''p'' = Inr (XString ''a'')
   | Some (r', obj) \<Rightarrow>
       cmd_val \<lparr>has_property_hash = (\<lambda>_. False), clone_property = (\<lambda>_. None)\<rparr>
         (put_obj ''p'' (Some (XString ''a'')) (cmd_new 0)) ''p'' =
         (case obj of Some x \<Rightarrow> Inr x | None \<Rightarrow> Inl deleted) \<and>
       (EStore xaccount_property_operate_type_unmatch = xsuccess \<longleftrightarrow>
         r' = xsuccess \<or> r' = EStore xaccount_property_set_value_same)"
  by (rule restore_obj_agrees [where c = "put_obj ''p'' (Some (XString ''a'')) (cmd_new 0)"])
    (simp_all add: restore_log_instruction_def instr_def map_clear_def clone_then_def
      get_property_with_type_def get_property_def put_obj_def cmd_new_def om_find_def cmd_val_def)

end
