(* ===== verification/XAction.thy ===== *)
theory XAction
  imports XStream XErrors
begin

text \<open>
  Transaction actions: \<open>xaction_t\<close> of \<open>xdata/xaction.h\<close> with its two serializations, and the
  typed actions of \<open>xdata/xaction_parse.h\<close> and \<open>.cpp\<close> that are parsed from and written to the
  parameter bytes of an action.  A parser gives \<open>Inr\<close> the parsed fields or \<open>Inl\<close> its return code.
  The stream throws the enumerator \<open>enum_xerror_code_bad_packet\<close>; a parser with a
  \<open>catch (...)\<close> turns it into a return code, and a parser without one lets it escape, which is
  \<open>None\<close>.
\<close>

section \<open>Actions\<close>

record xaction =
  m_action_hash :: u32
  m_action_type :: u16
  m_action_size :: u16
  m_account_addr :: string
  m_action_name :: string
  m_action_param :: bytes
  m_action_ext :: string
  m_action_authorization :: string

definition action_new :: xaction where
  "action_new = \<lparr>m_action_hash = 0, m_action_type = 0, m_action_size = 0, m_account_addr = [],
     m_action_name = [], m_action_param = [], m_action_ext = [], m_action_authorization = []\<rparr>"

definition action_serialize_write :: "bool \<Rightarrow> xaction \<Rightarrow> bytes" where
  "action_serialize_write is_write_without_len a =
     put_u32 (m_action_hash a) @ put_u16 (m_action_type a) @
     (if is_write_without_len then put_u16 0 else put_u16 (m_action_size a)) @
     put_string (m_account_addr a) @ put_string (m_action_name a) @ put_string (m_action_param a) @
     put_string (m_action_ext a) @ put_string (m_action_authorization a)"

definition action_serialize_read :: "bytes \<Rightarrow> (xaction \<times> bytes) option" where
  "action_serialize_read s = do {
     (h, s) \<leftarrow> get_u32 s; (t, s) \<leftarrow> get_u16 s; (z, s) \<leftarrow> get_u16 s;
     (addr, s) \<leftarrow> get_string s; (name, s) \<leftarrow> get_string s; (param, s) \<leftarrow> get_string s;
     (ext, s) \<leftarrow> get_string s; (auth, s) \<leftarrow> get_string s;
     Some (\<lparr>m_action_hash = h, m_action_type = t, m_action_size = z, m_account_addr = addr,
       m_action_name = name, m_action_param = param, m_action_ext = ext,
       m_action_authorization = auth\<rparr>, s) }"

text \<open>The authorization of an action is written in hexadecimal after \<open>0x\<close>.\<close>

definition hex_to_dec :: "char \<Rightarrow> nat option" where
  "hex_to_dec c =
     (let n = (of_char c :: nat)
      in if 48 \<le> n \<and> n \<le> 57 then Some (n - 48)
         else if 97 \<le> n \<and> n \<le> 102 then Some (n - 97 + 10)
         else if 65 \<le> n \<and> n \<le> 70 then Some (n - 65 + 10)
         else None)"

fun hex_pairs :: "string \<Rightarrow> bytes option" where
  "hex_pairs [] = Some []"
| "hex_pairs [c] = None"
| "hex_pairs (c # d # s) =
     do { hh \<leftarrow> hex_to_dec c; ll \<leftarrow> hex_to_dec d; r \<leftarrow> hex_pairs s; Some (char_of (hh * 16 + ll) # r) }"

definition hex_to_uint :: "string \<Rightarrow> bytes" where
  "hex_to_uint s =
     (if length s \<le> 2 \<or> length s mod 2 \<noteq> 0 \<or> s ! 0 \<noteq> CHR ''0'' \<or> s ! 1 \<noteq> CHR ''x'' then []
      else case hex_pairs (drop 2 s) of None \<Rightarrow> [] | Some r \<Rightarrow> r)"

text \<open>The digest of an action leaves out its size and its authorization; \<open>sha2\<close> is the hash
  function.  The JSON reader is a parameter: it gives the string members of the document, or
  \<open>None\<close> where the text is refused or a member is no string.\<close>

definition action_sha2 :: "(bytes \<Rightarrow> 'h) \<Rightarrow> xaction \<Rightarrow> 'h" where
  "action_sha2 sha2 a =
     sha2 (put_u32 (m_action_hash a) @ put_u16 (m_action_type a) @ put_u16 0 @
       put_string (m_account_addr a) @ put_string (m_action_name a) @ put_string (m_action_param a) @
       put_string (m_action_ext a))"

definition action_get_authorization :: "(string \<Rightarrow> string \<Rightarrow> string option) \<Rightarrow> xaction \<Rightarrow> bytes" where
  "action_get_authorization json a =
     (case json (m_action_authorization a) ''authorization'' of
        None \<Rightarrow> []
      | Some v \<Rightarrow> hex_to_uint v)"

definition action_get_parent_account :: "(string \<Rightarrow> string \<Rightarrow> string option) \<Rightarrow> xaction \<Rightarrow> string" where
  "action_get_parent_account json a =
     (case json (m_action_authorization a) ''parent_account'' of None \<Rightarrow> [] | Some v \<Rightarrow> v)"


section \<open>Action types\<close>

definition xaction_type_asset_out :: u16 where "xaction_type_asset_out = 0"
definition xaction_type_source_null :: u16 where "xaction_type_source_null = 1"
definition xaction_type_create_user_account :: u16 where "xaction_type_create_user_account = 2"
definition xaction_type_create_contract_account :: u16 where "xaction_type_create_contract_account = 3"
definition xaction_type_run_contract :: u16 where "xaction_type_run_contract = 5"
definition xaction_type_asset_in :: u16 where "xaction_type_asset_in = 6"
definition xaction_type_alias_name :: u16 where "xaction_type_alias_name = 8"
definition xaction_type_set_account_keys :: u16 where "xaction_type_set_account_keys = 12"
definition xaction_type_lock_token :: u16 where "xaction_type_lock_token = 13"
definition xaction_type_unlock_token :: u16 where "xaction_type_unlock_token = 14"
definition xaction_type_pledge_token_vote :: u16 where "xaction_type_pledge_token_vote = 21"
definition xaction_type_redeem_token_vote :: u16 where "xaction_type_redeem_token_vote = 22"
definition xaction_type_pledge_token :: u16 where "xaction_type_pledge_token = 23"
definition xaction_type_redeem_token :: u16 where "xaction_type_redeem_token = 24"

lemmas action_type_defs = xaction_type_asset_out_def xaction_type_source_null_def
  xaction_type_create_user_account_def xaction_type_create_contract_account_def
  xaction_type_run_contract_def xaction_type_asset_in_def xaction_type_alias_name_def
  xaction_type_set_account_keys_def xaction_type_lock_token_def xaction_type_unlock_token_def
  xaction_type_pledge_token_vote_def xaction_type_redeem_token_vote_def xaction_type_pledge_token_def
  xaction_type_redeem_token_def

abbreviation "err_type \<equiv> EData xchain_error_action_type_invalid"
abbreviation "err_empty \<equiv> EData xchain_error_action_param_empty"


section \<open>Assets\<close>

record xproperty_asset =
  m_token_name :: string
  m_amount :: u64

definition XPROPERTY_ASSET_TOP :: string where "XPROPERTY_ASSET_TOP = ''TOP''"

definition top_asset :: "u64 \<Rightarrow> xproperty_asset" where
  "top_asset n = \<lparr>m_token_name = XPROPERTY_ASSET_TOP, m_amount = n\<rparr>"

definition is_top_token :: "xproperty_asset \<Rightarrow> bool" where
  "is_top_token a \<longleftrightarrow> m_token_name a = [] \<or> XPROPERTY_ASSET_TOP = m_token_name a"

definition put_asset :: "xproperty_asset \<Rightarrow> bytes" where
  "put_asset a = put_string (m_token_name a) @ put_u64 (m_amount a)"

definition get_asset :: "bytes \<Rightarrow> (xproperty_asset \<times> bytes) option" where
  "get_asset s = do { (n, s) \<leftarrow> get_string s; (v, s) \<leftarrow> get_u64 s; Some (\<lparr>m_token_name = n, m_amount = v\<rparr>, s) }"

definition asset_proc_parse :: "u16 \<Rightarrow> xaction \<Rightarrow> xret + xproperty_asset" where
  "asset_proc_parse ty a =
     (if m_action_type a \<noteq> ty then Inl err_type
      else if m_action_param a = [] then Inl err_empty
      else case get_asset (m_action_param a) of None \<Rightarrow> Inl err_empty | Some (v, _) \<Rightarrow> Inr v)"

definition asset_proc_serialze_to :: "xproperty_asset \<Rightarrow> u16 \<Rightarrow> xaction \<Rightarrow> xaction" where
  "asset_proc_serialze_to v ty a = a\<lparr>m_action_type := ty, m_action_param := put_asset v\<rparr>"

definition asset_out_parse :: "xaction \<Rightarrow> xret + xproperty_asset" where
  "asset_out_parse a =
     (if m_action_type a \<noteq> xaction_type_asset_out then Inl err_type
      else if m_action_param a = [] then Inl err_empty
      else case get_asset (m_action_param a) of None \<Rightarrow> Inl err_empty | Some (v, _) \<Rightarrow> Inr v)"

definition asset_out_serialze_to :: "xproperty_asset \<Rightarrow> xaction \<Rightarrow> xaction" where
  "asset_out_serialze_to v a = a\<lparr>m_action_type := xaction_type_asset_out, m_action_param := put_asset v\<rparr>"


section \<open>Accounts and contracts\<close>

definition source_null_parse :: "xaction \<Rightarrow> xret" where
  "source_null_parse a =
     (if m_action_type a \<noteq> xaction_type_source_null then err_type
      else if m_action_param a \<noteq> [] then EData xchain_error_action_param_not_empty
      else xsuccess)"

definition source_null_serialze_to :: "xaction \<Rightarrow> xaction" where
  "source_null_serialze_to a = a\<lparr>m_action_type := xaction_type_source_null, m_action_param := []\<rparr>"

definition create_user_account_parse :: "xaction \<Rightarrow> xret + string" where
  "create_user_account_parse a =
     (if m_action_type a \<noteq> xaction_type_create_user_account then Inl err_type
      else if m_action_param a = [] then Inl err_empty
      else case get_string (m_action_param a) of None \<Rightarrow> Inl err_empty | Some (v, _) \<Rightarrow> Inr v)"

definition create_user_account_serialze_to :: "string \<Rightarrow> xaction \<Rightarrow> xaction" where
  "create_user_account_serialze_to address a =
     a\<lparr>m_action_type := xaction_type_create_user_account, m_action_param := put_string address\<rparr>"

definition MAX_CONTRACT_CODE_SIZE :: nat where "MAX_CONTRACT_CODE_SIZE = 32768"

definition deploy_contract_parse :: "xaction \<Rightarrow> xret + u64 \<times> string" where
  "deploy_contract_parse a =
     (if m_action_type a \<noteq> xaction_type_create_contract_account then Inl err_type
      else if m_action_param a = [] then Inl err_empty
      else case do { (lim, s) \<leftarrow> get_u64 (m_action_param a); (code, s) \<leftarrow> get_string s; Some (lim, code) } of
             None \<Rightarrow> Inl err_empty
           | Some (lim, code) \<Rightarrow>
               if MAX_CONTRACT_CODE_SIZE < length code
               then Inl (EData xchain_error_action_param_code_length_too_long)
               else Inr (lim, code))"

definition deploy_contract_serialze_to :: "u64 \<Rightarrow> string \<Rightarrow> xaction \<Rightarrow> xret \<times> xaction" where
  "deploy_contract_serialze_to lim code a =
     (if code = [] then (err_empty, a)
      else (xsuccess, a\<lparr>m_action_type := xaction_type_create_contract_account,
                       m_action_param := put_u64 lim @ put_string code\<rparr>))"

definition run_contract_parse :: "xaction \<Rightarrow> xret + string \<times> bytes" where
  "run_contract_parse a =
     (if m_action_type a \<noteq> xaction_type_run_contract then Inl err_type
      else Inr (m_action_name a, m_action_param a))"

definition run_contract_serialze_to :: "string \<Rightarrow> bytes \<Rightarrow> xaction \<Rightarrow> xaction" where
  "run_contract_serialze_to fname para a =
     a\<lparr>m_action_type := xaction_type_run_contract, m_action_name := fname, m_action_param := para\<rparr>"

definition alias_name_parse :: "xaction \<Rightarrow> xret + string" where
  "alias_name_parse a =
     (if m_action_type a \<noteq> xaction_type_alias_name then Inl err_type
      else if m_action_param a = [] then Inl err_empty
      else if 32 < length (m_action_param a) then Inl (EData xchain_error_action_param_size_too_large)
      else Inr (m_action_param a))"

text \<open>The two checks look at the parameter that the action held before, not at the new name.\<close>

definition alias_name_serialze_to :: "string \<Rightarrow> xaction \<Rightarrow> xret \<times> xaction" where
  "alias_name_serialze_to name a =
     (let a = a\<lparr>m_action_type := xaction_type_alias_name\<rparr>
      in if m_action_param a = [] then (err_empty, a)
         else if 32 < length (m_action_param a) then (EData xchain_error_action_param_size_too_large, a)
         else (xsuccess, a\<lparr>m_action_param := name\<rparr>))"

definition set_account_keys_parse :: "xaction \<Rightarrow> (xret + string \<times> string) option" where
  "set_account_keys_parse a =
     (if m_action_type a \<noteq> xaction_type_set_account_keys then Some (Inl err_type)
      else do {
        (k, s) \<leftarrow> get_string (m_action_param a);
        (v, s) \<leftarrow> get_string s;
        Some (if length v \<noteq> 65 then Inl (EData xchain_error_set_account_key_len_invalid) else Inr (k, v)) })"


section \<open>Locking and votes\<close>

record xaction_lock_account_token =
  lock_version :: u32
  lock_amount :: u64
  m_unlock_type :: u32
  m_unlock_values :: "string list"
  m_params :: bytes

definition UT_time :: u32 where "UT_time = 0"
definition UT_alone_key :: u32 where "UT_alone_key = 1"
definition UT_muti_keys :: u32 where "UT_muti_keys = 2"

definition lock_param_check :: "xaction_lock_account_token \<Rightarrow> xret" where
  "lock_param_check l =
     (let vs = m_unlock_values l
      in if m_unlock_type l = UT_time then
           (if length vs \<noteq> 1 then EData xchain_error_unlock_keys_num_invalid
            else if take 1 (vs ! 0) = ''-'' \<or> 19 < length (vs ! 0)
                 then EData xchain_error_lock_token_time_param_invalid
            else xsuccess)
         else if m_unlock_type l = UT_alone_key then
           (if length vs \<noteq> 1 then EData xchain_error_unlock_keys_num_invalid
            else if length (vs ! 0) \<noteq> 65 then EData xchain_error_unlock_keys_len_invalid
            else xsuccess)
         else
           (if vs = [] then EData xchain_error_unlock_keys_num_invalid
            else if 8 < length vs then EData xchain_error_lock_token_pubkey_size_beyond_limit
            else if list_ex (\<lambda>v. length v \<noteq> 65) vs then EData xchain_error_unlock_keys_len_invalid
            else xsuccess))"

text \<open>Reading the fields and checking them; a caller that ignores the result keeps the fields.\<close>

definition lock_read_param :: "bytes \<Rightarrow> xaction_lock_account_token option" where
  "lock_read_param param = do {
     (ver, s) \<leftarrow> get_u32 param; (amount, s) \<leftarrow> get_u64 s; (ty, s) \<leftarrow> get_u32 s;
     (n, s) \<leftarrow> get_u32 s;
     (vs, s) \<leftarrow> get_loop (unat n) get_string emplace_back [] s;
     Some \<lparr>lock_version = ver, lock_amount = amount, m_unlock_type = ty, m_unlock_values = vs, m_params = []\<rparr> }"

definition lock_parse_param :: "bytes \<Rightarrow> (xret + xaction_lock_account_token) option" where
  "lock_parse_param param = do {
     l \<leftarrow> lock_read_param param;
     let r = lock_param_check l;
     Some (if r = xsuccess then Inr (l\<lparr>m_params := param\<rparr>) else Inl r) }"

definition lock_parse :: "xaction \<Rightarrow> (xret + xaction_lock_account_token) option" where
  "lock_parse a =
     (if m_action_type a \<noteq> xaction_type_lock_token then Some (Inl err_type)
      else lock_parse_param (m_action_param a))"

record xaction_unlock_account_token =
  unlock_version :: u32
  m_lock_tran_hash :: bytes
  m_signatures :: "string list"

definition unlock_parse_param :: "bytes \<Rightarrow> xaction_unlock_account_token option" where
  "unlock_parse_param param = do {
     (ver, s) \<leftarrow> get_u32 param; (h, s) \<leftarrow> get_string s; (n, s) \<leftarrow> get_u32 s;
     (vs, s) \<leftarrow> get_loop (unat n) get_string emplace_back [] s;
     Some \<lparr>unlock_version = ver, m_lock_tran_hash = h, m_signatures = vs\<rparr> }"

definition unlock_parse :: "xaction \<Rightarrow> (xret + xaction_unlock_account_token) option" where
  "unlock_parse a =
     (if m_action_type a \<noteq> xaction_type_unlock_token then Some (Inl err_type)
      else map_option Inr (unlock_parse_param (m_action_param a)))"

definition pledge_token_vote_parse :: "xaction \<Rightarrow> (xret + u64 \<times> u16) option" where
  "pledge_token_vote_parse a =
     (if m_action_type a \<noteq> xaction_type_pledge_token_vote then Some (Inl err_type)
      else do {
        (n, s) \<leftarrow> get_u64 (m_action_param a); (dur, s) \<leftarrow> get_u16 s;
        Some (Inr (n, dur)) })"

definition pledge_token_vote_serialze_to :: "u64 \<Rightarrow> u16 \<Rightarrow> xaction \<Rightarrow> xaction" where
  "pledge_token_vote_serialze_to n dur a =
     a\<lparr>m_action_type := xaction_type_pledge_token_vote, m_action_param := put_u64 n @ put_u16 dur\<rparr>"

definition redeem_token_vote_parse :: "xaction \<Rightarrow> (xret + u64) option" where
  "redeem_token_vote_parse a =
     (if m_action_type a \<noteq> xaction_type_redeem_token_vote then Some (Inl err_type)
      else do { (n, s) \<leftarrow> get_u64 (m_action_param a); Some (Inr n) })"

definition redeem_token_vote_serialze_to :: "u64 \<Rightarrow> xaction \<Rightarrow> xaction" where
  "redeem_token_vote_serialze_to n a =
     a\<lparr>m_action_type := xaction_type_redeem_token_vote, m_action_param := put_u64 n\<rparr>"


section \<open>Reading back\<close>

definition action_fits :: "xaction \<Rightarrow> bool" where
  "action_fits a \<longleftrightarrow> str_ok (m_account_addr a) \<and> str_ok (m_action_name a) \<and> str_ok (m_action_param a) \<and>
     str_ok (m_action_ext a) \<and> str_ok (m_action_authorization a)"

interpretation act: object_codec "action_serialize_write False" action_serialize_read action_fits
  by unfold_locales (simp add: action_serialize_write_def action_serialize_read_def action_fits_def)

lemma action_read_without_len:
  "action_fits a \<Longrightarrow> action_serialize_read (action_serialize_write True a @ s) = Some (a\<lparr>m_action_size := 0\<rparr>, s)"
  by (simp add: action_serialize_write_def action_serialize_read_def action_fits_def)

lemma length_action_write: "length (action_serialize_write b a) = length (action_serialize_write c a)"
  by (simp add: action_serialize_write_def put_u16_def)

interpretation asset: codec put_asset get_asset "\<lambda>v. str_ok (m_token_name v)"
proof (unfold_locales, goal_cases)
  case (1 x s)
  then show ?case by (simp add: put_asset_def get_asset_def)
next
  case (2 x)
  then show ?case using str.put_pos [of "m_token_name x"] by (simp add: put_asset_def)
next
  case (3 s x r)
  then obtain n s' v where 1: "get_string s = Some (n, s')" and 2: "get_u64 s' = Some (v, r)"
    by (auto simp: get_asset_def split: bind_splits)
  obtain p q where "p \<noteq> []" "s = p @ s'" "s' = q @ r"
    using str.get_suffix [OF 1] u64.get_suffix [OF 2] by blast
  then show ?case by (intro exI [of _ "p @ q"]) simp
qed

lemma put_asset_nonempty [simp]: "put_asset v \<noteq> []"
  using asset.put_pos [of v] by simp

lemma put_string_nonempty [simp]: "put_string v \<noteq> []"
  using str.put_pos [of v] by simp

lemma put_u64_nonempty [simp]: "put_u64 v \<noteq> []"
  using u64.put_pos [of v] by simp

lemmas parse_round = asset.get_put [of _ "[]", simplified] str.get_put [of _ "[]", simplified]
  u64.get_put [OF TrueI, of _ "[]", simplified] u16.get_put [OF TrueI, of _ "[]", simplified]

text \<open>
  C27 What eight of the nine writers of typed actions put into an action is parsed back: the empty source action, an
  outgoing asset and an asset of any action type (token names below 2^32 bytes), an account address (below
  2^32 bytes), a contract (its code not empty and of at most 32768 bytes), a contract call, and the pledge and
  redeem of votes.  The ninth writer, of the alias action, has no round trip, see
  \<open>alias_name_checks_old_param\<close>; the lock, unlock and key actions have a parser but no writer.
\<close>

theorem action_parse_round:
  assumes "str_ok (m_token_name v)" "str_ok addr" "code \<noteq> []" "length code \<le> MAX_CONTRACT_CODE_SIZE"
  shows "source_null_parse (source_null_serialze_to a) = xsuccess \<and>
    asset_out_parse (asset_out_serialze_to v a) = Inr v \<and>
    asset_proc_parse ty (asset_proc_serialze_to v ty a) = Inr v \<and>
    create_user_account_parse (create_user_account_serialze_to addr a) = Inr addr \<and>
    (fst (deploy_contract_serialze_to lim code a) = xsuccess \<and>
     deploy_contract_parse (snd (deploy_contract_serialze_to lim code a)) = Inr (lim, code)) \<and>
    run_contract_parse (run_contract_serialze_to fname para a) = Inr (fname, para) \<and>
    pledge_token_vote_parse (pledge_token_vote_serialze_to n dur a) = Some (Inr (n, dur)) \<and>
    redeem_token_vote_parse (redeem_token_vote_serialze_to n a) = Some (Inr n)"
proof -
  have "str_ok code" using assms(4) by (simp add: str_ok_def MAX_CONTRACT_CODE_SIZE_def)
  then show ?thesis
    using assms
    by (simp add: source_null_parse_def source_null_serialze_to_def asset_out_parse_def asset_out_serialze_to_def asset_proc_parse_def asset_proc_serialze_to_def
        create_user_account_parse_def create_user_account_serialze_to_def deploy_contract_parse_def
        deploy_contract_serialze_to_def run_contract_parse_def run_contract_serialze_to_def
        pledge_token_vote_parse_def pledge_token_vote_serialze_to_def redeem_token_vote_parse_def
        redeem_token_vote_serialze_to_def parse_round)
qed

theorem action_parse_round_witness:
  "asset_out_parse (asset_out_serialze_to (top_asset 5) action_new) = Inr (top_asset 5) \<and>
   deploy_contract_parse (snd (deploy_contract_serialze_to 7 ''x'' action_new)) = Inr (7, ''x'')"
  using action_parse_round [of "top_asset 5" "[]" "''x''" action_new 0 7 "[]" "[]" 0 0]
  by (simp add: top_asset_def XPROPERTY_ASSET_TOP_def str_ok_def MAX_CONTRACT_CODE_SIZE_def)

text \<open>
  C28 A lock action that is accepted has usable unlock values: one time string of at most 19
  characters without a minus sign, one key of 65 bytes, or between one and eight keys of 65
  bytes; its raw parameter is kept for the later unlock.
\<close>

theorem lock_parse_accepts:
  assumes "lock_parse a = Some (Inr l)"
  shows "m_params l = m_action_param a \<and> m_unlock_values l \<noteq> [] \<and> length (m_unlock_values l) \<le> 8 \<and>
    (m_unlock_type l = UT_time \<longrightarrow>
       (\<exists>v. m_unlock_values l = [v] \<and> length v \<le> 19 \<and> take 1 v \<noteq> ''-'')) \<and>
    (m_unlock_type l = UT_alone_key \<longrightarrow> length (m_unlock_values l) = 1) \<and>
    (m_unlock_type l \<noteq> UT_time \<longrightarrow> (\<forall>v \<in> set (m_unlock_values l). length v = 65))"
proof -
  have "m_params l = m_action_param a" and c: "lock_param_check l = xsuccess"
    using assms
    by (auto simp: lock_parse_def lock_parse_param_def lock_param_check_def Let_def
        split: if_splits bind_splits)
  moreover have "length vs = 1 \<Longrightarrow> \<exists>v. vs = [v]" for vs :: "string list" by (cases vs) auto
  ultimately show ?thesis
    by (fastforce simp: lock_param_check_def Let_def list_ex_iff split: if_splits)
qed

theorem lock_parse_accepts_witness:
  "let a = action_new\<lparr>m_action_type := 13,
             m_action_param := put_u32 0 @ put_u64 5 @ put_u32 0 @ put_u32 1 @ put_string ''90''\<rparr>;
       l = \<lparr>lock_version = 0, lock_amount = 5, m_unlock_type = 0, m_unlock_values = [''90''],
             m_params = m_action_param a\<rparr>
   in lock_parse a = Some (Inr l) \<and> length (m_unlock_values l) \<le> 8"
proof -
  let ?p = "put_u32 0 @ put_u64 5 @ put_u32 0 @ put_u32 1 @ put_string ''90''"
  have 1: "lock_parse (action_new\<lparr>m_action_type := 13, m_action_param := ?p\<rparr>) =
      Some (Inr \<lparr>lock_version = 0, lock_amount = 5, m_unlock_type = 0, m_unlock_values = [''90''], m_params = ?p\<rparr>)"
    by (simp add: lock_parse_def lock_parse_param_def lock_read_param_def lock_param_check_def xaction_type_lock_token_def
        UT_time_def str_ok_def emplace_back_def parse_round Let_def)
  then show ?thesis
    using lock_parse_accepts [OF 1] by (simp add: Let_def)
qed

text \<open>
  The two vote actions are read without a handler: exactly when the parameter is shorter than
  the fields (10 bytes and 8 bytes) the exception of the stream leaves the parser, and no return
  code is given.
\<close>

lemma vote_parse_escapes:
  "(pledge_token_vote_parse a = None \<longleftrightarrow>
      m_action_type a = xaction_type_pledge_token_vote \<and> length (m_action_param a) < 10) \<and>
   (redeem_token_vote_parse a = None \<longleftrightarrow>
      m_action_type a = xaction_type_redeem_token_vote \<and> length (m_action_param a) < 8)"
  by (auto simp: pledge_token_vote_parse_def redeem_token_vote_parse_def get_u64_def get_u16_def get_uint_def
      split: if_splits)

text \<open>
  The writer of the alias action tests the parameter that the action held before instead of
  the new name: on a fresh action every name is refused as empty, and on an action that holds a
  short parameter a name of any length is written although the parser refuses it.
\<close>

lemma alias_name_checks_old_param:
  "fst (alias_name_serialze_to name action_new) = err_empty \<and>
   m_action_param (snd (alias_name_serialze_to name action_new)) = [] \<and>
   (let (r, a) = alias_name_serialze_to (replicate 33 (CHR ''a'')) (action_new\<lparr>m_action_param := ''b''\<rparr>)
    in r = xsuccess \<and> alias_name_parse a = Inl (EData xchain_error_action_param_size_too_large))"
  by (simp add: alias_name_serialze_to_def alias_name_parse_def action_new_def)

end
