(* ===== verification/XNativeProperty.thy ===== *)
theory XNativeProperty
  imports XDataUnit XErrors
begin

text \<open>
  \<open>xdata/xnative_property.h\<close> and \<open>.cpp\<close>: the table of native properties of an account.
  The table maps names to shared pointers, and a copy of the table shares the objects, so the
  objects live in a heap of addresses and the table holds addresses.  Every operation takes and
  returns the heap and the table.
\<close>

section \<open>State\<close>

type_synonym addr = nat
type_synonym heap = "xdataunit list"

definition deref :: "heap \<Rightarrow> addr \<Rightarrow> xdataunit option" where
  "deref h a = (if a < length h then Some (h ! a) else None)"

record xnative_property =
  m_objs :: "(string, addr) omap"
  m_modify_objs :: "(string, addr) omap"

definition np_empty :: xnative_property where
  "np_empty = \<lparr>m_objs = [], m_modify_objs = []\<rparr>"


section \<open>Table operations\<close>

definition copy_modify_objs_only :: "xnative_property \<Rightarrow> xnative_property \<Rightarrow> xnative_property" where
  "copy_modify_objs_only np rhs = np\<lparr>m_objs := m_modify_objs rhs\<rparr>"

definition add_property :: "xnative_property \<Rightarrow> xnative_property \<Rightarrow> xnative_property" where
  "add_property np rhs = np\<lparr>m_objs := fold (\<lambda>(n, a). om_set n a) (m_objs rhs) (m_objs np)\<rparr>"

definition is_property_exist :: "xnative_property \<Rightarrow> string \<Rightarrow> bool" where
  "is_property_exist np n = (om_find (m_objs np) n \<noteq> None)"

definition is_dirty :: "xnative_property \<Rightarrow> bool" where
  "is_dirty np = (m_modify_objs np \<noteq> [])"

definition clear_dirty :: "xnative_property \<Rightarrow> xnative_property" where
  "clear_dirty np = np\<lparr>m_modify_objs := []\<rparr>"

text \<open>The object of a name if its type is the asked one.\<close>

definition property_get :: "(xdataunit \<Rightarrow> 'x option) \<Rightarrow> heap \<Rightarrow> xnative_property \<Rightarrow> string
    \<Rightarrow> (addr \<times> 'x) option" where
  "property_get as h np n =
     do { a \<leftarrow> om_find (m_objs np) n; u \<leftarrow> deref h a; x \<leftarrow> as u; Some (a, x) }"

definition string_get :: "heap \<Rightarrow> xnative_property \<Rightarrow> string \<Rightarrow> (addr \<times> xstring_t) option" where
  "string_get h np n = property_get as_string h np n"

definition deque_get :: "heap \<Rightarrow> xnative_property \<Rightarrow> string \<Rightarrow> (addr \<times> xstrdeque_t) option" where
  "deque_get h np n = property_get as_deque h np n"

definition map_get :: "heap \<Rightarrow> xnative_property \<Rightarrow> string \<Rightarrow> (addr \<times> xstrmap_t) option" where
  "map_get h np n = property_get as_map h np n"

definition property_set :: "string \<Rightarrow> addr \<Rightarrow> xnative_property \<Rightarrow> xret \<times> xnative_property" where
  "property_set n a np =
     (case om_find (m_objs np) n of
        None \<Rightarrow> (xsuccess, np\<lparr>m_objs := om_set n a (m_objs np),
                             m_modify_objs := om_set n a (m_modify_objs np)\<rparr>)
      | Some b \<Rightarrow>
          if b \<noteq> a then (xminus_one, np)
          else (xsuccess, np\<lparr>m_modify_objs := om_set n a (m_modify_objs np)\<rparr>))"

text \<open>The tail of every mutating operation: the object at \<open>a\<close> has become \<open>u\<close>, then
  \<open>property_set\<close>; and the case of a freshly made object.\<close>

definition np_touch :: "string \<Rightarrow> addr \<Rightarrow> xdataunit \<Rightarrow> heap \<Rightarrow> xnative_property
    \<Rightarrow> xret \<times> heap \<times> xnative_property" where
  "np_touch n a u h np = (let (r, np') = property_set n a np in (r, h[a := u], np'))"

definition np_make :: "string \<Rightarrow> xdataunit \<Rightarrow> heap \<Rightarrow> xnative_property
    \<Rightarrow> xret \<times> heap \<times> xnative_property" where
  "np_make n u h np = (let (r, np') = property_set n (length h) np in (r, h @ [u], np'))"

abbreviation "np_not_exist \<equiv> EData xdata_error_native_property_not_exist"
abbreviation "np_value_not_exist \<equiv> EData xdata_error_native_property_value_not_exist"


section \<open>String properties\<close>

definition native_string_set :: "string \<Rightarrow> string \<Rightarrow> heap \<Rightarrow> xnative_property
    \<Rightarrow> xret \<times> heap \<times> xnative_property" where
  "native_string_set n v h np =
     (case string_get h np n of
        None \<Rightarrow> np_make n (XString (xstring_set v [])) h np
      | Some (a, s) \<Rightarrow> np_touch n a (XString (xstring_set v s)) h np)"

definition native_string_get :: "string \<Rightarrow> heap \<Rightarrow> xnative_property \<Rightarrow> xret + string" where
  "native_string_get n h np =
     (case string_get h np n of
        Some (a, s) \<Rightarrow> Inr (fst (xstring_get s))
      | None \<Rightarrow> Inl np_not_exist)"


section \<open>Map properties\<close>

definition native_map_set :: "string \<Rightarrow> string \<Rightarrow> string \<Rightarrow> heap \<Rightarrow> xnative_property
    \<Rightarrow> xret \<times> heap \<times> xnative_property" where
  "native_map_set n field v h np =
     (case map_get h np n of
        None \<Rightarrow> np_make n (XMap (xmap_set field v [])) h np
      | Some (a, m) \<Rightarrow> np_touch n a (XMap (xmap_set field v m)) h np)"

definition native_map_clear :: "string \<Rightarrow> heap \<Rightarrow> xnative_property
    \<Rightarrow> xret \<times> heap \<times> xnative_property" where
  "native_map_clear n h np =
     (case map_get h np n of
        Some (a, m) \<Rightarrow> np_touch n a (XMap (xmap_clear m)) h np
      | None \<Rightarrow> (np_not_exist, h, np))"

definition native_map_get :: "string \<Rightarrow> string \<Rightarrow> heap \<Rightarrow> xnative_property \<Rightarrow> xret + string" where
  "native_map_get n field h np =
     (case map_get h np n of
        Some (a, m) \<Rightarrow> (case xmap_get field m of Some v \<Rightarrow> Inr v | None \<Rightarrow> Inl np_not_exist)
      | None \<Rightarrow> Inl np_not_exist)"

text \<open>A missing field is only logged; the table is marked modified all the same.\<close>

definition native_map_erase :: "string \<Rightarrow> string \<Rightarrow> heap \<Rightarrow> xnative_property
    \<Rightarrow> xret \<times> heap \<times> xnative_property" where
  "native_map_erase n field h np =
     (case map_get h np n of
        Some (a, m) \<Rightarrow>
          np_touch n a (XMap (case xmap_remove field m of Some m' \<Rightarrow> m' | None \<Rightarrow> m)) h np
      | None \<Rightarrow> (np_not_exist, h, np))"

definition native_map_size :: "string \<Rightarrow> heap \<Rightarrow> xnative_property \<Rightarrow> xret + i32" where
  "native_map_size n h np =
     (case map_get h np n of
        Some (a, m) \<Rightarrow> Inr (of_nat (length m))
      | None \<Rightarrow> Inl np_not_exist)"


section \<open>Deque properties\<close>

definition native_deque_push_back :: "string \<Rightarrow> string \<Rightarrow> heap \<Rightarrow> xnative_property
    \<Rightarrow> xret \<times> heap \<times> xnative_property" where
  "native_deque_push_back n v h np =
     (case deque_get h np n of
        None \<Rightarrow> np_make n (XDeque (xdeque_push_back v [])) h np
      | Some (a, q) \<Rightarrow> np_touch n a (XDeque (xdeque_push_back v q)) h np)"

definition native_deque_push_front :: "string \<Rightarrow> string \<Rightarrow> heap \<Rightarrow> xnative_property
    \<Rightarrow> xret \<times> heap \<times> xnative_property" where
  "native_deque_push_front n v h np =
     (case deque_get h np n of
        None \<Rightarrow> np_make n (XDeque (xdeque_push_front v [])) h np
      | Some (a, q) \<Rightarrow> np_touch n a (XDeque (xdeque_push_front v q)) h np)"

text \<open>The popped value is the output parameter; \<open>None\<close> where it is left alone.\<close>

definition native_deque_pop_back :: "string \<Rightarrow> heap \<Rightarrow> xnative_property
    \<Rightarrow> string option \<times> xret \<times> heap \<times> xnative_property" where
  "native_deque_pop_back n h np =
     (case deque_get h np n of
        Some (a, q) \<Rightarrow>
          (case xdeque_pop_back q of
             None \<Rightarrow> (None, np_value_not_exist, h, np)
           | Some (v, q') \<Rightarrow> (Some v, np_touch n a (XDeque q') h np))
      | None \<Rightarrow> (None, np_not_exist, h, np))"

definition native_deque_pop_front :: "string \<Rightarrow> heap \<Rightarrow> xnative_property
    \<Rightarrow> string option \<times> xret \<times> heap \<times> xnative_property" where
  "native_deque_pop_front n h np =
     (case deque_get h np n of
        Some (a, q) \<Rightarrow>
          (case xdeque_pop_front q of
             None \<Rightarrow> (None, np_value_not_exist, h, np)
           | Some (v, q') \<Rightarrow> (Some v, np_touch n a (XDeque q') h np))
      | None \<Rightarrow> (None, np_not_exist, h, np))"

definition native_deque_erase :: "string \<Rightarrow> string \<Rightarrow> heap \<Rightarrow> xnative_property
    \<Rightarrow> xret \<times> heap \<times> xnative_property" where
  "native_deque_erase n v h np =
     (case deque_get h np n of
        Some (a, q) \<Rightarrow>
          (case xdeque_erase v q of
             None \<Rightarrow> (np_value_not_exist, h, np)
           | Some q' \<Rightarrow> np_touch n a (XDeque q') h np)
      | None \<Rightarrow> (np_not_exist, h, np))"

definition native_deque_clear :: "string \<Rightarrow> heap \<Rightarrow> xnative_property
    \<Rightarrow> xret \<times> heap \<times> xnative_property" where
  "native_deque_clear n h np =
     (case deque_get h np n of
        Some (a, q) \<Rightarrow> np_touch n a (XDeque (xdeque_clear q)) h np
      | None \<Rightarrow> (np_not_exist, h, np))"

definition native_deque_exist :: "string \<Rightarrow> string \<Rightarrow> heap \<Rightarrow> xnative_property \<Rightarrow> bool" where
  "native_deque_exist n v h np =
     (case deque_get h np n of
        Some (a, q) \<Rightarrow> list_ex (\<lambda>i. xdeque_get i q = Some v) [0..<length q]
      | None \<Rightarrow> False)"

definition native_deque_size :: "string \<Rightarrow> heap \<Rightarrow> xnative_property \<Rightarrow> xret + i32" where
  "native_deque_size n h np =
     (case deque_get h np n of
        Some (a, q) \<Rightarrow> Inr (of_nat (length q))
      | None \<Rightarrow> Inl np_not_exist)"

definition native_deque_get :: "string \<Rightarrow> heap \<Rightarrow> xnative_property \<Rightarrow> string list \<Rightarrow> xret \<times> string list" where
  "native_deque_get n h np out =
     (case deque_get h np n of
        Some (a, q) \<Rightarrow>
          (xsuccess, out @ List.map_filter (\<lambda>i. xdeque_get i q) [0..<length q])
      | None \<Rightarrow> (np_not_exist, out))"


section \<open>Serialization of the table\<close>

text \<open>\<open>serialize_to\<close> and \<open>read_from\<close> of an object add a header in code outside the sources;
  they are the parameters \<open>wr\<close> and \<open>rd\<close>.\<close>

definition np_put_item :: "(xdataunit \<Rightarrow> bytes) \<Rightarrow> heap \<Rightarrow> string \<times> addr \<Rightarrow> bytes" where
  "np_put_item wr h p = put_string (fst p) @ wr (h ! snd p)"

definition np_do_write :: "(xdataunit \<Rightarrow> bytes) \<Rightarrow> heap \<Rightarrow> xnative_property \<Rightarrow> bytes" where
  "np_do_write wr h np =
     put_u32 (of_nat (length (m_objs np))) @
     concat (map (np_put_item wr h) (m_objs np))"

definition np_read_item :: "string \<times> xdataunit \<Rightarrow> heap \<times> xnative_property \<Rightarrow> heap \<times> xnative_property" where
  "np_read_item item s =
     (let (n, u) = item; (h, np) = s
      in (h @ [u], np\<lparr>m_objs := om_set n (length h) (m_objs np)\<rparr>))"

definition np_do_read :: "(bytes \<Rightarrow> (xdataunit \<times> bytes) option) \<Rightarrow> heap \<Rightarrow> xnative_property \<Rightarrow> bytes
    \<Rightarrow> ((heap \<times> xnative_property) \<times> bytes) option" where
  "np_do_read rd h np s =
     do { (n, r) \<leftarrow> get_u32 s; get_loop (unat n) (get_pair get_string rd) np_read_item (h, np) r }"


section \<open>Invariant and abstraction\<close>

text \<open>Entries in key order; every table address is allocated and used for one name only; a
  modified object is the object of the table; every map object is in key order.\<close>

definition np_inv :: "heap \<Rightarrow> xnative_property \<Rightarrow> bool" where
  "np_inv h np \<longleftrightarrow>
     om_inv (m_objs np) \<and> om_inv (m_modify_objs np) \<and>
     list_all (\<lambda>p. snd p < length h) (m_objs np) \<and>
     distinct (map snd (m_objs np)) \<and>
     list_all (\<lambda>p. om_find (m_objs np) (fst p) = Some (snd p)) (m_modify_objs np) \<and>
     list_all unit_inv h"

type_synonym ptable = "string \<Rightarrow> xdataunit option"

definition np_view :: "heap \<Rightarrow> xnative_property \<Rightarrow> ptable" where
  "np_view h np n = do { a \<leftarrow> om_find (m_objs np) n; deref h a }"

lemma np_view_in: "np_view h np n = Some u \<Longrightarrow> u \<in> set h"
  by (auto simp: np_view_def deref_def split: bind_splits if_splits intro: nth_mem)

lemma om_find_in: "om_find m k = Some v \<Longrightarrow> (k, v) \<in> set m"
  by (simp add: om_find_def map_of_SomeD)

lemma om_in_find: "om_inv m \<Longrightarrow> (k, v) \<in> set m \<Longrightarrow> om_find m k = Some v"
  by (simp add: om_find_def om_inv_distinct)

lemma np_inv_bound: "np_inv h np \<Longrightarrow> om_find (m_objs np) n = Some a \<Longrightarrow> a < length h"
  unfolding np_inv_def list_all_iff using om_find_in by fastforce

lemma np_inv_inj:
  assumes "np_inv h np" "om_find (m_objs np) n = Some a" "om_find (m_objs np) n' = Some a"
  shows "n = n'"
proof -
  have d: "distinct (map snd (m_objs np))"
    using assms(1) by (simp add: np_inv_def)
  have "inj_on snd (set (m_objs np))"
    using d by (simp add: distinct_map)
  then show ?thesis
    using inj_onD [of snd "set (m_objs np)" "(n, a)" "(n', a)"]
      om_find_in [OF assms(2)] om_find_in [OF assms(3)] by simp
qed

lemma np_inv_modify:
  assumes "np_inv h np" "om_find (m_modify_objs np) n = Some a"
  shows "om_find (m_objs np) n = Some a"
  using assms om_find_in [OF assms(2)] by (auto simp: np_inv_def list_all_iff)

lemma om_set_entries: "om_inv m \<Longrightarrow> p \<in> set (om_set k v m) \<Longrightarrow> p = (k, v) \<or> p \<in> set m \<and> fst p \<noteq> k"
proof -
  assume inv: "om_inv m" and p: "p \<in> set (om_set k v m)"
  have "om_find (om_set k v m) (fst p) = Some (snd p)"
    using om_in_find [OF om_inv_set [OF inv], of "fst p" "snd p" k v] p by simp
  then show ?thesis
    using om_find_in [of m "fst p" "snd p"] by (cases p) (auto split: if_splits)
qed

lemma distinct_snd_iff:
  "om_inv m \<Longrightarrow> distinct (map snd m) \<longleftrightarrow>
    (\<forall>p \<in> set m. \<forall>q \<in> set m. snd p = snd q \<longrightarrow> fst p = fst q)"
proof
  assume "om_inv m" and d: "distinct (map snd m)"
  then have "inj_on snd (set m)"
    by (simp add: distinct_map)
  then show "\<forall>p \<in> set m. \<forall>q \<in> set m. snd p = snd q \<longrightarrow> fst p = fst q"
    by (auto dest: inj_onD)
next
  assume inv: "om_inv m" and "\<forall>p \<in> set m. \<forall>q \<in> set m. snd p = snd q \<longrightarrow> fst p = fst q"
  then have "inj_on snd (set m)"
    by (auto intro!: inj_onI simp: prod_eq_iff)
  moreover have "distinct m"
    using om_inv_distinct [OF inv] by (simp add: distinct_map)
  ultimately show "distinct (map snd m)"
    by (simp add: distinct_map)
qed

lemma np_touch_correct:
  assumes inv: "np_inv h np" and a: "om_find (m_objs np) n = Some a" and u: "unit_inv u"
    and t: "np_touch n a u h np = (r, h', np')"
  shows "r = xsuccess" "np_inv h' np'" "np_view h' np' = (np_view h np)(n \<mapsto> u)"
    "om_find (m_modify_objs np') n' = (if n' = n then Some a else om_find (m_modify_objs np) n')"
    "m_objs np' = m_objs np"
proof -
  have al: "a < length h"
    using np_inv_bound [OF inv a] .
  have e: "r = xsuccess" "h' = h[a := u]" "np' = np\<lparr>m_modify_objs := om_set n a (m_modify_objs np)\<rparr>"
    using t a by (auto simp: np_touch_def property_set_def)
  show "r = xsuccess" "m_objs np' = m_objs np"
    using e by simp_all
  show "om_find (m_modify_objs np') n' = (if n' = n then Some a else om_find (m_modify_objs np) n')"
    using e by simp
  show "np_view h' np' = (np_view h np)(n \<mapsto> u)"
  proof
    fix x
    show "np_view h' np' x = ((np_view h np)(n \<mapsto> u)) x"
      using al a np_inv_inj [OF inv a, of x]
      by (cases "om_find (m_objs np) x") (auto simp: np_view_def e deref_def nth_list_update)
  qed
  have "list_all unit_inv h'"
    using inv u set_update_subset_insert [of h a u] by (auto simp: e np_inv_def list_all_iff)
  moreover have "list_all (\<lambda>p. om_find (m_objs np) (fst p) = Some (snd p)) (om_set n a (m_modify_objs np))"
    using inv a om_set_entries [of "m_modify_objs np" _ n a] by (fastforce simp: np_inv_def list_all_iff)
  ultimately show "np_inv h' np'"
    using inv by (simp add: np_inv_def e)
qed

lemma np_make_new:
  assumes inv: "np_inv h np" and a: "om_find (m_objs np) n = None" and u: "unit_inv u"
    and t: "np_make n u h np = (r, h', np')"
  shows "r = xsuccess" "np_inv h' np'" "np_view h' np' = (np_view h np)(n \<mapsto> u)"
    "om_find (m_modify_objs np') n' = (if n' = n then Some (length h) else om_find (m_modify_objs np) n')"
proof -
  let ?a = "length h"
  have e: "r = xsuccess" "h' = h @ [u]"
    "np' = np\<lparr>m_objs := om_set n ?a (m_objs np), m_modify_objs := om_set n ?a (m_modify_objs np)\<rparr>"
    using t a by (auto simp: np_make_def property_set_def)
  show "r = xsuccess"
    using e by simp
  show "om_find (m_modify_objs np') n' = (if n' = n then Some ?a else om_find (m_modify_objs np) n')"
    using e by simp
  show "np_view h' np' = (np_view h np)(n \<mapsto> u)"
  proof
    fix x
    show "np_view h' np' x = ((np_view h np)(n \<mapsto> u)) x"
      using np_inv_bound [OF inv, of x]
      by (cases "om_find (m_objs np) x") (auto simp: np_view_def e deref_def nth_append)
  qed
  have oi: "om_inv (m_objs np)" "om_inv (m_modify_objs np)"
    using inv by (simp_all add: np_inv_def)
  have b: "\<forall>p \<in> set (m_objs np). snd p < length h"
    using inv by (simp add: np_inv_def list_all_iff)
  have "list_all (\<lambda>p. snd p < length h') (om_set n ?a (m_objs np))"
    using b om_set_entries [OF oi(1)] by (fastforce simp: list_all_iff e)
  moreover have "distinct (map snd (om_set n ?a (m_objs np)))"
  proof -
    have "distinct (map snd (m_objs np))"
      using inv by (simp add: np_inv_def)
    then have i: "\<forall>p \<in> set (m_objs np). \<forall>q \<in> set (m_objs np). snd p = snd q \<longrightarrow> fst p = fst q"
      by (rule iffD1 [OF distinct_snd_iff [OF oi(1)]])
    have "fst p = fst q"
      if p: "p \<in> set (om_set n ?a (m_objs np))" and q: "q \<in> set (om_set n ?a (m_objs np))"
        and eq: "snd p = snd q" for p q
    proof -
      have "p \<in> set (m_objs np) \<Longrightarrow> snd p \<noteq> ?a" "q \<in> set (m_objs np) \<Longrightarrow> snd q \<noteq> ?a"
        using b by auto
      then have "p = (n, ?a) \<and> q = (n, ?a) \<or> p \<in> set (m_objs np) \<and> q \<in> set (m_objs np)"
        using om_set_entries [OF oi(1) p] om_set_entries [OF oi(1) q] eq by fastforce
      then show ?thesis
        using i eq by auto
    qed
    then show ?thesis
      unfolding distinct_snd_iff [OF om_inv_set [OF oi(1)]] by blast
  qed
  moreover have "list_all (\<lambda>p. om_find (om_set n ?a (m_objs np)) (fst p) = Some (snd p))
      (om_set n ?a (m_modify_objs np))"
    using inv om_set_entries [OF oi(2), of _ n ?a] by (fastforce simp: np_inv_def list_all_iff)
  moreover have "list_all unit_inv h'"
    using inv u by (simp add: np_inv_def e)
  ultimately show "np_inv h' np'"
    using oi by (simp add: np_inv_def e)
qed

lemma np_make_clash:
  assumes inv: "np_inv h np" and a: "om_find (m_objs np) n = Some b" and u: "unit_inv u"
    and t: "np_make n u h np = (r, h', np')"
  shows "r = xminus_one" "np_inv h' np'" "np_view h' np' = np_view h np" "np' = np"
proof -
  have b: "b < length h"
    using np_inv_bound [OF inv a] .
  have e: "r = xminus_one" "h' = h @ [u]" "np' = np"
    using t a b by (auto simp: np_make_def property_set_def)
  show "r = xminus_one" "np' = np"
    using e by simp_all
  show "np_view h' np' = np_view h np"
  proof
    fix x
    show "np_view h' np' x = np_view h np x"
      using np_inv_bound [OF inv, of x]
      by (cases "om_find (m_objs np) x") (auto simp: np_view_def e deref_def nth_append)
  qed
  show "np_inv h' np'"
    using inv u by (auto simp: np_inv_def e list_all_iff)
qed


section \<open>The abstract property table\<close>

text \<open>The contract: a table of typed values.  Storing creates a missing property, fails with
  \<open>-1\<close> on a property of another type, and otherwise updates the value; the other operations
  need the property to exist with the right type.\<close>

definition spec_upsert :: "('x \<Rightarrow> xdataunit) \<Rightarrow> (xdataunit \<Rightarrow> 'x option) \<Rightarrow> 'x \<Rightarrow> ('x \<Rightarrow> 'x) \<Rightarrow> string
    \<Rightarrow> ptable \<Rightarrow> xret \<times> ptable" where
  "spec_upsert mk as e f n V =
     (case V n of
        None \<Rightarrow> (xsuccess, V(n \<mapsto> mk (f e)))
      | Some u \<Rightarrow> (case as u of None \<Rightarrow> (xminus_one, V) | Some x \<Rightarrow> (xsuccess, V(n \<mapsto> mk (f x)))))"

definition spec_update :: "('x \<Rightarrow> xdataunit) \<Rightarrow> (xdataunit \<Rightarrow> 'x option) \<Rightarrow> ('x \<Rightarrow> 'x option) \<Rightarrow> string
    \<Rightarrow> ptable \<Rightarrow> xret \<times> ptable" where
  "spec_update mk as f n V =
     (case Option.bind (V n) as of
        None \<Rightarrow> (np_not_exist, V)
      | Some x \<Rightarrow> (case f x of None \<Rightarrow> (np_value_not_exist, V) | Some x' \<Rightarrow> (xsuccess, V(n \<mapsto> mk x'))))"

datatype np_op =
    StringSet string string
  | MapSet string string string
  | MapClear string
  | MapErase string string
  | DequePushBack string string
  | DequePushFront string string
  | DequePopBack string
  | DequePopFront string
  | DequeErase string string
  | DequeClear string

fun np_exec :: "np_op \<Rightarrow> heap \<Rightarrow> xnative_property \<Rightarrow> xret \<times> heap \<times> xnative_property" where
  "np_exec (StringSet n v) h np = native_string_set n v h np"
| "np_exec (MapSet n k v) h np = native_map_set n k v h np"
| "np_exec (MapClear n) h np = native_map_clear n h np"
| "np_exec (MapErase n k) h np = native_map_erase n k h np"
| "np_exec (DequePushBack n v) h np = native_deque_push_back n v h np"
| "np_exec (DequePushFront n v) h np = native_deque_push_front n v h np"
| "np_exec (DequePopBack n) h np = snd (native_deque_pop_back n h np)"
| "np_exec (DequePopFront n) h np = snd (native_deque_pop_front n h np)"
| "np_exec (DequeErase n v) h np = native_deque_erase n v h np"
| "np_exec (DequeClear n) h np = native_deque_clear n h np"

fun np_spec :: "np_op \<Rightarrow> ptable \<Rightarrow> xret \<times> ptable" where
  "np_spec (StringSet n v) = spec_upsert XString as_string [] (\<lambda>_. v) n"
| "np_spec (MapSet n k v) = spec_upsert XMap as_map [] (om_set k v) n"
| "np_spec (MapClear n) = spec_update XMap as_map (\<lambda>_. Some []) n"
| "np_spec (MapErase n k) = spec_update XMap as_map (\<lambda>m. Some (om_erase k m)) n"
| "np_spec (DequePushBack n v) = spec_upsert XDeque as_deque [] (\<lambda>q. q @ [v]) n"
| "np_spec (DequePushFront n v) = spec_upsert XDeque as_deque [] (\<lambda>q. v # q) n"
| "np_spec (DequePopBack n) = spec_update XDeque as_deque (\<lambda>q. if q = [] then None else Some (butlast q)) n"
| "np_spec (DequePopFront n) = spec_update XDeque as_deque (\<lambda>q. if q = [] then None else Some (tl q)) n"
| "np_spec (DequeErase n v) = spec_update XDeque as_deque (\<lambda>q. if v \<in> set q then Some (remove1 v q) else None) n"
| "np_spec (DequeClear n) = spec_update XDeque as_deque (\<lambda>_. Some []) n"

fun np_op_name :: "np_op \<Rightarrow> string" where
  "np_op_name (StringSet n v) = n"
| "np_op_name (MapSet n k v) = n"
| "np_op_name (MapClear n) = n"
| "np_op_name (MapErase n k) = n"
| "np_op_name (DequePushBack n v) = n"
| "np_op_name (DequePushFront n v) = n"
| "np_op_name (DequePopBack n) = n"
| "np_op_name (DequePopFront n) = n"
| "np_op_name (DequeErase n v) = n"
| "np_op_name (DequeClear n) = n"

text \<open>What a step does to the state: the invariant stays, the view changes as specified, and
  the changed name is marked modified.\<close>

definition np_step_ok :: "string \<Rightarrow> heap \<Rightarrow> xnative_property \<Rightarrow> (ptable \<Rightarrow> xret \<times> ptable)
    \<Rightarrow> xret \<times> heap \<times> xnative_property \<Rightarrow> bool" where
  "np_step_ok n h np spec res \<longleftrightarrow>
     (case res of (r, h', np') \<Rightarrow>
        np_inv h' np' \<and> spec (np_view h np) = (r, np_view h' np') \<and>
        (np_view h' np' \<noteq> np_view h np \<longrightarrow> om_find (m_modify_objs np') n \<noteq> None) \<and>
        (\<forall>x. om_find (m_modify_objs np) x \<noteq> None \<longrightarrow> om_find (m_modify_objs np') x \<noteq> None) \<and>
        (\<forall>x. x \<noteq> n \<longrightarrow> np_view h' np' x = np_view h np x))"

locale native_kind =
  fixes mk :: "'x \<Rightarrow> xdataunit"
    and as :: "xdataunit \<Rightarrow> 'x option"
  assumes as_iff: "as u = Some x \<longleftrightarrow> u = mk x"
begin

lemma as_mk [simp]: "as (mk x) = Some x"
  by (simp add: as_iff)

lemma mk_inj [simp]: "mk x = mk y \<longleftrightarrow> x = y"
  by (metis as_mk option.inject)

lemma property_get_Some:
  "np_inv h np \<Longrightarrow> property_get as h np n = Some (a, x) \<longleftrightarrow>
    om_find (m_objs np) n = Some a \<and> np_view h np n = Some (mk x)"
  by (auto simp: property_get_def np_view_def as_iff split: bind_splits)

lemma property_get_None:
  "np_inv h np \<Longrightarrow> property_get as h np n = None \<longleftrightarrow> Option.bind (np_view h np n) as = None"
  by (auto simp: property_get_def np_view_def split: bind_splits)

lemma view_None: "np_inv h np \<Longrightarrow> np_view h np n = None \<longleftrightarrow> om_find (m_objs np) n = None"
  using np_inv_bound [of h np n]
  by (cases "om_find (m_objs np) n") (auto simp: np_view_def deref_def)

lemma touch_ok:
  assumes inv: "np_inv h np" and g: "property_get as h np n = Some (a, x)" and u: "unit_inv (mk x')"
    and s: "spec (np_view h np) = (xsuccess, (np_view h np)(n \<mapsto> mk x'))"
  shows "np_step_ok n h np spec (np_touch n a (mk x') h np)"
proof -
  obtain r h' np' where t: "np_touch n a (mk x') h np = (r, h', np')"
    by (metis prod_cases3)
  have a: "om_find (m_objs np) n = Some a"
    using g property_get_Some [OF inv] by simp
  show ?thesis
    using np_touch_correct [OF inv a u t] s by (auto simp: np_step_ok_def t)
qed

lemma upsert_ok:
  assumes inv: "np_inv h np" and ui: "\<And>x. unit_inv (mk x) \<Longrightarrow> unit_inv (mk (f x))"
    and ue: "unit_inv (mk e)"
  shows "np_step_ok n h np (spec_upsert mk as e f n)
    (case property_get as h np n of
       None \<Rightarrow> np_make n (mk (f e)) h np
     | Some (a, x) \<Rightarrow> np_touch n a (mk (f x)) h np)"
proof (cases "property_get as h np n")
  case None
  obtain r h' np' where t: "np_make n (mk (f e)) h np = (r, h', np')"
    by (metis prod_cases3)
  show ?thesis
  proof (cases "om_find (m_objs np) n")
    case no: None
    then have "np_view h np n = None"
      using view_None [OF inv] by simp
    then show ?thesis
      using np_make_new [OF inv no ui [OF ue] t] None
      by (auto simp: np_step_ok_def t spec_upsert_def)
  next
    case (Some b)
    then obtain u where u: "np_view h np n = Some u" "as u = None"
      using view_None [OF inv, of n] property_get_None [OF inv, of n] None by fastforce
    then show ?thesis
      using np_make_clash [OF inv Some ui [OF ue] t] None
      by (auto simp: np_step_ok_def t spec_upsert_def)
  qed
next
  case (Some p)
  obtain a x where p: "p = (a, x)"
    by (cases p)
  have v: "np_view h np n = Some (mk x)"
    using property_get_Some [OF inv] Some p by simp
  have "mk x \<in> set h"
    using np_view_in [OF v] .
  then have "unit_inv (mk x)"
    using inv by (auto simp: np_inv_def list_all_iff)
  moreover have "as (mk x) = Some x"
    by (simp add: as_iff)
  ultimately show ?thesis
    using touch_ok [OF inv Some [unfolded p], of "f x" "spec_upsert mk as e f n"] ui v
    by (simp add: Some p spec_upsert_def)
qed

lemma fail_ok:
  assumes inv: "np_inv h np" and "spec (np_view h np) = (r, np_view h np)"
  shows "np_step_ok n h np spec (r, h, np)"
  using assms by (simp add: np_step_ok_def)

lemma stored_inv:
  assumes inv: "np_inv h np" and g: "property_get as h np n = Some (a, x)"
  shows "unit_inv (mk x)"
proof -
  have "mk x \<in> set h"
    using g property_get_Some [OF inv] np_view_in by blast
  then show ?thesis
    using inv by (auto simp: np_inv_def list_all_iff)
qed

lemma update_ok:
  assumes inv: "np_inv h np"
    and ui: "\<And>x x'. unit_inv (mk x) \<Longrightarrow> f x = Some x' \<Longrightarrow> unit_inv (mk x')"
  shows "np_step_ok n h np (spec_update mk as f n)
    (case property_get as h np n of
       Some (a, x) \<Rightarrow>
         (case f x of None \<Rightarrow> (np_value_not_exist, h, np) | Some x' \<Rightarrow> np_touch n a (mk x') h np)
     | None \<Rightarrow> (np_not_exist, h, np))"
proof (cases "property_get as h np n")
  case None
  then show ?thesis
    using property_get_None [OF inv, of n] by (simp add: fail_ok [OF inv] spec_update_def)
next
  case (Some p)
  obtain a x where p: "p = (a, x)"
    by (cases p)
  have v: "np_view h np n = Some (mk x)" and ax: "as (mk x) = Some x"
    using property_get_Some [OF inv] Some p by (simp_all add: as_iff)
  have u: "unit_inv (mk x)"
    using stored_inv [OF inv] Some p by simp
  show ?thesis
  proof (cases "f x")
    case None
    then show ?thesis
      using v ax by (simp add: Some p fail_ok [OF inv] spec_update_def)
  next
    case fx: (Some x')
    have "spec_update mk as f n (np_view h np) = (xsuccess, (np_view h np)(n \<mapsto> mk x'))"
      using v ax fx by (simp add: spec_update_def)
    then show ?thesis
      using touch_ok [OF inv Some [unfolded p] ui [OF u fx]] by (simp add: Some p fx)
  qed
qed

lemma upsert_intro:
  assumes "np_inv h np" "\<And>x. unit_inv (mk x) \<Longrightarrow> unit_inv (mk (f x))" "unit_inv (mk e)"
    and "property_get as h np n = None \<Longrightarrow> res = np_make n (mk (f e)) h np"
    and "\<And>a x. property_get as h np n = Some (a, x) \<Longrightarrow> res = np_touch n a (mk (f x)) h np"
  shows "np_step_ok n h np (spec_upsert mk as e f n) res"
  using upsert_ok [of h np f e n, OF assms(1-3)] assms(4,5) by (auto split: option.splits)

lemma update_intro:
  assumes "np_inv h np"
    and "\<And>x x'. unit_inv (mk x) \<Longrightarrow> f x = Some x' \<Longrightarrow> unit_inv (mk x')"
    and "property_get as h np n = None \<Longrightarrow> res = (np_not_exist, h, np)"
    and "\<And>a x. property_get as h np n = Some (a, x) \<Longrightarrow> f x = None \<Longrightarrow>
           res = (np_value_not_exist, h, np)"
    and "\<And>a x x'. property_get as h np n = Some (a, x) \<Longrightarrow> f x = Some x' \<Longrightarrow>
           res = np_touch n a (mk x') h np"
  shows "np_step_ok n h np (spec_update mk as f n) res"
proof (cases "property_get as h np n")
  case None
  then show ?thesis
    using update_ok [of h np f n, OF assms(1,2)] assms(3) by simp
next
  case (Some p)
  then show ?thesis
    using update_ok [of h np f n, OF assms(1,2)] assms(4,5) by (cases p; cases "f (snd p)") auto
qed

end

interpretation kstr: native_kind XString as_string
  by unfold_locales (metis as_string.elims as_string.simps(1) option.distinct(1) option.inject)

interpretation kdeq: native_kind XDeque as_deque
  by unfold_locales (metis as_deque.elims as_deque.simps(1) option.distinct(1) option.inject)

interpretation kmap: native_kind XMap as_map
  by unfold_locales (metis as_map.elims as_map.simps(1) option.distinct(1) option.inject)

lemma np_string_set_ok:
  "np_inv h np \<Longrightarrow> np_step_ok n h np (np_spec (StringSet n v)) (native_string_set n v h np)"
  unfolding np_spec.simps
  by (rule kstr.upsert_intro) (simp_all add: native_string_set_def string_get_def xstring_set_def)

lemma np_map_set_ok:
  "np_inv h np \<Longrightarrow> np_step_ok n h np (np_spec (MapSet n k v)) (native_map_set n k v h np)"
  unfolding np_spec.simps
  by (rule kmap.upsert_intro) (simp_all add: native_map_set_def map_get_def xmap_set_eq)

lemma np_map_clear_ok:
  "np_inv h np \<Longrightarrow> np_step_ok n h np (np_spec (MapClear n)) (native_map_clear n h np)"
  unfolding np_spec.simps
  by (rule kmap.update_intro) (auto simp: native_map_clear_def map_get_def xmap_clear_def)

lemma np_map_erase_ok:
  assumes inv: "np_inv h np"
  shows "np_step_ok n h np (np_spec (MapErase n k)) (native_map_erase n k h np)"
proof -
  have "(case xmap_remove k m of Some m' \<Rightarrow> m' | None \<Rightarrow> m) = om_erase k m"
    if "property_get as_map h np n = Some (a, m)" for a m
    using kmap.stored_inv [OF inv that] om.erase_absent [of m k]
    by (auto simp: xmap_remove_def split: option.splits)
  with inv show ?thesis
    unfolding np_spec.simps
    by (intro kmap.update_intro) (auto simp: native_map_erase_def map_get_def)
qed

lemma np_push_back_ok:
  "np_inv h np \<Longrightarrow> np_step_ok n h np (np_spec (DequePushBack n v)) (native_deque_push_back n v h np)"
  unfolding np_spec.simps
  by (rule kdeq.upsert_intro) (simp_all add: native_deque_push_back_def deque_get_def xdeque_push_back_def)

lemma np_push_front_ok:
  "np_inv h np \<Longrightarrow> np_step_ok n h np (np_spec (DequePushFront n v)) (native_deque_push_front n v h np)"
  unfolding np_spec.simps
  by (rule kdeq.upsert_intro) (simp_all add: native_deque_push_front_def deque_get_def xdeque_push_front_def)

lemma np_pop_back_ok:
  "np_inv h np \<Longrightarrow> np_step_ok n h np (np_spec (DequePopBack n)) (snd (native_deque_pop_back n h np))"
  unfolding np_spec.simps
  by (rule kdeq.update_intro)
    (auto simp: native_deque_pop_back_def deque_get_def xdeque_pop_back_def split: if_splits)

lemma np_pop_front_ok:
  "np_inv h np \<Longrightarrow> np_step_ok n h np (np_spec (DequePopFront n)) (snd (native_deque_pop_front n h np))"
  unfolding np_spec.simps
  by (rule kdeq.update_intro)
    (auto simp: native_deque_pop_front_def deque_get_def xdeque_pop_front_def
      split: if_splits list.splits)

lemma np_erase_ok:
  "np_inv h np \<Longrightarrow> np_step_ok n h np (np_spec (DequeErase n v)) (native_deque_erase n v h np)"
  unfolding np_spec.simps
  by (rule kdeq.update_intro)
    (auto simp: native_deque_erase_def deque_get_def xdeque_erase_remove1 split: if_splits)

lemma np_deque_clear_ok:
  "np_inv h np \<Longrightarrow> np_step_ok n h np (np_spec (DequeClear n)) (native_deque_clear n h np)"
  unfolding np_spec.simps
  by (rule kdeq.update_intro) (auto simp: native_deque_clear_def deque_get_def xdeque_clear_def)

lemmas np_ok_rules = np_string_set_ok np_map_set_ok np_map_clear_ok np_map_erase_ok
  np_push_back_ok np_push_front_ok np_pop_back_ok np_pop_front_ok np_erase_ok np_deque_clear_ok

lemma np_exec_ok:
  assumes "np_inv h np"
  shows "np_step_ok (np_op_name op) h np (np_spec op) (np_exec op h np)"
  using np_ok_rules [OF assms] by (cases op) (simp_all del: np_spec.simps)


section \<open>Runs of operations and tables that share objects\<close>

fun np_run :: "np_op list \<Rightarrow> heap \<times> xnative_property \<Rightarrow> heap \<times> xnative_property" where
  "np_run [] s = s"
| "np_run (op # ops) s = np_run ops (snd (np_exec op (fst s) (snd s)))"

lemma np_run_track:
  assumes "np_inv (fst s) (snd s)"
    and "\<And>x. np_view (fst s) (snd s) x \<noteq> V0 x \<Longrightarrow> om_find (m_modify_objs (snd s)) x \<noteq> None"
  shows "np_inv (fst (np_run ops s)) (snd (np_run ops s)) \<and>
    (\<forall>x. np_view (fst (np_run ops s)) (snd (np_run ops s)) x \<noteq> V0 x \<longrightarrow>
         om_find (m_modify_objs (snd (np_run ops s))) x \<noteq> None)"
  using assms
proof (induction ops arbitrary: s)
  case (Cons op ops)
  obtain h np where s: "s = (h, np)"
    by (cases s)
  obtain r h' np' where e: "np_exec op h np = (r, h', np')"
    by (metis prod_cases3)
  have ok: "np_step_ok (np_op_name op) h np (np_spec op) (r, h', np')"
    using np_exec_ok [of h np op] Cons.prems(1) by (simp add: s e)
  have "np_inv h' np'"
    using ok by (simp add: np_step_ok_def)
  moreover have "om_find (m_modify_objs np') x \<noteq> None" if "np_view h' np' x \<noteq> V0 x" for x
  proof (cases "np_view h' np' x = np_view h np x")
    case True
    then show ?thesis
      using that Cons.prems(2) [of x] ok by (simp add: s np_step_ok_def)
  next
    case False
    moreover have "x = np_op_name op"
      using False ok by (auto simp: np_step_ok_def)
    ultimately show ?thesis
      using ok by (auto simp: np_step_ok_def)
  qed
  ultimately show ?case
    using Cons.IH [of "(h', np')"] by (simp add: s e)
qed simp

lemma np_exec_heap:
  assumes "np_exec op h np = (r, h', np')"
  shows "(\<exists>a u. om_find (m_objs np) (np_op_name op) = Some a \<and> h' = h[a := u] \<and> m_objs np' = m_objs np)
    \<or> (\<exists>u. h' = h @ [u]) \<or> h' = h \<and> np' = np"
  using assms
  by (cases op)
    (auto simp: native_string_set_def native_map_set_def native_map_clear_def native_map_erase_def
      native_deque_push_back_def native_deque_push_front_def native_deque_pop_back_def
      native_deque_pop_front_def native_deque_erase_def native_deque_clear_def
      string_get_def map_get_def deque_get_def property_get_def np_touch_def np_make_def
      property_set_def Let_def split: option.splits prod.splits if_splits bind_splits)

text \<open>Two tables over one heap use an address for the same name.\<close>

definition np_consistent :: "xnative_property \<Rightarrow> xnative_property \<Rightarrow> bool" where
  "np_consistent np other \<longleftrightarrow>
     list_all (\<lambda>p. list_all (\<lambda>q. snd p = snd q \<longrightarrow> fst p = fst q) (m_objs other)) (m_objs np)"

lemma np_consistentD:
  "np_consistent np other \<Longrightarrow> om_find (m_objs np) n = Some a \<Longrightarrow> om_find (m_objs other) m = Some a
    \<Longrightarrow> n = m"
  using om_find_in [of "m_objs np" n a] om_find_in [of "m_objs other" m a]
  by (fastforce simp: np_consistent_def list_all_iff)

lemma np_view_append:
  assumes "np_inv h np"
  shows "np_view (h @ ks) np = np_view h np"
proof
  fix x
  show "np_view (h @ ks) np x = np_view h np x"
    using np_inv_bound [OF assms, of x]
    by (cases "om_find (m_objs np) x") (auto simp: np_view_def deref_def nth_append)
qed

text \<open>
  C2 The native property table refines a table of typed values: in a well-formed state every
  mutating operation (set a string, set, clear or erase in a map, push, pop, erase or clear in
  a deque) keeps the table well-formed, returns the code the abstract table prescribes and
  changes the content exactly as the abstract table does, on the success, type clash,
  missing property and missing value branches.
\<close>

theorem np_exec_refines:
  assumes "np_inv h np" "np_exec op h np = (r, h', np')"
  shows "np_inv h' np' \<and> np_spec op (np_view h np) = (r, np_view h' np')"
  using np_exec_ok [OF assms(1), of op] assms(2) by (simp add: np_step_ok_def)

theorem np_exec_refines_witness:
  "np_inv [XMap [(''k'', ''1''), (''l'', ''2'')]] \<lparr>m_objs = [(''@4'', 0)], m_modify_objs = []\<rparr> \<and>
   np_spec (MapErase ''@4'' ''k'')
     (np_view [XMap [(''k'', ''1''), (''l'', ''2'')]] \<lparr>m_objs = [(''@4'', 0)], m_modify_objs = []\<rparr>) =
   (xsuccess, np_view [XMap [(''l'', ''2'')]] \<lparr>m_objs = [(''@4'', 0)], m_modify_objs = [(''@4'', 0)]\<rparr>)"
proof -
  let ?h = "[XMap [(''k'', ''1''), (''l'', ''2'')]]" and ?np = "\<lparr>m_objs = [(''@4'', 0)], m_modify_objs = []\<rparr>"
  have "np_inv ?h ?np"
    by (simp add: np_inv_def om_inv_def)
  moreover have "np_exec (MapErase ''@4'' ''k'') ?h ?np =
      (xsuccess, [XMap [(''l'', ''2'')]], \<lparr>m_objs = [(''@4'', 0)], m_modify_objs = [(''@4'', 0)]\<rparr>)"
    by (simp add: native_map_erase_def map_get_def property_get_def om_find_def deref_def xmap_remove_def
        om_erase_def np_touch_def property_set_def)
  ultimately show ?thesis
    using np_exec_refines by blast
qed

lemma np_delta_view:
  assumes "np_inv h np" "m_modify_objs np = []" "np_run ops (h, np) = (h', np')"
  shows "np_view h np ++ np_view h' (copy_modify_objs_only np_empty np') = np_view h' np'"
proof
  fix x
  have run: "np_inv h' np'"
    "np_view h' np' x \<noteq> np_view h np x \<Longrightarrow> om_find (m_modify_objs np') x \<noteq> None"
    using np_run_track [of "(h, np)" "np_view h np" ops] assms by simp_all
  show "(np_view h np ++ np_view h' (copy_modify_objs_only np_empty np')) x = np_view h' np' x"
  proof (cases "om_find (m_modify_objs np') x")
    case None
    then have "np_view h' (copy_modify_objs_only np_empty np') x = None"
      by (simp add: np_view_def copy_modify_objs_only_def)
    moreover have "np_view h' np' x = np_view h np x"
      using None run(2) by blast
    ultimately show ?thesis
      by (simp add: map_add_def)
  next
    case (Some a)
    then have "om_find (m_objs np') x = Some a"
      by (rule np_inv_modify [OF run(1)])
    then show ?thesis
      using Some np_inv_bound [OF run(1)]
      by (auto simp: map_add_def np_view_def copy_modify_objs_only_def deref_def)
  qed
qed

lemma np_run_inv:
  assumes "np_inv h np" "m_modify_objs np = []" "np_run ops (h, np) = (h', np')"
  shows "np_inv h' np'"
  using np_run_track [of "(h, np)" "np_view h np" ops] assms by simp

text \<open>
  C3 The modified objects are a complete delta: after any sequence of operations on a table
  with an empty modification set, overwriting the old content with the objects that
  \<open>copy_modify_objs_only\<close> ships gives exactly the new content, so no change is lost and no
  stale value is shipped.
\<close>

theorem np_delta_complete:
  assumes "np_inv h np" "m_modify_objs np = []" "np_run ops (h, np) = (h', np')"
  shows "np_view h np ++ np_view h' (copy_modify_objs_only np_empty np') = np_view h' np'"
  using assms by (rule np_delta_view)

theorem np_delta_complete_witness:
  "np_view [XString ''7''] \<lparr>m_objs = [(''@1'', 0)], m_modify_objs = []\<rparr> ++
   np_view [XString ''7'', XDeque [''v'']]
     (copy_modify_objs_only np_empty
        \<lparr>m_objs = [(''@1'', 0), (''@2'', 1)], m_modify_objs = [(''@2'', 1)]\<rparr>) =
   np_view [XString ''7'', XDeque [''v'']]
     \<lparr>m_objs = [(''@1'', 0), (''@2'', 1)], m_modify_objs = [(''@2'', 1)]\<rparr>"
proof (rule np_delta_complete [of _ _ "[DequePushBack ''@2'' ''v'']"])
  show "np_inv [XString ''7''] \<lparr>m_objs = [(''@1'', 0)], m_modify_objs = []\<rparr>"
    by (simp add: np_inv_def om_inv_def)
  show "np_run [DequePushBack ''@2'' ''v''] ([XString ''7''], \<lparr>m_objs = [(''@1'', 0)], m_modify_objs = []\<rparr>) =
      ([XString ''7'', XDeque [''v'']], \<lparr>m_objs = [(''@1'', 0), (''@2'', 1)], m_modify_objs = [(''@2'', 1)]\<rparr>)"
    by (simp add: native_deque_push_back_def deque_get_def property_get_def om_find_def np_make_def
        property_set_def xdeque_push_back_def)
qed simp

text \<open>
  C22 Copies of a table share objects: when a table is changed, another table over the same
  objects sees the new value of a property exactly if both hold the same object for the changed
  name; a property that is new to the changed table, or that the other table holds separately,
  keeps its old value there.
\<close>

theorem np_exec_sharing:
  assumes "np_inv h np" "np_inv h other" "np_consistent np other"
    and "np_exec op h np = (r, h', np')"
  shows "np_view h' other x =
    (if x = np_op_name op \<and> om_find (m_objs np) x \<noteq> None \<and>
        om_find (m_objs np) x = om_find (m_objs other) x
     then np_view h' np' x else np_view h other x)"
  using np_exec_heap [OF assms(4)]
proof (elim disjE exE conjE)
  fix a u
  assume a: "om_find (m_objs np) (np_op_name op) = Some a" and h: "h' = h[a := u]"
    and o: "m_objs np' = m_objs np"
  show ?thesis
    using a np_consistentD [OF assms(3) a, of x] np_inv_bound [OF assms(2), of x]
    by (cases "om_find (m_objs other) x") (auto simp: np_view_def h o deref_def nth_list_update)
next
  fix u
  assume h: "h' = h @ [u]"
  show ?thesis
  proof (cases "x = np_op_name op \<and> om_find (m_objs np) x \<noteq> None \<and>
      om_find (m_objs np) x = om_find (m_objs other) x")
    case True
    then obtain a where a: "om_find (m_objs np) x = Some a" "om_find (m_objs other) x = Some a"
      by (metis not_None_eq)
    have "np_exec op h np = (r, h @ [u], np')"
      using assms(4) h by simp
    then have "om_find (m_objs np') x = Some a"
      using a True
      by (cases op)
        (auto simp: native_string_set_def native_map_set_def native_map_clear_def native_map_erase_def
          native_deque_push_back_def native_deque_push_front_def native_deque_pop_back_def
          native_deque_pop_front_def native_deque_erase_def native_deque_clear_def
          np_touch_def np_make_def property_set_def Let_def
          split: option.splits prod.splits if_splits)
    then show ?thesis
      using True a by (auto simp: np_view_def)
  next
    case False
    then show ?thesis
      unfolding h np_view_append [OF assms(2)] by auto
  qed
next
  assume "h' = h" "np' = np"
  then show ?thesis
    by (auto simp: np_view_def)
qed

text \<open>Two tables share the object of \<open>@1\<close> and hold an object each for \<open>@2\<close>.  Setting \<open>@1\<close> in the first table
  changes \<open>@1\<close> of the second one; setting \<open>@2\<close> does not change its \<open>@2\<close>.\<close>

theorem np_exec_sharing_witness:
  "let h = [XString ''7'', XString ''5'', XString ''6''];
       np = \<lparr>m_objs = [(''@1'', 0), (''@2'', 1)], m_modify_objs = []\<rparr>;
       other = \<lparr>m_objs = [(''@1'', 0), (''@2'', 2)], m_modify_objs = []\<rparr>;
       (r1, h1, np1) = np_exec (StringSet ''@1'' ''9'') h np;
       (r2, h2, np2) = np_exec (StringSet ''@2'' ''8'') h np
   in np_inv h np \<and> np_inv h other \<and> np_consistent np other \<and>
     r1 = xsuccess \<and> np_view h other ''@1'' = Some (XString ''7'') \<and> np_view h1 np1 ''@1'' = Some (XString ''9'') \<and>
     np_view h1 other ''@1'' = Some (XString ''9'') \<and>
     r2 = xsuccess \<and> np_view h2 np2 ''@2'' = Some (XString ''8'') \<and>
     np_view h other ''@2'' = Some (XString ''6'') \<and> np_view h2 other ''@2'' = Some (XString ''6'')"
proof -
  let ?h = "[XString ''7'', XString ''5'', XString ''6'']"
  let ?np = "\<lparr>m_objs = [(''@1'', 0), (''@2'', 1)], m_modify_objs = []\<rparr>"
  let ?other = "\<lparr>m_objs = [(''@1'', 0), (''@2'', 2)], m_modify_objs = []\<rparr>"
  note defs = native_string_set_def string_get_def property_get_def om_find_def deref_def np_touch_def property_set_def
    xstring_set_def
  have inv: "np_inv ?h ?np" "np_inv ?h ?other" "np_consistent ?np ?other"
    by (auto simp: np_inv_def om_inv_def np_consistent_def om_find_def split: if_splits)
  have e1: "np_exec (StringSet ''@1'' ''9'') ?h ?np =
      (xsuccess, [XString ''9'', XString ''5'', XString ''6''], ?np\<lparr>m_modify_objs := [(''@1'', 0)]\<rparr>)"
    by (simp add: defs)
  have e2: "np_exec (StringSet ''@2'' ''8'') ?h ?np =
      (xsuccess, [XString ''7'', XString ''8'', XString ''6''], ?np\<lparr>m_modify_objs := [(''@2'', 1)]\<rparr>)"
    by (simp add: defs)
  show ?thesis
    using inv np_exec_sharing [OF inv e1, of "''@1''"] np_exec_sharing [OF inv e2, of "''@2''"]
    unfolding e1 e2 Let_def by (simp add: np_view_def om_find_def deref_def)
qed

lemma np_read_item_view:
  assumes "\<forall>n a. om_find (m_objs np0) n = Some a \<longrightarrow> a < length h0"
    and "np_read_item (n, u) (h0, np0) = (h1, np1)"
  shows "np_view h1 np1 x = (if x = n then Some u else np_view h0 np0 x)"
    and "\<forall>n a. om_find (m_objs np1) n = Some a \<longrightarrow> a < length h1"
proof -
  have e: "h1 = h0 @ [u]" "np1 = np0\<lparr>m_objs := om_set n (length h0) (m_objs np0)\<rparr>"
    using assms(2) by (simp_all add: np_read_item_def)
  show "np_view h1 np1 x = (if x = n then Some u else np_view h0 np0 x)"
    using assms(1) [rule_format, of x]
    by (cases "om_find (m_objs np0) x") (auto simp: np_view_def deref_def nth_append e)
  show "\<forall>n a. om_find (m_objs np1) n = Some a \<longrightarrow> a < length h1"
    using assms(1) by (auto simp: less_Suc_eq e split: if_splits)
qed

lemma np_read_loop:
  assumes codec: "\<And>u t. u \<in> set h \<Longrightarrow> rd (wr u @ t) = Some (u, t)"
    and "om_inv m" "list_all (\<lambda>p. snd p < length h \<and> str_ok (fst p)) m"
    and "\<forall>n a. om_find (m_objs np0) n = Some a \<longrightarrow> a < length h0"
  shows "\<exists>h' np'. get_loop (length m) (get_pair get_string rd) np_read_item (h0, np0)
      (concat (map (np_put_item wr h) m) @ s) = Some ((h', np'), s) \<and>
      (\<forall>x. np_view h' np' x =
        (case om_find m x of None \<Rightarrow> np_view h0 np0 x | Some a \<Rightarrow> Some (h ! a)))"
  using assms(2-)
proof (induction m arbitrary: h0 np0)
  case (Cons p m)
  obtain n a where p: "p = (n, a)"
    by (cases p)
  obtain h1 np1 where 1: "np_read_item (n, h ! a) (h0, np0) = (h1, np1)"
    by (metis surj_pair)
  have a: "a < length h" "str_ok n"
    using Cons.prems(2) by (simp_all add: p)
  have one: "get_pair get_string rd (np_put_item wr h p @ t) = Some ((n, h ! a), t)" for t
    using a codec [of "h ! a" t] by (simp add: p get_pair_def np_put_item_def)
  have notin: "om_find m n = None"
    using Cons.prems(1) by (auto simp: om_inv_def p om_find_None_iff)
  have m: "om_inv m" "list_all (\<lambda>p. snd p < length h \<and> str_ok (fst p)) m"
    using Cons.prems(1,2) by (simp_all add: om_inv_def)
  obtain h' np' where r: "get_loop (length m) (get_pair get_string rd) np_read_item (h1, np1)
      (concat (map (np_put_item wr h) m) @ s) = Some ((h', np'), s)"
    "\<forall>x. np_view h' np' x =
      (case om_find m x of None \<Rightarrow> np_view h1 np1 x | Some a \<Rightarrow> Some (h ! a))"
    using Cons.IH [OF m np_read_item_view(2) [OF Cons.prems(3) 1]] by blast
  have "get_loop (length (p # m)) (get_pair get_string rd) np_read_item (h0, np0)
      (concat (map (np_put_item wr h) (p # m)) @ s) = Some ((h', np'), s)"
    using one [of "concat (map (np_put_item wr h) m) @ s"] r(1) 1 by simp
  moreover have "np_view h' np' x =
      (case om_find (p # m) x of None \<Rightarrow> np_view h0 np0 x | Some a \<Rightarrow> Some (h ! a))" for x
    using r(2) notin
    by (auto simp: np_read_item_view(1) [OF Cons.prems(3) 1] p om_find_def split: option.splits)
  ultimately show ?case
    by blast
qed simp

lemma np_read_back:
  assumes inv: "np_inv h np" and len: "length (m_objs np) < 2 ^ 32"
    and names: "list_all (\<lambda>p. str_ok (fst p)) (m_objs np)"
    and codec: "\<And>u t. u \<in> set h \<Longrightarrow> rd (wr u @ t) = Some (u, t)"
  shows "\<exists>h' np'. np_do_read rd [] np_empty (np_do_write wr h np @ s) = Some ((h', np'), s) \<and>
    np_view h' np' = np_view h np"
proof -
  have b: "list_all (\<lambda>p. snd p < length h \<and> str_ok (fst p)) (m_objs np)"
    using inv names by (auto simp: np_inv_def list_all_iff)
  obtain h' np' where r: "get_loop (length (m_objs np)) (get_pair get_string rd) np_read_item ([], np_empty)
        (concat (map (np_put_item wr h) (m_objs np)) @ s) = Some ((h', np'), s)"
      "\<forall>x. np_view h' np' x =
        (case om_find (m_objs np) x of None \<Rightarrow> np_view [] np_empty x | Some a \<Rightarrow> Some (h ! a))"
    using np_read_loop [OF codec _ b, where ?np0.0 = np_empty and ?h0.0 = "[]" and s = s] inv
    by (auto simp: np_inv_def np_empty_def)
  have "np_view h' np' x = np_view h np x" for x
    using r(2) np_inv_bound [OF inv, of x]
    by (cases "om_find (m_objs np) x") (auto simp: np_view_def np_empty_def deref_def)
  then show ?thesis
    using r(1) len by (auto simp: np_do_read_def np_do_write_def unat_of_nat)
qed

text \<open>
  The table survives serialization: with an object serializer that reads back what it wrote,
  \<open>do_read\<close> into an empty table of the output of \<open>do_write\<close> gives a table with the same
  content and consumes exactly the bytes written.
\<close>

lemma np_write_read:
  assumes inv: "np_inv h np" and len: "length (m_objs np) < 2 ^ 32"
    and names: "list_all (\<lambda>p. str_ok (fst p)) (m_objs np)"
    and codec: "\<And>u t. u \<in> set h \<Longrightarrow> rd (wr u @ t) = Some (u, t)"
  shows "\<exists>h' np'. np_do_read rd [] np_empty (np_do_write wr h np @ s) = Some ((h', np'), s) \<and>
    np_view h' np' = np_view h np"
  using assms by (rule np_read_back)

text \<open>A concrete object serializer for the witness: a type tag in front of \<open>do_write\<close>.\<close>

definition tagged_write :: "xdataunit \<Rightarrow> bytes" where
  "tagged_write u = (case u of XString _ \<Rightarrow> CHR ''s'' | XDeque _ \<Rightarrow> CHR ''d'' | XMap _ \<Rightarrow> CHR ''m'') # unit_do_write u"

definition tagged_read :: "bytes \<Rightarrow> (xdataunit \<times> bytes) option" where
  "tagged_read b =
     (case b of
        [] \<Rightarrow> None
      | c # r \<Rightarrow>
          if c = CHR ''s'' then unit_do_read (XString []) r
          else if c = CHR ''d'' then unit_do_read (XDeque []) r
          else if c = CHR ''m'' then unit_do_read (XMap []) r
          else None)"

theorem np_write_read_witness:
  "\<exists>h' np'. np_do_read tagged_read [] np_empty
      (np_do_write tagged_write [XString ''7''] \<lparr>m_objs = [(''@1'', 0)], m_modify_objs = []\<rparr> @ ''tail'') =
      Some ((h', np'), ''tail'') \<and>
    np_view h' np' = np_view [XString ''7''] \<lparr>m_objs = [(''@1'', 0)], m_modify_objs = []\<rparr>"
proof (rule np_write_read)
  show "np_inv [XString ''7''] \<lparr>m_objs = [(''@1'', 0)], m_modify_objs = []\<rparr>"
    by (simp add: np_inv_def om_inv_def)
  show "tagged_read (tagged_write u @ t) = Some (u, t)" if "u \<in> set [XString ''7'']" for u t
    using that by (simp add: tagged_read_def tagged_write_def xstring_do_read_def xstring_do_write_def
        str_ok_def)
qed (simp_all add: str_ok_def)

end
