(* ===== verification/XAddress.thy ===== *)
theory XAddress
  imports XPrelude
begin

text \<open>
  Account addresses of \<open>xbase/xvledger.h\<close> and the ledger part of an XID of \<open>xbase/xbase.h\<close>:
  the textual form \<open>T<type><ledger id><public key address>[@<sub address>]\<close>, the 64-bit id packed
  from it, and the address classes of \<open>xdata/src/xgenesis_data.cpp\<close>.  The conversions of
  \<open>xstring_utl\<close> and the hash \<open>xhash64_t\<close> are implemented outside the sources and are the
  parameter record \<open>xutl\<close>.
\<close>

unbundle bit_operations_syntax

record xutl =
  uint642hex :: "u64 \<Rightarrow> string"
  hex2uint64 :: "string \<Rightarrow> u64"
  tostring :: "u64 \<Rightarrow> string"
  toint32 :: "string \<Rightarrow> i32"
  touint32 :: "string \<Rightarrow> u32"
  touint64 :: "string \<Rightarrow> u64"
  to_hex :: "bytes \<Rightarrow> string"
  split_string :: "char \<Rightarrow> string \<Rightarrow> string list"
  xhash64 :: "string \<Rightarrow> u64"

section \<open>Constants\<close>

definition enum_vaccount_address_min_size :: nat where "enum_vaccount_address_min_size = 18"
definition enum_vaccount_address_max_size :: nat where "enum_vaccount_address_max_size = 256"
definition enum_vbucket_has_books_count_mask :: u16 where "enum_vbucket_has_books_count_mask = 32 - 1"
definition enum_vbucket_has_tables_count :: u16 where "enum_vbucket_has_tables_count = 32 * 8"
definition enum_vbucket_has_tables_count_mask :: u16 where
  "enum_vbucket_has_tables_count_mask = enum_vbucket_has_tables_count - 1"
definition enum_xid_type_xledger :: u32 where "enum_xid_type_xledger = 4"

definition addr_type_invalid :: char where "addr_type_invalid = CHR 0x00"
definition addr_type_black_hole :: char where "addr_type_black_hole = CHR ''!''"
definition addr_type_secp256k1_user_account :: char where "addr_type_secp256k1_user_account = CHR ''0''"
definition addr_type_secp256k1_user_sub_account :: char where
  "addr_type_secp256k1_user_sub_account = CHR ''1''"
definition addr_type_native_contract :: char where "addr_type_native_contract = CHR ''2''"
definition addr_type_custom_contract :: char where "addr_type_custom_contract = CHR ''3''"
definition addr_type_block_contract :: char where "addr_type_block_contract = CHR ''a''"

lemmas addr_type_defs =
  addr_type_invalid_def addr_type_black_hole_def addr_type_secp256k1_user_account_def
  addr_type_secp256k1_user_sub_account_def addr_type_native_contract_def
  addr_type_custom_contract_def addr_type_block_contract_def

definition zone_consensus_index :: u8 where "zone_consensus_index = 0"
definition zone_beacon_index :: u8 where "zone_beacon_index = 1"
definition zone_zec_index :: u8 where "zone_zec_index = 2"


section \<open>Ledger ids and sub addresses\<close>

definition make_ledger_id :: "u16 \<Rightarrow> u16 \<Rightarrow> u16" where
  "make_ledger_id chain_id zone_index = push_bit 4 chain_id OR (zone_index AND 0xF)"

definition get_chainid_from_ledgerid :: "u16 \<Rightarrow> u16" where
  "get_chainid_from_ledgerid l = drop_bit 4 l"

definition get_zoneindex_from_ledgerid :: "u16 \<Rightarrow> u8" where
  "get_zoneindex_from_ledgerid l = ucast (l AND 0xF)"

definition make_subaddr_of_ledger :: "u8 \<Rightarrow> u8 \<Rightarrow> u16" where
  "make_subaddr_of_ledger book table =
     push_bit 3 (ucast book AND enum_vbucket_has_books_count_mask) OR (ucast table AND 0x07)"

definition get_book_index_from_subaddr :: "u16 \<Rightarrow> u8" where
  "get_book_index_from_subaddr s = ucast (drop_bit 3 s AND enum_vbucket_has_books_count_mask)"

definition get_table_index_from_subaddr :: "u16 \<Rightarrow> u8" where
  "get_table_index_from_subaddr s = ucast (s AND 0x07)"


section \<open>The textual address\<close>

definition make_account_address :: "xutl \<Rightarrow> char \<Rightarrow> u16 \<Rightarrow> string \<Rightarrow> u16 \<Rightarrow> string" where
  "make_account_address U addr_type ledger_id public_key_address subaddr_of_ledger =
     (if addr_type = addr_type_invalid \<or> 128 \<le> (of_char addr_type :: nat) then []
      else
        let szledgerid = uint642hex U (ucast ledger_id);
            prefix = addr_type #
              (if length szledgerid < 4 then replicate (4 - length szledgerid) (CHR ''0'') else [])
              @ szledgerid
        in if subaddr_of_ledger \<ge> enum_vbucket_has_tables_count
           then CHR ''T'' # prefix @ public_key_address
           else CHR ''T'' # prefix @ public_key_address @ CHR ''@'' # tostring U (ucast subaddr_of_ledger))"

definition get_addrtype_from_account :: "string \<Rightarrow> char" where
  "get_addrtype_from_account a =
     (if length a > enum_vaccount_address_min_size then a ! 1 else addr_type_invalid)"

definition get_ledgerid_from_account :: "xutl \<Rightarrow> string \<Rightarrow> u16" where
  "get_ledgerid_from_account U a =
     (if length a > enum_vaccount_address_min_size \<and> length a < enum_vaccount_address_max_size
      then ucast (hex2uint64 U (take 4 (drop 2 a)))
      else 0)"

definition get_type_and_ledgerid_from_account :: "xutl \<Rightarrow> string \<Rightarrow> (char \<times> u16) option" where
  "get_type_and_ledgerid_from_account U a =
     (if length a > enum_vaccount_address_min_size \<and> length a < enum_vaccount_address_max_size
      then Some (get_addrtype_from_account a, get_ledgerid_from_account U a)
      else None)"

text \<open>Addresses with an explicit sub address.\<close>

definition make_native_address :: "xutl \<Rightarrow> string \<Rightarrow> u16 \<Rightarrow> string" where
  "make_native_address U prefix subaddr = prefix @ CHR ''@'' # tostring U (ucast subaddr)"

definition get_prefix_subaddr_from_account :: "xutl \<Rightarrow> string \<Rightarrow> (string \<times> u16) option" where
  "get_prefix_subaddr_from_account U a =
     (case split_string U (CHR ''@'') a of
        p # s # _ \<Rightarrow> Some (p, ucast (toint32 U s) AND enum_vbucket_has_tables_count_mask)
      | _ \<Rightarrow> None)"

definition get_public_address_from_account :: "xutl \<Rightarrow> string \<Rightarrow> string option" where
  "get_public_address_from_account U a =
     (let prefix = (case split_string U (CHR ''@'') a of p # _ # _ \<Rightarrow> p | _ \<Rightarrow> a)
      in if length prefix < 6 then None else Some (drop 6 prefix))"

definition make_address_by_prefix_and_subaddr :: "xutl \<Rightarrow> string \<Rightarrow> u16 \<Rightarrow> string" where
  "make_address_by_prefix_and_subaddr U prefix subaddr =
     (if CHR ''@'' \<notin> set prefix then prefix @ CHR ''@'' # tostring U (ucast subaddr) else prefix)"

text \<open>The table id of an address in \<open>xdata/src/xdatautil.cpp\<close>; a refused address still stores the
  initial sub address 0xFFFF.\<close>

definition serialize_owner_str :: "xutl \<Rightarrow> string \<Rightarrow> u32 \<Rightarrow> string" where
  "serialize_owner_str U prefix table_id = make_native_address U prefix (ucast table_id)"

definition deserialize_owner_str :: "xutl \<Rightarrow> string \<Rightarrow> string \<Rightarrow> bool \<times> string \<times> u32" where
  "deserialize_owner_str U address prefix =
     (case get_prefix_subaddr_from_account U address of
        Some (p, subaddr) \<Rightarrow> (True, p, ucast subaddr)
      | None \<Rightarrow> (False, prefix, 0xFFFF))"

definition extract_table_id_from_address :: "xutl \<Rightarrow> string \<Rightarrow> bool \<times> u32" where
  "extract_table_id_from_address U address =
     (let (r, _, t) = deserialize_owner_str U address [] in (r, t))"

definition get_index_from_account :: "xutl \<Rightarrow> string \<Rightarrow> u32" where
  "get_index_from_account U a = ucast (xhash64 U a)"

text \<open>The text behind the last \<open>@\<close>, if there is one.\<close>

definition after_last_at :: "string \<Rightarrow> string option" where
  "after_last_at a =
     (if CHR ''@'' \<in> set a then Some (rev (takeWhile (\<lambda>c. c \<noteq> CHR ''@'') (rev a))) else None)"

definition get_ledger_fulladdr_from_account :: "xutl \<Rightarrow> string \<Rightarrow> (u32 \<times> u16 \<times> u32) option" where
  "get_ledger_fulladdr_from_account U a =
     (let account_index = get_index_from_account U a
      in if length a < enum_vaccount_address_max_size \<and> length a > enum_vaccount_address_min_size
         then
           let ledger_id = (ucast (get_ledgerid_from_account U a) :: u32);
               sub = (case after_last_at a of
                        Some s \<Rightarrow> (ucast (toint32 U s) :: u16)
                      | None \<Rightarrow> ucast account_index)
           in Some (ledger_id, sub AND enum_vbucket_has_tables_count_mask, account_index)
         else None)"

definition get_xid_from_account :: "xutl \<Rightarrow> string \<Rightarrow> u64" where
  "get_xid_from_account U a =
     (case get_ledger_fulladdr_from_account U a of
        Some (ledger_id, sub, account_index) \<Rightarrow>
          ucast (push_bit 16 ledger_id OR
                 push_bit 6 (ucast (sub AND enum_vbucket_has_tables_count_mask) :: u32) OR
                 enum_xid_type_xledger)
          OR push_bit 32 (ucast account_index :: u64)
      | None \<Rightarrow> 0)"


section \<open>Fields of the id\<close>

definition get_vledger_ledger_id :: "u64 \<Rightarrow> u64" where
  "get_vledger_ledger_id xid = drop_bit 16 xid AND 0xFFFF"
definition get_vledger_net_id :: "u64 \<Rightarrow> u64" where
  "get_vledger_net_id xid = drop_bit 20 xid AND 0xFFF"
definition get_vledger_zone_index :: "u64 \<Rightarrow> u64" where
  "get_vledger_zone_index xid = drop_bit 16 xid AND 0x0F"
definition get_vledger_subaddr :: "u64 \<Rightarrow> u64" where
  "get_vledger_subaddr xid = drop_bit 6 xid AND ucast enum_vbucket_has_tables_count_mask"
definition get_vledger_book_index :: "u64 \<Rightarrow> u64" where
  "get_vledger_book_index xid = drop_bit 9 xid AND ucast enum_vbucket_has_books_count_mask"
definition get_vledger_table_index :: "u64 \<Rightarrow> u64" where
  "get_vledger_table_index xid = drop_bit 6 xid AND 0x07"
definition get_xid_index :: "u64 \<Rightarrow> u64" where
  "get_xid_index xid = drop_bit 32 xid"
definition get_xid_type :: "u64 \<Rightarrow> u64" where
  "get_xid_type xid = xid AND 0x07"


section \<open>Address classes\<close>

definition check_address_type :: "string \<Rightarrow> char \<Rightarrow> bool" where
  "check_address_type a t = (t = get_addrtype_from_account a)"

definition check_address_type_and_zone :: "xutl \<Rightarrow> string \<Rightarrow> char \<Rightarrow> u8 \<Rightarrow> bool" where
  "check_address_type_and_zone U a t zone =
     (let xid = get_xid_from_account U a; zone_index = (ucast (get_vledger_zone_index xid) :: u8)
      in t = get_addrtype_from_account a \<and> zone = zone_index)"

definition is_account_address :: "string \<Rightarrow> bool" where
  "is_account_address a = check_address_type a addr_type_secp256k1_user_account"
definition is_sub_account_address :: "string \<Rightarrow> bool" where
  "is_sub_account_address a = check_address_type a addr_type_secp256k1_user_sub_account"
definition is_sys_contract_address :: "string \<Rightarrow> bool" where
  "is_sys_contract_address a = check_address_type a addr_type_native_contract"
definition is_black_hole_address :: "string \<Rightarrow> bool" where
  "is_black_hole_address a = check_address_type a addr_type_black_hole"
definition is_user_contract_address :: "string \<Rightarrow> bool" where
  "is_user_contract_address a = check_address_type a addr_type_custom_contract"
definition is_contract_address :: "string \<Rightarrow> bool" where
  "is_contract_address a = (is_sys_contract_address a \<or> is_user_contract_address a)"
definition is_beacon_contract_address :: "xutl \<Rightarrow> string \<Rightarrow> bool" where
  "is_beacon_contract_address U a =
     check_address_type_and_zone U a addr_type_native_contract zone_beacon_index"
definition is_zec_contract_address :: "xutl \<Rightarrow> string \<Rightarrow> bool" where
  "is_zec_contract_address U a =
     check_address_type_and_zone U a addr_type_native_contract zone_zec_index"
definition is_sys_sharding_contract_address :: "xutl \<Rightarrow> string \<Rightarrow> bool" where
  "is_sys_sharding_contract_address U a =
     check_address_type_and_zone U a addr_type_native_contract zone_consensus_index"
definition is_block_contract_address :: "string \<Rightarrow> bool" where
  "is_block_contract_address a = check_address_type a addr_type_block_contract"
definition is_table_address :: "string \<Rightarrow> bool" where
  "is_table_address a = check_address_type a addr_type_block_contract"
definition is_unit_address :: "string \<Rightarrow> bool" where
  "is_unit_address a = (\<not> is_table_address a)"

lemmas address_class_defs =
  check_address_type_def is_account_address_def is_sub_account_address_def is_sys_contract_address_def
  is_black_hole_address_def is_user_contract_address_def is_contract_address_def
  is_block_contract_address_def is_table_address_def is_unit_address_def


section \<open>Packing and unpacking\<close>

lemma chain_round: "chain < 4096 \<Longrightarrow> get_chainid_from_ledgerid (make_ledger_id chain zone) = chain"
proof -
  assume "chain < 4096"
  then have t: "take_bit 12 chain = chain"
    by (intro take_bit_small) (simp add: word_less_nat_alt)
  have "drop_bit 4 (push_bit 4 chain OR (zone AND mask 4)) = take_bit 12 chain" for zone
    by (rule bit_word_eqI) (auto simp: bit_simps)
  then show ?thesis
    by (simp add: t get_chainid_from_ledgerid_def make_ledger_id_def mask_numerals)
qed

lemma zone_round: "zone < 16 \<Longrightarrow> get_zoneindex_from_ledgerid (make_ledger_id chain zone) = ucast zone"
proof -
  assume "zone < 16"
  then have t: "take_bit 4 zone = zone"
    by (intro take_bit_small) (simp add: word_less_nat_alt)
  have "(push_bit 4 chain OR (zone AND mask 4)) AND mask 4 = take_bit 4 zone"
    by (rule bit_word_eqI) (auto simp: bit_simps)
  then show ?thesis
    by (simp add: t get_zoneindex_from_ledgerid_def make_ledger_id_def mask_numerals)
qed

lemma book_round:
  assumes "book < 32" "table < 8"
  shows "get_book_index_from_subaddr (make_subaddr_of_ledger book table) = book"
    "get_table_index_from_subaddr (make_subaddr_of_ledger book table) = table"
    "make_subaddr_of_ledger book table < enum_vbucket_has_tables_count"
proof -
  have t: "take_bit 5 book = book" "take_bit 3 table = table"
    using assms by (auto intro!: take_bit_small simp: word_less_nat_alt)
  have b: "enum_vbucket_has_books_count_mask = mask 5"
    by (simp add: enum_vbucket_has_books_count_mask_def mask_numerals)
  have "(ucast (drop_bit 3 (push_bit 3 (ucast book AND mask 5) OR (ucast table AND mask 3)) AND mask 5 :: u16) :: u8) = take_bit 5 book"
    by (rule bit_word_eqI) (auto simp: bit_simps)
  then show "get_book_index_from_subaddr (make_subaddr_of_ledger book table) = book"
    by (simp add: t get_book_index_from_subaddr_def make_subaddr_of_ledger_def b mask_numerals)
  have "(ucast ((push_bit 3 (ucast book AND mask 5) OR (ucast table AND mask 3)) AND mask 3 :: u16) :: u8) = take_bit 3 table"
    by (rule bit_word_eqI) (auto simp: bit_simps)
  then show "get_table_index_from_subaddr (make_subaddr_of_ledger book table) = table"
    by (simp add: t get_table_index_from_subaddr_def make_subaddr_of_ledger_def b mask_numerals)
  have "make_subaddr_of_ledger book table = take_bit 8 (make_subaddr_of_ledger book table)"
    by (rule bit_word_eqI) (auto simp: bit_simps make_subaddr_of_ledger_def b mask_numerals)
  then have "unat (make_subaddr_of_ledger book table) < 2 ^ 8"
    by (metis take_bit_nat_less_exp unsigned_take_bit_eq)
  then show "make_subaddr_of_ledger book table < enum_vbucket_has_tables_count"
    by (simp add: word_less_nat_alt enum_vbucket_has_tables_count_def)
qed

lemma bit_xledger: "bit enum_xid_type_xledger n \<longleftrightarrow> n = 2"
proof -
  have p: "enum_xid_type_xledger = 2 ^ 2"
    by (simp add: enum_xid_type_xledger_def)
  show ?thesis
    unfolding p bit_exp_iff by auto
qed

lemma xid_fields:
  fixes l :: u32 and s :: u16 and i :: u32
  defines "x \<equiv> ucast (push_bit 16 l OR push_bit 6 (ucast (s AND enum_vbucket_has_tables_count_mask) :: u32) OR
                 enum_xid_type_xledger) OR push_bit 32 (ucast i :: u64)"
  shows "get_vledger_ledger_id x = ucast (take_bit 16 l)"
    "get_vledger_zone_index x = ucast (take_bit 4 l)"
    "get_vledger_net_id x = ucast (take_bit 12 (drop_bit 4 l))"
    "get_vledger_subaddr x = ucast (take_bit 8 s)"
    "get_vledger_book_index x = ucast (take_bit 5 (drop_bit 3 s))"
    "get_vledger_table_index x = ucast (take_bit 3 s)"
    "get_xid_index x = ucast i"
    "get_xid_type x = 4"
proof -
  have m: "enum_vbucket_has_tables_count_mask = mask 8" "enum_vbucket_has_books_count_mask = mask 5"
    by (simp_all add: enum_vbucket_has_tables_count_mask_def enum_vbucket_has_tables_count_def
        enum_vbucket_has_books_count_mask_def mask_numerals)
  note defs = x_def m mask_numerals get_vledger_ledger_id_def get_vledger_zone_index_def
    get_vledger_net_id_def get_vledger_subaddr_def get_vledger_book_index_def
    get_vledger_table_index_def get_xid_index_def
  show "get_vledger_ledger_id x = ucast (take_bit 16 l)"
    unfolding defs by (rule bit_word_eqI) (auto simp: bit_simps bit_xledger)
  show "get_vledger_zone_index x = ucast (take_bit 4 l)"
    unfolding defs by (rule bit_word_eqI) (auto simp: bit_simps bit_xledger)
  show "get_vledger_net_id x = ucast (take_bit 12 (drop_bit 4 l))"
    unfolding defs by (rule bit_word_eqI) (auto simp: bit_simps bit_xledger)
  show "get_vledger_subaddr x = ucast (take_bit 8 s)"
    unfolding defs by (rule bit_word_eqI) (auto simp: bit_simps bit_xledger)
  show "get_vledger_book_index x = ucast (take_bit 5 (drop_bit 3 s))"
    unfolding defs by (rule bit_word_eqI) (auto simp: bit_simps bit_xledger)
  show "get_vledger_table_index x = ucast (take_bit 3 s)"
    unfolding defs by (rule bit_word_eqI) (auto simp: bit_simps bit_xledger)
  show "get_xid_index x = ucast i"
    unfolding defs by (rule bit_word_eqI) (auto simp: bit_simps bit_xledger dest: bit_imp_le_length)
  have "x AND mask 3 = ucast enum_xid_type_xledger"
    unfolding defs by (rule bit_word_eqI) (auto simp: bit_simps bit_xledger)
  then show "get_xid_type x = 4"
    by (simp add: get_xid_type_def mask_numerals enum_xid_type_xledger_def)
qed

lemma ucast_ucast_same:
  "(ucast (ucast (w :: u16) :: u64) :: u16) = w" "(ucast (ucast (w :: u16) :: u32) :: u16) = w"
  by (rule bit_word_eqI, auto simp: bit_simps)+

lemma ucast_zone: "zone < 16 \<Longrightarrow> (ucast (ucast (zone :: u16) :: u8) :: u64) = ucast zone"
proof -
  assume "zone < 16"
  then have t: "take_bit 4 zone = zone"
    by (intro take_bit_small) (simp add: word_less_nat_alt)
  have "(ucast (ucast (take_bit 4 zone) :: u8) :: u64) = ucast (take_bit 4 zone)"
    by (rule bit_word_eqI) (auto simp: bit_simps)
  then show ?thesis by (simp add: t)
qed

lemma after_last_at_append: "CHR ''@'' \<notin> set s \<Longrightarrow> after_last_at (p @ CHR ''@'' # s) = Some s"
  by (simp add: after_last_at_def takeWhile_append)

definition pad4 :: "string \<Rightarrow> string" where
  "pad4 z = (if length z < 4 then replicate (4 - length z) (CHR ''0'') else []) @ z"

lemma length_pad4: "length z \<le> 4 \<Longrightarrow> length (pad4 z) = 4"
  by (simp add: pad4_def)

text \<open>
  C30 An address gives back what it was made from: for a valid address type, chain id below
  4096, zone below 16, book below 32 and table below 8, and an address text whose length is in
  the accepted range, the type read from the text and the chain, zone, book and table unpacked
  from the 64-bit id of the text are the ones the address was made with.
\<close>

theorem account_address_round:
  assumes "t \<noteq> addr_type_invalid \<and> (of_char t :: nat) < 128" "chain < 4096" "zone < 16" "book < 32" "table < 8"
    and a: "a = make_account_address U t (make_ledger_id chain zone) pk (make_subaddr_of_ledger book table)"
    and size: "enum_vaccount_address_min_size < length a" "length a < enum_vaccount_address_max_size"
    and hex: "length (uint642hex U (ucast (make_ledger_id chain zone))) \<le> 4"
      "hex2uint64 U (pad4 (uint642hex U (ucast (make_ledger_id chain zone)))) = ucast (make_ledger_id chain zone)"
    and dec: "toint32 U (tostring U (ucast (make_subaddr_of_ledger book table))) = ucast (make_subaddr_of_ledger book table)"
      "CHR ''@'' \<notin> set (tostring U (ucast (make_subaddr_of_ledger book table)))"
  shows "get_addrtype_from_account a = t \<and>
    get_vledger_net_id (get_xid_from_account U a) = ucast chain \<and>
    get_vledger_zone_index (get_xid_from_account U a) = ucast zone \<and>
    get_vledger_book_index (get_xid_from_account U a) = ucast book \<and>
    get_vledger_table_index (get_xid_from_account U a) = ucast table \<and>
    get_xid_type (get_xid_from_account U a) = 4"
proof -
  let ?l = "make_ledger_id chain zone" and ?s = "make_subaddr_of_ledger book table"
  let ?z = "pad4 (uint642hex U (ucast ?l))"
  have e: "a = CHR ''T'' # t # ?z @ pk @ CHR ''@'' # tostring U (ucast ?s)"
    using a assms(1) book_round(3) [OF assms(4,5)]
    by (simp add: make_account_address_def pad4_def Let_def not_le)
  have lid: "get_ledgerid_from_account U a = ?l"
    using size hex length_pad4 [OF hex(1)]
    by (simp add: get_ledgerid_from_account_def e ucast_ucast_same)
  have at: "after_last_at a = Some (tostring U (ucast ?s))"
    using after_last_at_append [OF dec(2), of "CHR ''T'' # t # ?z @ pk"] by (simp add: e)
  have full: "get_ledger_fulladdr_from_account U a =
      Some (ucast ?l, ?s AND enum_vbucket_has_tables_count_mask, get_index_from_account U a)"
    using size by (simp add: get_ledger_fulladdr_from_account_def at dec(1) lid Let_def ucast_ucast_same)
  note x = xid_fields [of "ucast ?l" ?s "get_index_from_account U a"]
  have xid: "get_xid_from_account U a = ucast (push_bit 16 (ucast ?l) OR
      push_bit 6 (ucast (?s AND enum_vbucket_has_tables_count_mask) :: u32) OR enum_xid_type_xledger) OR
      push_bit 32 (ucast (get_index_from_account U a) :: u64)"
    by (simp add: get_xid_from_account_def full and.assoc)
  have "(ucast (take_bit 12 (drop_bit 4 (ucast ?l :: u32))) :: u64) = ucast (drop_bit 4 ?l)"
    "(ucast (take_bit 4 (ucast ?l :: u32)) :: u64) = ucast (ucast (take_bit 4 ?l) :: u8)"
    by (rule bit_word_eqI, auto simp: bit_simps dest: bit_imp_le_length)+
  moreover have "get_vledger_book_index (get_xid_from_account U a) = ucast (get_book_index_from_subaddr ?s)"
    "get_vledger_table_index (get_xid_from_account U a) = ucast (get_table_index_from_subaddr ?s)"
    unfolding xid x get_book_index_from_subaddr_def get_table_index_from_subaddr_def
      enum_vbucket_has_books_count_mask_def
    by (rule bit_word_eqI, auto simp: mask_numerals bit_simps)+
  moreover have "ucast (take_bit 4 ?l) = get_zoneindex_from_ledgerid ?l"
    by (simp add: get_zoneindex_from_ledgerid_def mask_numerals take_bit_eq_mask)
  moreover have ty: "get_addrtype_from_account a = t"
    using size(1) by (simp add: get_addrtype_from_account_def e)
  ultimately show ?thesis
    using x(2,3,8) [folded xid] ty chain_round [OF assms(2), of zone] zone_round [OF assms(3), of chain]
      book_round [OF assms(4,5)]
    by (simp add: get_chainid_from_ledgerid_def ucast_zone [OF assms(3)])
qed

theorem account_address_round_witness:
  "get_addrtype_from_account ''T20010aaaaaaaaaaaaaaaa@9'' = CHR ''2'' \<and>
   get_vledger_zone_index (get_xid_from_account
     \<lparr>uint642hex = (\<lambda>_. ''10''), hex2uint64 = (\<lambda>_. 16), tostring = (\<lambda>_. ''9''), toint32 = (\<lambda>_. 9),
      touint32 = (\<lambda>_. 9), touint64 = (\<lambda>_. 9),
      to_hex = id, split_string = (\<lambda>_ a. [a]), xhash64 = (\<lambda>_. 77)\<rparr> ''T20010aaaaaaaaaaaaaaaa@9'') = 0 \<and>
   get_vledger_net_id (get_xid_from_account
     \<lparr>uint642hex = (\<lambda>_. ''10''), hex2uint64 = (\<lambda>_. 16), tostring = (\<lambda>_. ''9''), toint32 = (\<lambda>_. 9),
      touint32 = (\<lambda>_. 9), touint64 = (\<lambda>_. 9),
      to_hex = id, split_string = (\<lambda>_ a. [a]), xhash64 = (\<lambda>_. 77)\<rparr> ''T20010aaaaaaaaaaaaaaaa@9'') = 1"
proof -
  have z: "replicate 2 (CHR ''0'') = ''00''" by (simp add: numeral_2_eq_2)
  show ?thesis
    using account_address_round [of "CHR ''2''" 1 0 1 1 "''T20010aaaaaaaaaaaaaaaa@9''"
        "\<lparr>uint642hex = (\<lambda>_. ''10''), hex2uint64 = (\<lambda>_. 16), tostring = (\<lambda>_. ''9''), toint32 = (\<lambda>_. 9),
          touint32 = (\<lambda>_. 9), touint64 = (\<lambda>_. 9),
      to_hex = id, split_string = (\<lambda>_ a. [a]), xhash64 = (\<lambda>_. 77)\<rparr>" "''aaaaaaaaaaaaaaaa''"]
    by (simp add: addr_type_defs make_account_address_def make_ledger_id_def make_subaddr_of_ledger_def
        enum_vbucket_has_books_count_mask_def enum_vbucket_has_tables_count_def pad4_def z
        enum_vaccount_address_min_size_def enum_vaccount_address_max_size_def)
qed

end
