(* ===== verification/XConfig.thy ===== *)
theory XConfig
  imports XPrelude
begin

text \<open>
  The on-chain governance parameters and fixed configurations of
  \<open>xconfig/xpredefined_configurations.h\<close> that the modelled code reads through
  \<open>XGET_ONCHAIN_GOVERNANCE_PARAMETER\<close> and \<open>XGET_CONFIG\<close>.  The governance contract can change a
  parameter at run time within its declared range, so the operations take the record of current
  values; \<open>default_conf\<close> holds the declared initial values of a release build and \<open>conf_ok\<close> the
  declared lower bounds.
\<close>

definition TOP_UNIT :: u64 where "TOP_UNIT = 1000000"

definition ASSET_TOP :: "u64 \<Rightarrow> u64" where "ASSET_TOP n = n * TOP_UNIT"

record xconf =
  validator_group_count :: u16
  min_stake_votes_num :: u16
  beacon_tx_fee :: u64
  total_gas_shard :: u64
  min_free_gas_balance :: u64
  free_gas :: u64
  tx_deposit_gas_exchange_ratio :: u64
  cpu_gas_exchange_ratio :: u32
  usedgas_decay_cycle :: u32
  min_tx_deposit :: u32
  unlock_gas_staked_delay_time :: u32
  max_gas_account :: u64
  max_gas_contract :: u64
  initial_total_locked_token :: u64
  custom_property_name_max_len :: u32
  custom_property_max_number :: u32
  application_contract_code_max_len :: u32
  fullunit_contain_of_unit_num :: u32
  contract_call_contracts_num :: u32
  min_account_deposit :: u64
  config_property_alias_name_max_len :: u32

definition default_conf :: xconf where
  "default_conf =
     \<lparr>validator_group_count = 4,
      min_stake_votes_num = 1,
      beacon_tx_fee = ASSET_TOP 100,
      total_gas_shard = 2160000000000,
      min_free_gas_balance = ASSET_TOP 100,
      free_gas = 25000,
      tx_deposit_gas_exchange_ratio = 20,
      cpu_gas_exchange_ratio = 40,
      usedgas_decay_cycle = 24 * 60 * 6,
      min_tx_deposit = 100000,
      unlock_gas_staked_delay_time = 24 * 60 * 6,
      max_gas_account = 1000000,
      max_gas_contract = 50000000,
      initial_total_locked_token = ASSET_TOP 1000000000,
      custom_property_name_max_len = 16,
      custom_property_max_number = 128,
      application_contract_code_max_len = 32768,
      fullunit_contain_of_unit_num = 21,
      contract_call_contracts_num = 25,
      min_account_deposit = ASSET_TOP 0,
      config_property_alias_name_max_len = 32\<rparr>"

text \<open>The declared lower bounds that the code relies on: the parameters used as divisors are at
  least one, and there is at least one validator group.\<close>

definition conf_ok :: "xconf \<Rightarrow> bool" where
  "conf_ok c \<longleftrightarrow>
     validator_group_count c \<noteq> 0 \<and> total_gas_shard c \<noteq> 0 \<and>
     tx_deposit_gas_exchange_ratio c \<noteq> 0 \<and> cpu_gas_exchange_ratio c \<noteq> 0 \<and>
     usedgas_decay_cycle c \<noteq> 0 \<and> initial_total_locked_token c \<noteq> 0"

lemma default_conf_ok: "conf_ok default_conf"
  by (simp add: conf_ok_def default_conf_def ASSET_TOP_def TOP_UNIT_def)

end
