(* ===== verification/XAccount.thy ===== *)
theory XAccount
  imports XNativeProperty XAddress XConfig
begin

text \<open>
  The account state \<open>xaccount_mstate2\<close> (\<open>xdata/xaccount_mstate.h\<close>,
  \<open>xdata/src/xaccount_mstate2.cpp\<close>) and the account chain \<open>xblockchain2_t\<close>
  (\<open>xdata/xblockchain.h\<close>, \<open>xdata/src/xblockchain.cpp\<close>): their serialization, the chain's height
  bookkeeping and unconfirmed accounts, and the gas (tgas) that an account holds, has used and
  may still use.  The native properties of the state are a table over the heap of
  \<open>XNativeProperty\<close>.
\<close>

section \<open>The account state\<close>

record xaccount_mstate2 =
  m_latest_send_trans_number :: u64
  m_latest_send_trans_hash :: uint256
  m_latest_recv_trans_number :: u64
  m_latest_recv_trans_hash :: uint256
  m_account_balance :: u64
  m_account_burn_balance :: u64
  pledge_tgas :: u64
  pledge_disk :: u64
  pledge_vote :: u64
  m_account_lock_balance :: u64
  m_account_lock_tgas :: u64
  m_account_unvote_num :: u64
  m_account_credit :: i64
  m_account_nonce :: u64
  m_account_create_time :: u64
  m_account_status :: i32
  m_property_hash :: "(string, string) omap"
  mstate_native_property :: xnative_property
  m_unconfirm_sendtx_num :: u16
  mstate_ext :: "(u16, string) omap"

definition mstate_new :: xaccount_mstate2 where
  "mstate_new =
     \<lparr>m_latest_send_trans_number = 0, m_latest_send_trans_hash = 0,
      m_latest_recv_trans_number = 0, m_latest_recv_trans_hash = 0,
      m_account_balance = 0, m_account_burn_balance = 0,
      pledge_tgas = 0, pledge_disk = 0, pledge_vote = 0,
      m_account_lock_balance = 0, m_account_lock_tgas = 0, m_account_unvote_num = 0,
      m_account_credit = 0, m_account_nonce = 0, m_account_create_time = 0,
      m_account_status = 0, m_property_hash = [], mstate_native_property = np_empty,
      m_unconfirm_sendtx_num = 0, mstate_ext = []\<rparr>"

text \<open>The \<open>*_change\<close> setters add a signed 64-bit change, which wraps like the unsigned sum.\<close>

definition set_balance_change :: "i64 \<Rightarrow> xaccount_mstate2 \<Rightarrow> xaccount_mstate2" where
  "set_balance_change d m = m\<lparr>m_account_balance := m_account_balance m + d\<rparr>"

definition set_burn_balance_change :: "i64 \<Rightarrow> xaccount_mstate2 \<Rightarrow> xaccount_mstate2" where
  "set_burn_balance_change d m = m\<lparr>m_account_burn_balance := m_account_burn_balance m + d\<rparr>"

definition set_pledge_tgas_balance_change :: "i64 \<Rightarrow> xaccount_mstate2 \<Rightarrow> xaccount_mstate2" where
  "set_pledge_tgas_balance_change d m = m\<lparr>pledge_tgas := pledge_tgas m + d\<rparr>"

definition set_pledge_disk_balance_change :: "i64 \<Rightarrow> xaccount_mstate2 \<Rightarrow> xaccount_mstate2" where
  "set_pledge_disk_balance_change d m = m\<lparr>pledge_disk := pledge_disk m + d\<rparr>"

definition set_pledge_vote_balance_change :: "i64 \<Rightarrow> xaccount_mstate2 \<Rightarrow> xaccount_mstate2" where
  "set_pledge_vote_balance_change d m = m\<lparr>pledge_vote := pledge_vote m + d\<rparr>"

definition set_lock_balance_change :: "i64 \<Rightarrow> xaccount_mstate2 \<Rightarrow> xaccount_mstate2" where
  "set_lock_balance_change d m = m\<lparr>m_account_lock_balance := m_account_lock_balance m + d\<rparr>"

definition set_lock_tgas_change :: "i64 \<Rightarrow> xaccount_mstate2 \<Rightarrow> xaccount_mstate2" where
  "set_lock_tgas_change d m = m\<lparr>m_account_lock_tgas := m_account_lock_tgas m + d\<rparr>"

definition set_unvote_number_change :: "i64 \<Rightarrow> xaccount_mstate2 \<Rightarrow> xaccount_mstate2" where
  "set_unvote_number_change d m = m\<lparr>m_account_unvote_num := m_account_unvote_num m + d\<rparr>"

definition set_propertys_hash_change :: "(string, string) omap \<Rightarrow> xaccount_mstate2 \<Rightarrow> xaccount_mstate2" where
  "set_propertys_hash_change ps m = m\<lparr>m_property_hash := fold (\<lambda>(n, v). om_set n v) ps (m_property_hash m)\<rparr>"

definition set_native_property_change :: "xnative_property \<Rightarrow> xaccount_mstate2 \<Rightarrow> xaccount_mstate2" where
  "set_native_property_change np m =
     (if m_objs np = [] then m
      else m\<lparr>mstate_native_property := add_property (mstate_native_property m) np\<rparr>)"

definition mstate_get_property_hash :: "xaccount_mstate2 \<Rightarrow> string \<Rightarrow> string" where
  "mstate_get_property_hash m n = (case om_find (m_property_hash m) n of None \<Rightarrow> [] | Some v \<Rightarrow> v)"

definition mstate_do_write :: "(xdataunit \<Rightarrow> bytes) \<Rightarrow> heap \<Rightarrow> xaccount_mstate2 \<Rightarrow> bytes" where
  "mstate_do_write wr h m =
     put_u64 (m_latest_send_trans_number m) @ put_uint256 (m_latest_send_trans_hash m) @
     put_u64 (m_latest_recv_trans_number m) @ put_uint256 (m_latest_recv_trans_hash m) @
     put_u64 (m_account_balance m) @ put_u64 (m_account_burn_balance m) @
     put_u64 (pledge_tgas m) @ put_u64 (pledge_disk m) @ put_u64 (pledge_vote m) @
     put_u64 (m_account_lock_balance m) @ put_u64 (m_account_lock_tgas m) @
     put_u64 (m_account_unvote_num m) @ put_u64 (m_account_credit m) @
     put_u64 (m_account_nonce m) @ put_u64 (m_account_create_time m) @
     put_u32 (m_account_status m) @ put_map put_string put_string (m_property_hash m) @
     serialize_to (np_do_write wr h) (mstate_native_property m) @
     put_u16 (m_unconfirm_sendtx_num m) @ put_map put_u16 put_string (mstate_ext m)"

text \<open>\<open>do_read\<close> on an existing object: scalars are overwritten, the maps and the native table
  keep what they hold and are added to.\<close>

definition mstate_do_read :: "(bytes \<Rightarrow> (xdataunit \<times> bytes) option) \<Rightarrow> heap \<Rightarrow> xaccount_mstate2 \<Rightarrow> bytes
    \<Rightarrow> ((heap \<times> xaccount_mstate2) \<times> bytes) option" where
  "mstate_do_read rd h m s = do {
     (sn, s) \<leftarrow> get_u64 s; (sh, s) \<leftarrow> get_uint256 s;
     (rn, s) \<leftarrow> get_u64 s; (rh, s) \<leftarrow> get_uint256 s;
     (bal, s) \<leftarrow> get_u64 s; (burn, s) \<leftarrow> get_u64 s;
     (tg, s) \<leftarrow> get_u64 s; (dk, s) \<leftarrow> get_u64 s; (vt, s) \<leftarrow> get_u64 s;
     (lb, s) \<leftarrow> get_u64 s; (lt, s) \<leftarrow> get_u64 s;
     (uv, s) \<leftarrow> get_u64 s; (cr, s) \<leftarrow> get_u64 s;
     (nc, s) \<leftarrow> get_u64 s; (ct, s) \<leftarrow> get_u64 s;
     (st, s) \<leftarrow> get_u32 s; (ph, s) \<leftarrow> get_map get_string get_string (m_property_hash m) s;
     ((h', np), s) \<leftarrow> serialize_from (np_do_read rd h (mstate_native_property m)) s;
     (un, s) \<leftarrow> get_u16 s; (ext, s) \<leftarrow> get_map get_u16 get_string (mstate_ext m) s;
     Some ((h', \<lparr>m_latest_send_trans_number = sn, m_latest_send_trans_hash = sh,
      m_latest_recv_trans_number = rn, m_latest_recv_trans_hash = rh,
      m_account_balance = bal, m_account_burn_balance = burn,
      pledge_tgas = tg, pledge_disk = dk, pledge_vote = vt,
      m_account_lock_balance = lb, m_account_lock_tgas = lt, m_account_unvote_num = uv,
      m_account_credit = cr, m_account_nonce = nc, m_account_create_time = ct,
      m_account_status = st, m_property_hash = ph, mstate_native_property = np,
      m_unconfirm_sendtx_num = un, mstate_ext = ext\<rparr>), s) }"


section \<open>The account chain\<close>

record xblockchain2 =
  m_version :: u8
  m_account :: string
  m_block_level :: u32
  m_min_block_height :: u64
  m_max_block_height :: u64
  m_last_state_block_height :: u64
  m_last_state_block_hash :: string
  m_last_full_block_height :: u64
  m_last_full_block_hash :: string
  m_update_stamp :: u64
  m_property_confirm_height :: u64
  m_account_state :: xaccount_mstate2
  m_ext :: "(u16, string) omap"

definition enum_xvblock_level_unit :: u32 where "enum_xvblock_level_unit = 0"

definition blockchain_new :: "string \<Rightarrow> xblockchain2" where
  "blockchain_new account =
     \<lparr>m_version = 0, m_account = account, m_block_level = enum_xvblock_level_unit,
      m_min_block_height = 0, m_max_block_height = 0, m_last_state_block_height = 0,
      m_last_state_block_hash = [], m_last_full_block_height = 0, m_last_full_block_hash = [],
      m_update_stamp = 0, m_property_confirm_height = 0, m_account_state = mstate_new, m_ext = []\<rparr>"

definition is_state_behind :: "xblockchain2 \<Rightarrow> bool" where
  "is_state_behind b = (m_max_block_height b \<noteq> m_last_state_block_height b)"

definition is_property_behind :: "xblockchain2 \<Rightarrow> bool" where
  "is_property_behind b =
     (if m_block_level b \<noteq> enum_xvblock_level_unit then False
      else m_max_block_height b \<noteq> m_property_confirm_height b)"

definition set_update_stamp :: "u64 \<Rightarrow> xblockchain2 \<Rightarrow> xblockchain2" where
  "set_update_stamp t b = (if m_update_stamp b < t then b\<lparr>m_update_stamp := t\<rparr> else b)"

definition update_min_max_height :: "u64 \<Rightarrow> xblockchain2 \<Rightarrow> xblockchain2" where
  "update_min_max_height h b =
     (let b = (if m_min_block_height b = 0 \<or> h < m_min_block_height b then b\<lparr>m_min_block_height := h\<rparr> else b)
      in if m_max_block_height b < h then b\<lparr>m_max_block_height := h\<rparr> else b)"

definition set_min_chain_height :: "u64 \<Rightarrow> xblockchain2 \<Rightarrow> xblockchain2" where
  "set_min_chain_height h b = b\<lparr>m_min_block_height := h\<rparr>"

definition blockchain_do_write :: "(xdataunit \<Rightarrow> bytes) \<Rightarrow> heap \<Rightarrow> xblockchain2 \<Rightarrow> bytes" where
  "blockchain_do_write wr h b =
     put_u8 (m_version b) @ put_string (m_account b) @ put_u32 (m_block_level b) @
     put_u64 (m_min_block_height b) @ put_u64 (m_max_block_height b) @
     put_u64 (m_last_state_block_height b) @ put_string (m_last_state_block_hash b) @
     put_u64 (m_update_stamp b) @ put_u64 (m_property_confirm_height b) @
     put_u64 (m_last_full_block_height b) @ put_string (m_last_full_block_hash b) @
     serialize_to (mstate_do_write wr h) (m_account_state b) @ put_map put_u16 put_string (m_ext b)"

definition blockchain_do_read :: "(bytes \<Rightarrow> (xdataunit \<times> bytes) option) \<Rightarrow> heap \<Rightarrow> xblockchain2 \<Rightarrow> bytes
    \<Rightarrow> ((heap \<times> xblockchain2) \<times> bytes) option" where
  "blockchain_do_read rd h b s = do {
     (ver, s) \<leftarrow> get_u8 s; (acc, s) \<leftarrow> get_string s; (lev, s) \<leftarrow> get_u32 s;
     (mi, s) \<leftarrow> get_u64 s; (mx, s) \<leftarrow> get_u64 s;
     (lh, s) \<leftarrow> get_u64 s; (lhash, s) \<leftarrow> get_string s;
     (us, s) \<leftarrow> get_u64 s; (pc, s) \<leftarrow> get_u64 s;
     (fh, s) \<leftarrow> get_u64 s; (fhash, s) \<leftarrow> get_string s;
     ((h', m), s) \<leftarrow> serialize_from (mstate_do_read rd h (m_account_state b)) s;
     (ext, s) \<leftarrow> get_map get_u16 get_string (m_ext b) s;
     Some ((h', \<lparr>m_version = ver, m_account = acc, m_block_level = lev,
      m_min_block_height = mi, m_max_block_height = mx, m_last_state_block_height = lh,
      m_last_state_block_hash = lhash, m_last_full_block_height = fh, m_last_full_block_hash = fhash,
      m_update_stamp = us, m_property_confirm_height = pc, m_account_state = m, m_ext = ext\<rparr>), s) }"

text \<open>The set of unconfirmed accounts of a table chain, kept serialized in the extension map;
  \<open>std::set\<close> is the sorted list of its elements.\<close>

definition enum_blockchain_ext_type_uncnfirmed_accounts :: u16 where
  "enum_blockchain_ext_type_uncnfirmed_accounts = 1"

definition set_unconfirmed_accounts :: "string list \<Rightarrow> xblockchain2 \<Rightarrow> xblockchain2" where
  "set_unconfirmed_accounts accounts b =
     (if accounts = [] then b\<lparr>m_ext := om_erase enum_blockchain_ext_type_uncnfirmed_accounts (m_ext b)\<rparr>
      else b\<lparr>m_ext := om_set enum_blockchain_ext_type_uncnfirmed_accounts
                 (put_vector put_string accounts) (m_ext b)\<rparr>)"

definition get_unconfirmed_accounts :: "xblockchain2 \<Rightarrow> string list option" where
  "get_unconfirmed_accounts b =
     (case om_find (m_ext b) enum_blockchain_ext_type_uncnfirmed_accounts of
        None \<Rightarrow> Some []
      | Some v \<Rightarrow> map_option fst (get_set get_string [] v))"


section \<open>Gas of an account\<close>

definition XPROPERTY_USED_TGAS_KEY :: string where "XPROPERTY_USED_TGAS_KEY = ''@30''"
definition XPROPERTY_LAST_TX_HOUR_KEY :: string where "XPROPERTY_LAST_TX_HOUR_KEY = ''@32''"

abbreviation "balance b \<equiv> m_account_balance (m_account_state b)"
abbreviation "lock_balance b \<equiv> m_account_lock_balance (m_account_state b)"
abbreviation "tgas_balance b \<equiv> pledge_tgas (m_account_state b)"
abbreviation "disk_balance b \<equiv> pledge_disk (m_account_state b)"
abbreviation "vote_balance b \<equiv> pledge_vote (m_account_state b)"
abbreviation "lock_tgas b \<equiv> m_account_lock_tgas (m_account_state b)"
abbreviation "unvote_num b \<equiv> m_account_unvote_num (m_account_state b)"
abbreviation "get_native_property b \<equiv> mstate_native_property (m_account_state b)"

definition get_free_tgas :: "xconf \<Rightarrow> xblockchain2 \<Rightarrow> u64" where
  "get_free_tgas cf b =
     (let total_asset = balance b + lock_balance b + tgas_balance b + disk_balance b + vote_balance b
      in if min_free_gas_balance cf \<le> total_asset then free_gas cf else 0)"

text \<open>The gas that pledging one TOP gives, cut to 32 bits.\<close>

definition get_token_price :: "xconf \<Rightarrow> u64 \<Rightarrow> u32 option" where
  "get_token_price cf onchain_total_pledge_token =
     (let total = onchain_total_pledge_token + initial_total_locked_token cf
      in map_option ucast (udiv (total_gas_shard cf * ucast (validator_group_count cf) * TOP_UNIT) total))"

definition get_total_tgas :: "xconf \<Rightarrow> u32 \<Rightarrow> xblockchain2 \<Rightarrow> u64" where
  "get_total_tgas cf price b =
     (let total_tgas = tgas_balance b * ucast price div TOP_UNIT + get_free_tgas cf b;
          max_tgas = (if is_user_contract_address (m_account b) then max_gas_contract cf else max_gas_account cf)
      in min total_tgas max_tgas)"

text \<open>A decimal number kept in a native string property, 0 if there is none.\<close>

definition native_number :: "string \<Rightarrow> heap \<Rightarrow> xnative_property \<Rightarrow> u64 option" where
  "native_number key h np =
     (case native_string_get key h np of Inr v \<Rightarrow> stoull v | Inl _ \<Rightarrow> Some 0)"

definition blockchain_last_tx_hour :: "heap \<Rightarrow> xblockchain2 \<Rightarrow> u64 option" where
  "blockchain_last_tx_hour h b = native_number XPROPERTY_LAST_TX_HOUR_KEY h (get_native_property b)"

definition blockchain_used_tgas :: "heap \<Rightarrow> xblockchain2 \<Rightarrow> u64 option" where
  "blockchain_used_tgas h b = native_number XPROPERTY_USED_TGAS_KEY h (get_native_property b)"

definition blockchain_calc_decayed_tgas :: "xconf \<Rightarrow> u64 \<Rightarrow> heap \<Rightarrow> xblockchain2 \<Rightarrow> u64 option" where
  "blockchain_calc_decayed_tgas cf timer_height h b = do {
     hour \<leftarrow> blockchain_last_tx_hour h b;
     let last_hour = (ucast (ucast hour :: u32) :: u64);
     let decay_time = (ucast (usedgas_decay_cycle cf) :: u64);
     if timer_height \<le> last_hour then blockchain_used_tgas h b
     else if timer_height - last_hour < decay_time then do {
       used \<leftarrow> blockchain_used_tgas h b;
       udiv ((decay_time - (timer_height - last_hour)) * used) decay_time }
     else Some 0 }"

definition blockchain_available_tgas :: "xconf \<Rightarrow> u64 \<Rightarrow> u32 \<Rightarrow> heap \<Rightarrow> xblockchain2 \<Rightarrow> u64 option" where
  "blockchain_available_tgas cf timer_height price h b = do {
     used_tgas \<leftarrow> blockchain_calc_decayed_tgas cf timer_height h b;
     let total_tgas = get_total_tgas cf price b;
     Some (if used_tgas < total_tgas then total_tgas - used_tgas else 0) }"


section \<open>Reading back an account chain\<close>

text \<open>Counts and lengths that fit the 32-bit length fields, with the maps in key order.\<close>

interpretation u16str: codec_pair put_u16 get_u16 "\<lambda>_. True" put_string get_string str_ok
  by unfold_locales

definition mstate_fits :: "(xdataunit \<Rightarrow> bytes) \<Rightarrow> heap \<Rightarrow> xaccount_mstate2 \<Rightarrow> bool" where
  "mstate_fits wr h m \<longleftrightarrow>
     om_inv (m_property_hash m) \<and> length (m_property_hash m) < 2 ^ 32 \<and>
     list_all (\<lambda>p. str_ok (fst p) \<and> str_ok (snd p)) (m_property_hash m) \<and>
     om_inv (mstate_ext m) \<and> length (mstate_ext m) < 2 ^ 32 \<and>
     list_all (\<lambda>p. str_ok (snd p)) (mstate_ext m) \<and>
     np_inv h (mstate_native_property m) \<and>
     length (m_objs (mstate_native_property m)) < 2 ^ 32 \<and>
     list_all (\<lambda>p. str_ok (fst p)) (m_objs (mstate_native_property m)) \<and>
     length (np_do_write wr h (mstate_native_property m)) < 2 ^ 32"

lemma mstate_read_write:
  assumes fits: "mstate_fits wr h m"
    and codec: "\<And>u t. u \<in> set h \<Longrightarrow> rd (wr u @ t) = Some (u, t)"
  shows "\<exists>h' np'. mstate_do_read rd [] mstate_new (mstate_do_write wr h m @ s) =
      Some ((h', m\<lparr>mstate_native_property := np'\<rparr>), s) \<and>
    np_view h' np' = np_view h (mstate_native_property m)"
proof -
  let ?np = "mstate_native_property m"
  obtain h' np' where r: "np_do_read rd [] np_empty (np_do_write wr h ?np @ []) = Some ((h', np'), [])"
      and v: "np_view h' np' = np_view h ?np"
    using np_read_back [of h ?np rd wr "[]"] fits codec by (auto simp: mstate_fits_def)
  have "serialize_from (np_do_read rd [] np_empty) (serialize_to (np_do_write wr h) ?np @ t) =
      Some ((h', np'), t)" for t
    using r fits by (simp add: serialize_from_def serialize_to_def get_buffer_put mstate_fits_def)
  then have "mstate_do_read rd [] mstate_new (mstate_do_write wr h m @ s) =
      Some ((h', m\<lparr>mstate_native_property := np'\<rparr>), s)"
    using fits strstr.get_map_put [of "m_property_hash m"] u16str.get_map_put [of "mstate_ext m"]
    by (simp add: mstate_do_read_def mstate_do_write_def mstate_new_def mstate_fits_def
        u256.get_put [OF TrueI])
  with v show ?thesis by blast
qed


section \<open>Unconfirmed accounts and gas\<close>

lemma fold_insort_sorted: "sorted_wrt (<) (c @ xs) \<Longrightarrow> fold insort_insert xs c = c @ (xs :: string list)"
proof (induction xs arbitrary: c)
  case (Cons x xs)
  have a: "\<forall>y\<in>set c. y < x" using Cons.prems by (simp add: sorted_wrt_append)
  then have "insort_insert x c = c @ [x]"
    by (induction c) (auto simp: insort_insert_key_def not_le less_imp_le)
  then show ?case using Cons by simp
qed simp

lemma get_set_put:
  assumes "list_all str_ok xs" "length xs < 2 ^ 32" "sorted_wrt (<) xs"
  shows "get_set get_string [] (put_vector put_string xs @ s) = Some (xs, s)"
  using assms str.length_items [of xs] fold_insort_sorted [of "[]" xs]
  by (simp add: get_set_def put_vector_def unat_of_nat str.get_loop_put)

text \<open>
  The set of unconfirmed accounts of a table chain is read back as it was stored, also when
  it is empty, and storing it leaves every other extension entry alone.
\<close>

lemma unconfirmed_accounts_round:
  assumes "list_all str_ok xs" "length xs < 2 ^ 32" "sorted_wrt (<) xs" "om_inv (m_ext b)"
  shows "get_unconfirmed_accounts (set_unconfirmed_accounts xs b) = Some xs \<and>
    om_inv (m_ext (set_unconfirmed_accounts xs b)) \<and>
    (\<forall>k. k \<noteq> enum_blockchain_ext_type_uncnfirmed_accounts \<longrightarrow>
      om_find (m_ext (set_unconfirmed_accounts xs b)) k = om_find (m_ext b) k)"
  using assms get_set_put [OF assms(1-3), of "[]"]
  by (auto simp: get_unconfirmed_accounts_def set_unconfirmed_accounts_def om_inv_erase om_inv_set omap_simps)

lemma unat_ucast_u32_u64 [simp]: "unat (ucast (w :: u32) :: u64) = unat w"
  using unat32_lt [of w] by (simp add: unsigned_ucast_eq take_bit_nat_eq_self)

lemma unat_ucast_u16_u64: "unat (ucast (w :: u16) :: u64) = unat w"
  using unat16_lt [of w] by (simp add: unsigned_ucast_eq take_bit_nat_eq_self)

lemma unat_ucast_mod32: "unat (ucast (w :: u64) :: u32) = unat w mod 2 ^ 32"
  by (simp add: unsigned_ucast_eq take_bit_eq_mod)

text \<open>A product cut to 64 bits and divided is the exact quotient only if nothing was cut.\<close>

lemma wrapped_quotient:
  fixes p t m :: nat
  assumes "0 < t" "t < 2 ^ 64"
  shows "(p mod 2 ^ 64 div t mod m = p div t \<longleftrightarrow> p < 2 ^ 64 \<and> p div t mod m = p div t) \<and> p mod 2 ^ 64 div t mod m \<le> p div t"
proof -
  have "p mod 2 ^ 64 div t < p div t" if "2 ^ 64 \<le> p"
  proof -
    have "p mod 2 ^ 64 \<le> p - 2 ^ 64"
      using that by (metis le_mod_geq mod_less_eq_dividend)
    then have "p mod 2 ^ 64 + t \<le> p"
      using that assms(2) by linarith
    then have "(p mod 2 ^ 64 + t) div t \<le> p div t"
      by (rule div_le_mono)
    then show ?thesis
      using assms(1) div_add_self2 [of t "p mod 2 ^ 64"] by linarith
  qed
  then have "p mod 2 ^ 64 div t mod m < p div t" if "2 ^ 64 \<le> p"
    using that mod_less_eq_dividend le_less_trans by blast
  then show ?thesis
    by (cases "p < 2 ^ 64") (auto simp: not_less)
qed

text \<open>
  C40 When the gas price of one TOP is exact.  With a total of pledged and initially locked tokens that is
  positive and fits 64 bits, the price is the product of shard gas, validator groups and TOP unit cut to 64 bits,
  divided by the total and cut to 32 bits.  It is the exact quotient precisely when the product is below
  2^64 and the quotient below 2^32, and smaller than the exact quotient otherwise.  With the
  other parameters at their initial values this holds for eight validator groups (17280) and fails for
  nine (993 instead of 19440), inside the declared range of 1 to 62.
\<close>

theorem token_price_wraps:
  assumes "unat x + unat (initial_total_locked_token cf) = t" "0 < t" "t < 2 ^ 64"
    and "unat (total_gas_shard cf) * unat (validator_group_count cf) * unat TOP_UNIT = p"
  shows "\<exists>w. get_token_price cf x = Some w \<and> unat w = p mod 2 ^ 64 div t mod 2 ^ 32 \<and>
    (unat w = p div t \<longleftrightarrow> p < 2 ^ 64 \<and> p div t < 2 ^ 32) \<and> unat w \<le> p div t"
proof -
  let ?t = "x + initial_total_locked_token cf"
  let ?p = "total_gas_shard cf * ucast (validator_group_count cf) * TOP_UNIT"
  have t: "unat ?t = t" "?t \<noteq> 0"
    using assms(1-3) by (auto simp: word_bounds word_unat_eq_iff)
  have p: "unat ?p = p mod 2 ^ 64"
    using assms(4) by (simp add: unat_word_ariths mod_mult_left_eq unat_ucast_u16_u64)
  have "unat (ucast (?p div ?t) :: u32) = p mod 2 ^ 64 div t mod 2 ^ 32"
    unfolding unat_ucast_mod32 unat_div p t(1) by simp
  then show ?thesis
    using wrapped_quotient [OF assms(2,3), of p "2 ^ 32"] t(2) by (auto simp: get_token_price_def udiv_def Let_def)
qed

theorem token_price_wraps_witness:
  "(\<exists>w. get_token_price (default_conf\<lparr>validator_group_count := 8\<rparr>) 0 = Some w \<and> unat w = 17280) \<and>
   (\<exists>w. get_token_price (default_conf\<lparr>validator_group_count := 9\<rparr>) 0 = Some w \<and> unat w = 993)"
  using token_price_wraps [of 0 "default_conf\<lparr>validator_group_count := 8\<rparr>", OF refl _ _ refl]
    token_price_wraps [of 0 "default_conf\<lparr>validator_group_count := 9\<rparr>", OF refl _ _ refl]
  by (auto simp: default_conf_def ASSET_TOP_def TOP_UNIT_def)

lemma ucast_u32_round: "unat (w :: u64) < 2 ^ 32 \<Longrightarrow> (ucast (ucast w :: u32) :: u64) = w"
proof -
  assume "unat w < 2 ^ 32"
  moreover have "(ucast (ucast w :: u32) :: u64) = take_bit 32 w"
    by (rule bit_word_eqI) (auto simp: bit_simps)
  ultimately show ?thesis by (simp add: take_bit_small)
qed

lemma decay_word:
  assumes d: "unat used * unat (d :: u32) < 2 ^ 64" and lt: "t - l < (ucast d :: u64)" and le: "l \<le> t"
  shows "unat ((ucast d - (t - l)) * used div ucast d) = (unat d - (unat t - unat l)) * unat used div unat d"
proof -
  have s: "unat (t - l) = unat t - unat l" by (rule unat_sub [OF le])
  have "unat (ucast d - (t - l)) = unat d - (unat t - unat l)"
    using lt by (simp add: unat_sub s less_imp_le)
  moreover have "(unat d - (unat t - unat l)) * unat used < 2 ^ 64"
    using d by (smt (verit) diff_le_self le_less_trans mult.commute mult_le_mono1)
  ultimately show ?thesis
    by (simp add: unat_div unat_word_ariths)
qed

text \<open>
  C31 The used gas decays linearly: with a stored last hour that fits 32 bits, and used gas that
  does not overflow the product, the decayed value at timer t is exactly the used gas times the
  rest of the decay cycle divided by the cycle.  It is the full value up to the last hour and
  zero from one cycle after it.
\<close>

theorem tgas_decay:
  assumes hour: "blockchain_last_tx_hour h b = Some hour" "unat hour < 2 ^ 32"
    and used: "blockchain_used_tgas h b = Some used" "unat used * unat (usedgas_decay_cycle cf) < 2 ^ 64"
    and cf: "conf_ok cf"
  shows "\<exists>v. blockchain_calc_decayed_tgas cf t h b = Some v \<and>
      unat v = (unat (usedgas_decay_cycle cf) - (unat t - unat hour)) * unat used div unat (usedgas_decay_cycle cf)"
proof -
  let ?d = "usedgas_decay_cycle cf"
  have l: "(ucast (ucast hour :: u32) :: u64) = hour"
    using hour(2) by (rule ucast_u32_round)
  have d: "0 < unat ?d" using cf by (simp add: conf_ok_def unat_gt_0)
  then have d0: "(ucast ?d :: u64) \<noteq> 0" by (auto simp: word_unat_eq_iff)
  consider "t \<le> hour" | "hour < t" "t - hour < ucast ?d" | "hour < t" "ucast ?d \<le> t - hour"
    by (meson not_less)
  then show ?thesis
  proof cases
    case 1
    then have "unat t - unat hour = 0" by (simp add: word_le_nat_alt)
    with 1 show ?thesis using hour used d by (simp add: blockchain_calc_decayed_tgas_def Let_def l)
  next
    case 2
    then show ?thesis using hour used decay_word [OF used(2) 2(2)] d0
      by (auto simp: blockchain_calc_decayed_tgas_def Let_def l less_imp_le)
  next
    case 3
    then have "unat ?d \<le> unat t - unat hour"
      using unat_sub [OF less_imp_le [OF 3(1)]] by (simp add: word_le_nat_alt)
    with 3 show ?thesis using hour used
      by (auto simp: blockchain_calc_decayed_tgas_def Let_def l)
  qed
qed

text \<open>
  The gas available to an account is its total gas minus the decayed used gas, never negative
  and never above the limit of its kind of account.
\<close>

lemma available_tgas_spec:
  assumes "blockchain_calc_decayed_tgas cf t h b = Some used"
  shows "\<exists>v. blockchain_available_tgas cf t p h b = Some v \<and>
    unat v = unat (get_total_tgas cf p b) - unat used \<and>
    v \<le> (if is_user_contract_address (m_account b) then max_gas_contract cf else max_gas_account cf)"
proof -
  let ?t = "get_total_tgas cf p b"
  have "?t \<le> (if is_user_contract_address (m_account b) then max_gas_contract cf else max_gas_account cf)"
    by (simp add: get_total_tgas_def Let_def)
  moreover have "unat (if used < ?t then ?t - used else 0) = unat ?t - unat used"
    by (auto simp: unat_sub less_imp_le not_less word_le_nat_alt word_less_nat_alt)
  ultimately show ?thesis
    using assms by (auto simp: blockchain_available_tgas_def Let_def word_le_nat_alt)
qed

text \<open>
  An account chain survives serialization: reading back what was written gives a chain that
  differs only in the addresses of its native property objects, whose content is the same, and
  leaves exactly the data that followed.
\<close>

lemma blockchain_write_read:
  assumes "mstate_fits wr h (m_account_state b)"
    and "length (mstate_do_write wr h (m_account_state b)) < 2 ^ 32"
    and "str_ok (m_account b)" "str_ok (m_last_state_block_hash b)" "str_ok (m_last_full_block_hash b)"
    and "om_inv (m_ext b)" "length (m_ext b) < 2 ^ 32" "list_all (\<lambda>p. str_ok (snd p)) (m_ext b)"
    and codec: "\<And>u t. u \<in> set h \<Longrightarrow> rd (wr u @ t) = Some (u, t)"
  shows "\<exists>h' np'. blockchain_do_read rd [] (blockchain_new a) (blockchain_do_write wr h b @ s) =
      Some ((h', b\<lparr>m_account_state := (m_account_state b)\<lparr>mstate_native_property := np'\<rparr>\<rparr>), s) \<and>
    np_view h' np' = np_view h (mstate_native_property (m_account_state b))"
proof -
  let ?m = "m_account_state b"
  obtain h' np' where r: "mstate_do_read rd [] mstate_new (mstate_do_write wr h ?m @ []) =
      Some ((h', ?m\<lparr>mstate_native_property := np'\<rparr>), [])"
      and v: "np_view h' np' = np_view h (mstate_native_property ?m)"
    using mstate_read_write [OF assms(1) codec, of "[]"] by blast
  have "serialize_from (mstate_do_read rd [] mstate_new) (serialize_to (mstate_do_write wr h) ?m @ t) =
      Some ((h', ?m\<lparr>mstate_native_property := np'\<rparr>), t)" for t
    using r assms(2) by (simp add: serialize_from_def serialize_to_def get_buffer_put)
  then have "blockchain_do_read rd [] (blockchain_new a) (blockchain_do_write wr h b @ s) =
      Some ((h', b\<lparr>m_account_state := ?m\<lparr>mstate_native_property := np'\<rparr>\<rparr>), s)"
    using assms(3-8) u16str.get_map_put [of "m_ext b"]
    by (simp add: blockchain_do_read_def blockchain_do_write_def blockchain_new_def)
  with v show ?thesis by blast
qed

theorem blockchain_write_read_witness:
  "\<exists>h' np'. blockchain_do_read tagged_read [] (blockchain_new [])
      (blockchain_do_write tagged_write [XString ''7'']
        ((blockchain_new ''T0'')\<lparr>m_account_state := mstate_new\<lparr>mstate_native_property :=
          \<lparr>m_objs = [(''@30'', 0)], m_modify_objs = []\<rparr>\<rparr>\<rparr>) @ ''tail'') =
      Some ((h', (blockchain_new ''T0'')\<lparr>m_account_state := mstate_new\<lparr>mstate_native_property := np'\<rparr>\<rparr>), ''tail'') \<and>
    np_view h' np' = np_view [XString ''7''] \<lparr>m_objs = [(''@30'', 0)], m_modify_objs = []\<rparr>"
proof -
  let ?np = "\<lparr>m_objs = [(''@30'', 0)], m_modify_objs = []\<rparr>"
  let ?b = "(blockchain_new ''T0'')\<lparr>m_account_state := mstate_new\<lparr>mstate_native_property := ?np\<rparr>\<rparr>"
  have "mstate_fits tagged_write [XString ''7''] (m_account_state ?b)"
    by (simp add: mstate_fits_def mstate_new_def np_inv_def om_inv_def str_ok_def np_do_write_def
        np_put_item_def tagged_write_def xstring_do_write_def put_string_def put_u32_def Let_def)
  moreover have "length (mstate_do_write tagged_write [XString ''7''] (m_account_state ?b)) < 2 ^ 32"
    by (simp add: mstate_do_write_def mstate_new_def np_do_write_def np_put_item_def serialize_to_def
        put_buffer_def tagged_write_def xstring_do_write_def put_string_def put_uint_defs put_uint256_def
        uint256_data_def put_map_def Let_def)
  ultimately show ?thesis
    using blockchain_write_read [of tagged_write "[XString ''7'']" ?b tagged_read "[]" "''tail''"]
    by (simp add: blockchain_new_def str_ok_def tagged_read_def tagged_write_def xstring_do_read_def
        xstring_do_write_def)
qed

theorem tgas_decay_witness:
  "\<exists>v. blockchain_calc_decayed_tgas default_conf 4420 [XString ''1000'', XString ''100'']
      ((blockchain_new ''T0'')\<lparr>m_account_state := mstate_new\<lparr>mstate_native_property :=
          \<lparr>m_objs = [(''@30'', 0), (''@32'', 1)], m_modify_objs = []\<rparr>\<rparr>\<rparr>) = Some v \<and> unat v = 500"
proof -
  let ?h = "[XString ''1000'', XString ''100'']"
  let ?b = "(blockchain_new ''T0'')\<lparr>m_account_state := mstate_new\<lparr>mstate_native_property :=
      \<lparr>m_objs = [(''@30'', 0), (''@32'', 1)], m_modify_objs = []\<rparr>\<rparr>\<rparr>"
  have "stoull ''1000'' = Some 1000" "stoull ''100'' = Some 100"
    by (simp_all add: stoull_eval)
  then have "blockchain_last_tx_hour ?h ?b = Some 100" "blockchain_used_tgas ?h ?b = Some 1000"
    by (simp_all add: blockchain_last_tx_hour_def blockchain_used_tgas_def native_number_def
        native_string_get_def string_get_def property_get_def om_find_def deref_def xstring_get_def
        XPROPERTY_LAST_TX_HOUR_KEY_def XPROPERTY_USED_TGAS_KEY_def)
  then show ?thesis
    using tgas_decay [of ?h ?b 100 1000 default_conf 4420] default_conf_ok
    by (simp add: default_conf_def)
qed

theorem available_tgas_spec_witness:
  "\<exists>v. blockchain_available_tgas default_conf 5 17 [] (blockchain_new ''T0'') = Some v \<and> v \<le> 1000000"
proof -
  have "blockchain_calc_decayed_tgas default_conf 5 [] (blockchain_new ''T0'') = Some 0"
    by (simp add: blockchain_calc_decayed_tgas_def blockchain_last_tx_hour_def blockchain_used_tgas_def
        native_number_def native_string_get_def string_get_def property_get_def om_find_def
        blockchain_new_def mstate_new_def np_empty_def default_conf_def udiv_def)
  from available_tgas_spec [OF this, of 17] show ?thesis
    by (auto simp: blockchain_new_def address_class_defs get_addrtype_from_account_def default_conf_def
        addr_type_defs enum_vaccount_address_min_size_def)
qed

theorem unconfirmed_accounts_round_witness:
  "get_unconfirmed_accounts (set_unconfirmed_accounts [''a'', ''b''] (blockchain_new ''T'')) = Some [''a'', ''b'']"
  using unconfirmed_accounts_round [of "[''a'', ''b'']" "blockchain_new ''T''"]
  by (simp add: str_ok_def blockchain_new_def)

end
