(* ===== verification/XCrypto.thy ===== *)
theory XCrypto
  imports XAddress XStream
begin

text \<open>
  Keys, signatures and key addresses of \<open>xcrypto/xckey.h\<close> and \<open>xcrypto/src/xckey.cpp\<close>.  The
  curve library (secp256k1) and the address encoding of the trezor library are the parameter
  record \<open>ecc\<close>: an \<open>option\<close> is \<open>None\<close> where the call does not return 1.  Keys, digests and
  signatures are byte strings.
\<close>

record ('r, 'k, 's) ecc =
  signature_parse_compact :: "bytes \<Rightarrow> nat \<Rightarrow> 'r option"
  signature_serialize_compact :: "'r \<Rightarrow> bytes \<times> nat"
  signature_convert :: "'r \<Rightarrow> 's option"
  ecdsa_recover :: "'r \<Rightarrow> bytes \<Rightarrow> 'k option"
  ecdsa_verify :: "'s \<Rightarrow> bytes \<Rightarrow> 'k \<Rightarrow> bool"
  ecdsa_sign_recoverable :: "bytes \<Rightarrow> bytes \<Rightarrow> 'r"
  ec_pubkey_create :: "bytes \<Rightarrow> 'k"
  ec_pubkey_serialize :: "bool \<Rightarrow> 'k \<Rightarrow> bytes"
  ecdsa_get_address :: "bytes \<Rightarrow> u32 \<Rightarrow> string"
  ecdsa_address_decode :: "string \<Rightarrow> u32 \<Rightarrow> bool"


section \<open>Signatures\<close>

text \<open>A compact signature is 65 bytes, the recovery id first.\<close>

definition get_recover_id :: "bytes \<Rightarrow> nat" where "get_recover_id sig = of_char (sig ! 0)"
definition get_raw_signature :: "bytes \<Rightarrow> bytes" where "get_raw_signature sig = take 64 (drop 1 sig)"

definition get_publickey_from_signature :: "('r, 'k, 's) ecc \<Rightarrow> bytes \<Rightarrow> bytes \<Rightarrow> bytes option" where
  "get_publickey_from_signature E signature msg_digest =
     (if 3 < get_recover_id signature then None
      else do {
        r \<leftarrow> signature_parse_compact E (get_raw_signature signature) (get_recover_id signature);
        native_pubkey \<leftarrow> ecdsa_recover E r msg_digest;
        normal \<leftarrow> signature_convert E r;
        if ecdsa_verify E normal msg_digest native_pubkey
        then Some (ec_pubkey_serialize E False native_pubkey) else None })"

definition secp_verify_signature :: "('r, 'k, 's) ecc \<Rightarrow> bytes \<Rightarrow> bytes \<Rightarrow> bytes \<Rightarrow> bool \<Rightarrow> bool" where
  "secp_verify_signature E signature msg_digest verify_publickey compress =
     (if 3 < get_recover_id signature then False
      else case signature_parse_compact E (get_raw_signature signature) (get_recover_id signature) of
        None \<Rightarrow> False
      | Some r \<Rightarrow>
          (case ecdsa_recover E r msg_digest of
             None \<Rightarrow> False
           | Some native_pubkey \<Rightarrow>
               (case signature_convert E r of
                  None \<Rightarrow> False
                | Some normal \<Rightarrow>
                    if \<not> ecdsa_verify E normal msg_digest native_pubkey then False
                    else let s = ec_pubkey_serialize E compress native_pubkey
                         in take (length s) verify_publickey = s)))"


section \<open>Keys\<close>

definition char_uint32 :: "char \<Rightarrow> u32" where
  "char_uint32 c = scast (of_char c :: u8)"

definition pubkey_to_address :: "('r, 'k, 's) ecc \<Rightarrow> xutl \<Rightarrow> bytes \<Rightarrow> char \<Rightarrow> u16 \<Rightarrow> string" where
  "pubkey_to_address E U publickey addr_type ledger_id =
     (let version = push_bit 8 (ucast ledger_id) OR char_uint32 addr_type
      in make_account_address U addr_type ledger_id (ecdsa_get_address E publickey version) (- 1))"

text \<open>The child address of a parent: the bytes of the parent address are added to the key.\<close>

definition add_parent :: "string \<Rightarrow> bytes \<Rightarrow> bytes" where
  "add_parent parent_addr publickey =
     map2 (\<lambda>k p. char_of (of_char k + of_char p :: nat)) (take (length parent_addr) publickey)
       (take (length publickey) parent_addr) @ drop (length parent_addr) publickey"

definition pubkey_to_child_address :: "('r, 'k, 's) ecc \<Rightarrow> xutl \<Rightarrow> bytes \<Rightarrow> string \<Rightarrow> char \<Rightarrow> u16 \<Rightarrow> string" where
  "pubkey_to_child_address E U publickey parent_addr addr_type ledger_id =
     (if parent_addr = [] then pubkey_to_address E U publickey addr_type ledger_id
      else pubkey_to_address E U (add_parent parent_addr publickey) addr_type ledger_id)"

definition generate_public_key :: "('r, 'k, 's) ecc \<Rightarrow> bytes \<Rightarrow> bytes" where
  "generate_public_key E private_key = ec_pubkey_serialize E False (ec_pubkey_create E private_key)"

definition get_compress_public_key :: "('r, 'k, 's) ecc \<Rightarrow> bytes \<Rightarrow> bytes" where
  "get_compress_public_key E private_key = ec_pubkey_serialize E True (ec_pubkey_create E private_key)"

definition to_account_address :: "('r, 'k, 's) ecc \<Rightarrow> xutl \<Rightarrow> bytes \<Rightarrow> char \<Rightarrow> u16 \<Rightarrow> string" where
  "to_account_address E U private_key addr_type ledger_id =
     pubkey_to_address E U (generate_public_key E private_key) addr_type ledger_id"

definition prikey_sign :: "('r, 'k, 's) ecc \<Rightarrow> bytes \<Rightarrow> bytes \<Rightarrow> bytes" where
  "prikey_sign E private_key msg_digest =
     (let (raw, recover_id) = signature_serialize_compact E (ecdsa_sign_recoverable E msg_digest private_key)
      in char_of recover_id # raw)"

definition prikey_verify_signature :: "('r, 'k, 's) ecc \<Rightarrow> bytes \<Rightarrow> bytes \<Rightarrow> bytes \<Rightarrow> bool" where
  "prikey_verify_signature E private_key signature msg_digest =
     secp_verify_signature E signature msg_digest (generate_public_key E private_key) False"


section \<open>Key addresses\<close>

definition key_verify_signature :: "('r, 'k, 's) ecc \<Rightarrow> xutl \<Rightarrow> string \<Rightarrow> bytes \<Rightarrow> bytes \<Rightarrow> bool" where
  "key_verify_signature E U account signature msg_digest =
     (case get_type_and_ledgerid_from_account U account of
        None \<Rightarrow> False
      | Some (addr_type, net_id) \<Rightarrow>
          (case get_publickey_from_signature E signature msg_digest of
             None \<Rightarrow> False
           | Some pk \<Rightarrow> pubkey_to_address E U pk addr_type net_id = account))"

definition key_verify_child_signature ::
    "('r, 'k, 's) ecc \<Rightarrow> xutl \<Rightarrow> string \<Rightarrow> bytes \<Rightarrow> bytes \<Rightarrow> string \<Rightarrow> bool" where
  "key_verify_child_signature E U account signature msg_digest parent_addr =
     (case get_type_and_ledgerid_from_account U account of
        None \<Rightarrow> False
      | Some (addr_type, net_id) \<Rightarrow>
          (case get_publickey_from_signature E signature msg_digest of
             None \<Rightarrow> False
           | Some pk \<Rightarrow> pubkey_to_child_address E U pk parent_addr addr_type net_id = account))"

text \<open>\<open>is_valid\<close> reads the public part outside of its handler, so the \<open>std::out_of_range\<close> of
  \<open>substr\<close> leaves it.\<close>

definition key_is_valid :: "('r, 'k, 's) ecc \<Rightarrow> xutl \<Rightarrow> string \<Rightarrow> bool option" where
  "key_is_valid E U account =
     (case get_type_and_ledgerid_from_account U account of
        None \<Rightarrow> Some False
      | Some (addr_type, ledger_id) \<Rightarrow> do {
          public_address \<leftarrow> get_public_address_from_account U account;
          let version = (push_bit 8 (ucast ledger_id) OR ucast (of_char addr_type :: u8) :: u32);
          Some (ecdsa_address_decode E (c_str public_address) version) })"


section \<open>A signature is accepted for the address of its key\<close>

text \<open>What the curve library documents of a recoverable signature: it is read back from its
  compact form of 64 bytes and a recovery id of 0 to 3, it recovers the public key of the
  signer, and its plain form verifies for that key.\<close>

definition ecc_recovers :: "('r, 'k, 's) ecc \<Rightarrow> bytes \<Rightarrow> bytes \<Rightarrow> bool" where
  "ecc_recovers E key digest \<longleftrightarrow>
     (let r = ecdsa_sign_recoverable E digest key; (raw, rid) = signature_serialize_compact E r
      in length raw = 64 \<and> rid \<le> 3 \<and> signature_parse_compact E raw rid = Some r \<and>
         ecdsa_recover E r digest = Some (ec_pubkey_create E key) \<and>
         (case signature_convert E r of None \<Rightarrow> False | Some n \<Rightarrow> ecdsa_verify E n digest (ec_pubkey_create E key)))"

lemma sign_parts:
  assumes "ecc_recovers E key digest"
  obtains r raw rid n where "prikey_sign E key digest = char_of rid # raw" "length raw = 64"
    "get_recover_id (char_of rid # raw) = rid" "rid \<le> 3" "get_raw_signature (char_of rid # raw) = raw"
    "signature_parse_compact E raw rid = Some r" "ecdsa_recover E r digest = Some (ec_pubkey_create E key)"
    "signature_convert E r = Some n" "ecdsa_verify E n digest (ec_pubkey_create E key)"
proof -
  obtain raw rid where p: "signature_serialize_compact E (ecdsa_sign_recoverable E digest key) = (raw, rid)"
    by fastforce
  with assms have "rid \<le> 3" "length raw = 64" by (auto simp: ecc_recovers_def Let_def)
  then show ?thesis
    using that [of rid raw "ecdsa_sign_recoverable E digest key"] p assms
    by (auto simp: ecc_recovers_def prikey_sign_def get_recover_id_def get_raw_signature_def Let_def split: option.splits)
qed

lemma publickey_of_sign:
  "ecc_recovers E key digest \<Longrightarrow>
    get_publickey_from_signature E (prikey_sign E key digest) digest = Some (generate_public_key E key)"
  by (erule sign_parts) (simp add: get_publickey_from_signature_def generate_public_key_def)

lemma length_sign: "ecc_recovers E key digest \<Longrightarrow> length (prikey_sign E key digest) = 65"
  by (erule sign_parts) simp

lemma prikey_verify_sign:
  "ecc_recovers E key digest \<Longrightarrow> prikey_verify_signature E key (prikey_sign E key digest) digest"
  by (erule sign_parts)
    (simp add: prikey_verify_signature_def secp_verify_signature_def generate_public_key_def Let_def)

lemma account_type_and_ledgerid:
  assumes "t \<noteq> addr_type_invalid" "(of_char t :: nat) < 128"
    and a: "a = make_account_address U t l pk (- 1)"
    and "enum_vaccount_address_min_size < length a" "length a < enum_vaccount_address_max_size"
    and "length (uint642hex U (ucast l)) \<le> 4" "hex2uint64 U (pad4 (uint642hex U (ucast l))) = ucast l"
  shows "get_type_and_ledgerid_from_account U a = Some (t, l)"
proof -
  have e: "a = CHR ''T'' # t # pad4 (uint642hex U (ucast l)) @ pk"
    using assms(1,2) a
    by (simp add: make_account_address_def pad4_def Let_def enum_vbucket_has_tables_count_def)
  then show ?thesis
    using assms(4-7) length_pad4 [OF assms(6)]
    by (simp add: get_type_and_ledgerid_from_account_def get_addrtype_from_account_def
        get_ledgerid_from_account_def ucast_ucast_same)
qed

text \<open>
  C29 A signature is accepted for the address of the key that made it: for a curve library that
  recovers the signer's key, and an address made from the private key whose length is in the
  accepted range, the check by the key and the check by the address succeed.  A sub account with
  an empty parent is checked as the account itself.
\<close>

theorem key_address_accepts_sign:
  assumes "ecc_recovers E key digest" "t \<noteq> addr_type_invalid" "(of_char t :: nat) < 128"
    and a: "a = to_account_address E U key t l"
    and "enum_vaccount_address_min_size < length a" "length a < enum_vaccount_address_max_size"
    and "length (uint642hex U (ucast l)) \<le> 4" "hex2uint64 U (pad4 (uint642hex U (ucast l))) = ucast l"
  shows "prikey_verify_signature E key (prikey_sign E key digest) digest \<and>
    key_verify_signature E U a (prikey_sign E key digest) digest \<and>
    key_verify_child_signature E U a (prikey_sign E key digest) digest []"
proof -
  have "get_type_and_ledgerid_from_account U a = Some (t, l)"
    using account_type_and_ledgerid [OF assms(2,3) _ assms(5-8)] a
    by (simp add: to_account_address_def pubkey_to_address_def Let_def)
  then show ?thesis
    using publickey_of_sign [OF assms(1)] prikey_verify_sign [OF assms(1)] a
    by (simp add: key_verify_signature_def key_verify_child_signature_def to_account_address_def
        pubkey_to_child_address_def)
qed

definition sample_utl :: xutl where
  "sample_utl = \<lparr>uint642hex = (\<lambda>_. ''0''), hex2uint64 = (\<lambda>_. 0), tostring = to_string, toint32 = (\<lambda>_. 9),
     touint32 = (\<lambda>s. of_nat (dec_val s)), touint64 = (\<lambda>s. of_nat (dec_val s)), to_hex = id,
     split_string = (\<lambda>c a. if c \<in> set a then [takeWhile ((\<noteq>) c) a, tl (dropWhile ((\<noteq>) c) a)] else [a]),
     xhash64 = (\<lambda>_. 77)\<rparr>"

definition sample_ecc :: "(bytes, bytes, bytes) ecc" where
  "sample_ecc = \<lparr>signature_parse_compact = (\<lambda>raw _. Some raw), signature_serialize_compact = (\<lambda>r. (r, 1)),
     signature_convert = Some, ecdsa_recover = (\<lambda>r _. Some r), ecdsa_verify = (\<lambda>s _ k. s = k),
     ecdsa_sign_recoverable = (\<lambda>_ k. k), ec_pubkey_create = id, ec_pubkey_serialize = (\<lambda>_ k. CHR 0x04 # k),
     ecdsa_get_address = (\<lambda>k _. take 16 k), ecdsa_address_decode = (\<lambda>_ _. True)\<rparr>"

theorem key_address_accepts_sign_witness:
  "key_verify_signature sample_ecc sample_utl
     (to_account_address sample_ecc sample_utl (replicate 64 (CHR ''k'')) (CHR ''0'') 0)
     (prikey_sign sample_ecc (replicate 64 (CHR ''k'')) ''digest'') ''digest''"
proof -
  let ?k = "replicate 64 (CHR ''k'')"
  have "length (to_account_address sample_ecc sample_utl ?k (CHR ''0'') 0) = 22"
    by (simp add: to_account_address_def pubkey_to_address_def make_account_address_def sample_ecc_def
        sample_utl_def addr_type_defs generate_public_key_def enum_vbucket_has_tables_count_def Let_def)
  then show ?thesis
    using key_address_accepts_sign [of sample_ecc ?k "''digest''" "CHR ''0''" _ sample_utl 0, OF _ _ _ refl]
    by (simp add: ecc_recovers_def sample_ecc_def sample_utl_def addr_type_defs pad4_def numeral_3_eq_3
        enum_vaccount_address_min_size_def enum_vaccount_address_max_size_def)
qed

text \<open>
  The validity test of a key address does not return for an address of accepted length whose
  part before the first @ has less than six characters: the exception of \<open>substr\<close> leaves the
  function, because only the decoding is inside its handler.
\<close>

lemma key_is_valid_escapes:
  assumes "enum_vaccount_address_min_size < length a" "length a < enum_vaccount_address_max_size"
    and "split_string U (CHR ''@'') a = p # s # r" "length p < 6"
  shows "key_is_valid E U a = None"
  using assms
  by (simp add: key_is_valid_def get_type_and_ledgerid_from_account_def get_public_address_from_account_def)

theorem key_is_valid_escapes_witness:
  "key_is_valid sample_ecc sample_utl ''T0@aaaaaaaaaaaaaaaaaaaa'' = None"
  using key_is_valid_escapes [of "''T0@aaaaaaaaaaaaaaaaaaaa''" sample_utl "''T0''" "''aaaaaaaaaaaaaaaaaaaa''" "[]"]
  by (simp add: sample_utl_def enum_vaccount_address_min_size_def enum_vaccount_address_max_size_def)

end
