(* ===== verification/XTransaction.thy ===== *)
theory XTransaction
  imports XAction XAccount XCrypto
begin

text \<open>
  Transactions: \<open>xtransaction_t\<close>, \<open>xtransaction_key_t\<close> and \<open>xtransaction_store_t\<close> of
  \<open>xdata/xtransaction.h\<close> and \<open>xdata/src/xtransaction.cpp\<close>, with their serialization, digest,
  length and signature checks, and the transactions that an account chain makes
  (\<open>xdata/src/xblockchain.cpp\<close>).  The two hash functions of \<open>xutility/xhash.h\<close> are the parameter
  record \<open>xhashes\<close>.
\<close>

record xhashes =
  sha2_256 :: "bytes \<Rightarrow> uint256"
  xxh64 :: "bytes \<Rightarrow> u64"


section \<open>Types and fields\<close>

definition xtransaction_type_create_user_account :: u16 where "xtransaction_type_create_user_account = 0"
definition xtransaction_type_create_contract_account :: u16 where "xtransaction_type_create_contract_account = 1"
definition xtransaction_type_run_contract :: u16 where "xtransaction_type_run_contract = 3"
definition xtransaction_type_transfer :: u16 where "xtransaction_type_transfer = 4"
definition xtransaction_type_alias_name :: u16 where "xtransaction_type_alias_name = 6"
definition xtransaction_type_set_account_keys :: u16 where "xtransaction_type_set_account_keys = 11"
definition xtransaction_type_lock_token :: u16 where "xtransaction_type_lock_token = 12"
definition xtransaction_type_unlock_token :: u16 where "xtransaction_type_unlock_token = 13"
definition xtransaction_type_create_sub_account :: u16 where "xtransaction_type_create_sub_account = 16"
definition xtransaction_type_vote :: u16 where "xtransaction_type_vote = 20"
definition xtransaction_type_abolish_vote :: u16 where "xtransaction_type_abolish_vote = 21"
definition xtransaction_type_pledge_token_tgas :: u16 where "xtransaction_type_pledge_token_tgas = 22"
definition xtransaction_type_redeem_token_tgas :: u16 where "xtransaction_type_redeem_token_tgas = 23"
definition xtransaction_type_pledge_token_disk :: u16 where "xtransaction_type_pledge_token_disk = 24"
definition xtransaction_type_redeem_token_disk :: u16 where "xtransaction_type_redeem_token_disk = 25"
definition xtransaction_type_pledge_token_vote :: u16 where "xtransaction_type_pledge_token_vote = 27"
definition xtransaction_type_redeem_token_vote :: u16 where "xtransaction_type_redeem_token_vote = 28"

lemmas tx_type_defs = xtransaction_type_create_user_account_def xtransaction_type_create_contract_account_def
  xtransaction_type_run_contract_def xtransaction_type_transfer_def xtransaction_type_alias_name_def
  xtransaction_type_set_account_keys_def xtransaction_type_lock_token_def xtransaction_type_unlock_token_def
  xtransaction_type_create_sub_account_def xtransaction_type_vote_def xtransaction_type_abolish_vote_def
  xtransaction_type_pledge_token_tgas_def xtransaction_type_redeem_token_tgas_def
  xtransaction_type_pledge_token_disk_def xtransaction_type_redeem_token_disk_def
  xtransaction_type_pledge_token_vote_def xtransaction_type_redeem_token_vote_def

definition enum_transaction_subtype_self :: u8 where "enum_transaction_subtype_self = 1"
definition enum_transaction_subtype_send :: u8 where "enum_transaction_subtype_send = 2"
definition enum_transaction_subtype_recv :: u8 where "enum_transaction_subtype_recv = 3"
definition enum_transaction_subtype_confirm :: u8 where "enum_transaction_subtype_confirm = 4"

lemmas tx_subtype_defs = enum_transaction_subtype_self_def enum_transaction_subtype_send_def
  enum_transaction_subtype_recv_def enum_transaction_subtype_confirm_def

record xtransaction_header =
  m_transaction_type :: u16
  m_transaction_len :: u16
  tx_version :: u32
  m_to_ledger_id :: u16
  m_from_ledger_id :: u16
  m_deposit :: u32
  m_expire_duration :: u16
  m_fire_timestamp :: u64
  m_trans_random_nonce :: u32
  m_premium_price :: u32
  m_last_trans_nonce :: u64
  m_last_trans_hash :: u64
  m_challenge_proof :: string
  tx_ext :: string
  m_memo :: string

record xtransaction =
  tx_header :: xtransaction_header
  m_source_action :: xaction
  m_target_action :: xaction
  m_transaction_hash :: uint256
  m_authorization :: string
  m_edge_nodeid :: string
  m_target_addr :: string
  m_tx_subtype :: u8
  m_transaction_hash_str :: string
  m_push_pool_timestamp :: u64

definition header_new :: xtransaction_header where
  "header_new = \<lparr>m_transaction_type = 0, m_transaction_len = 0, tx_version = 0, m_to_ledger_id = 0,
     m_from_ledger_id = 0, m_deposit = 0, m_expire_duration = 0, m_fire_timestamp = 0,
     m_trans_random_nonce = 0, m_premium_price = 0, m_last_trans_nonce = 0, m_last_trans_hash = 0,
     m_challenge_proof = [], tx_ext = [], m_memo = []\<rparr>"

definition transaction_new :: xtransaction where
  "transaction_new = \<lparr>tx_header = header_new, m_source_action = action_new, m_target_action = action_new,
     m_transaction_hash = 0, m_authorization = [], m_edge_nodeid = [], m_target_addr = [],
     m_tx_subtype = 0, m_transaction_hash_str = [], m_push_pool_timestamp = 0\<rparr>"

abbreviation "get_tx_type t \<equiv> m_transaction_type (tx_header t)"
abbreviation "get_last_nonce t \<equiv> m_last_trans_nonce (tx_header t)"
abbreviation "get_last_hash t \<equiv> m_last_trans_hash (tx_header t)"
abbreviation "get_deposit t \<equiv> m_deposit (tx_header t)"


section \<open>Serialization\<close>

definition header_serialize_write :: "bool \<Rightarrow> xtransaction_header \<Rightarrow> bytes" where
  "header_serialize_write is_write_without_len h =
     put_u16 (m_transaction_type h) @
     (if is_write_without_len then put_u16 0 else put_u16 (m_transaction_len h)) @
     put_u32 (tx_version h) @ put_u16 (m_to_ledger_id h) @ put_u16 (m_from_ledger_id h) @
     put_u32 (m_deposit h) @ put_u16 (m_expire_duration h) @ put_u64 (m_fire_timestamp h) @
     put_u32 (m_trans_random_nonce h) @ put_u32 (m_premium_price h) @ put_u64 (m_last_trans_nonce h) @
     put_u64 (m_last_trans_hash h) @ put_string (m_challenge_proof h) @ put_string (tx_ext h) @
     put_string (m_memo h)"

definition header_serialize_read :: "bytes \<Rightarrow> (xtransaction_header \<times> bytes) option" where
  "header_serialize_read s = do {
     (ty, s) \<leftarrow> get_u16 s; (len, s) \<leftarrow> get_u16 s; (ver, s) \<leftarrow> get_u32 s; (tl, s) \<leftarrow> get_u16 s;
     (fl, s) \<leftarrow> get_u16 s; (dep, s) \<leftarrow> get_u32 s; (ex, s) \<leftarrow> get_u16 s; (fire, s) \<leftarrow> get_u64 s;
     (rn, s) \<leftarrow> get_u32 s; (pp, s) \<leftarrow> get_u32 s; (ln, s) \<leftarrow> get_u64 s; (lh, s) \<leftarrow> get_u64 s;
     (cp, s) \<leftarrow> get_string s; (ext, s) \<leftarrow> get_string s; (memo, s) \<leftarrow> get_string s;
     Some (\<lparr>m_transaction_type = ty, m_transaction_len = len, tx_version = ver, m_to_ledger_id = tl,
       m_from_ledger_id = fl, m_deposit = dep, m_expire_duration = ex, m_fire_timestamp = fire,
       m_trans_random_nonce = rn, m_premium_price = pp, m_last_trans_nonce = ln, m_last_trans_hash = lh,
       m_challenge_proof = cp, tx_ext = ext, m_memo = memo\<rparr>, s) }"

definition do_write_without_hash_signature :: "bool \<Rightarrow> xtransaction \<Rightarrow> bytes" where
  "do_write_without_hash_signature is_write_without_len t =
     header_serialize_write is_write_without_len (tx_header t) @
     action_serialize_write is_write_without_len (m_source_action t) @
     action_serialize_write is_write_without_len (m_target_action t)"

definition do_read_without_hash_signature :: "xtransaction \<Rightarrow> bytes \<Rightarrow> (xtransaction \<times> bytes) option" where
  "do_read_without_hash_signature t s = do {
     (h, s) \<leftarrow> header_serialize_read s; (src, s) \<leftarrow> action_serialize_read s; (tgt, s) \<leftarrow> action_serialize_read s;
     Some (t\<lparr>tx_header := h, m_source_action := src, m_target_action := tgt\<rparr>, s) }"

definition tx_do_write :: "xtransaction \<Rightarrow> bytes" where
  "tx_do_write t =
     do_write_without_hash_signature False t @ put_uint256 (m_transaction_hash t) @
     put_string (m_authorization t) @ put_string (m_edge_nodeid t) @ put_string (m_target_addr t)"

definition tx_do_read :: "xtransaction \<Rightarrow> bytes \<Rightarrow> (xtransaction \<times> bytes) option" where
  "tx_do_read t s = do {
     (t, s) \<leftarrow> do_read_without_hash_signature t s;
     (h, s) \<leftarrow> get_uint256 s; (auth, s) \<leftarrow> get_string s; (edge, s) \<leftarrow> get_string s; (addr, s) \<leftarrow> get_string s;
     Some (t\<lparr>m_transaction_hash := h, m_authorization := auth, m_edge_nodeid := edge, m_target_addr := addr\<rparr>, s) }"


section \<open>Setters and getters\<close>

definition get_digest_str :: "xtransaction \<Rightarrow> bytes" where
  "get_digest_str t = uint256_data (m_transaction_hash t)"

definition get_source_addr :: "xtransaction \<Rightarrow> string" where
  "get_source_addr t = m_account_addr (m_source_action t)"

definition get_target_addr :: "xtransaction \<Rightarrow> string" where
  "get_target_addr t = (if m_target_addr t = [] then m_account_addr (m_target_action t) else m_target_addr t)"

definition get_tx_nonce :: "xtransaction \<Rightarrow> u64" where
  "get_tx_nonce t = get_last_nonce t + 1"

definition adjust_target_address :: "xutl \<Rightarrow> u32 \<Rightarrow> xtransaction \<Rightarrow> xtransaction" where
  "adjust_target_address U table_id t =
     (if m_target_addr t = []
      then t\<lparr>m_target_addr := make_address_by_prefix_and_subaddr U (m_account_addr (m_target_action t)) (ucast table_id)\<rparr>
      else t)"

definition set_digest :: "xhashes \<Rightarrow> xtransaction \<Rightarrow> xtransaction" where
  "set_digest H t = t\<lparr>m_transaction_hash := sha2_256 H (do_write_without_hash_signature True t)\<rparr>"

definition set_signature :: "string \<Rightarrow> xtransaction \<Rightarrow> xtransaction" where
  "set_signature sig t = t\<lparr>m_authorization := sig\<rparr>"

text \<open>The two action sizes and the length are cut to 16 bits.  The digest and the signature are
  counted, the edge node and the target address behind them are not.\<close>

definition set_len :: "xtransaction \<Rightarrow> xtransaction" where
  "set_len t =
     (let h = header_serialize_write False (tx_header t);
          a = action_serialize_write False (m_source_action t);
          b = action_serialize_write False (m_target_action t);
          tail = put_uint256 (m_transaction_hash t) @ put_string (m_authorization t)
      in t\<lparr>m_source_action := (m_source_action t)\<lparr>m_action_size := of_nat (length a)\<rparr>,
           m_target_action := (m_target_action t)\<lparr>m_action_size := of_nat (length b)\<rparr>,
           tx_header := (tx_header t)\<lparr>m_transaction_len := of_nat (length (h @ a @ b @ tail))\<rparr>\<rparr>)"

definition set_different_source_target_address :: "string \<Rightarrow> string \<Rightarrow> xtransaction \<Rightarrow> xtransaction" where
  "set_different_source_target_address src dst t =
     t\<lparr>m_source_action := (m_source_action t)\<lparr>m_account_addr := src\<rparr>,
       m_target_action := (m_target_action t)\<lparr>m_account_addr := dst\<rparr>\<rparr>"

definition set_same_source_target_address :: "string \<Rightarrow> xtransaction \<Rightarrow> xtransaction" where
  "set_same_source_target_address addr t = set_different_source_target_address addr addr t"

definition set_last_trans_hash_and_nonce :: "xhashes \<Rightarrow> uint256 \<Rightarrow> u64 \<Rightarrow> xtransaction \<Rightarrow> xtransaction" where
  "set_last_trans_hash_and_nonce H last_hash last_nonce t =
     t\<lparr>tx_header := (tx_header t)\<lparr>m_last_trans_nonce := last_nonce,
                                  m_last_trans_hash := xxh64 H (uint256_data last_hash)\<rparr>\<rparr>"

definition set_fire_and_expire_time :: "u64 \<Rightarrow> u16 \<Rightarrow> xtransaction \<Rightarrow> xtransaction" where
  "set_fire_and_expire_time now expire_duration t =
     t\<lparr>tx_header := (tx_header t)\<lparr>m_fire_timestamp := now, m_expire_duration := expire_duration\<rparr>\<rparr>"

text \<open>The hexadecimal digest is computed once and kept.\<close>

definition get_digest_hex_str :: "xutl \<Rightarrow> xtransaction \<Rightarrow> string \<times> xtransaction" where
  "get_digest_hex_str U t =
     (let t = (if m_transaction_hash_str t = []
               then t\<lparr>m_transaction_hash_str := to_hex U (uint256_data (m_transaction_hash t))\<rparr> else t)
      in (m_transaction_hash_str t, t))"

definition transaction_subtype_to_string :: "u8 \<Rightarrow> string" where
  "transaction_subtype_to_string ty =
     (if ty = enum_transaction_subtype_self then ''self''
      else if ty = enum_transaction_subtype_send then ''send''
      else if ty = enum_transaction_subtype_recv then ''recv''
      else if ty = enum_transaction_subtype_confirm then ''confirm''
      else ''unknown'')"

definition transaction_hash_subtype_to_string :: "xutl \<Rightarrow> bytes \<Rightarrow> u8 \<Rightarrow> string" where
  "transaction_hash_subtype_to_string U txhash ty = to_hex U txhash @ '':'' @ transaction_subtype_to_string ty"


section \<open>Checks\<close>

definition digest_check :: "xhashes \<Rightarrow> xtransaction \<Rightarrow> bool" where
  "digest_check H t \<longleftrightarrow> sha2_256 H (do_write_without_hash_signature True t) = m_transaction_hash t"

text \<open>The types a release build accepts.\<close>

definition transaction_type_check :: "xtransaction \<Rightarrow> bool" where
  "transaction_type_check t \<longleftrightarrow>
     get_tx_type t \<in> {xtransaction_type_create_contract_account, xtransaction_type_run_contract,
       xtransaction_type_transfer, xtransaction_type_vote, xtransaction_type_abolish_vote,
       xtransaction_type_pledge_token_tgas, xtransaction_type_redeem_token_tgas,
       xtransaction_type_pledge_token_vote, xtransaction_type_redeem_token_vote}"

definition unuse_member_check :: "xtransaction \<Rightarrow> bool" where
  "unuse_member_check t =
     (let h = tx_header t
      in if tx_version h \<noteq> 0 then False
         else if m_to_ledger_id h \<noteq> 0 \<or> m_from_ledger_id h \<noteq> 0 then False
         else if m_trans_random_nonce h \<noteq> 0 then False
         else if m_premium_price h \<noteq> 0 then False
         else if m_challenge_proof h \<noteq> [] then False
         else if tx_ext h \<noteq> [] then False
         else if m_edge_nodeid t \<noteq> [] then False
         else True)"

definition MAX_TRANSACTION_MEMO_SIZE :: nat where "MAX_TRANSACTION_MEMO_SIZE = 128"

definition transaction_len_check :: "xtransaction \<Rightarrow> bool" where
  "transaction_len_check t =
     (let h = header_serialize_write True (tx_header t);
          a = action_serialize_write True (m_source_action t);
          b = action_serialize_write True (m_target_action t);
          tail = put_uint256 (m_transaction_hash t) @ put_string (m_authorization t)
      in if MAX_TRANSACTION_MEMO_SIZE < length (m_memo (tx_header t)) then False
         else if length a \<noteq> unat (m_action_size (m_source_action t)) then False
         else if length b \<noteq> unat (m_action_size (m_target_action t)) then False
         else if length (h @ a @ b @ tail) \<noteq> unat (m_transaction_len (tx_header t)) then False
         else True)"

definition check_last_trans_hash :: "xhashes \<Rightarrow> uint256 \<Rightarrow> xtransaction \<Rightarrow> bool" where
  "check_last_trans_hash H account_last_hash t \<longleftrightarrow> get_last_hash t = xxh64 H (uint256_data account_last_hash)"

definition check_last_nonce :: "u64 \<Rightarrow> xtransaction \<Rightarrow> bool" where
  "check_last_nonce account_nonce t \<longleftrightarrow> get_last_nonce t = account_nonce"

text \<open>The signature is copied from the 65 bytes at \<open>c_str()\<close>; a shorter authorization is read
  beyond its end, which is \<open>None\<close>.\<close>

definition sign_check :: "('r, 'k, 's) ecc \<Rightarrow> xutl \<Rightarrow> (string \<Rightarrow> string \<Rightarrow> string option) \<Rightarrow> xtransaction
    \<Rightarrow> bool option" where
  "sign_check E U json t =
     (let src = get_source_addr t;
          addr_prefix = (if CHR ''@'' \<in> set src
                         then (case get_prefix_subaddr_from_account U src of Some (p, _) \<Rightarrow> p | None \<Rightarrow> [])
                         else src)
      in case get_type_and_ledgerid_from_account U addr_prefix of
           None \<Rightarrow> Some False
         | Some (_, network_id) \<Rightarrow>
             if network_id \<noteq> 0 then Some False
             else if get_tx_type t \<in> {xtransaction_type_lock_token, xtransaction_type_unlock_token} then Some True
             else if length (m_authorization t) + 1 < 65 then None
             else
               let sig = take 65 (m_authorization t @ [CHR 0x00]); digest = uint256_data (m_transaction_hash t)
               in Some (if is_sub_account_address src \<or> is_user_contract_address src
                        then key_verify_child_signature E U addr_prefix sig digest
                               (action_get_parent_account json (m_source_action t))
                        else key_verify_signature E U addr_prefix sig digest))"


section \<open>Making transactions\<close>

definition make_tx_create_user_account :: "string \<Rightarrow> xtransaction \<Rightarrow> xret \<times> xtransaction" where
  "make_tx_create_user_account addr t =
     (xsuccess, t\<lparr>tx_header := (tx_header t)\<lparr>m_transaction_type := xtransaction_type_create_user_account\<rparr>,
        m_source_action := source_null_serialze_to (m_source_action t),
        m_target_action := create_user_account_serialze_to addr (m_target_action t)\<rparr>)"

definition make_tx_create_contract_account :: "xproperty_asset \<Rightarrow> u64 \<Rightarrow> string \<Rightarrow> xtransaction \<Rightarrow> xret \<times> xtransaction" where
  "make_tx_create_contract_account asset_out tgas_limit code t =
     (let t = t\<lparr>tx_header := (tx_header t)\<lparr>m_transaction_type := xtransaction_type_create_contract_account\<rparr>,
                m_source_action := asset_out_serialze_to asset_out (m_source_action t)\<rparr>;
          (ret, a) = deploy_contract_serialze_to tgas_limit code (m_target_action t)
      in (ret, t\<lparr>m_target_action := a\<rparr>))"

definition make_tx_create_sub_account :: "xproperty_asset \<Rightarrow> xtransaction \<Rightarrow> xret \<times> xtransaction" where
  "make_tx_create_sub_account asset_out t =
     (xsuccess, t\<lparr>tx_header := (tx_header t)\<lparr>m_transaction_type := xtransaction_type_create_sub_account\<rparr>,
        m_source_action := asset_out_serialze_to asset_out (m_source_action t),
        m_target_action := asset_out_serialze_to asset_out (m_target_action t)\<rparr>)"

definition make_tx_transfer :: "xproperty_asset \<Rightarrow> xtransaction \<Rightarrow> xret \<times> xtransaction" where
  "make_tx_transfer asset t =
     (xsuccess, t\<lparr>tx_header := (tx_header t)\<lparr>m_transaction_type := xtransaction_type_transfer\<rparr>,
        m_source_action := asset_out_serialze_to asset (m_source_action t),
        m_target_action := asset_proc_serialze_to asset xaction_type_asset_in (m_target_action t)\<rparr>)"

definition make_tx_run_contract :: "xproperty_asset \<Rightarrow> string \<Rightarrow> bytes \<Rightarrow> xtransaction \<Rightarrow> xret \<times> xtransaction" where
  "make_tx_run_contract asset_out function_name para t =
     (xsuccess, t\<lparr>tx_header := (tx_header t)\<lparr>m_transaction_type := xtransaction_type_run_contract\<rparr>,
        m_source_action := asset_out_serialze_to asset_out (m_source_action t),
        m_target_action := run_contract_serialze_to function_name para (m_target_action t)\<rparr>)"

definition make_tx_run_contract0 :: "string \<Rightarrow> bytes \<Rightarrow> xtransaction \<Rightarrow> xret \<times> xtransaction" where
  "make_tx_run_contract0 function_name param t = make_tx_run_contract (top_asset 0) function_name param t"

text \<open>What both makers of an account chain do with the new transaction.\<close>

definition chain_finish_tx :: "xhashes \<Rightarrow> xblockchain2 \<Rightarrow> string \<Rightarrow> u64 \<Rightarrow> u16 \<Rightarrow> u32 \<Rightarrow> xtransaction
    \<Rightarrow> xtransaction \<times> xblockchain2" where
  "chain_finish_tx H b to firestamp duration deposit t =
     (let t = set_last_trans_hash_and_nonce H (m_latest_send_trans_hash (m_account_state b))
                (m_latest_send_trans_number (m_account_state b)) t;
          t = set_different_source_target_address (m_account b) to t;
          t = t\<lparr>tx_header := (tx_header t)\<lparr>m_fire_timestamp := firestamp, m_expire_duration := duration,
                                          m_deposit := deposit\<rparr>\<rparr>;
          t = set_len (set_digest H t)
      in (t, b\<lparr>m_account_state := (m_account_state b)\<lparr>m_latest_send_trans_hash := m_transaction_hash t,
                                                     m_latest_send_trans_number := get_tx_nonce t\<rparr>\<rparr>))"

definition make_transfer_tx :: "xhashes \<Rightarrow> xblockchain2 \<Rightarrow> string \<Rightarrow> u64 \<Rightarrow> u64 \<Rightarrow> u16 \<Rightarrow> u32
    \<Rightarrow> xtransaction \<times> xblockchain2" where
  "make_transfer_tx H b to amount firestamp duration deposit =
     chain_finish_tx H b to firestamp duration deposit (snd (make_tx_transfer (top_asset amount) transaction_new))"

definition make_run_contract_tx :: "xhashes \<Rightarrow> xblockchain2 \<Rightarrow> string \<Rightarrow> string \<Rightarrow> bytes \<Rightarrow> u64 \<Rightarrow> u64 \<Rightarrow> u16 \<Rightarrow> u32
    \<Rightarrow> xtransaction \<times> xblockchain2" where
  "make_run_contract_tx H b to func_name func_param amount firestamp duration deposit =
     chain_finish_tx H b to firestamp duration deposit
       (snd (make_tx_run_contract (top_asset amount) func_name func_param transaction_new))"


section \<open>Transaction keys and the transaction store\<close>

record xtransaction_key =
  m_txhash :: bytes
  m_subtype :: u8

definition is_self_tx :: "xtransaction_key \<Rightarrow> bool" where "is_self_tx k \<longleftrightarrow> m_subtype k = enum_transaction_subtype_self"
definition is_send_tx :: "xtransaction_key \<Rightarrow> bool" where "is_send_tx k \<longleftrightarrow> m_subtype k = enum_transaction_subtype_send"
definition is_recv_tx :: "xtransaction_key \<Rightarrow> bool" where "is_recv_tx k \<longleftrightarrow> m_subtype k = enum_transaction_subtype_recv"
definition is_confirm_tx :: "xtransaction_key \<Rightarrow> bool" where "is_confirm_tx k \<longleftrightarrow> m_subtype k = enum_transaction_subtype_confirm"

definition key_do_write :: "xtransaction_key \<Rightarrow> bytes" where
  "key_do_write k = put_string (m_txhash k) @ put_u8 (m_subtype k)"

definition key_do_read :: "bytes \<Rightarrow> (xtransaction_key \<times> bytes) option" where
  "key_do_read s = do { (h, s) \<leftarrow> get_string s; (ty, s) \<leftarrow> get_u8 s; Some (\<lparr>m_txhash = h, m_subtype = ty\<rparr>, s) }"

record xtransaction_store =
  m_raw_tx :: "xtransaction option"
  m_send_unit_height :: u64
  m_recv_unit_height :: u64
  m_confirm_unit_height :: u64
  m_flag :: u32
  store_ext :: string

definition store_new :: xtransaction_store where
  "store_new = \<lparr>m_raw_tx = None, m_send_unit_height = 0, m_recv_unit_height = 0, m_confirm_unit_height = 0,
     m_flag = 0, store_ext = []\<rparr>"

definition set_raw_tx :: "xtransaction \<Rightarrow> xtransaction_store \<Rightarrow> xtransaction_store" where
  "set_raw_tx t s = (if m_raw_tx s = None then s\<lparr>m_raw_tx := Some t\<rparr> else s)"

definition set_send_unit_height :: "u64 \<Rightarrow> xtransaction_store \<Rightarrow> xtransaction_store" where
  "set_send_unit_height height s = (if m_send_unit_height s < height then s\<lparr>m_send_unit_height := height\<rparr> else s)"

definition set_recv_unit_height :: "u64 \<Rightarrow> xtransaction_store \<Rightarrow> xtransaction_store" where
  "set_recv_unit_height height s = (if m_recv_unit_height s < height then s\<lparr>m_recv_unit_height := height\<rparr> else s)"

definition set_recv_ack_unit_height :: "u64 \<Rightarrow> xtransaction_store \<Rightarrow> xtransaction_store" where
  "set_recv_ack_unit_height height s =
     (if m_confirm_unit_height s < height then s\<lparr>m_confirm_unit_height := height\<rparr> else s)"

text \<open>A pointer member is a byte 0, or a byte 1 and the object behind it; \<open>wr\<close> and \<open>rd\<close> are
  \<open>serialize_to\<close> and \<open>serialize_from\<close> of the data object.\<close>

definition put_ptr :: "('a \<Rightarrow> bytes) \<Rightarrow> 'a option \<Rightarrow> bytes" where
  "put_ptr wr p = (case p of None \<Rightarrow> put_u8 0 | Some x \<Rightarrow> put_u8 1 @ wr x)"

definition get_ptr :: "(bytes \<Rightarrow> ('a \<times> bytes) option) \<Rightarrow> 'a option \<Rightarrow> bytes \<Rightarrow> ('a option \<times> bytes) option" where
  "get_ptr rd p s = do {
     (null_sign, s) \<leftarrow> get_u8 s;
     if null_sign = 1 then do { (x, s) \<leftarrow> rd s; Some (Some x, s) } else Some (p, s) }"

definition store_do_write :: "(xtransaction \<Rightarrow> bytes) \<Rightarrow> xtransaction_store \<Rightarrow> bytes" where
  "store_do_write wr s =
     put_ptr wr (m_raw_tx s) @ put_u64 (m_send_unit_height s) @ put_u64 (m_recv_unit_height s) @
     put_u64 (m_confirm_unit_height s) @ put_u32 (m_flag s) @ put_string (store_ext s)"

definition store_do_read :: "(bytes \<Rightarrow> (xtransaction \<times> bytes) option) \<Rightarrow> xtransaction_store \<Rightarrow> bytes
    \<Rightarrow> (xtransaction_store \<times> bytes) option" where
  "store_do_read rd st s = do {
     (raw, s) \<leftarrow> get_ptr rd (m_raw_tx st) s; (a, s) \<leftarrow> get_u64 s; (b, s) \<leftarrow> get_u64 s; (c, s) \<leftarrow> get_u64 s;
     (f, s) \<leftarrow> get_u32 s; (e, s) \<leftarrow> get_string s;
     Some (\<lparr>m_raw_tx = raw, m_send_unit_height = a, m_recv_unit_height = b, m_confirm_unit_height = c,
       m_flag = f, store_ext = e\<rparr>, s) }"


section \<open>Reading back\<close>

definition header_fits :: "xtransaction_header \<Rightarrow> bool" where
  "header_fits h \<longleftrightarrow> str_ok (m_challenge_proof h) \<and> str_ok (tx_ext h) \<and> str_ok (m_memo h)"

definition body_fits :: "xtransaction \<Rightarrow> bool" where
  "body_fits t \<longleftrightarrow> header_fits (tx_header t) \<and> action_fits (m_source_action t) \<and> action_fits (m_target_action t)"

definition tx_fits :: "xtransaction \<Rightarrow> bool" where
  "tx_fits t \<longleftrightarrow> body_fits t \<and> str_ok (m_authorization t) \<and> str_ok (m_edge_nodeid t) \<and> str_ok (m_target_addr t)"

interpretation hdr: object_codec "header_serialize_write False" header_serialize_read header_fits
  by unfold_locales (simp add: header_serialize_write_def header_serialize_read_def header_fits_def)

lemma header_read_without_len:
  "header_fits h \<Longrightarrow> header_serialize_read (header_serialize_write True h @ s) = Some (h\<lparr>m_transaction_len := 0\<rparr>, s)"
  by (simp add: header_serialize_write_def header_serialize_read_def header_fits_def)

lemma length_header_write: "length (header_serialize_write b h) = length (header_serialize_write c h)"
  by (simp add: header_serialize_write_def put_u16_def)

lemma length_header_write_len [simp]:
  "length (header_serialize_write b (h\<lparr>m_transaction_len := n\<rparr>)) = length (header_serialize_write True h)"
  by (simp add: header_serialize_write_def put_u16_def)

lemma length_action_write_size [simp]:
  "length (action_serialize_write b (a\<lparr>m_action_size := n\<rparr>)) = length (action_serialize_write True a)"
  by (simp add: action_serialize_write_def put_u16_def)

lemma write_without_len_upd [simp]:
  "header_serialize_write True (h\<lparr>m_transaction_len := n\<rparr>) = header_serialize_write True h"
  "action_serialize_write True (a\<lparr>m_action_size := m\<rparr>) = action_serialize_write True a"
  by (simp_all add: header_serialize_write_def action_serialize_write_def)

lemma tx_read_write_fits:
  "tx_fits t \<Longrightarrow> tx_do_read t0 (tx_do_write t @ s) =
    Some (t\<lparr>m_tx_subtype := m_tx_subtype t0, m_transaction_hash_str := m_transaction_hash_str t0,
            m_push_pool_timestamp := m_push_pool_timestamp t0\<rparr>, s)"
  by (simp add: tx_do_read_def tx_do_write_def do_read_without_hash_signature_def
      do_write_without_hash_signature_def tx_fits_def body_fits_def hdr.read_write act.read_write)

text \<open>What the digest covers: everything in front of the hash, without the three lengths.\<close>

definition tx_content :: "xtransaction \<Rightarrow> xtransaction_header \<times> xaction \<times> xaction" where
  "tx_content t = ((tx_header t)\<lparr>m_transaction_len := 0\<rparr>, (m_source_action t)\<lparr>m_action_size := 0\<rparr>,
     (m_target_action t)\<lparr>m_action_size := 0\<rparr>)"

lemma read_content:
  "body_fits t \<Longrightarrow> do_read_without_hash_signature t0 (do_write_without_hash_signature True t @ s) =
    Some (t0\<lparr>tx_header := fst (tx_content t), m_source_action := fst (snd (tx_content t)),
             m_target_action := snd (snd (tx_content t))\<rparr>, s)"
  by (simp add: do_read_without_hash_signature_def do_write_without_hash_signature_def tx_content_def
      body_fits_def header_read_without_len action_read_without_len)

lemma content_write_inj:
  assumes "body_fits t" "body_fits u"
    and "do_write_without_hash_signature True t = do_write_without_hash_signature True u"
  shows "tx_content t = tx_content u"
proof -
  let ?x = "\<lambda>t. transaction_new\<lparr>tx_header := fst (tx_content t), m_source_action := fst (snd (tx_content t)),
      m_target_action := snd (snd (tx_content t))\<rparr>"
  have "?x t = ?x u"
    using read_content [OF assms(1), of transaction_new "[]"] read_content [OF assms(2), of transaction_new "[]"]
      assms(3) by simp
  from arg_cong [OF this, of tx_header] arg_cong [OF this, of m_source_action] arg_cong [OF this, of m_target_action]
  show ?thesis by (simp add: prod_eq_iff)
qed

text \<open>
  A transaction is read back from its serialized form with every serialized field, and what
  follows in the stream is left alone; the three local members keep the values of the object
  that reads.
\<close>

lemma tx_write_read:
  assumes "tx_fits t"
  shows "tx_do_read t0 (tx_do_write t @ s) =
    Some (t\<lparr>m_tx_subtype := m_tx_subtype t0, m_transaction_hash_str := m_transaction_hash_str t0,
            m_push_pool_timestamp := m_push_pool_timestamp t0\<rparr>, s)"
  using assms by (rule tx_read_write_fits)

lemma transaction_new_fits: "tx_fits transaction_new"
  by (simp add: tx_fits_def body_fits_def header_fits_def action_fits_def transaction_new_def header_new_def
      action_new_def str_ok_def)

theorem tx_write_read_witness:
  "tx_do_read transaction_new (tx_do_write transaction_new @ ''x'') = Some (transaction_new, ''x'')"
  using tx_write_read [OF transaction_new_fits, of transaction_new] by simp

text \<open>
  C18 The digest binds the content: two transactions that pass the digest check with the same
  digest have equal headers and actions up to the three length fields, unless their serialized
  forms are a collision of the hash function.
\<close>

theorem digest_binds_content:
  assumes "digest_check H t" "digest_check H u" "m_transaction_hash t = m_transaction_hash u"
    and "body_fits t" "body_fits u"
    and no_collision: "sha2_256 H (do_write_without_hash_signature True t) =
        sha2_256 H (do_write_without_hash_signature True u)
      \<Longrightarrow> do_write_without_hash_signature True t = do_write_without_hash_signature True u"
  shows "tx_content t = tx_content u"
  using assms by (auto simp: digest_check_def intro: content_write_inj)

definition sample_hashes :: xhashes where
  "sample_hashes = \<lparr>sha2_256 = (\<lambda>s. of_nat (length s)), xxh64 = (\<lambda>s. of_nat (length s))\<rparr>"

lemma write_without_len_set [simp]:
  "do_write_without_hash_signature True (set_len t) = do_write_without_hash_signature True t"
  "do_write_without_hash_signature True (set_signature g t) = do_write_without_hash_signature True t"
  "do_write_without_hash_signature b (set_digest H t) = do_write_without_hash_signature b t"
  by (simp_all add: set_len_def set_signature_def set_digest_def do_write_without_hash_signature_def Let_def)

lemma hash_set [simp]:
  "m_transaction_hash (set_len t) = m_transaction_hash t"
  "m_transaction_hash (set_signature g t) = m_transaction_hash t"
  by (simp_all add: set_len_def set_signature_def Let_def)

lemma body_fits_set [simp]:
  "body_fits (set_len t) = body_fits t" "body_fits (set_signature g t) = body_fits t"
  "body_fits (set_digest H t) = body_fits t"
  by (simp_all add: set_len_def set_signature_def set_digest_def body_fits_def header_fits_def action_fits_def Let_def)

lemma digest_check_set_digest [simp]: "digest_check H (set_digest H t)"
  by (simp add: digest_check_def) (simp add: set_digest_def)

lemma digest_check_set_len [simp]: "digest_check H (set_len t) = digest_check H t"
  by (simp add: digest_check_def)

lemma digest_check_set_signature [simp]: "digest_check H (set_signature g t) = digest_check H t"
  by (simp add: digest_check_def)

theorem digest_binds_content_witness:
  "let t = set_digest sample_hashes transaction_new
   in tx_content t = tx_content (set_len (set_signature ''sig'' t))"
  using digest_binds_content [of sample_hashes "set_digest sample_hashes transaction_new"
      "set_len (set_signature ''sig'' (set_digest sample_hashes transaction_new))"] transaction_new_fits
  by (simp add: Let_def tx_fits_def)

text \<open>
  Setting the lengths makes the length check succeed exactly when the memo has at most 128
  bytes and the counted form is shorter than 65536 bytes; beyond that the 16-bit length wraps
  and the check refuses the transaction.  The digest stays valid.
\<close>

lemma set_len_checks:
  "(transaction_len_check (set_len t) \<longleftrightarrow>
     length (m_memo (tx_header t)) \<le> MAX_TRANSACTION_MEMO_SIZE \<and>
     length (do_write_without_hash_signature True t @ put_uint256 (m_transaction_hash t) @
       put_string (m_authorization t)) < 65536) \<and>
   digest_check H (set_len t) = digest_check H t"
proof -
  have w: "n = unat (of_nat n :: u16) \<longleftrightarrow> n < 65536" for n
    using unat16_lt [of "of_nat n"] by (auto simp: unat_of_nat)
  let ?t = "put_uint256 (m_transaction_hash t) @ put_string (m_authorization t)"
  let ?n = "length (do_write_without_hash_signature True t @ ?t)"
  have n: "?n = length (header_serialize_write True (tx_header t)) + (length (action_serialize_write True (m_source_action t)) +
      (length (action_serialize_write True (m_target_action t)) + length ?t))"
    by (simp add: do_write_without_hash_signature_def)
  have "transaction_len_check (set_len t) \<longleftrightarrow> length (m_memo (tx_header t)) \<le> MAX_TRANSACTION_MEMO_SIZE \<and>
      length (action_serialize_write True (m_source_action t)) < 65536 \<and>
      length (action_serialize_write True (m_target_action t)) < 65536 \<and> ?n = unat (of_nat ?n :: u16)"
    by (auto simp: transaction_len_check_def set_len_def do_write_without_hash_signature_def Let_def w not_le
        length_action_write [of False _ True] length_header_write [of False _ True] simp del: of_nat_add)
  then show ?thesis
    using w [of ?n] n by auto
qed

text \<open>A sequence of transfers made on one account chain.\<close>

fun make_transfers :: "xhashes \<Rightarrow> xblockchain2 \<Rightarrow> (string \<times> u64 \<times> u64 \<times> u16 \<times> u32) list \<Rightarrow> xtransaction list \<times> xblockchain2" where
  "make_transfers H b [] = ([], b)"
| "make_transfers H b ((to, amount, fire, dur, dep) # rs) =
     (let (t, b) = make_transfer_tx H b to amount fire dur dep; (ts, b) = make_transfers H b rs in (t # ts, b))"

text \<open>The order a receiver checks: nonce and hash of each transaction continue the one before.\<close>

fun linked :: "xhashes \<Rightarrow> uint256 \<Rightarrow> u64 \<Rightarrow> xtransaction list \<Rightarrow> bool" where
  "linked H h n [] = True"
| "linked H h n (t # ts) =
     (check_last_trans_hash H h t \<and> check_last_nonce n t \<and> linked H (m_transaction_hash t) (get_tx_nonce t) ts)"

lemma finish_tx_fields:
  assumes p_def: "p = chain_finish_tx H b to fire dur dep t"
  shows "digest_check H (fst p)" "m_account (snd p) = m_account b"
    "check_last_trans_hash H (m_latest_send_trans_hash (m_account_state b)) (fst p)"
    "get_last_nonce (fst p) = m_latest_send_trans_number (m_account_state b)"
    "m_latest_send_trans_hash (m_account_state (snd p)) = m_transaction_hash (fst p)"
    "m_latest_send_trans_number (m_account_state (snd p)) = get_tx_nonce (fst p)"
    "get_source_addr (fst p) = m_account b" "get_tx_type (fst p) = get_tx_type t"
proof -
  show "digest_check H (fst p)" by (simp add: p_def chain_finish_tx_def Let_def)
qed (simp_all add: p_def chain_finish_tx_def Let_def set_len_def set_digest_def check_last_trans_hash_def
      set_last_trans_hash_and_nonce_def set_different_source_target_address_def get_source_addr_def)

lemma transfer_tx_type [simp]: "get_tx_type (snd (make_tx_transfer v t)) = xtransaction_type_transfer"
  by (simp add: make_tx_transfer_def)

text \<open>
  C20 The transfers that an account chain makes one after the other are accepted in that order:
  each passes the digest and the type check, comes from the account, continues the hash and the
  nonce of the one before, and the chain ends with the last nonce, one more for every transfer.
\<close>

theorem made_transfers_linked:
  "linked H (m_latest_send_trans_hash (m_account_state b)) (m_latest_send_trans_number (m_account_state b))
     (fst (make_transfers H b rs)) \<and>
   list_all (\<lambda>t. digest_check H t \<and> transaction_type_check t \<and> get_source_addr t = m_account b)
     (fst (make_transfers H b rs)) \<and>
   m_latest_send_trans_number (m_account_state (snd (make_transfers H b rs))) =
     m_latest_send_trans_number (m_account_state b) + of_nat (length rs)"
proof (induction rs arbitrary: b)
  case (Cons r rs)
  obtain to amount fire dur dep where r: "r = (to, amount, fire, dur, dep)" by (cases r) auto
  note f = finish_tx_fields [of _ H b to fire dur dep "snd (make_tx_transfer (top_asset amount) transaction_new)", OF refl]
  show ?case
    using Cons.IH [of "snd (make_transfer_tx H b to amount fire dur dep)"] f
    by (simp add: r make_transfer_tx_def split_def Let_def check_last_nonce_def transaction_type_check_def
        get_tx_nonce_def algebra_simps)
qed simp

text \<open>
  C19 A transfer of an account whose address was made from a private key, signed with that key,
  passes the signature and the digest check of the receiving node, whatever parent account its
  action names.
\<close>

theorem signed_transfer_accepted:
  assumes a: "m_account b = to_account_address E U key (CHR ''0'') 0"
    and t: "t = fst (make_transfer_tx H b to amount fire dur dep)"
    and "ecc_recovers E key (get_digest_str t)" "CHR ''@'' \<notin> set (m_account b)"
    and "enum_vaccount_address_min_size < length (m_account b)" "length (m_account b) < enum_vaccount_address_max_size"
    and "length (uint642hex U 0) \<le> 4" "hex2uint64 U (pad4 (uint642hex U 0)) = 0"
  shows "let u = set_len (set_signature (prikey_sign E key (get_digest_str t)) t)
    in sign_check E U json u = Some True \<and> digest_check H u \<and> transaction_type_check u"
proof -
  let ?u = "set_len (set_signature (prikey_sign E key (get_digest_str t)) t)"
  note f = finish_tx_fields [of _ H b to fire dur dep "snd (make_tx_transfer (top_asset amount) transaction_new)", OF refl,
      folded make_transfer_tx_def, folded t]
  have ty: "get_type_and_ledgerid_from_account U (m_account b) = Some (CHR ''0'', 0)"
    using account_type_and_ledgerid [of "CHR ''0''" "m_account b" U 0] a assms(5-8)
    by (simp add: to_account_address_def pubkey_to_address_def Let_def addr_type_defs)
  have "m_account b ! 1 = CHR ''0''"
    using ty assms(5) by (auto simp: get_type_and_ledgerid_from_account_def get_addrtype_from_account_def split: if_splits)
  then have np: "\<not> is_sub_account_address (m_account b)" "\<not> is_user_contract_address (m_account b)"
    using assms(5) by (simp_all add: is_sub_account_address_def is_user_contract_address_def check_address_type_def
        get_addrtype_from_account_def addr_type_defs)
  have sig: "key_verify_signature E U (m_account b) (prikey_sign E key (get_digest_str t)) (get_digest_str t)"
    using publickey_of_sign [OF assms(3)] ty a by (simp add: key_verify_signature_def to_account_address_def)
  have u: "get_source_addr ?u = m_account b" "get_tx_type ?u = xtransaction_type_transfer"
    "m_authorization ?u = prikey_sign E key (get_digest_str t)" "m_transaction_hash ?u = m_transaction_hash t"
    using f(7,8) by (simp_all add: set_len_def set_signature_def get_source_addr_def Let_def)
  have "sign_check E U json ?u = Some True"
    using assms(4) ty np sig length_sign [OF assms(3)]
    by (simp add: sign_check_def u tx_type_defs Let_def) (simp add: get_digest_str_def)
  then show ?thesis
    using f(1) u(2) by (simp add: Let_def transaction_type_check_def)
qed

theorem signed_transfer_accepted_witness:
  "let key = replicate 64 (CHR ''k'');
       b = blockchain_new (to_account_address sample_ecc sample_utl key (CHR ''0'') 0);
       t = fst (make_transfer_tx sample_hashes b ''to'' 5 0 0 0);
       u = set_len (set_signature (prikey_sign sample_ecc key (get_digest_str t)) t)
   in sign_check sample_ecc sample_utl (\<lambda>_ _. None) u = Some True \<and> digest_check sample_hashes u"
proof -
  let ?k = "replicate 64 (CHR ''k'')"
  let ?b = "blockchain_new (to_account_address sample_ecc sample_utl ?k (CHR ''0'') 0)"
  have acc: "m_account ?b = ''T00000'' @ CHR 0x04 # replicate 15 (CHR ''k'')"
    by (simp add: blockchain_new_def to_account_address_def pubkey_to_address_def make_account_address_def sample_ecc_def
        sample_utl_def addr_type_defs generate_public_key_def enum_vbucket_has_tables_count_def Let_def numeral_3_eq_3
        take_Cons')
  have "ecc_recovers sample_ecc ?k d" for d
    by (simp add: ecc_recovers_def sample_ecc_def)
  moreover have "m_account ?b = to_account_address sample_ecc sample_utl ?k (CHR ''0'') 0"
    by (simp add: blockchain_new_def)
  moreover have "length (m_account ?b) = 22" "CHR ''@'' \<notin> set (m_account ?b)"
    unfolding acc by simp_all
  moreover have "uint642hex sample_utl 0 = ''0''" "hex2uint64 sample_utl z = 0" for z
    by (simp_all add: sample_utl_def)
  ultimately show ?thesis
    using signed_transfer_accepted [of ?b sample_ecc sample_utl ?k _ sample_hashes "''to''" 5 0 0 0 "\<lambda>_ _. None", OF _ refl]
    by (simp add: Let_def enum_vaccount_address_min_size_def enum_vaccount_address_max_size_def)
qed

end
