(* ===== verification/XMerkle.thy ===== *)
theory XMerkle
  imports XStream
begin

text \<open>
  The Merkle tree of \<open>xutility/xmerkle.hpp\<close>: root, path and path validation, and the serialized
  path.  An odd last node of a level is hashed alone into the next level.  The hash function
  (\<open>xsha2_256_t\<close>, whose \<open>get_hash\<close> always succeeds) is the parameter \<open>H\<close>; every statement holds
  for any function.  The blocks of \<open>xdata/src/xblockbody.cpp\<close> use the tree over the leaves of
  their entities.
\<close>

section \<open>Hashes\<close>

definition uint256_of :: "bytes \<Rightarrow> uint256" where
  "uint256_of s = of_nat (le_val s)"

definition hash1 :: "(bytes \<Rightarrow> uint256) \<Rightarrow> bytes \<Rightarrow> bytes" where
  "hash1 H v = uint256_data (H v)"

definition hash2 :: "(bytes \<Rightarrow> uint256) \<Rightarrow> bytes \<Rightarrow> bytes \<Rightarrow> bytes" where
  "hash2 H left right = uint256_data (H (left @ right))"

definition hash_multi_times :: "(bytes \<Rightarrow> uint256) \<Rightarrow> bytes \<Rightarrow> i32 \<Rightarrow> bytes" where
  "hash_multi_times H v n = (hash1 H ^^ max 1 (nat (sint n))) v"

definition hash_leafs :: "(bytes \<Rightarrow> uint256) \<Rightarrow> bytes list \<Rightarrow> bytes list" where
  "hash_leafs H values = map (hash1 H) values"

fun hash_list :: "(bytes \<Rightarrow> uint256) \<Rightarrow> bytes list \<Rightarrow> bytes list" where
  "hash_list H [] = []"
| "hash_list H [a] = [hash1 H a]"
| "hash_list H (a # b # nodes) = hash2 H a b # hash_list H nodes"

lemma length_hash_list [simp]: "length (hash_list H xs) = (length xs + 1) div 2"
  by (induction H xs rule: hash_list.induct) simp_all


section \<open>Root and path\<close>

function root_loop :: "(bytes \<Rightarrow> uint256) \<Rightarrow> bytes list \<Rightarrow> bytes" where
  "root_loop H list = (if 1 < length list then root_loop H (hash_list H list) else list ! 0)"
  by pat_completeness auto
termination
  by (relation "measure (\<lambda>(_, l). length l)") auto

declare root_loop.simps [simp del]

definition calc_root :: "(bytes \<Rightarrow> uint256) \<Rightarrow> bytes list \<Rightarrow> bytes" where
  "calc_root H values = (if values = [] then [] else root_loop H (hash_leafs H values))"

record xmerkle_path_node =
  node_level :: u32
  node_pos :: u32
  signature :: uint256

definition add_path_node :: "bytes list \<Rightarrow> nat \<Rightarrow> int \<Rightarrow> xmerkle_path_node list \<Rightarrow> xmerkle_path_node list" where
  "add_path_node hashes index level hash_path =
     (let node = (\<lambda>pos i. \<lparr>node_level = of_int level, node_pos = pos, signature = uint256_of (hashes ! i)\<rparr>)
      in if hashes = [] then hash_path
         else if length hashes = 1 then hash_path @ [node 0 index]
         else if odd index then hash_path @ [node 1 (index - 1)]
         else if index = length hashes - 1 then
           (if hash_path = [] then hash_path @ [node 0 index] else hash_path)
         else hash_path @ [node 2 (index + 1)])"

text \<open>\<open>log2\<close> of a container size, cut to an integer.\<close>

fun log2_int :: "nat \<Rightarrow> nat" where
  "log2_int n = (if n < 2 then 0 else Suc (log2_int (n div 2)))"

declare log2_int.simps [simp del]

function path_loop :: "(bytes \<Rightarrow> uint256) \<Rightarrow> bytes list \<Rightarrow> nat \<Rightarrow> int \<Rightarrow> xmerkle_path_node list
    \<Rightarrow> xmerkle_path_node list" where
  "path_loop H list index level hash_path =
     (if 1 < length list
      then path_loop H (hash_list H list) (index div 2) (level - 1) (add_path_node list index level hash_path)
      else hash_path)"
  by pat_completeness auto
termination
  by (relation "measure (\<lambda>(_, l, _). length l)") auto

declare path_loop.simps [simp del]

definition calc_path :: "(bytes \<Rightarrow> uint256) \<Rightarrow> bytes list \<Rightarrow> int \<Rightarrow> xmerkle_path_node list
    \<Rightarrow> bool \<times> xmerkle_path_node list" where
  "calc_path H values index hash_path =
     (if values = [] \<or> \<not> (0 \<le> index \<and> index < int (length values)) then (False, hash_path)
      else (True, path_loop H (hash_leafs H values) (nat index) (int (log2_int (length values)) + 1) hash_path))"

text \<open>The level is an \<open>int\<close> that starts at -1; compared with the unsigned level of a node it is
  taken as unsigned.\<close>

fun validate_loop :: "(bytes \<Rightarrow> uint256) \<Rightarrow> bytes \<Rightarrow> i32 \<Rightarrow> bytes \<Rightarrow> xmerkle_path_node list \<Rightarrow> bool" where
  "validate_loop H hs level root [] = (hs = root)"
| "validate_loop H hs level root (node # nodes) =
     (let first = (level = - 1); level = (if first then node_level node else level);
          sig = uint256_data (signature node)
      in if first \<and> node_pos node = 0
         then (if hs \<noteq> sig then False else validate_loop H hs level root nodes)
         else if level < node_level node then False
         else
           let hs = (if node_level node < level then hash_multi_times H hs (level - node_level node) else hs);
               level = (if node_level node < level then node_level node else level)
           in if node_pos node = 1 then validate_loop H (hash2 H sig hs) (level - 1) root nodes
              else if node_pos node = 2 then validate_loop H (hash2 H hs sig) (level - 1) root nodes
              else False)"

definition validate_path :: "(bytes \<Rightarrow> uint256) \<Rightarrow> bytes \<Rightarrow> bytes \<Rightarrow> xmerkle_path_node list \<Rightarrow> bool" where
  "validate_path H v root hash_path =
     (if v = [] \<or> root = [] then False else validate_loop H (hash1 H v) (- 1) root hash_path)"


section \<open>The serialized path\<close>

definition node_do_write :: "xmerkle_path_node \<Rightarrow> bytes" where
  "node_do_write n = put_u32 (node_level n) @ put_u32 (node_pos n) @ put_uint256 (signature n)"

definition node_do_read :: "bytes \<Rightarrow> (xmerkle_path_node \<times> bytes) option" where
  "node_do_read s = do {
     (l, s) \<leftarrow> get_u32 s; (p, s) \<leftarrow> get_u32 s; (g, s) \<leftarrow> get_uint256 s;
     Some (\<lparr>node_level = l, node_pos = p, signature = g\<rparr>, s) }"

definition path_do_write :: "xmerkle_path_node list \<Rightarrow> bytes" where
  "path_do_write p = put_u8 (of_nat (length p)) @ concat (map (serialize_to node_do_write) p)"

definition path_do_read :: "xmerkle_path_node list \<Rightarrow> bytes \<Rightarrow> (xmerkle_path_node list \<times> bytes) option" where
  "path_do_read p s = do {
     (count, s) \<leftarrow> get_u8 s; get_loop (unat count) (serialize_from node_do_read) emplace_back p s }"


section \<open>Leaves of a block\<close>

text \<open>Entities are their leaf texts; an empty one is left out.\<close>

definition get_merkle_leafs :: "bytes list \<Rightarrow> bytes list" where
  "get_merkle_leafs entitys = filter (\<lambda>leaf. leaf \<noteq> []) entitys"

definition get_root_hash :: "(bytes \<Rightarrow> uint256) \<Rightarrow> bytes list \<Rightarrow> bytes" where
  "get_root_hash H entitys =
     (let leafs = get_merkle_leafs entitys in if leafs = [] then [] else calc_root H leafs)"

fun find_index :: "bytes \<Rightarrow> bytes list \<Rightarrow> nat option" where
  "find_index x [] = None"
| "find_index x (y # ys) = (if x = y then Some 0 else map_option Suc (find_index x ys))"

definition calc_merkle_path :: "(bytes \<Rightarrow> uint256) \<Rightarrow> bytes list \<Rightarrow> bytes \<Rightarrow> xmerkle_path_node list
    \<Rightarrow> bool \<times> xmerkle_path_node list" where
  "calc_merkle_path H entitys leaf hash_path =
     (let leafs = get_merkle_leafs entitys
      in if leafs = [] then (False, hash_path)
         else case find_index leaf leafs of
                None \<Rightarrow> (False, hash_path)
              | Some i \<Rightarrow> calc_path H leafs (int i) hash_path)"


section \<open>Every leaf of a tree is accepted with its path\<close>

lemma length_uint256_data [simp]: "length (uint256_data w) = 32"
  by (simp add: uint256_data_def)

lemma uint256_of_data: "length s = 32 \<Longrightarrow> uint256_data (uint256_of s) = s"
  using le_bytes_le_val [of s] le_val_lt [of s]
  by (simp add: uint256_data_def uint256_of_def unat_of_nat del: le_bytes.simps)

lemma hash_length [simp]: "length (hash1 H v) = 32" "length (hash2 H a b) = 32"
  by (simp_all add: hash1_def hash2_def)

lemma hash_list_all [simp]: "list_all (\<lambda>s. length s = 32) (hash_list H xs)"
  by (induction H xs rule: hash_list.induct) simp_all

lemma hash_list_nth:
  "i < length xs \<Longrightarrow> hash_list H xs ! (i div 2) =
    (if odd i then hash2 H (xs ! (i - 1)) (xs ! i)
     else if Suc i = length xs then hash1 H (xs ! i)
     else hash2 H (xs ! i) (xs ! (i + 1)))"
proof (induction H xs arbitrary: i rule: hash_list.induct)
  case (3 H a b nodes)
  consider "i = 0" | "i = 1" | j where "i = j + 2"
    using that by (metis add_2_eq_Suc' not0_implies_Suc One_nat_def)
  then show ?case
  proof cases
    case 3
    then show ?thesis
      using "3.IH" [of j] "3.prems" by (cases "Suc j = length nodes") (auto simp: nth_Cons' dest: sym)
  qed simp_all
qed simp_all

text \<open>The nodes that the loop adds behind a path that is not empty.\<close>

definition step_nodes :: "bytes list \<Rightarrow> nat \<Rightarrow> int \<Rightarrow> xmerkle_path_node list" where
  "step_nodes xs i l =
     (if odd i then [\<lparr>node_level = of_int l, node_pos = 1, signature = uint256_of (xs ! (i - 1))\<rparr>]
      else if i = length xs - 1 then []
      else [\<lparr>node_level = of_int l, node_pos = 2, signature = uint256_of (xs ! (i + 1))\<rparr>])"

function tail_path :: "(bytes \<Rightarrow> uint256) \<Rightarrow> bytes list \<Rightarrow> nat \<Rightarrow> int \<Rightarrow> xmerkle_path_node list" where
  "tail_path H xs i l =
     (if 1 < length xs then step_nodes xs i l @ tail_path H (hash_list H xs) (i div 2) (l - 1) else [])"
  by pat_completeness auto
termination
  by (relation "measure (\<lambda>(_, l, _). length l)") auto

declare tail_path.simps [simp del]

lemma add_path_node_tail: "1 < length xs \<Longrightarrow> p \<noteq> [] \<Longrightarrow> add_path_node xs i l p = p @ step_nodes xs i l"
  by (auto simp: add_path_node_def step_nodes_def Let_def)

lemma path_loop_tail: "p \<noteq> [] \<Longrightarrow> path_loop H xs i l p = p @ tail_path H xs i l"
proof (induction H xs i l arbitrary: p rule: tail_path.induct)
  case (1 H xs i l)
  show ?case
  proof (cases "1 < length xs")
    case True
    then have "path_loop H xs i l p =
        path_loop H (hash_list H xs) (i div 2) (l - 1) (p @ step_nodes xs i l)"
      using "1.prems" by (simp add: path_loop.simps [of H xs] add_path_node_tail)
    then show ?thesis
      using "1.IH" [OF True, of "p @ step_nodes xs i l"] "1.prems" True by (simp add: tail_path.simps [of H xs])
  qed (simp add: path_loop.simps [of H xs] tail_path.simps [of H xs])
qed

text \<open>One validation step at a level that is not the initial one.\<close>

lemma sint_small: "n < 2 ^ 31 \<Longrightarrow> sint (of_nat n :: i32) = int n"
  by (simp add: signed_of_nat signed_take_bit_int_eq_self)

lemma unat_of_nat32: "n < 2 ^ 31 \<Longrightarrow> unat (of_nat n :: u32) = n"
  by (simp add: unat_of_nat)

lemma hash_catch_up:
  assumes "l \<le> lev" "lev < 2 ^ 31"
  shows "(if (of_nat l :: u32) < of_nat lev then hash_multi_times H hs (of_nat lev - of_nat l) else hs) =
    (hash1 H ^^ (lev - l)) hs"
proof (cases "l < lev")
  case True
  have "(of_nat lev - of_nat l :: i32) = of_nat (lev - l)" using assms(1) by (simp add: of_nat_diff)
  then have "nat (sint (of_nat lev - of_nat l :: i32)) = lev - l"
    using assms(2) sint_small [of "lev - l"] by simp
  moreover have "(of_nat l :: u32) < of_nat lev"
    using True assms by (simp add: word_less_nat_alt unat_of_nat32)
  ultimately show ?thesis
    using True by (auto simp: hash_multi_times_def max_def)
next
  case False
  then show ?thesis using assms by (simp add: word_less_nat_alt)
qed

lemma of_nat_not_minus_one: "n < 2 ^ 31 \<Longrightarrow> (of_nat n :: i32) \<noteq> - 1"
  by (metis sint_small signed_minus_1 of_nat_0_le_iff neg_0_le_iff_le not_one_le_zero)

lemma validate_step:
  assumes "l \<le> lev" "lev < 2 ^ 31" "0 < l" "node_level node = of_nat l" "node_pos node = 1 \<or> node_pos node = 2"
  shows "validate_loop H hs (of_nat lev) root (node # nodes) =
    validate_loop H
      (if node_pos node = 1 then hash2 H (uint256_data (signature node)) ((hash1 H ^^ (lev - l)) hs)
       else hash2 H ((hash1 H ^^ (lev - l)) hs) (uint256_data (signature node)))
      (of_nat (l - 1)) root nodes"
proof -
  have le: "\<not> (of_nat lev :: u32) < of_nat l"
    using assms(1,2) by (simp add: word_less_nat_alt unat_of_nat32)
  have lv: "(if (of_nat l :: u32) < of_nat lev then of_nat l else of_nat lev) = (of_nat l :: u32)"
    using assms(1,2) by (auto simp: word_less_nat_alt unat_of_nat32 not_less)
  have "(of_nat l - 1 :: u32) = of_nat (l - 1)" using assms(3) by (simp add: of_nat_diff)
  then show ?thesis
    using assms(4,5) le lv hash_catch_up [OF assms(1,2), of H hs] of_nat_not_minus_one [OF assms(2)]
    by (auto simp: Let_def)
qed

lemma pow_bound_step: "m \<le> 2 ^ Suc k \<Longrightarrow> (m + 1) div 2 \<le> (2 :: nat) ^ k"
  by simp

lemma odd_last_length: "even i \<and> Suc i = n \<Longrightarrow> 1 < n \<Longrightarrow> 1 < (n + 1) div 2"
  by presburger

lemma validate_tail:
  assumes "list_all (\<lambda>s. length s = 32) xs" "i < length xs" "length xs \<le> 2 ^ l" "l \<le> lev" "lev < 2 ^ 31"
    and "xs ! i = (hash1 H ^^ (lev - l)) hs" "length xs \<le> 1 \<Longrightarrow> lev = l"
  shows "validate_loop H hs (of_nat lev) (root_loop H xs) (tail_path H xs i (int l))"
  using assms
proof (induction "length xs" arbitrary: xs i l lev hs rule: less_induct)
  case less
  show ?case
  proof (cases "1 < length xs")
    case False
    then have "xs ! 0 = hs" using less.prems by (cases i) auto
    then show ?thesis using False by (simp add: tail_path.simps [of H xs] root_loop.simps [of H xs])
  next
    case True
    then obtain k where k: "l = Suc k" using less.prems(3) by (cases l) auto
    let ?ys = "hash_list H xs"
    have root: "root_loop H xs = root_loop H ?ys" using True by (simp add: root_loop.simps [of H xs])
    have tail: "tail_path H xs i (int l) = step_nodes xs i (int l) @ tail_path H ?ys (i div 2) (int k)"
      using True k by (simp add: tail_path.simps [of H xs])
    have shorter: "length ?ys < length xs" "i div 2 < length ?ys" "length ?ys \<le> 2 ^ k"
      using True less.prems(2,3) k by auto
    note IH = less.hyps [OF shorter(1) _ shorter(2,3)]
    have len: "length (xs ! j) = 32" if "j < length xs" for j
      using less.prems(1) that by (simp add: list_all_length)
    show ?thesis
    proof (cases "even i \<and> Suc i = length xs")
      case odd_last: True
      have "lev - k = Suc (lev - l)" using less.prems(4) k by simp
      then have "?ys ! (i div 2) = (hash1 H ^^ (lev - k)) hs"
        using less.prems(6) odd_last hash_list_nth [OF less.prems(2), of H] by simp
      moreover have "\<not> length ?ys \<le> 1" using odd_last_length [OF odd_last True] by simp
      ultimately have "validate_loop H hs (of_nat lev) (root_loop H ?ys) (tail_path H ?ys (i div 2) (int k))"
        using less.prems(4,5) k by (intro IH) auto
      moreover have "step_nodes xs i (int l) = []" using odd_last by (auto simp: step_nodes_def)
      ultimately show ?thesis by (simp add: root tail)
    next
      case False
      define node where "node = hd (step_nodes xs i (int l))"
      have n: "step_nodes xs i (int l) = [node]" "node_level node = of_nat l" "node_pos node = 1 \<or> node_pos node = 2"
        using False less.prems(2) by (auto simp: node_def step_nodes_def)
      let ?hs = "if node_pos node = 1 then hash2 H (uint256_data (signature node)) (xs ! i)
        else hash2 H (xs ! i) (uint256_data (signature node))"
      have "?ys ! (i div 2) = ?hs"
        using False less.prems(2) hash_list_nth [OF less.prems(2), of H] len [of "i - 1"] len [of "i + 1"]
        by (auto simp: node_def step_nodes_def uint256_of_data)
      then have "validate_loop H ?hs (of_nat k) (root_loop H ?ys) (tail_path H ?ys (i div 2) (int k))"
        using less.prems(4,5) k by (intro IH) auto
      moreover have "l - 1 = k" "0 < l" using k by simp_all
      ultimately show ?thesis
        unfolding root tail n(1)
        using validate_step [OF less.prems(4,5) _ n(2,3), of H hs "root_loop H ?ys" "tail_path H ?ys (i div 2) (int k)"]
          less.prems(6) [symmetric] by (simp del: validate_loop.simps split: if_splits)
    qed
  qed
qed

lemma log2_int_bound: "n < 2 ^ Suc (log2_int n)"
proof (induction n rule: log2_int.induct)
  case (1 n)
  then show ?case by (cases "n < 2") (auto simp: log2_int.simps [of n])
qed

lemma log2_int_le: "n < 2 ^ Suc k \<Longrightarrow> log2_int n \<le> k"
proof (induction k arbitrary: n)
  case (Suc k)
  then show ?case using Suc.IH [of "n div 2"] by (simp add: log2_int.simps [of n])
qed (simp add: log2_int.simps)

text \<open>The first node is compared with the initial level.\<close>

lemma validate_first:
  "node_pos node \<noteq> 0 \<Longrightarrow> validate_loop H hs (- 1) root (node # nodes) =
    validate_loop H hs (node_level node) root (node # nodes)"
  by (cases "node_level node = - 1") (simp_all add: Let_def)

lemma length_root_loop: "list_all (\<lambda>s. length s = 32) xs \<Longrightarrow> xs \<noteq> [] \<Longrightarrow> length (root_loop H xs) = 32"
proof (induction H xs rule: root_loop.induct)
  case (1 H xs)
  have "hash_list H xs \<noteq> []" if "1 < length xs" using that by (cases "(H, xs)" rule: hash_list.cases) auto
  then show ?case
    using 1 by (cases "1 < length xs") (simp_all add: root_loop.simps [of H xs], simp add: list_all_length)
qed

lemma validate_calc_path:
  assumes "i < length values" "values ! i \<noteq> []" "length values < 2 ^ 31"
  shows "fst (calc_path H values (int i) []) \<and>
    validate_path H (values ! i) (calc_root H values) (snd (calc_path H values (int i) []))"
proof -
  let ?xs = "hash_leafs H values" and ?l = "Suc (log2_int (length values))"
  let ?ys = "hash_list H ?xs" and ?hs = "hash1 H (values ! i)"
  have ne: "values \<noteq> []" using assms(1) by auto
  have xs: "list_all (\<lambda>s. length s = 32) ?xs" "i < length ?xs" "?xs ! i = ?hs" "length ?xs \<le> 2 ^ ?l"
    using assms(1) log2_int_bound [of "length values"] by (simp_all add: hash_leafs_def list_all_iff)
  have l: "?l < 2 ^ 31" using log2_int_le [of "length values" 30] assms(3) by simp
  have root: "calc_root H values = root_loop H ?xs" using ne by (simp add: calc_root_def)
  have path: "calc_path H values (int i) [] = (True, path_loop H ?xs i (int ?l) [])"
    using assms(1) ne by (simp add: calc_path_def add.commute)
  have v: "validate_loop H ?hs (- 1) (root_loop H ?xs) (path_loop H ?xs i (int ?l) [])"
  proof (cases "1 < length ?xs")
    case False
    then have "i = 0" using xs(2) by linarith
    then show ?thesis using False xs(3) by (simp add: path_loop.simps [of H ?xs] root_loop.simps [of H ?xs])
  next
    case True
    define p where "p = add_path_node ?xs i (int ?l) []"
    have "p \<noteq> []" using True by (auto simp: p_def add_path_node_def Let_def)
    then have loop: "path_loop H ?xs i (int ?l) [] = p @ tail_path H ?ys (i div 2) (int ?l - 1)"
      using True path_loop_tail [of p H ?ys] by (simp add: path_loop.simps [of H ?xs] p_def)
    show ?thesis
    proof (cases "even i \<and> Suc i = length ?xs")
      case last: True
      then have "validate_loop H ?hs (of_nat ?l) (root_loop H ?ys) (tail_path H ?ys (i div 2) (int (?l - 1)))"
        using xs True l hash_list_nth [OF xs(2), of H] odd_last_length [OF last True] by (intro validate_tail) auto
      moreover have "p = [\<lparr>node_level = of_nat ?l, node_pos = 0, signature = uint256_of ?hs\<rparr>]"
        using last True xs(2,3) by (auto simp: p_def add_path_node_def Let_def)
      ultimately show ?thesis
        unfolding loop using True by (simp add: root_loop.simps [of H ?xs] uint256_of_data Let_def)
    next
      case False
      then have p: "p = step_nodes ?xs i (int ?l)" "\<exists>n. p = [n] \<and> node_pos n \<noteq> 0 \<and> node_level n = of_nat ?l"
        using True xs(2) by (auto simp: p_def add_path_node_def step_nodes_def Let_def)
      have "validate_loop H ?hs (of_nat ?l) (root_loop H ?xs) (tail_path H ?xs i (int ?l))"
        using xs l by (intro validate_tail) auto
      then show ?thesis
        unfolding loop using p True
        by (auto simp: tail_path.simps [of H ?xs] validate_first simp del: validate_loop.simps)
    qed
  qed
  have "length (root_loop H ?xs) = 32"
    using xs(1,2) by (intro length_root_loop) auto
  then show ?thesis using v path root assms(2) by (auto simp: validate_path_def)
qed

text \<open>
  C8 Every leaf of a tree is accepted with the path computed for it: for any hash function and
  any number of leaves below 2 to the 31, odd or even, the path of a leaf that is not empty
  validates the leaf against the root of the tree.
\<close>

theorem merkle_path_complete:
  assumes "i < length values" "values ! i \<noteq> []" "length values < 2 ^ 31"
  shows "fst (calc_path H values (int i) []) \<and>
    validate_path H (values ! i) (calc_root H values) (snd (calc_path H values (int i) []))"
  using assms by (rule validate_calc_path)

theorem merkle_path_complete_witness:
  "validate_path (\<lambda>s. of_nat (le_val s)) ''c'' (calc_root (\<lambda>s. of_nat (le_val s)) [''a'', ''b'', ''c''])
     (snd (calc_path (\<lambda>s. of_nat (le_val s)) [''a'', ''b'', ''c''] 2 []))"
  using merkle_path_complete [of 2 "[''a'', ''b'', ''c'']" "\<lambda>s. of_nat (le_val s)"] by simp

text \<open>
  C39 The validation does not tell a leaf from an inner node: in a tree of two leaves the
  concatenation of the two leaf hashes, which is no leaf, is accepted with the empty path.
\<close>

theorem merkle_inner_node_accepted:
  "validate_path H (hash1 H a @ hash1 H b) (calc_root H [a, b]) []"
proof -
  have "hash1 H a @ hash1 H b \<noteq> []" "hash2 H (hash1 H a) (hash1 H b) \<noteq> []"
    using hash_length [of H] by (metis append_is_Nil_conv list.size(3) zero_neq_numeral)+
  then show ?thesis
    by (simp add: validate_path_def calc_root_def hash_leafs_def root_loop.simps hash1_def [of H "_ @ _"] hash2_def)
qed

interpretation mnode: object_codec node_do_write node_do_read "\<lambda>_. True"
  by unfold_locales (simp add: node_do_write_def node_do_read_def)

lemma length_node_write: "length (node_do_write n) = 40"
  by (simp add: node_do_write_def put_u32_def put_uint256_def)

lemma length_path_write: "length (path_do_write p) = 1 + 44 * length p"
proof -
  have "length (serialize_to node_do_write n) = 44" for n
    using length_node_write [of n] by (simp add: serialize_to_def put_buffer_def put_u32_def Let_def)
  then show ?thesis by (induction p) (simp_all add: path_do_write_def put_u8_def)
qed

lemma path_read_write:
  "length p < 256 \<Longrightarrow> path_do_read [] (path_do_write p @ s) = Some (p, s)"
  by (simp add: path_do_read_def path_do_write_def unat_of_nat mnode.ser.get_loop_put length_node_write list_all_iff)

lemma length_path_loop: "length (path_loop H xs i l p) \<le> length p + k" if "length xs \<le> 2 ^ k"
  using that
proof (induction k arbitrary: xs i l p)
  case (Suc k)
  have "length (add_path_node xs i l p) \<le> Suc (length p)" by (simp add: add_path_node_def Let_def)
  then show ?case
    using Suc.IH [of "hash_list H xs" "i div 2" "l - 1" "add_path_node xs i l p"] pow_bound_step [OF Suc.prems]
    by (auto simp: path_loop.simps [of H xs])
qed (simp add: path_loop.simps)

lemma length_calc_path:
  assumes "length values < 2 ^ 31"
  shows "length (snd (calc_path H values i [])) \<le> 31"
proof -
  have "length (hash_leafs H values) \<le> 2 ^ Suc (log2_int (length values))"
    using log2_int_bound [of "length values"] by (simp add: hash_leafs_def)
  from length_path_loop [OF this, of H "nat i" "int (log2_int (length values)) + 1" "[]"] show ?thesis
    using log2_int_le [of "length values" 30] assms by (simp add: calc_path_def)
qed

lemma find_index_nth: "find_index x ys = Some i \<Longrightarrow> i < length ys \<and> ys ! i = x"
  by (induction ys arbitrary: i) (auto split: if_splits)

lemma find_index_mem: "x \<in> set ys \<Longrightarrow> \<exists>i. find_index x ys = Some i"
  by (induction ys) auto

lemma block_path_validates:
  assumes "leaf \<in> set entitys" "leaf \<noteq> []" "length entitys < 2 ^ 31"
  shows "\<exists>p. calc_merkle_path H entitys leaf [] = (True, p) \<and> length p \<le> 31 \<and>
    path_do_read [] (path_do_write p) = Some (p, []) \<and> validate_path H leaf (get_root_hash H entitys) p"
proof -
  let ?ls = "get_merkle_leafs entitys"
  have mem: "leaf \<in> set ?ls" using assms(1,2) by (simp add: get_merkle_leafs_def)
  have len: "length ?ls < 2 ^ 31"
    using assms(3) unfolding get_merkle_leafs_def by (rule le_less_trans [OF length_filter_le])
  obtain i where i: "find_index leaf ?ls = Some i" using find_index_mem [OF mem] by blast
  define p where "p = snd (calc_path H ?ls (int i) [])"
  have v: "fst (calc_path H ?ls (int i) []) \<and> validate_path H leaf (calc_root H ?ls) p"
    using validate_calc_path [of i ?ls H] find_index_nth [OF i] assms(2) len by (simp add: p_def)
  have l: "length p \<le> 31" using length_calc_path [OF len] by (simp add: p_def)
  have "?ls \<noteq> []" using mem by auto
  then have "calc_merkle_path H entitys leaf [] = (True, p)"
    using v i by (simp add: calc_merkle_path_def p_def Let_def prod_eq_iff)
  moreover have "get_root_hash H entitys = calc_root H ?ls"
    using \<open>?ls \<noteq> []\<close> by (simp add: get_root_hash_def Let_def)
  ultimately show ?thesis
    using v l path_read_write [of p "[]"] by auto
qed

text \<open>
  The path of a leaf has at most 31 nodes, so its one-byte count never wraps: the path of a
  block's output leaf is read back from its serialized form and still validates the leaf
  against the root of the block.
\<close>

lemma block_path_round:
  assumes "leaf \<in> set entitys" "leaf \<noteq> []" "length entitys < 2 ^ 31"
  shows "\<exists>p. calc_merkle_path H entitys leaf [] = (True, p) \<and> length p \<le> 31 \<and>
    path_do_read [] (path_do_write p) = Some (p, []) \<and> validate_path H leaf (get_root_hash H entitys) p"
  using assms by (rule block_path_validates)

theorem block_path_round_witness:
  "\<exists>p. calc_merkle_path (\<lambda>s. of_nat (le_val s)) [''a'', [], ''b'', ''c''] ''c'' [] = (True, p) \<and>
     validate_path (\<lambda>s. of_nat (le_val s)) ''c'' (get_root_hash (\<lambda>s. of_nat (le_val s)) [''a'', [], ''b'', ''c'']) p"
  using block_path_round [of "''c''" "[''a'', [], ''b'', ''c'']" "\<lambda>s. of_nat (le_val s)"] by auto

end
