(* ===== verification/XConsTx.thy ===== *)
theory XConsTx
  imports XTransaction XMerkle
begin

text \<open>
  What consensus adds to a transaction: the parameter maps of \<open>xdata/src/xblock_paras.cpp\<close>, the
  execution state and the input and output entities of a light unit
  (\<open>xdata/xlightunit_info.h\<close>, \<open>.cpp\<close>), the proofs of \<open>xdata/src/xprovecert.cpp\<close>, the receipt of
  \<open>xdata/src/xtxreceipt.cpp\<close> and the consensus transaction of \<open>xdata/src/xcons_transaction.cpp\<close>.
  A certificate (\<open>xvqcert_t\<close>) is known by the values its interface gives; how a certificate is
  written, read and hashed is outside the sources.
\<close>

section \<open>Parameter maps\<close>

type_synonym xblockpara = "(string, string) omap"

definition para_set_value :: "string \<Rightarrow> string \<Rightarrow> xblockpara \<Rightarrow> xblockpara" where
  "para_set_value key v m = (if v \<noteq> [] then om_set key v m else m)"

definition para_set_bool :: "string \<Rightarrow> bool \<Rightarrow> xblockpara \<Rightarrow> xblockpara" where
  "para_set_bool key v m = (if v then para_set_value key (to_string 1) m else m)"

definition para_set_uint16 :: "string \<Rightarrow> u16 \<Rightarrow> xblockpara \<Rightarrow> xblockpara" where
  "para_set_uint16 key v m = (if v \<noteq> 0 then para_set_value key (to_string (ucast v)) m else m)"

definition para_set_uint32 :: "string \<Rightarrow> u32 \<Rightarrow> xblockpara \<Rightarrow> xblockpara" where
  "para_set_uint32 key v m = (if v \<noteq> 0 then para_set_value key (to_string (ucast v)) m else m)"

definition para_set_uint64 :: "string \<Rightarrow> u64 \<Rightarrow> xblockpara \<Rightarrow> xblockpara" where
  "para_set_uint64 key v m = (if v \<noteq> 0 then para_set_value key (to_string v) m else m)"

definition para_get_value :: "string \<Rightarrow> xblockpara \<Rightarrow> string" where
  "para_get_value key m = (case om_find m key of Some v \<Rightarrow> v | None \<Rightarrow> [])"

definition para_get_uint32 :: "xutl \<Rightarrow> string \<Rightarrow> xblockpara \<Rightarrow> u32" where
  "para_get_uint32 U key m = (let v = para_get_value key m in if v \<noteq> [] then touint32 U v else 0)"

definition para_get_uint64 :: "xutl \<Rightarrow> string \<Rightarrow> xblockpara \<Rightarrow> u64" where
  "para_get_uint64 U key m = (let v = para_get_value key m in if v \<noteq> [] then touint64 U v else 0)"

definition para_get_uint16 :: "xutl \<Rightarrow> string \<Rightarrow> xblockpara \<Rightarrow> u16" where
  "para_get_uint16 U key m = (let v = para_get_value key m in if v \<noteq> [] then ucast (touint32 U v) else 0)"

definition para_get_bool :: "xutl \<Rightarrow> string \<Rightarrow> xblockpara \<Rightarrow> bool" where
  "para_get_bool U key m = (let v = para_get_value key m in if v \<noteq> [] then touint32 U v \<noteq> 0 else False)"

definition put_para_item :: "string \<times> string \<Rightarrow> bytes" where
  "put_para_item p = write_tiny_string (fst p) @ put_string (snd p)"

definition get_para_item :: "bytes \<Rightarrow> ((string \<times> string) \<times> bytes) option" where
  "get_para_item s = do { (k, s) \<leftarrow> read_tiny_string s; (v, s) \<leftarrow> get_string s; Some ((k, v), s) }"

definition para_do_write :: "xblockpara \<Rightarrow> bytes" where
  "para_do_write m = put_u16 (of_nat (length m)) @ concat (map put_para_item m)"

definition para_do_read :: "xblockpara \<Rightarrow> bytes \<Rightarrow> (xblockpara \<times> bytes) option" where
  "para_do_read m s = do { (n, s) \<leftarrow> get_u16 s; get_loop (unat n) get_para_item (\<lambda>(k, v). om_set k v) m s }"


section \<open>The state of an executed transaction\<close>

type_synonym xtransaction_exec_state = xblockpara

definition enum_xunit_tx_exec_status_success :: u8 where "enum_xunit_tx_exec_status_success = 1"
definition enum_xunit_tx_exec_status_fail :: u8 where "enum_xunit_tx_exec_status_fail = 2"

definition set_send_tx_lock_tgas :: "u32 \<Rightarrow> xtransaction_exec_state \<Rightarrow> xtransaction_exec_state" where
  "set_send_tx_lock_tgas v m = para_set_uint32 ''0'' v m"
definition set_recv_tx_use_send_tx_tgas :: "u32 \<Rightarrow> xtransaction_exec_state \<Rightarrow> xtransaction_exec_state" where
  "set_recv_tx_use_send_tx_tgas v m = para_set_uint32 ''1'' v m"
definition set_used_tgas :: "u32 \<Rightarrow> xtransaction_exec_state \<Rightarrow> xtransaction_exec_state" where
  "set_used_tgas v m = para_set_uint32 ''2'' v m"
definition set_used_deposit :: "u32 \<Rightarrow> xtransaction_exec_state \<Rightarrow> xtransaction_exec_state" where
  "set_used_deposit v m = para_set_uint32 ''3'' v m"
definition set_used_disk :: "u32 \<Rightarrow> xtransaction_exec_state \<Rightarrow> xtransaction_exec_state" where
  "set_used_disk v m = para_set_uint32 ''4'' v m"
definition set_beacon_service_fee :: "u64 \<Rightarrow> xtransaction_exec_state \<Rightarrow> xtransaction_exec_state" where
  "set_beacon_service_fee v m = para_set_uint64 ''5'' v m"
definition set_self_burn_balance :: "u64 \<Rightarrow> xtransaction_exec_state \<Rightarrow> xtransaction_exec_state" where
  "set_self_burn_balance v m = para_set_uint64 ''6'' v m"

definition set_tx_exec_status :: "u8 \<Rightarrow> xtransaction_exec_state \<Rightarrow> xtransaction_exec_state" where
  "set_tx_exec_status v m = (if v \<noteq> enum_xunit_tx_exec_status_success then para_set_uint32 ''7'' (ucast v) m else m)"

definition get_send_tx_lock_tgas :: "xutl \<Rightarrow> xtransaction_exec_state \<Rightarrow> u32" where
  "get_send_tx_lock_tgas U m = para_get_uint32 U ''0'' m"
definition get_recv_tx_use_send_tx_tgas :: "xutl \<Rightarrow> xtransaction_exec_state \<Rightarrow> u32" where
  "get_recv_tx_use_send_tx_tgas U m = para_get_uint32 U ''1'' m"
definition exec_get_used_tgas :: "xutl \<Rightarrow> xtransaction_exec_state \<Rightarrow> u32" where
  "exec_get_used_tgas U m = para_get_uint32 U ''2'' m"
definition get_used_deposit :: "xutl \<Rightarrow> xtransaction_exec_state \<Rightarrow> u32" where
  "get_used_deposit U m = para_get_uint32 U ''3'' m"
definition get_used_disk :: "xutl \<Rightarrow> xtransaction_exec_state \<Rightarrow> u32" where
  "get_used_disk U m = para_get_uint32 U ''4'' m"
definition get_beacon_service_fee :: "xutl \<Rightarrow> xtransaction_exec_state \<Rightarrow> u64" where
  "get_beacon_service_fee U m = para_get_uint64 U ''5'' m"
definition get_self_burn_balance :: "xutl \<Rightarrow> xtransaction_exec_state \<Rightarrow> u64" where
  "get_self_burn_balance U m = para_get_uint64 U ''6'' m"

definition get_tx_exec_status :: "xutl \<Rightarrow> xtransaction_exec_state \<Rightarrow> u8" where
  "get_tx_exec_status U m =
     (let status = (ucast (para_get_uint32 U ''7'' m) :: u8)
      in if status = 0 then enum_xunit_tx_exec_status_success else status)"

type_synonym xinput_tx_propertys = xblockpara

definition set_last_tx_exec_status :: "u8 \<Rightarrow> xinput_tx_propertys \<Rightarrow> xinput_tx_propertys" where
  "set_last_tx_exec_status v m = (if v \<noteq> enum_xunit_tx_exec_status_success then para_set_uint32 ''1'' (ucast v) m else m)"

definition get_last_tx_exec_status :: "xutl \<Rightarrow> xinput_tx_propertys \<Rightarrow> u8" where
  "get_last_tx_exec_status U m =
     (let status = (ucast (para_get_uint32 U ''1'' m) :: u8)
      in if status = 0 then enum_xunit_tx_exec_status_success else status)"

definition is_contract_create :: "xutl \<Rightarrow> xinput_tx_propertys \<Rightarrow> bool" where
  "is_contract_create U m = para_get_bool U ''0'' m"

definition get_tx_clock :: "xutl \<Rightarrow> xinput_tx_propertys \<Rightarrow> u64" where
  "get_tx_clock U m = para_get_uint64 U ''2'' m"

definition input_tx_propertys :: "bool \<Rightarrow> u8 \<Rightarrow> u64 \<Rightarrow> xinput_tx_propertys" where
  "input_tx_propertys contract_create last_action_status last_tx_clock =
     para_set_uint64 ''2'' last_tx_clock
       (set_last_tx_exec_status last_action_status (para_set_bool ''0'' contract_create []))"


section \<open>Entities of a light unit\<close>

record xlightunit_input_entity =
  in_tx_key :: xtransaction_key
  m_inputtx_props :: xinput_tx_propertys
  in_raw_tx :: "xtransaction option"

definition input_entity :: "u8 \<Rightarrow> xtransaction \<Rightarrow> bool \<Rightarrow> u8 \<Rightarrow> u64 \<Rightarrow> xlightunit_input_entity" where
  "input_entity ty tx contract_create last_action_status last_tx_clock =
     \<lparr>in_tx_key = \<lparr>m_txhash = get_digest_str tx, m_subtype = ty\<rparr>,
      m_inputtx_props = input_tx_propertys contract_create last_action_status last_tx_clock,
      in_raw_tx = (if ty = enum_transaction_subtype_self \<or> ty = enum_transaction_subtype_send
                      \<or> ty = enum_transaction_subtype_recv then Some tx else None)\<rparr>"

definition input_entity_do_write :: "(xtransaction \<Rightarrow> bytes) \<Rightarrow> xlightunit_input_entity \<Rightarrow> bytes" where
  "input_entity_do_write wr e =
     key_do_write (in_tx_key e) @ para_do_write (m_inputtx_props e) @ put_ptr wr (in_raw_tx e)"

definition input_entity_do_read :: "(bytes \<Rightarrow> (xtransaction \<times> bytes) option) \<Rightarrow> xlightunit_input_entity \<Rightarrow> bytes
    \<Rightarrow> (xlightunit_input_entity \<times> bytes) option" where
  "input_entity_do_read rd e s = do {
     (k, s) \<leftarrow> key_do_read s; (p, s) \<leftarrow> para_do_read (m_inputtx_props e) s; (raw, s) \<leftarrow> get_ptr rd (in_raw_tx e) s;
     Some (\<lparr>in_tx_key = k, m_inputtx_props = p, in_raw_tx = raw\<rparr>, s) }"

record xlightunit_output_entity =
  m_tx_key :: xtransaction_key
  m_exec_state :: xtransaction_exec_state

definition output_entity :: "u8 \<Rightarrow> xtransaction \<Rightarrow> xtransaction_exec_state \<Rightarrow> xlightunit_output_entity" where
  "output_entity ty tx txstate =
     \<lparr>m_tx_key = \<lparr>m_txhash = get_digest_str tx, m_subtype = ty\<rparr>, m_exec_state = txstate\<rparr>"

definition output_entity_do_write :: "xlightunit_output_entity \<Rightarrow> bytes" where
  "output_entity_do_write e = key_do_write (m_tx_key e) @ para_do_write (m_exec_state e)"

definition output_entity_do_read :: "xlightunit_output_entity \<Rightarrow> bytes \<Rightarrow> (xlightunit_output_entity \<times> bytes) option" where
  "output_entity_do_read e s = do {
     (k, s) \<leftarrow> key_do_read s; (p, s) \<leftarrow> para_do_read (m_exec_state e) s;
     Some (\<lparr>m_tx_key = k, m_exec_state = p\<rparr>, s) }"

definition get_merkle_leaf :: "xlightunit_output_entity \<Rightarrow> bytes" where
  "get_merkle_leaf e = output_entity_do_write e"

record xlightunit_tx_info =
  info_tx_key :: xtransaction_key
  info_inputtx_props :: xinput_tx_propertys
  info_raw_tx :: "xtransaction option"
  info_exec_state :: xtransaction_exec_state

definition get_last_trans_nonce :: "xlightunit_tx_info \<Rightarrow> u64" where
  "get_last_trans_nonce i =
     (if is_self_tx (info_tx_key i) \<or> is_send_tx (info_tx_key i)
      then (case info_raw_tx i of Some t \<Rightarrow> get_last_nonce t | None \<Rightarrow> 0)
      else 0)"


section \<open>Proofs\<close>

record xvqcert =
  cert_clock :: u64
  cert_output_root_hash :: bytes
  cert_justify_cert_hash :: bytes
  cert_hash_to_sign :: bytes
  cert_extend_data :: bytes

record xprove_cert =
  m_prove_cert :: "xvqcert option"
  m_prove_type :: u8
  m_prove_path :: bytes

definition xprove_cert_class_self_cert :: u8 where "xprove_cert_class_self_cert = 0"
definition xprove_cert_class_parent_cert :: u8 where "xprove_cert_class_parent_cert = 1"
definition xprove_cert_type_output_root :: u8 where "xprove_cert_type_output_root = 0"
definition xprove_cert_type_justify_cert :: u8 where "xprove_cert_type_justify_cert = 1"

lemmas prove_kind_defs = xprove_cert_class_self_cert_def xprove_cert_class_parent_cert_def
  xprove_cert_type_output_root_def xprove_cert_type_justify_cert_def

definition get_prove_class :: "xprove_cert \<Rightarrow> u8" where
  "get_prove_class p = drop_bit 4 (m_prove_type p) AND 0x0F"

definition get_prove_type :: "xprove_cert \<Rightarrow> u8" where
  "get_prove_type p = m_prove_type p AND 0x0F"

definition set_prove_class :: "u8 \<Rightarrow> xprove_cert \<Rightarrow> xprove_cert" where
  "set_prove_class c p = p\<lparr>m_prove_type := (m_prove_type p AND 0x0F) OR push_bit 4 c\<rparr>"

definition set_prove_type :: "u8 \<Rightarrow> xprove_cert \<Rightarrow> xprove_cert" where
  "set_prove_type t p = p\<lparr>m_prove_type := (m_prove_type p AND 0xF0) OR (t AND 0x0F)\<rparr>"

definition set_prove_path :: "xmerkle_path_node list \<Rightarrow> xprove_cert \<Rightarrow> xprove_cert" where
  "set_prove_path path p = p\<lparr>m_prove_path := serialize_to path_do_write path\<rparr>"

definition prove_cert :: "xvqcert \<Rightarrow> u8 \<Rightarrow> u8 \<Rightarrow> bytes \<Rightarrow> xprove_cert" where
  "prove_cert cert cls ty path =
     (set_prove_type ty (set_prove_class cls \<lparr>m_prove_cert = Some cert, m_prove_type = 0, m_prove_path = []\<rparr>))
       \<lparr>m_prove_path := path\<rparr>"

definition prove_cert_path :: "xvqcert \<Rightarrow> u8 \<Rightarrow> u8 \<Rightarrow> xmerkle_path_node list \<Rightarrow> xprove_cert" where
  "prove_cert_path cert cls ty path =
     set_prove_path path
       (set_prove_type ty (set_prove_class cls \<lparr>m_prove_cert = Some cert, m_prove_type = 0, m_prove_path = []\<rparr>))"

text \<open>A path that cannot be read throws out of the check.\<close>

definition prove_is_valid :: "(bytes \<Rightarrow> uint256) \<Rightarrow> bytes \<Rightarrow> xprove_cert \<Rightarrow> bool option" where
  "prove_is_valid H prove_object p =
     (case m_prove_cert p of
        None \<Rightarrow> Some False
      | Some cert \<Rightarrow>
          let cert_type = get_prove_type p; cert_class = get_prove_class p
          in if cert_type \<noteq> xprove_cert_type_output_root \<and> cert_type \<noteq> xprove_cert_type_justify_cert then Some False
             else if cert_class \<noteq> xprove_cert_class_self_cert \<and> cert_class \<noteq> xprove_cert_class_parent_cert
             then Some False
             else
               let root_hash = (if cert_type = xprove_cert_type_output_root then cert_output_root_hash cert
                                else cert_justify_cert_hash cert)
               in if m_prove_path p \<noteq> [] then do {
                    (path, _) \<leftarrow> serialize_from (path_do_read []) (m_prove_path p);
                    Some (validate_path H prove_object root_hash path) }
                  else Some (prove_object = root_hash))"


section \<open>Receipts\<close>

record xtx_receipt =
  m_tx_info :: xlightunit_output_entity
  m_tx_info_prove :: "xprove_cert option"
  m_commit_prove :: "xprove_cert option"

definition tx_receipt :: "xlightunit_output_entity \<Rightarrow> xmerkle_path_node list \<Rightarrow> xvqcert \<Rightarrow> xtx_receipt" where
  "tx_receipt txinfo path cert =
     \<lparr>m_tx_info = txinfo,
      m_tx_info_prove = Some (prove_cert_path cert xprove_cert_class_self_cert xprove_cert_type_output_root path),
      m_commit_prove = None\<rparr>"

definition set_commit_prove_cert :: "xvqcert \<Rightarrow> u8 \<Rightarrow> u8 \<Rightarrow> bytes \<Rightarrow> xtx_receipt \<Rightarrow> xtx_receipt" where
  "set_commit_prove_cert cert cls ty path r = r\<lparr>m_commit_prove := Some (prove_cert cert cls ty path)\<rparr>"

definition receipt_is_valid :: "(bytes \<Rightarrow> uint256) \<Rightarrow> xtx_receipt \<Rightarrow> bool option" where
  "receipt_is_valid H r =
     (if \<not> (is_send_tx (m_tx_key (m_tx_info r)) \<or> is_recv_tx (m_tx_key (m_tx_info r))) then Some False
      else case (m_tx_info_prove r, m_commit_prove r) of
        (Some p, Some c) \<Rightarrow> do {
          b \<leftarrow> prove_is_valid H (get_merkle_leaf (m_tx_info r)) p;
          if \<not> b then Some False
          else do { cert \<leftarrow> m_prove_cert p; prove_is_valid H (cert_hash_to_sign cert) c } }
      | _ \<Rightarrow> Some False)"


section \<open>Consensus transactions\<close>

record xcons_transaction =
  m_tx :: xtransaction
  m_receipt :: "xtx_receipt option"
  m_is_confirmed :: bool
  m_execute_state :: xtransaction_exec_state

definition update_transation :: "xcons_transaction \<Rightarrow> xcons_transaction" where
  "update_transation c =
     (let t = m_tx c; set = (\<lambda>ty. c\<lparr>m_tx := t\<lparr>m_tx_subtype := ty\<rparr>\<rparr>)
      in case m_receipt c of
           None \<Rightarrow>
             if get_source_addr t = get_target_addr t \<or> is_black_hole_address (get_target_addr t)
             then set enum_transaction_subtype_self else set enum_transaction_subtype_send
         | Some r \<Rightarrow>
             if m_subtype (m_tx_key (m_tx_info r)) = enum_transaction_subtype_send
             then set enum_transaction_subtype_recv
             else if m_subtype (m_tx_key (m_tx_info r)) = enum_transaction_subtype_recv
             then set enum_transaction_subtype_confirm
             else c)"

definition cons_transaction :: "xtransaction \<Rightarrow> xcons_transaction" where
  "cons_transaction tx =
     update_transation \<lparr>m_tx = tx, m_receipt = None, m_is_confirmed = False, m_execute_state = []\<rparr>"

text \<open>The transaction of a receipt is a copy through the stream.\<close>

definition cons_transaction_receipt :: "(xtransaction \<Rightarrow> bytes) \<Rightarrow> (bytes \<Rightarrow> (xtransaction \<times> bytes) option)
    \<Rightarrow> xtransaction \<Rightarrow> xtx_receipt \<Rightarrow> xcons_transaction option" where
  "cons_transaction_receipt wr rd tx receipt = do {
     (t, _) \<leftarrow> rd (wr tx);
     Some (update_transation \<lparr>m_tx = t, m_receipt = Some receipt, m_is_confirmed = False, m_execute_state = []\<rparr>) }"

definition get_receipt_source_account :: "xcons_transaction \<Rightarrow> string" where
  "get_receipt_source_account c =
     (if m_tx_subtype (m_tx c) = enum_transaction_subtype_recv then get_source_addr (m_tx c) else get_target_addr (m_tx c))"

definition get_receipt_target_account :: "xcons_transaction \<Rightarrow> string" where
  "get_receipt_target_account c =
     (if m_tx_subtype (m_tx c) = enum_transaction_subtype_recv then get_target_addr (m_tx c) else get_source_addr (m_tx c))"

definition set_commit_prove_with_parent_cert :: "xvqcert \<Rightarrow> xcons_transaction \<Rightarrow> xcons_transaction option" where
  "set_commit_prove_with_parent_cert parent c = do {
     r \<leftarrow> m_receipt c; p \<leftarrow> m_tx_info_prove r; cert \<leftarrow> m_prove_cert p;
     Some (c\<lparr>m_receipt := Some (set_commit_prove_cert parent xprove_cert_class_parent_cert
              xprove_cert_type_justify_cert (cert_extend_data cert) r)\<rparr>) }"

definition verify_cons_transaction :: "(bytes \<Rightarrow> uint256) \<Rightarrow> xcons_transaction \<Rightarrow> bool option" where
  "verify_cons_transaction H c =
     (if m_tx_subtype (m_tx c) = enum_transaction_subtype_recv \<or> m_tx_subtype (m_tx c) = enum_transaction_subtype_confirm
      then (case m_receipt c of
              None \<Rightarrow> Some False
            | Some r \<Rightarrow>
                if get_digest_str (m_tx c) \<noteq> m_txhash (m_tx_key (m_tx_info r)) then Some False
                else receipt_is_valid H r)
      else Some True)"

text \<open>Values of the execution before, taken from the receipt; zero without one.\<close>

definition get_last_action_used_tgas :: "xutl \<Rightarrow> xcons_transaction \<Rightarrow> u32" where
  "get_last_action_used_tgas U c =
     (case m_receipt c of Some r \<Rightarrow> exec_get_used_tgas U (m_exec_state (m_tx_info r)) | None \<Rightarrow> 0)"
definition get_last_action_used_deposit :: "xutl \<Rightarrow> xcons_transaction \<Rightarrow> u32" where
  "get_last_action_used_deposit U c =
     (case m_receipt c of Some r \<Rightarrow> get_used_deposit U (m_exec_state (m_tx_info r)) | None \<Rightarrow> 0)"
definition get_last_action_used_disk :: "xutl \<Rightarrow> xcons_transaction \<Rightarrow> u32" where
  "get_last_action_used_disk U c =
     (case m_receipt c of Some r \<Rightarrow> get_used_disk U (m_exec_state (m_tx_info r)) | None \<Rightarrow> 0)"
definition get_last_action_send_tx_lock_tgas :: "xutl \<Rightarrow> xcons_transaction \<Rightarrow> u32" where
  "get_last_action_send_tx_lock_tgas U c =
     (case m_receipt c of Some r \<Rightarrow> get_send_tx_lock_tgas U (m_exec_state (m_tx_info r)) | None \<Rightarrow> 0)"
definition get_last_action_recv_tx_use_send_tx_tgas :: "xutl \<Rightarrow> xcons_transaction \<Rightarrow> u32" where
  "get_last_action_recv_tx_use_send_tx_tgas U c =
     (case m_receipt c of Some r \<Rightarrow> get_recv_tx_use_send_tx_tgas U (m_exec_state (m_tx_info r)) | None \<Rightarrow> 0)"
definition get_last_action_exec_status :: "xutl \<Rightarrow> xcons_transaction \<Rightarrow> u8" where
  "get_last_action_exec_status U c =
     (case m_receipt c of Some r \<Rightarrow> get_tx_exec_status U (m_exec_state (m_tx_info r)) | None \<Rightarrow> 0)"

definition cons_do_write :: "(xtransaction \<Rightarrow> bytes) \<Rightarrow> (xtx_receipt \<Rightarrow> bytes) \<Rightarrow> xcons_transaction \<Rightarrow> bytes" where
  "cons_do_write wr wr_receipt c = wr (m_tx c) @ put_ptr wr_receipt (m_receipt c)"

definition cons_do_read :: "(bytes \<Rightarrow> (xtransaction \<times> bytes) option) \<Rightarrow> (bytes \<Rightarrow> (xtx_receipt \<times> bytes) option)
    \<Rightarrow> xcons_transaction \<Rightarrow> bytes \<Rightarrow> (xcons_transaction \<times> bytes) option" where
  "cons_do_read rd rd_receipt c s = do {
     (t, s) \<leftarrow> rd s; (r, s) \<leftarrow> get_ptr rd_receipt (m_receipt c) s;
     Some (update_transation (c\<lparr>m_tx := t, m_receipt := r\<rparr>), s) }"


section \<open>Reading back\<close>

definition tiny_ok :: "string \<Rightarrow> bool" where "tiny_ok v \<longleftrightarrow> length v < 256"

lemma tiny_round: "tiny_ok v \<Longrightarrow> read_tiny_string (write_tiny_string v @ s) = Some (v, s)"
  by (simp add: read_tiny_string_write tiny_ok_def)

lemma para_item_suffix:
  assumes "get_para_item s = Some (x, r)"
  shows "\<exists>p. p \<noteq> [] \<and> s = p @ r"
proof -
  obtain k s' v where 1: "read_tiny_string s = Some (k, s')" and 2: "get_string s' = Some (v, r)"
    using assms by (auto simp: get_para_item_def split: bind_splits)
  obtain n s1 where 3: "get_u8 s = Some (n, s1)" and 4: "get_body (unat n) s1 = Some (k, s')"
    using 1 by (auto simp: read_tiny_string_def split: bind_splits)
  obtain p where "p \<noteq> []" "s = p @ s1" using u8.get_suffix [OF 3] by blast
  moreover obtain q where "s1 = q @ s'" using get_body_suffix [OF 4] by blast
  moreover obtain w where "s' = w @ r" using str.get_suffix [OF 2] by blast
  ultimately show ?thesis by (intro exI [of _ "p @ q @ w"]) simp
qed

interpretation item: codec put_para_item get_para_item "\<lambda>p. tiny_ok (fst p) \<and> str_ok (snd p)"
proof (unfold_locales, goal_cases)
  case (1 x s)
  then show ?case by (simp add: put_para_item_def get_para_item_def tiny_round)
next
  case (2 x)
  then show ?case using str.put_pos [of "snd x"] by (simp add: put_para_item_def)
next
  case (3 s x r)
  then show ?case by (rule para_item_suffix)
qed

definition para_fits :: "xblockpara \<Rightarrow> bool" where
  "para_fits m \<longleftrightarrow> om_inv m \<and> length m < 65536 \<and> list_all (\<lambda>p. tiny_ok (fst p) \<and> str_ok (snd p)) m"

lemma para_read_write: "para_fits m \<Longrightarrow> para_do_read [] (para_do_write m @ s) = Some (m, s)"
  using fold_om_set_append [of "[]" m]
  by (simp add: para_do_read_def para_do_write_def para_fits_def unat_of_nat item.get_loop_put)

definition out_fits :: "xlightunit_output_entity \<Rightarrow> bool" where
  "out_fits e \<longleftrightarrow> str_ok (m_txhash (m_tx_key e)) \<and> para_fits (m_exec_state e)"

lemma key_read_write [simp]: "str_ok (m_txhash k) \<Longrightarrow> key_do_read (key_do_write k @ s) = Some (k, s)"
  by (simp add: key_do_read_def key_do_write_def)

lemma output_entity_read_write:
  "out_fits e \<Longrightarrow> m_exec_state e0 = [] \<Longrightarrow> output_entity_do_read e0 (output_entity_do_write e @ s) = Some (e, s)"
  by (simp add: output_entity_do_read_def output_entity_do_write_def out_fits_def para_read_write)

lemma leaf_nonempty [simp]: "get_merkle_leaf e \<noteq> []"
  by (simp add: get_merkle_leaf_def output_entity_do_write_def key_do_write_def)

text \<open>
  C21 The Merkle leaf of an executed transaction binds its result: two output entities with the
  same leaf have the same transaction hash, the same kind and the same execution state.
\<close>

theorem leaf_binds_result:
  assumes "out_fits e" "out_fits f" "get_merkle_leaf e = get_merkle_leaf f"
  shows "e = f"
proof -
  let ?z = "\<lparr>m_tx_key = \<lparr>m_txhash = [], m_subtype = 0\<rparr>, m_exec_state = []\<rparr>"
  have r: "output_entity_do_read ?z (get_merkle_leaf x) = Some (x, [])" if "out_fits x" for x
    unfolding get_merkle_leaf_def using output_entity_read_write [OF that, of ?z "[]"] by simp
  have "output_entity_do_read ?z (get_merkle_leaf e) = Some (f, [])"
    unfolding assms(3) by (rule r [OF assms(2)])
  then show ?thesis unfolding r [OF assms(1)] by simp
qed

theorem leaf_binds_result_witness:
  "let e = output_entity enum_transaction_subtype_send transaction_new (set_used_tgas 5 [])
   in e = output_entity 2 (transaction_new\<lparr>m_authorization := ''a''\<rparr>) [(''2'', to_string 5)]"
proof -
  have s: "set_used_tgas 5 [] = [(''2'', to_string 5)]"
    by (simp add: set_used_tgas_def para_set_uint32_def para_set_value_def)
  have "to_string 5 = [char_of (53 :: nat)]" by (simp add: to_string_def dec_digits.simps [of 5])
  then have f: "out_fits (output_entity ty t [(''2'', to_string 5)])" for ty t
    by (simp add: out_fits_def output_entity_def get_digest_str_def str_ok_def para_fits_def om_inv_def tiny_ok_def)
  show ?thesis
    unfolding Let_def s by (rule leaf_binds_result [OF f f])
      (simp add: output_entity_def get_digest_str_def tx_subtype_defs)
qed


section \<open>Values of a parameter map\<close>

text \<open>What the code relies on of the number conversions of \<open>xstring_utl\<close>: they invert
  \<open>std::to_string\<close>.\<close>

definition utl_round :: "xutl \<Rightarrow> bool" where
  "utl_round U \<longleftrightarrow> (\<forall>v :: u32. touint32 U (to_string (ucast v)) = v) \<and> (\<forall>v. touint64 U (to_string v) = v)"

lemma para_get_set_uint32:
  assumes "utl_round U"
  shows "para_get_uint32 U k (para_set_uint32 k' v m) =
    (if k = k' \<and> v \<noteq> 0 then v else para_get_uint32 U k m)"
  using assms by (simp add: para_get_uint32_def para_set_uint32_def para_set_value_def para_get_value_def
      utl_round_def omap_simps)

lemma para_get_set_uint64:
  assumes "utl_round U"
  shows "para_get_uint64 U k (para_set_uint64 k' v m) =
    (if k = k' \<and> v \<noteq> 0 then v else para_get_uint64 U k m)"
  using assms by (simp add: para_get_uint64_def para_set_uint64_def para_set_value_def para_get_value_def
      utl_round_def omap_simps)

text \<open>
  A number in a parameter map is the last non-zero one that was set: setting zero does not
  remove an earlier value, and values under other keys do not matter.
\<close>

lemma para_last_nonzero:
  assumes "utl_round U"
  shows "para_get_uint32 U k (fold (\<lambda>(k', v). para_set_uint32 k' v) sets m) =
    (case filter (\<lambda>(k', v). k' = k \<and> v \<noteq> 0) sets of
       [] \<Rightarrow> para_get_uint32 U k m
     | x # xs \<Rightarrow> snd (last (x # xs)))"
proof (induction sets arbitrary: m)
  case (Cons a sets)
  then show ?case
    by (cases "filter (\<lambda>(k', v). k' = k \<and> v \<noteq> 0) sets") (auto simp: split_def para_get_set_uint32 [OF assms])
qed simp

lemma sample_utl_round: "utl_round sample_utl"
proof -
  have "touint64 sample_utl (to_string v) = v" for v
    by (simp add: sample_utl_def to_string_def dec_val_dec_digits)
  moreover have "touint32 sample_utl (to_string (ucast v)) = v" for v :: u32
    by (simp add: sample_utl_def to_string_def dec_val_dec_digits)
  ultimately show ?thesis by (simp add: utl_round_def)
qed

theorem para_last_nonzero_witness:
  "para_get_uint32 sample_utl ''2'' (fold (\<lambda>(k', v). para_set_uint32 k' v) [(''2'', 7), (''3'', 9), (''2'', 0)] []) = 7"
  using para_last_nonzero [OF sample_utl_round, of "''2''" "[(''2'', 7), (''3'', 9), (''2'', 0)]" "[]"] by simp


section \<open>Receipts of a committed block\<close>

lemma prove_cert_kind:
  "c = 0 \<or> c = 1 \<Longrightarrow> t = 0 \<or> t = 1 \<Longrightarrow> get_prove_class (prove_cert cert c t path) = c"
  "c = 0 \<or> c = 1 \<Longrightarrow> t = 0 \<or> t = 1 \<Longrightarrow> get_prove_type (prove_cert cert c t path) = t"
  by (auto simp: get_prove_class_def get_prove_type_def prove_cert_def set_prove_type_def set_prove_class_def)

lemma prove_cert_path_eq:
  "prove_cert_path cert c t path = prove_cert cert c t (serialize_to path_do_write path)"
  by (simp add: prove_cert_path_def prove_cert_def set_prove_path_def)

lemma prove_cert_fields [simp]:
  "m_prove_cert (prove_cert cert c t path) = Some cert" "m_prove_path (prove_cert cert c t path) = path"
  by (simp_all add: prove_cert_def set_prove_type_def set_prove_class_def)

text \<open>A proof made of the path of a leaf is valid for the leaf.\<close>

lemma prove_of_path:
  assumes "calc_merkle_path H leaves leaf [] = (True, p)" "leaf \<in> set leaves" "leaf \<noteq> []" "length leaves < 2 ^ 31"
    and "c = 0 \<or> c = 1" "t = 0 \<or> t = 1"
    and "(if t = 0 then cert_output_root_hash cert else cert_justify_cert_hash cert) = get_root_hash H leaves"
  shows "prove_is_valid H leaf (prove_cert cert c t (serialize_to path_do_write p)) = Some True"
proof -
  have v: "length p \<le> 31" "validate_path H leaf (get_root_hash H leaves) p"
    using block_path_validates [OF assms(2-4), of H] assms(1) by auto
  have "length (path_do_write p) < 2 ^ 32"
    using v(1) by (simp add: length_path_write)
  then have "serialize_from (path_do_read []) (serialize_to path_do_write p @ []) = Some (p, [])"
    using path_read_write [of p "[]"] v(1)
    by (simp add: serialize_from_def serialize_to_def get_buffer_put [of _ "[]", simplified])
  moreover have "serialize_to path_do_write p \<noteq> []" by (simp add: serialize_to_def)
  ultimately show ?thesis
    using v(2) assms(5-7) by (auto simp: prove_is_valid_def prove_cert_kind prove_kind_defs Let_def)
qed

lemma block_receipt_verifies:
  assumes e: "e = output_entity ty tx st" "e \<in> set outs" "length outs < 2 ^ 31"
    and ty: "ty = enum_transaction_subtype_send \<or> ty = enum_transaction_subtype_recv"
    and root: "cert_output_root_hash cert = get_root_hash H (map get_merkle_leaf outs)"
    and p: "calc_merkle_path H (map get_merkle_leaf outs) (get_merkle_leaf e) [] = (True, p)"
    and unit: "cert_hash_to_sign cert \<in> set units" "cert_hash_to_sign cert \<noteq> []" "length units < 2 ^ 31"
    and parent: "cert_justify_cert_hash parent = get_root_hash H units"
    and q: "calc_merkle_path H units (cert_hash_to_sign cert) [] = (True, q)"
      "cert_extend_data cert = serialize_to path_do_write q"
    and copy: "rd (wr tx) = Some (t, r)" "m_transaction_hash t = m_transaction_hash tx"
  shows "\<exists>c c'. cons_transaction_receipt wr rd tx (tx_receipt e p cert) = Some c \<and>
    set_commit_prove_with_parent_cert parent c = Some c' \<and> verify_cons_transaction H c' = Some True \<and>
    m_tx_subtype (m_tx c') =
      (if ty = enum_transaction_subtype_send then enum_transaction_subtype_recv else enum_transaction_subtype_confirm)"
proof -
  have 1: "prove_is_valid H (get_merkle_leaf e) (prove_cert cert 0 0 (serialize_to path_do_write p)) = Some True"
    using prove_of_path [OF p] e root by simp
  have 2: "prove_is_valid H (cert_hash_to_sign cert) (prove_cert parent 1 1 (serialize_to path_do_write q)) = Some True"
    using prove_of_path [OF q(1) unit(1-3)] parent by simp
  have d: "get_digest_str t = get_digest_str tx" using copy(2) by (simp add: get_digest_str_def)
  have "receipt_is_valid H (set_commit_prove_cert parent 1 1 (serialize_to path_do_write q) (tx_receipt e p cert)) = Some True"
    using 1 2 ty e(1)
    by (auto simp: receipt_is_valid_def set_commit_prove_cert_def tx_receipt_def prove_cert_path_eq prove_kind_defs
        is_send_tx_def is_recv_tx_def output_entity_def)
  then show ?thesis
    using ty copy(1) d q(2) e(1)
    by (auto simp: cons_transaction_receipt_def update_transation_def set_commit_prove_with_parent_cert_def
        verify_cons_transaction_def tx_receipt_def prove_cert_path_eq prove_kind_defs output_entity_def tx_subtype_defs
        set_commit_prove_cert_def Let_def get_digest_str_def)
qed

text \<open>
  A receipt made from a committed block is accepted: when the certificate of the unit carries
  the root over its outputs, its extension data the path of the unit in the table block, and the
  parent certificate the root over the units, then the consensus transaction built from an
  executed send or receive passes the verification, and its kind becomes receive or confirm.
\<close>

lemma receipt_of_block_verifies:
  assumes e: "e = output_entity ty tx st" "e \<in> set outs" "length outs < 2 ^ 31"
    and ty: "ty = enum_transaction_subtype_send \<or> ty = enum_transaction_subtype_recv"
    and root: "cert_output_root_hash cert = get_root_hash H (map get_merkle_leaf outs)"
    and p: "calc_merkle_path H (map get_merkle_leaf outs) (get_merkle_leaf e) [] = (True, p)"
    and unit: "cert_hash_to_sign cert \<in> set units" "cert_hash_to_sign cert \<noteq> []" "length units < 2 ^ 31"
    and parent: "cert_justify_cert_hash parent = get_root_hash H units"
    and q: "calc_merkle_path H units (cert_hash_to_sign cert) [] = (True, q)"
      "cert_extend_data cert = serialize_to path_do_write q"
    and copy: "rd (wr tx) = Some (t, r)" "m_transaction_hash t = m_transaction_hash tx"
  shows "\<exists>c c'. cons_transaction_receipt wr rd tx (tx_receipt e p cert) = Some c \<and>
    set_commit_prove_with_parent_cert parent c = Some c' \<and> verify_cons_transaction H c' = Some True \<and>
    m_tx_subtype (m_tx c') =
      (if ty = enum_transaction_subtype_send then enum_transaction_subtype_recv else enum_transaction_subtype_confirm)"
  using assms by (rule block_receipt_verifies)

lemma single_leaf_path: "leaf \<noteq> [] \<Longrightarrow> calc_merkle_path H [leaf] leaf [] = (True, [])"
  by (simp add: calc_merkle_path_def get_merkle_leafs_def calc_path_def path_loop.simps hash_leafs_def)

theorem receipt_of_block_verifies_witness:
  "let H = (\<lambda>_. 0); e = output_entity enum_transaction_subtype_send transaction_new [];
       cert = \<lparr>cert_clock = 0, cert_output_root_hash = get_root_hash H [get_merkle_leaf e], cert_justify_cert_hash = [],
               cert_hash_to_sign = ''u'', cert_extend_data = serialize_to path_do_write []\<rparr>;
       parent = cert\<lparr>cert_justify_cert_hash := get_root_hash H [''u'']\<rparr>
   in \<exists>c c'. cons_transaction_receipt (\<lambda>_. []) (\<lambda>_. Some (transaction_new, [])) transaction_new (tx_receipt e [] cert) = Some c \<and>
        set_commit_prove_with_parent_cert parent c = Some c' \<and> verify_cons_transaction H c' = Some True"
proof -
  let ?e = "output_entity enum_transaction_subtype_send transaction_new []"
  let ?cert = "\<lparr>cert_clock = 0, cert_output_root_hash = get_root_hash (\<lambda>_. 0) [get_merkle_leaf ?e],
      cert_justify_cert_hash = [], cert_hash_to_sign = ''u'', cert_extend_data = serialize_to path_do_write []\<rparr>"
  show ?thesis
    using receipt_of_block_verifies [of ?e enum_transaction_subtype_send transaction_new "[]" "[?e]" ?cert "\<lambda>_. 0" "[]"
        "[''u'']" "?cert\<lparr>cert_justify_cert_hash := get_root_hash (\<lambda>_. 0) [''u'']\<rparr>" "[]"
        "\<lambda>_. Some (transaction_new, [])" "\<lambda>_. []" transaction_new "[]"]
    by (auto simp: single_leaf_path Let_def)
qed

text \<open>
  A receipt with an unreadable proof path makes the verification throw instead of refusing
  it: a non-empty path of fewer than four bytes leaves the check through the exception of the
  stream, because the code only tests the number of bytes read.
\<close>

lemma short_prove_path_escapes:
  assumes "m_tx_subtype (m_tx c) = enum_transaction_subtype_recv" "m_receipt c = Some r"
    and "get_digest_str (m_tx c) = m_txhash (m_tx_key (m_tx_info r))"
    and "is_send_tx (m_tx_key (m_tx_info r))"
    and "m_tx_info_prove r = Some (prove_cert cert xprove_cert_class_self_cert xprove_cert_type_output_root path)"
    and "m_commit_prove r = Some commit" "path \<noteq> []" "length path < 4"
  shows "verify_cons_transaction H c = None"
proof -
  have "serialize_from (path_do_read []) path = None"
    using assms(8) by (simp add: serialize_from_def get_buffer_def get_u32_def get_uint_def)
  then have "prove_is_valid H o1 (prove_cert cert 0 0 path) = None" for o1
    using assms(7) by (simp add: prove_is_valid_def prove_cert_kind prove_kind_defs Let_def)
  then show ?thesis
    using assms(1-6) by (simp add: verify_cons_transaction_def receipt_is_valid_def prove_kind_defs)
qed

theorem short_prove_path_escapes_witness:
  "let cert = \<lparr>cert_clock = 0, cert_output_root_hash = [], cert_justify_cert_hash = [], cert_hash_to_sign = [],
               cert_extend_data = []\<rparr>;
       r = \<lparr>m_tx_info = output_entity enum_transaction_subtype_send transaction_new [],
            m_tx_info_prove = Some (prove_cert cert 0 0 ''x''), m_commit_prove = Some (prove_cert cert 0 0 [])\<rparr>
   in verify_cons_transaction (\<lambda>_. 0) (update_transation
        \<lparr>m_tx = transaction_new, m_receipt = Some r, m_is_confirmed = False, m_execute_state = []\<rparr>) = None"
proof -
  let ?cert = "\<lparr>cert_clock = 0, cert_output_root_hash = [], cert_justify_cert_hash = [], cert_hash_to_sign = [],
      cert_extend_data = []\<rparr>"
  let ?r = "\<lparr>m_tx_info = output_entity enum_transaction_subtype_send transaction_new [],
      m_tx_info_prove = Some (prove_cert ?cert 0 0 ''x''), m_commit_prove = Some (prove_cert ?cert 0 0 [])\<rparr>"
  show ?thesis
    unfolding Let_def
    by (rule short_prove_path_escapes [where path = "''x''" and r = ?r and cert = ?cert])
      (simp_all add: update_transation_def output_entity_def get_digest_str_def is_send_tx_def prove_kind_defs Let_def)
qed

end
