(* ===== verification/XBlock.thy ===== *)
theory XBlock
  imports XConsTx XAccount XPropertyLog
begin

text \<open>
  Blocks of an account chain: the packed kind word of \<open>xvheader_t\<close> (\<open>xbase/xvblock.h\<close>), the
  headers and certificates of \<open>xdata/src/xheader_cert.cpp\<close>, the parent certificate of a block
  (\<open>xdata/src/xblock.cpp\<close>), the body parameters of \<open>xdata/xblockbody.h\<close> and the empty blocks of
  \<open>xdata/src/xemptyblock.cpp\<close>.  The constructor of \<open>xvheader_t\<close>, the hash of a block and the test
  for a genesis block belong to the base library: a fresh header is the argument \<open>h0\<close>, and the
  block record carries the hash and the outcome of the test.
\<close>

unbundle bit_operations_syntax

section \<open>Headers\<close>

definition enum_xvblock_level_table :: u16 where "enum_xvblock_level_table = 1"
definition enum_xvblock_level_chain :: u16 where "enum_xvblock_level_chain = 4"
definition enum_xvblock_level_root :: u16 where "enum_xvblock_level_root = 5"
definition enum_xvblock_class_nil :: u16 where "enum_xvblock_class_nil = 1"
definition enum_xvblock_class_light :: u16 where "enum_xvblock_class_light = 2"
definition enum_xvblock_class_full :: u16 where "enum_xvblock_class_full = 3"
definition enum_xvblock_type_general :: u16 where "enum_xvblock_type_general = 0"
definition enum_xvblock_type_genesis :: u16 where "enum_xvblock_type_genesis = 1"
definition enum_xconsensus_flag_extend_cert :: u8 where "enum_xconsensus_flag_extend_cert = 4"

definition level_unit :: u16 where "level_unit = ucast enum_xvblock_level_unit"

lemmas block_kind_defs = enum_xvblock_level_table_def enum_xvblock_level_chain_def enum_xvblock_level_root_def
  enum_xvblock_class_nil_def enum_xvblock_class_light_def enum_xvblock_class_full_def
  enum_xvblock_type_general_def enum_xvblock_type_genesis_def level_unit_def enum_xvblock_level_unit_def

record xvheader =
  m_types :: u16
  m_chainid :: u32
  m_height :: u64
  m_weight :: u64
  hdr_account :: string
  m_last_block_hash :: string
  hdr_last_full_block_hash :: string
  hdr_last_full_block_height :: u64
  m_extra_data :: string

definition get_block_level :: "xvheader \<Rightarrow> u16" where
  "get_block_level h = drop_bit 12 (m_types h) AND 0x07"

definition get_block_class :: "xvheader \<Rightarrow> u16" where
  "get_block_class h = drop_bit 9 (m_types h) AND 0x07"

definition get_block_type :: "xvheader \<Rightarrow> u16" where
  "get_block_type h = drop_bit 2 (m_types h) AND 0x7F"

definition set_block_level :: "u16 \<Rightarrow> xvheader \<Rightarrow> xvheader" where
  "set_block_level l h = h\<lparr>m_types := (m_types h AND 0x8FFF) OR push_bit 12 l\<rparr>"

definition set_block_class :: "u16 \<Rightarrow> xvheader \<Rightarrow> xvheader" where
  "set_block_class c h = h\<lparr>m_types := (m_types h AND 0xF1FF) OR push_bit 9 c\<rparr>"

definition set_block_type :: "u16 \<Rightarrow> xvheader \<Rightarrow> xvheader" where
  "set_block_type t h = h\<lparr>m_types := (m_types h AND 0xFE03) OR push_bit 2 t\<rparr>"

definition set_last_full_block :: "string \<Rightarrow> u64 \<Rightarrow> xvheader \<Rightarrow> xvheader" where
  "set_last_full_block hash height h =
     h\<lparr>hdr_last_full_block_hash := hash, hdr_last_full_block_height := height\<rparr>"

definition is_lightunit :: "xvheader \<Rightarrow> bool" where
  "is_lightunit h \<longleftrightarrow> get_block_level h = level_unit \<and> get_block_class h = enum_xvblock_class_light"

definition is_fullunit :: "xvheader \<Rightarrow> bool" where
  "is_fullunit h \<longleftrightarrow> get_block_level h = level_unit \<and> get_block_class h = enum_xvblock_class_full"

definition is_emptyblock :: "xvheader \<Rightarrow> bool" where
  "is_emptyblock h \<longleftrightarrow> get_block_class h = enum_xvblock_class_nil"

record xblock_para =
  chainid :: u32
  block_level :: u16
  block_class :: u16
  block_type :: u16
  para_account :: string
  height :: u64
  last_block_hash :: string
  justify_block_hash :: string
  last_full_block_hash :: string
  last_full_block_height :: u64
  extra_data :: string

definition create_blockheader :: "xvheader \<Rightarrow> xblock_para \<Rightarrow> xvheader" where
  "create_blockheader h0 para =
     (let h = set_block_class (block_class para) (set_block_level (block_level para)
            (h0\<lparr>m_chainid := chainid para, hdr_account := para_account para, m_height := height para\<rparr>));
          h = h\<lparr>m_weight := 1\<rparr>;
          h = (if extra_data para \<noteq> [] then h\<lparr>m_extra_data := extra_data para\<rparr> else h)
      in if height para = 0
         then set_last_full_block [] 0
                ((set_block_type enum_xvblock_type_genesis h)\<lparr>m_last_block_hash := last_block_hash para\<rparr>)
         else set_last_full_block (last_full_block_hash para) (last_full_block_height para)
                ((set_block_type (block_type para) h)\<lparr>m_last_block_hash := last_block_hash para\<rparr>))"

definition create_lightunit_header :: "u32 \<Rightarrow> xvheader \<Rightarrow> string \<Rightarrow> u64 \<Rightarrow> string \<Rightarrow> string \<Rightarrow> string \<Rightarrow> u64 \<Rightarrow> xvheader" where
  "create_lightunit_header root_chainid h0 account hgt last_hash justify_hash full_hash full_height =
     create_blockheader h0 \<lparr>chainid = root_chainid, block_level = level_unit, block_class = enum_xvblock_class_light,
       block_type = enum_xvblock_type_general, para_account = account, height = hgt, last_block_hash = last_hash,
       justify_block_hash = justify_hash, last_full_block_hash = full_hash, last_full_block_height = full_height,
       extra_data = []\<rparr>"

definition create_fullunit_header :: "u32 \<Rightarrow> xvheader \<Rightarrow> string \<Rightarrow> u64 \<Rightarrow> string \<Rightarrow> string \<Rightarrow> string \<Rightarrow> u64 \<Rightarrow> xvheader" where
  "create_fullunit_header root_chainid h0 account hgt last_hash full_hash justify_hash full_height =
     create_blockheader h0 \<lparr>chainid = root_chainid, block_level = level_unit, block_class = enum_xvblock_class_full,
       block_type = enum_xvblock_type_general, para_account = account, height = hgt, last_block_hash = last_hash,
       justify_block_hash = justify_hash, last_full_block_hash = full_hash, last_full_block_height = full_height,
       extra_data = []\<rparr>"


section \<open>Certificates\<close>

text \<open>The part of \<open>xblockcert_t\<close> that the code of \<open>xdata\<close> uses on top of \<open>xvqcert\<close>.\<close>

record xblockcert =
  qcert :: xvqcert
  cert_viewid :: u64
  cert_consensus_flags :: u8
  cert_extend_cert :: bytes
  m_parent_cert :: "xvqcert option"
  m_cert_path :: "xmerkle_path_node list"

definition TOP_BEGIN_GMTIME :: u64 where "TOP_BEGIN_GMTIME = 1573189200"

definition get_gmtime :: "xblockcert \<Rightarrow> u64" where
  "get_gmtime c = cert_clock (qcert c) * 10 + TOP_BEGIN_GMTIME"

definition xvqcert_new :: xvqcert where
  "xvqcert_new = \<lparr>cert_clock = 0, cert_output_root_hash = [], cert_justify_cert_hash = [], cert_hash_to_sign = [],
     cert_extend_data = []\<rparr>"

definition create_blockcert :: "u64 \<Rightarrow> u8 \<Rightarrow> u64 \<Rightarrow> u64 \<Rightarrow> xblockcert" where
  "create_blockcert hgt flag viewid clock =
     (let c = \<lparr>qcert = xvqcert_new, cert_viewid = 0, cert_consensus_flags = 0, cert_extend_cert = [],
               m_parent_cert = None, m_cert_path = []\<rparr>
      in if hgt \<noteq> 0
         then (let c = c\<lparr>cert_viewid := viewid, qcert := (qcert c)\<lparr>cert_clock := clock\<rparr>\<rparr>
               in if flag \<noteq> 0 then c\<lparr>cert_consensus_flags := flag\<rparr> else c)
         else c)"

definition extend_data_serialize_from :: "bytes \<Rightarrow> xmerkle_path_node list \<Rightarrow> (xmerkle_path_node list \<times> bytes) option" where
  "extend_data_serialize_from s path = serialize_from (path_do_read path) s"

text \<open>The check of the parent certificate: it is read from the extension once and kept.  An
  unreadable path throws; a certificate that is not one is a null parent and the check fails.\<close>

definition check_parent_cert_and_path :: "(bytes \<Rightarrow> uint256) \<Rightarrow> (bytes \<Rightarrow> xvqcert option) \<Rightarrow> xblockcert
    \<Rightarrow> (bool \<times> xblockcert) option" where
  "check_parent_cert_and_path H rdc c =
     (if cert_consensus_flags c AND enum_xconsensus_flag_extend_cert = 0 then Some (True, c)
      else if cert_extend_cert c = [] \<or> cert_extend_data (qcert c) = [] then Some (False, c)
      else do {
        c \<leftarrow> (if m_parent_cert c = None
              then do {
                (path, _) \<leftarrow> extend_data_serialize_from (cert_extend_data (qcert c)) (m_cert_path c);
                Some (c\<lparr>m_parent_cert := rdc (cert_extend_cert c), m_cert_path := path\<rparr>) }
              else Some c);
        (case m_parent_cert c of
           None \<Rightarrow> Some (False, c)
         | Some parent \<Rightarrow>
             Some (validate_path H (cert_hash_to_sign (qcert c)) (cert_output_root_hash parent) (m_cert_path c), c)) })"


section \<open>Blocks\<close>

record xblock =
  blk_header :: xvheader
  blk_cert :: xblockcert
  blk_hash :: string
  blk_is_genesis :: bool
  blk_authenticated :: bool

definition set_parent_cert_and_path :: "(xvqcert \<Rightarrow> bytes) \<Rightarrow> xvqcert \<Rightarrow> xmerkle_path_node list \<Rightarrow> xblock \<Rightarrow> xblock" where
  "set_parent_cert_and_path wrc parent path b =
     (let c = blk_cert b
      in if cert_consensus_flags c AND enum_xconsensus_flag_extend_cert = 0 then b
         else if blk_authenticated b then b
         else b\<lparr>blk_cert := c\<lparr>cert_extend_cert := wrc parent,
                              qcert := (qcert c)\<lparr>cert_extend_data := serialize_to path_do_write path\<rparr>,
                              m_parent_cert := Some parent, m_cert_path := path\<rparr>,
                blk_authenticated := True\<rparr>)"

text \<open>Where the next block points as its last full block.\<close>

definition next_full_block :: "xblock \<Rightarrow> string \<times> u64" where
  "next_full_block prev =
     (if blk_is_genesis prev \<or> get_block_class (blk_header prev) = enum_xvblock_class_full
      then (blk_hash prev, m_height (blk_header prev))
      else (hdr_last_full_block_hash (blk_header prev), hdr_last_full_block_height (blk_header prev)))"

definition create_next_blockheader :: "xvheader \<Rightarrow> xblock \<Rightarrow> u16 \<Rightarrow> xvheader" where
  "create_next_blockheader h0 prev cls =
     (let p = blk_header prev; (full_hash, full_height) = next_full_block prev;
          h = set_block_level (get_block_level p)
                (h0\<lparr>m_chainid := m_chainid p, hdr_account := hdr_account p, m_height := m_height p + 1\<rparr>)
      in set_block_type (get_block_type p) (set_block_class cls
           (set_last_full_block full_hash full_height (h\<lparr>m_weight := 1, m_last_block_hash := blk_hash prev\<rparr>))))"

definition create_emptyblock :: "u32 \<Rightarrow> xvheader \<Rightarrow> string \<Rightarrow> u64 \<Rightarrow> u16 \<Rightarrow> string \<Rightarrow> string \<Rightarrow> u64 \<Rightarrow> u64 \<Rightarrow> string \<Rightarrow> u64 \<Rightarrow> u16
    \<Rightarrow> xvheader \<times> xblockcert" where
  "create_emptyblock root_chainid h0 account hgt level last_hash justify_hash viewid clock full_hash full_height ty =
     (create_blockheader h0 \<lparr>chainid = root_chainid, block_level = level, block_class = enum_xvblock_class_nil,
        block_type = ty, para_account = account, height = hgt, last_block_hash = last_hash,
        justify_block_hash = justify_hash, last_full_block_hash = full_hash, last_full_block_height = full_height,
        extra_data = []\<rparr>,
      create_blockcert hgt 0 viewid clock)"

definition create_genesis_emptyblock :: "u32 \<Rightarrow> string \<Rightarrow> xvheader \<Rightarrow> string \<Rightarrow> u16 \<Rightarrow> xvheader \<times> xblockcert" where
  "create_genesis_emptyblock root_chainid root_hash h0 account level =
     create_emptyblock root_chainid h0 account 0 level root_hash [] 0 0 [] 0 enum_xvblock_type_genesis"

definition create_next_emptyblock :: "u32 \<Rightarrow> xvheader \<Rightarrow> xblock \<Rightarrow> u16 \<Rightarrow> xvheader \<times> xblockcert" where
  "create_next_emptyblock root_chainid h0 prev ty =
     (let p = blk_header prev; (full_hash, full_height) = next_full_block prev
      in create_emptyblock root_chainid h0 (hdr_account p) (m_height p + 1) (get_block_level p) (blk_hash prev) []
           (cert_viewid (blk_cert prev) + 1) (cert_clock (qcert (blk_cert prev)) + 1) full_hash full_height ty)"

definition create_next_emptyblock_of_chain :: "u32 \<Rightarrow> xvheader \<Rightarrow> xblockchain2 \<Rightarrow> u16 \<Rightarrow> xvheader \<times> xblockcert" where
  "create_next_emptyblock_of_chain root_chainid h0 ch ty =
     create_emptyblock root_chainid h0 (m_account ch) (m_max_block_height ch + 1) (ucast (m_block_level ch))
       (m_last_state_block_hash ch) [] 1 1 (m_last_full_block_hash ch) (m_last_full_block_height ch) ty"


section \<open>The kind word\<close>

lemma kind_masks:
  "(7 :: u16) = mask 3" "(0x7F :: u16) = mask 7"
  "(0x8FFF :: u16) = NOT (push_bit 12 (mask 3))" "(0xF1FF :: u16) = NOT (push_bit 9 (mask 3))"
  "(0xFE03 :: u16) = NOT (push_bit 2 (mask 7))"
  by (simp_all add: mask_eq_exp_minus_1 push_bit_eq_mult)

lemma small_bit:
  assumes "bit (l :: u16) n" "unat l < 2 ^ k"
  shows "n < k"
proof (rule ccontr)
  assume "\<not> n < k"
  then have "unat l < 2 ^ n" using assms(2) by (meson le_less_trans less_le_trans linorder_not_less one_le_numeral power_increasing)
  then have "\<not> bit (unat l) n"
    by (metis bit_take_bit_iff less_irrefl take_bit_nat_eq_self)
  with assms(1) show False by (auto simp: bit_unsigned_iff dest: bit_imp_le_length)
qed

lemma small_fields: "bit (l :: u16) n \<Longrightarrow> l < 8 \<Longrightarrow> n < 3" "bit l n \<Longrightarrow> l < 128 \<Longrightarrow> n < 7"
  using small_bit [of l n 3] small_bit [of l n 7] by (simp_all add: word_less_nat_alt)

lemmas kind_field_defs = get_block_level_def get_block_class_def get_block_type_def
  set_block_level_def set_block_class_def set_block_type_def kind_masks

lemma level_fields [simp]:
  assumes "l < 8"
  shows "get_block_level (set_block_level l h) = l" "get_block_class (set_block_level l h) = get_block_class h"
    "get_block_type (set_block_level l h) = get_block_type h"
  using assms by (auto simp: kind_field_defs bit_simps intro!: bit_word_eqI) (use small_fields in fastforce)+

lemma class_fields [simp]:
  assumes "c < 8"
  shows "get_block_class (set_block_class c h) = c" "get_block_level (set_block_class c h) = get_block_level h"
    "get_block_type (set_block_class c h) = get_block_type h"
  using assms by (auto simp: kind_field_defs bit_simps intro!: bit_word_eqI) (use small_fields in fastforce)+

lemma type_fields [simp]:
  assumes "t < 128"
  shows "get_block_type (set_block_type t h) = t" "get_block_level (set_block_type t h) = get_block_level h"
    "get_block_class (set_block_type t h) = get_block_class h"
  using assms by (auto simp: kind_field_defs bit_simps intro!: bit_word_eqI) (use small_fields in fastforce)+

text \<open>
  The packed kind word of a header keeps its fields apart: a level and a class below 8 and a
  type below 128 are read back as they were set, and setting one of them leaves the other two
  alone.
\<close>

lemma kind_fields:
  assumes "l < 8" "c < 8" "t < 128"
  shows "get_block_level (set_block_level l h) = l \<and> get_block_class (set_block_level l h) = get_block_class h \<and>
      get_block_type (set_block_level l h) = get_block_type h \<and>
    get_block_class (set_block_class c h) = c \<and> get_block_level (set_block_class c h) = get_block_level h \<and>
      get_block_type (set_block_class c h) = get_block_type h \<and>
    get_block_type (set_block_type t h) = t \<and> get_block_level (set_block_type t h) = get_block_level h \<and>
      get_block_class (set_block_type t h) = get_block_class h"
  using assms by simp

definition vheader_new :: xvheader where
  "vheader_new = \<lparr>m_types = 0, m_chainid = 0, m_height = 0, m_weight = 0, hdr_account = [], m_last_block_hash = [],
     hdr_last_full_block_hash = [], hdr_last_full_block_height = 0, m_extra_data = []\<rparr>"

theorem kind_fields_witness:
  "get_block_level (set_block_level 7 vheader_new) = 7 \<and> get_block_class (set_block_class 3 vheader_new) = 3 \<and>
   get_block_type (set_block_type 100 vheader_new) = 100"
  using kind_fields [of 7 3 100 vheader_new] by simp


section \<open>The parent certificate of a unit\<close>

text \<open>
  C23 A unit of a committed table block proves its commitment: the parent certificate and path that
  the table block gives it pass the check of the unit's certificate at once, and again on a
  copy of the unit that has to read both back from the stored extension.
\<close>

theorem committed_unit_checks:
  assumes flags: "cert_consensus_flags (blk_cert b) AND enum_xconsensus_flag_extend_cert \<noteq> 0" "\<not> blk_authenticated b"
    and leaf: "cert_hash_to_sign (qcert (blk_cert b)) \<in> set units" "cert_hash_to_sign (qcert (blk_cert b)) \<noteq> []"
      "length units < 2 ^ 31"
    and root: "cert_output_root_hash parent = get_root_hash H units"
    and path: "calc_merkle_path H units (cert_hash_to_sign (qcert (blk_cert b))) [] = (True, path)"
    and wrc: "rdc (wrc parent) = Some parent" "wrc parent \<noteq> []"
  shows "let c = blk_cert (set_parent_cert_and_path wrc parent path b)
    in check_parent_cert_and_path H rdc c = Some (True, c) \<and>
       check_parent_cert_and_path H rdc (c\<lparr>m_parent_cert := None, m_cert_path := []\<rparr>) = Some (True, c)"
proof -
  have v: "length path \<le> 31" "validate_path H (cert_hash_to_sign (qcert (blk_cert b))) (get_root_hash H units) path"
    using block_path_validates [OF leaf, of H] path by auto
  have "length (path_do_write path) < 2 ^ 32" using v(1) by (simp add: length_path_write)
  then have r: "serialize_from (path_do_read []) (serialize_to path_do_write path @ []) = Some (path, [])"
    using path_read_write [of path "[]"] v(1)
    by (simp add: serialize_from_def serialize_to_def get_buffer_put [of _ "[]", simplified])
  have "serialize_to path_do_write path \<noteq> []" by (simp add: serialize_to_def)
  with r v(2) flags root wrc show ?thesis
    by (simp add: check_parent_cert_and_path_def set_parent_cert_and_path_def extend_data_serialize_from_def Let_def)
qed

definition sample_unit :: xblock where
  "sample_unit = \<lparr>blk_header = vheader_new,
     blk_cert = (create_blockcert 1 4 1 1)\<lparr>qcert := xvqcert_new\<lparr>cert_hash_to_sign := ''u''\<rparr>\<rparr>,
     blk_hash = ''h'', blk_is_genesis = False, blk_authenticated = False\<rparr>"

theorem committed_unit_checks_witness:
  "let parent = xvqcert_new\<lparr>cert_output_root_hash := get_root_hash (\<lambda>_. 0) [''u'']\<rparr>;
       c = blk_cert (set_parent_cert_and_path (\<lambda>_. ''p'') parent [] sample_unit)
   in check_parent_cert_and_path (\<lambda>_. 0) (\<lambda>_. Some parent) c = Some (True, c) \<and>
      check_parent_cert_and_path (\<lambda>_. 0) (\<lambda>_. Some parent) (c\<lparr>m_parent_cert := None, m_cert_path := []\<rparr>) = Some (True, c)"
  using committed_unit_checks [of sample_unit "[''u'']" "xvqcert_new\<lparr>cert_output_root_hash := get_root_hash (\<lambda>_. 0) [''u'']\<rparr>"
      "\<lambda>_. 0" "[]" "\<lambda>_. Some (xvqcert_new\<lparr>cert_output_root_hash := get_root_hash (\<lambda>_. 0) [''u'']\<rparr>)" "\<lambda>_. ''p''"]
    single_leaf_path [of "''u''" "\<lambda>_. 0"]
  by (simp add: sample_unit_def create_blockcert_def enum_xconsensus_flag_extend_cert_def Let_def)

end
