(* ===== verification/XLightUnit.thy ===== *)
theory XLightUnit
  imports XBlock
begin

text \<open>
  Light and full units (\<open>xdata/xlightunit.h\<close>, \<open>xdata/src/xlightunit.cpp\<close>,
  \<open>xdata/src/xfullunit.cpp\<close>) and what they do to the account chain (\<open>add_light_unit\<close>,
  \<open>add_full_unit\<close> and the \<open>update_state_by_*\<close> functions of \<open>xdata/src/xblockchain.cpp\<close>): from the
  result of an execution over the block parameters and the serialized output resource to the
  new account state.  The framing of a serialized object, its type tag and length, belongs to the
  base library and is a parameter of type \<open>unit_io\<close>.
\<close>

record unit_io =
  io_frame :: "bytes \<Rightarrow> bytes"
  io_unframe :: "bytes \<Rightarrow> bytes option"
  io_wr :: "xdataunit \<Rightarrow> bytes"
  io_rd :: "bytes \<Rightarrow> (xdataunit \<times> bytes) option"
  io_wr_log :: "xaccount_binlog \<Rightarrow> bytes"
  io_rd_log :: "bytes \<Rightarrow> (xaccount_binlog \<times> bytes) option"


section \<open>Results and block parameters\<close>

record xtransaction_result =
  m_balance_change :: i64
  pledge_change_tgas :: i64
  pledge_change_disk :: i64
  pledge_change_vote :: i64
  m_lock_balance_change :: i64
  m_lock_tgas_change :: i64
  m_unvote_num_change :: i64
  m_props :: "(string, string) omap"
  m_contract_txs :: "xcons_transaction list"
  m_native_property :: xnative_property
  m_prop_log :: "xaccount_binlog option"

definition transaction_result_new :: xtransaction_result where
  "transaction_result_new =
     \<lparr>m_balance_change = 0, pledge_change_tgas = 0, pledge_change_disk = 0, pledge_change_vote = 0,
      m_lock_balance_change = 0, m_lock_tgas_change = 0, m_unvote_num_change = 0, m_props = [], m_contract_txs = [],
      m_native_property = np_empty, m_prop_log = None\<rparr>"

record xlightunit_block_para =
  m_account_unconfirm_sendtx_num :: u32
  m_raw_txs :: "xcons_transaction list"
  m_tx_result :: xtransaction_result

definition block_para_new :: xlightunit_block_para where
  "block_para_new =
     \<lparr>m_account_unconfirm_sendtx_num = 0, m_raw_txs = [], m_tx_result = transaction_result_new\<rparr>"

definition set_transaction_result :: "xtransaction_result \<Rightarrow> xlightunit_block_para \<Rightarrow> xlightunit_block_para" where
  "set_transaction_result result para =
     para\<lparr>m_tx_result := result\<lparr>m_native_property :=
            copy_modify_objs_only (m_native_property (m_tx_result para)) (m_native_property result)\<rparr>\<rparr>"

definition set_one_input_tx :: "xcons_transaction \<Rightarrow> xlightunit_block_para \<Rightarrow> xlightunit_block_para" where
  "set_one_input_tx tx para = para\<lparr>m_raw_txs := m_raw_txs para @ [tx]\<rparr>"

definition set_input_txs :: "xcons_transaction list \<Rightarrow> xlightunit_block_para \<Rightarrow> xlightunit_block_para" where
  "set_input_txs txs para = para\<lparr>m_raw_txs := txs\<rparr>"

definition set_account_unconfirm_sendtx_num :: "u32 \<Rightarrow> xlightunit_block_para \<Rightarrow> xlightunit_block_para" where
  "set_account_unconfirm_sendtx_num n para = para\<lparr>m_account_unconfirm_sendtx_num := n\<rparr>"


section \<open>The output resource\<close>

record xlightunit_output_resource =
  out_balance_change :: i64
  out_pledge_tgas :: i64
  out_pledge_disk :: i64
  out_pledge_vote :: i64
  out_lock_balance_change :: i64
  out_lock_tgas_change :: i64
  out_unvote_num_change :: i64
  out_native_property :: xnative_property
  out_property_hash :: "(string, string) omap"
  out_unconfirm_sendtx_num :: u16
  m_prev_sendtx_confirmed_flag :: u8
  m_binlog :: "xaccount_binlog option"

definition output_resource_new :: xlightunit_output_resource where
  "output_resource_new =
     \<lparr>out_balance_change = 0, out_pledge_tgas = 0, out_pledge_disk = 0, out_pledge_vote = 0,
      out_lock_balance_change = 0, out_lock_tgas_change = 0, out_unvote_num_change = 0,
      out_native_property = np_empty, out_property_hash = [], out_unconfirm_sendtx_num = 0,
      m_prev_sendtx_confirmed_flag = 0, m_binlog = None\<rparr>"

definition cons_subtype :: "xcons_transaction \<Rightarrow> u8" where
  "cons_subtype c = m_tx_subtype (m_tx c)"

definition send_tx_num :: "xlightunit_block_para \<Rightarrow> u32" where
  "send_tx_num para =
     of_nat (length (filter (\<lambda>c. cons_subtype c = enum_transaction_subtype_send) (m_raw_txs para))
       + length (m_contract_txs (m_tx_result para)))"

definition confirm_tx_num :: "xlightunit_block_para \<Rightarrow> u32" where
  "confirm_tx_num para =
     of_nat (length (filter (\<lambda>c. cons_subtype c = enum_transaction_subtype_confirm) (m_raw_txs para)))"

text \<open>The counts are 32-bit and the stored number is 16-bit: the assignment and the later sum
  both cut to 16 bits.\<close>

definition output_resource :: "xlightunit_block_para \<Rightarrow> xlightunit_output_resource" where
  "output_resource para =
     (let r = m_tx_result para;
          n = ucast (m_account_unconfirm_sendtx_num para - confirm_tx_num para) :: u16;
          flag = (if n = 0 then 1 else 0);
          n = n + ucast (send_tx_num para)
      in \<lparr>out_balance_change = m_balance_change r, out_pledge_tgas = pledge_change_tgas r,
          out_pledge_disk = pledge_change_disk r, out_pledge_vote = pledge_change_vote r,
          out_lock_balance_change = m_lock_balance_change r, out_lock_tgas_change = m_lock_tgas_change r,
          out_unvote_num_change = m_unvote_num_change r,
          out_native_property = add_property np_empty (m_native_property r),
          out_property_hash = m_props r, out_unconfirm_sendtx_num = n,
          m_prev_sendtx_confirmed_flag = flag, m_binlog = m_prop_log r\<rparr>)"

definition is_prev_sendtx_confirmed :: "xlightunit_output_resource \<Rightarrow> bool" where
  "is_prev_sendtx_confirmed r \<longleftrightarrow> m_prev_sendtx_confirmed_flag r = 1"

definition map_deserialize_simple :: "(bytes \<Rightarrow> ('k::linorder \<times> bytes) option) \<Rightarrow> (bytes \<Rightarrow> ('v \<times> bytes) option)
    \<Rightarrow> ('k, 'v) omap \<Rightarrow> bytes \<Rightarrow> (('k, 'v) omap \<times> bytes) option" where
  "map_deserialize_simple rk rv c s =
     do { (n, r) \<leftarrow> get_u32 s; get_loop (unat n) (get_pair rk rv) (\<lambda>(k, v). om_emplace k v) c r }"

definition resource_do_write :: "unit_io \<Rightarrow> heap \<Rightarrow> xlightunit_output_resource \<Rightarrow> bytes" where
  "resource_do_write io h r =
     put_u64 (out_balance_change r) @ put_u64 (out_pledge_tgas r) @ put_u64 (out_pledge_disk r) @
     put_u64 (out_pledge_vote r) @ put_u64 (out_lock_balance_change r) @ put_u64 (out_lock_tgas_change r) @
     put_u64 (out_unvote_num_change r) @ serialize_to (np_do_write (io_wr io) h) (out_native_property r) @
     put_map put_string put_string (out_property_hash r) @ put_u16 (out_unconfirm_sendtx_num r) @
     put_u8 (m_prev_sendtx_confirmed_flag r) @ put_ptr (io_wr_log io) (m_binlog r)"

definition resource_do_read :: "unit_io \<Rightarrow> heap \<Rightarrow> xlightunit_output_resource \<Rightarrow> bytes
    \<Rightarrow> ((heap \<times> xlightunit_output_resource) \<times> bytes) option" where
  "resource_do_read io h r s = do {
     (bal, s) \<leftarrow> get_u64 s; (tg, s) \<leftarrow> get_u64 s; (dk, s) \<leftarrow> get_u64 s; (vt, s) \<leftarrow> get_u64 s;
     (lb, s) \<leftarrow> get_u64 s; (lt, s) \<leftarrow> get_u64 s; (uv, s) \<leftarrow> get_u64 s;
     ((h', np), s) \<leftarrow> serialize_from (np_do_read (io_rd io) h (out_native_property r)) s;
     (ph, s) \<leftarrow> map_deserialize_simple get_string get_string (out_property_hash r) s;
     (un, s) \<leftarrow> get_u16 s; (fl, s) \<leftarrow> get_u8 s; (log, s) \<leftarrow> get_ptr (io_rd_log io) (m_binlog r) s;
     Some ((h', \<lparr>out_balance_change = bal, out_pledge_tgas = tg, out_pledge_disk = dk, out_pledge_vote = vt,
       out_lock_balance_change = lb, out_lock_tgas_change = lt, out_unvote_num_change = uv,
       out_native_property = np, out_property_hash = ph, out_unconfirm_sendtx_num = un,
       m_prev_sendtx_confirmed_flag = fl, m_binlog = log\<rparr>), s) }"

definition resource_property_hash :: "xlightunit_output_resource \<Rightarrow> string \<Rightarrow> string" where
  "resource_property_hash r n = (case om_find (out_property_hash r) n of Some v \<Rightarrow> v | None \<Rightarrow> [])"


section \<open>Light units\<close>

text \<open>The loaded body of a light unit.\<close>

record xlightunit_body =
  m_tx_infos :: "xlightunit_tx_info list"
  m_tx_output_resource :: xlightunit_output_resource

record xlightunit_block = xblock +
  lu_inputs :: "xlightunit_input_entity list"
  lu_outputs :: "xlightunit_output_entity list"
  lu_output_resource :: bytes
  m_cache_body :: "xlightunit_body option"

text \<open>The entities and the output resource of the parameters.  A receive or confirm without a
  receipt is a null dereference.\<close>

definition input_entity_of_tx :: "xutl \<Rightarrow> xcons_transaction \<Rightarrow> xlightunit_input_entity option" where
  "input_entity_of_tx U c =
     (if cons_subtype c = enum_transaction_subtype_recv \<or> cons_subtype c = enum_transaction_subtype_confirm
      then do {
        r \<leftarrow> m_receipt c; p \<leftarrow> m_tx_info_prove r; cert \<leftarrow> m_prove_cert p;
        Some (input_entity (cons_subtype c) (m_tx c) False
                (get_tx_exec_status U (m_exec_state (m_tx_info r))) (cert_clock cert)) }
      else Some (input_entity (cons_subtype c) (m_tx c) False enum_xunit_tx_exec_status_success 0))"

definition contract_input_entity :: "xcons_transaction \<Rightarrow> xlightunit_input_entity" where
  "contract_input_entity c = input_entity (cons_subtype c) (m_tx c) True enum_xunit_tx_exec_status_success 0"

definition output_entity_of_tx :: "xcons_transaction \<Rightarrow> xlightunit_output_entity" where
  "output_entity_of_tx c = output_entity (cons_subtype c) (m_tx c) (m_execute_state c)"

definition get_blockbody_from_para :: "xutl \<Rightarrow> unit_io \<Rightarrow> heap \<Rightarrow> xlightunit_block_para
    \<Rightarrow> (xlightunit_input_entity list \<times> xlightunit_output_entity list \<times> bytes) option" where
  "get_blockbody_from_para U io h para = do {
     ins \<leftarrow> those (map (input_entity_of_tx U) (m_raw_txs para));
     Some (ins @ map contract_input_entity (m_contract_txs (m_tx_result para)),
           map output_entity_of_tx (m_raw_txs para @ m_contract_txs (m_tx_result para)),
           io_frame io (resource_do_write io h (output_resource para))) }"

definition create_lightunit :: "xutl \<Rightarrow> unit_io \<Rightarrow> u32 \<Rightarrow> xvheader \<Rightarrow> heap \<Rightarrow> string \<Rightarrow> u64 \<Rightarrow> string \<Rightarrow> string \<Rightarrow> u64 \<Rightarrow> u64
    \<Rightarrow> string \<Rightarrow> u64 \<Rightarrow> xlightunit_block_para \<Rightarrow> xlightunit_block option" where
  "create_lightunit U io root_chainid h0 h account hgt last_hash justify_hash viewid clock full_hash full_height para = do {
     (ins, outs, res) \<leftarrow> get_blockbody_from_para U io h para;
     Some \<lparr>blk_header = create_lightunit_header root_chainid h0 account hgt last_hash justify_hash full_hash full_height,
       blk_cert = create_blockcert hgt enum_xconsensus_flag_extend_cert viewid clock, blk_hash = [],
       blk_is_genesis = (hgt = 0), blk_authenticated = (hgt = 0),
       lu_inputs = ins, lu_outputs = outs, lu_output_resource = res, m_cache_body = None\<rparr> }"

definition create_next_lightunit :: "xutl \<Rightarrow> unit_io \<Rightarrow> u32 \<Rightarrow> xvheader \<Rightarrow> heap \<Rightarrow> xlightunit_block_para \<Rightarrow> xblock
    \<Rightarrow> xlightunit_block option" where
  "create_next_lightunit U io root_chainid h0 h para prev =
     (let p = blk_header prev; (full_hash, full_height) = next_full_block prev
      in create_lightunit U io root_chainid h0 h (hdr_account p) (m_height p + 1) (blk_hash prev) []
           (cert_viewid (blk_cert prev) + 1) (cert_clock (qcert (blk_cert prev)) + 1) full_hash full_height para)"

definition create_next_lightunit_of_chain :: "xutl \<Rightarrow> unit_io \<Rightarrow> u32 \<Rightarrow> xvheader \<Rightarrow> heap \<Rightarrow> xlightunit_block_para
    \<Rightarrow> xblockchain2 \<Rightarrow> xlightunit_block option" where
  "create_next_lightunit_of_chain U io root_chainid h0 h para ch =
     create_lightunit U io root_chainid h0 h (m_account ch) (m_max_block_height ch + 1) (m_last_state_block_hash ch) []
       1 1 (m_last_full_block_hash ch) (m_last_full_block_height ch) para"

definition create_genesis_lightunit :: "xutl \<Rightarrow> unit_io \<Rightarrow> u32 \<Rightarrow> string \<Rightarrow> xvheader \<Rightarrow> heap \<Rightarrow> string \<Rightarrow> xtransaction
    \<Rightarrow> xtransaction_result \<Rightarrow> xlightunit_block option" where
  "create_genesis_lightunit U io root_chainid root_hash h0 h account genesis_tx result =
     create_lightunit U io root_chainid h0 h account 0 root_hash [] 0 0 [] 0
       (set_transaction_result result (set_one_input_tx (cons_transaction genesis_tx) block_para_new))"

definition tx_info_of :: "xlightunit_input_entity \<times> xlightunit_output_entity \<Rightarrow> xlightunit_tx_info" where
  "tx_info_of p =
     \<lparr>info_tx_key = in_tx_key (fst p), info_inputtx_props = m_inputtx_props (fst p), info_raw_tx = in_raw_tx (fst p),
      info_exec_state = m_exec_state (snd p)\<rparr>"

text \<open>Loading pairs the entities by index over the inputs; fewer outputs than inputs are an access
  out of range, further outputs are not looked at.\<close>

definition load_body :: "unit_io \<Rightarrow> heap \<Rightarrow> xlightunit_block \<Rightarrow> (heap \<times> xlightunit_block) option" where
  "load_body io h b =
     (if length (lu_outputs b) < length (lu_inputs b) then None
      else do {
        content \<leftarrow> io_unframe io (lu_output_resource b);
        ((h', r), _) \<leftarrow> resource_do_read io h output_resource_new content;
        Some (h', b\<lparr>m_cache_body := Some \<lparr>m_tx_infos = map tx_info_of (zip (lu_inputs b) (lu_outputs b)),
                                          m_tx_output_resource = r\<rparr>\<rparr>) })"

definition try_load_body :: "unit_io \<Rightarrow> heap \<Rightarrow> xlightunit_block \<Rightarrow> (heap \<times> xlightunit_block) option" where
  "try_load_body io h b = (if m_cache_body b = None then load_body io h b else Some (h, b))"

fun send_trans_loop :: "xlightunit_tx_info list \<Rightarrow> u64 \<Rightarrow> uint256 \<Rightarrow> (u64 \<times> uint256) option" where
  "send_trans_loop [] n hash = Some (n, hash)"
| "send_trans_loop (i # is) n hash =
     (if is_self_tx (info_tx_key i) \<or> is_send_tx (info_tx_key i)
      then (case info_raw_tx i of
              None \<Rightarrow> None
            | Some t \<Rightarrow>
                if n < get_tx_nonce t then send_trans_loop is (get_tx_nonce t) (m_transaction_hash t)
                else send_trans_loop is n hash)
      else send_trans_loop is n hash)"

definition get_send_trans_info :: "xlightunit_body \<Rightarrow> uint256 \<Rightarrow> (bool \<times> u64 \<times> uint256) option" where
  "get_send_trans_info c hash = do {
     (n, hash) \<leftarrow> send_trans_loop (m_tx_infos c) 0 hash; Some (n \<noteq> 0, n, hash) }"

fun recv_trans_loop :: "xlightunit_tx_info list \<Rightarrow> u64 \<Rightarrow> uint256 \<Rightarrow> (u64 \<times> uint256) option" where
  "recv_trans_loop [] n hash = Some (n, hash)"
| "recv_trans_loop (i # is) n hash =
     (if is_recv_tx (info_tx_key i)
      then (case info_raw_tx i of None \<Rightarrow> None | Some t \<Rightarrow> recv_trans_loop is (n + 1) (m_transaction_hash t))
      else recv_trans_loop is n hash)"

definition get_recv_trans_info :: "xlightunit_body \<Rightarrow> uint256 \<Rightarrow> (bool \<times> u64 \<times> uint256) option" where
  "get_recv_trans_info c hash = do {
     (n, hash) \<leftarrow> recv_trans_loop (m_tx_infos c) 0 hash; Some (n \<noteq> 0, n, hash) }"

definition burn_of_entity :: "xutl \<Rightarrow> xlightunit_output_entity \<Rightarrow> i64" where
  "burn_of_entity U e =
     (if is_self_tx (m_tx_key e) \<or> is_confirm_tx (m_tx_key e) then ucast (get_used_deposit U (m_exec_state e)) else 0)
       + get_beacon_service_fee U (m_exec_state e) + get_self_burn_balance U (m_exec_state e)"

definition get_burn_balance_change :: "xutl \<Rightarrow> xlightunit_block \<Rightarrow> i64" where
  "get_burn_balance_change U b = fold (\<lambda>e burn. burn + burn_of_entity U e) (lu_outputs b) 0"


section \<open>Receipts of a light unit\<close>

definition calc_output_merkle_path :: "(bytes \<Rightarrow> uint256) \<Rightarrow> xlightunit_block \<Rightarrow> bytes
    \<Rightarrow> bool \<times> xmerkle_path_node list" where
  "calc_output_merkle_path H b leaf =
     (if cert_output_root_hash (qcert (blk_cert b)) = [] then (False, [])
      else calc_merkle_path H (map get_merkle_leaf (lu_outputs b)) leaf [])"

text \<open>The inner option is the null pointer the code returns, the outer one an escaping exception.\<close>

definition create_txreceipt :: "(bytes \<Rightarrow> uint256) \<Rightarrow> (xtransaction \<Rightarrow> bytes) \<Rightarrow> (bytes \<Rightarrow> (xtransaction \<times> bytes) option)
    \<Rightarrow> xlightunit_block \<Rightarrow> xtransaction \<Rightarrow> xlightunit_output_entity \<Rightarrow> xcons_transaction option option" where
  "create_txreceipt H wr rd b tx txinfo =
     (if cert_extend_cert (blk_cert b) = [] \<or> cert_extend_data (qcert (blk_cert b)) = [] then Some None
      else case calc_output_merkle_path H b (get_merkle_leaf txinfo) of
             (False, _) \<Rightarrow> Some None
           | (True, path) \<Rightarrow>
               map_option Some (cons_transaction_receipt wr rd tx (tx_receipt txinfo path (qcert (blk_cert b)))))"

definition create_one_txreceipt :: "(bytes \<Rightarrow> uint256) \<Rightarrow> (xtransaction \<Rightarrow> bytes) \<Rightarrow> (bytes \<Rightarrow> (xtransaction \<times> bytes) option)
    \<Rightarrow> xlightunit_block \<Rightarrow> xtransaction \<Rightarrow> xcons_transaction option option" where
  "create_one_txreceipt H wr rd b tx =
     (case find (\<lambda>e. m_txhash (m_tx_key e) = get_digest_str tx) (lu_outputs b) of
        Some e \<Rightarrow> create_txreceipt H wr rd b tx e
      | None \<Rightarrow> Some None)"

text \<open>One pass over the entities by index: sends give receipts of the first list, receives of the
  second.  The output of an index is only looked up for these two kinds.\<close>

fun txreceipts_loop :: "(bytes \<Rightarrow> uint256) \<Rightarrow> (xtransaction \<Rightarrow> bytes) \<Rightarrow> (bytes \<Rightarrow> (xtransaction \<times> bytes) option)
    \<Rightarrow> xlightunit_block \<Rightarrow> xlightunit_input_entity list \<Rightarrow> xlightunit_output_entity list
    \<Rightarrow> xcons_transaction option list \<times> xcons_transaction option list
    \<Rightarrow> (xcons_transaction option list \<times> xcons_transaction option list) option" where
  "txreceipts_loop H wr rd b [] es acc = Some acc"
| "txreceipts_loop H wr rd b (i # is) es (sends, recvs) =
     (if is_send_tx (in_tx_key i)
      then do { tx \<leftarrow> in_raw_tx i; e \<leftarrow> (if es = [] then None else Some (hd es));
                c \<leftarrow> create_txreceipt H wr rd b tx e;
                txreceipts_loop H wr rd b is (tl es) (sends @ [c], recvs) }
      else if is_recv_tx (in_tx_key i)
      then do { tx \<leftarrow> in_raw_tx i; e \<leftarrow> (if es = [] then None else Some (hd es));
                c \<leftarrow> create_txreceipt H wr rd b tx e;
                txreceipts_loop H wr rd b is (tl es) (sends, recvs @ [c]) }
      else txreceipts_loop H wr rd b is (tl es) (sends, recvs))"

definition create_txreceipts :: "(bytes \<Rightarrow> uint256) \<Rightarrow> (xtransaction \<Rightarrow> bytes) \<Rightarrow> (bytes \<Rightarrow> (xtransaction \<times> bytes) option)
    \<Rightarrow> xlightunit_block \<Rightarrow> (xcons_transaction option list \<times> xcons_transaction option list) option" where
  "create_txreceipts H wr rd b = txreceipts_loop H wr rd b (lu_inputs b) (lu_outputs b) ([], [])"

fun send_txreceipts_loop :: "(bytes \<Rightarrow> uint256) \<Rightarrow> (xtransaction \<Rightarrow> bytes) \<Rightarrow> (bytes \<Rightarrow> (xtransaction \<times> bytes) option)
    \<Rightarrow> xlightunit_block \<Rightarrow> xlightunit_input_entity list \<Rightarrow> xlightunit_output_entity list
    \<Rightarrow> xcons_transaction option list \<Rightarrow> xcons_transaction option list option" where
  "send_txreceipts_loop H wr rd b [] es sends = Some sends"
| "send_txreceipts_loop H wr rd b (i # is) es sends =
     (if is_send_tx (in_tx_key i)
      then do { tx \<leftarrow> in_raw_tx i; e \<leftarrow> (if es = [] then None else Some (hd es));
                c \<leftarrow> create_txreceipt H wr rd b tx e;
                send_txreceipts_loop H wr rd b is (tl es) (sends @ [c]) }
      else send_txreceipts_loop H wr rd b is (tl es) sends)"

definition create_send_txreceipts :: "(bytes \<Rightarrow> uint256) \<Rightarrow> (xtransaction \<Rightarrow> bytes) \<Rightarrow> (bytes \<Rightarrow> (xtransaction \<times> bytes) option)
    \<Rightarrow> xlightunit_block \<Rightarrow> xcons_transaction option list option" where
  "create_send_txreceipts H wr rd b = send_txreceipts_loop H wr rd b (lu_inputs b) (lu_outputs b) []"


section \<open>Full units\<close>

record xfullunit_input =
  m_first_unit_height :: u64
  m_first_unit_hash :: string

definition fullunit_input_do_write :: "xfullunit_input \<Rightarrow> bytes" where
  "fullunit_input_do_write i = put_u64 (m_first_unit_height i) @ put_string (m_first_unit_hash i)"

definition fullunit_input_do_read :: "bytes \<Rightarrow> (xfullunit_input \<times> bytes) option" where
  "fullunit_input_do_read s = do {
     (n, s) \<leftarrow> get_u64 s; (hash, s) \<leftarrow> get_string s; Some (\<lparr>m_first_unit_height = n, m_first_unit_hash = hash\<rparr>, s) }"

record xfullunit_output =
  full_account_state :: xaccount_mstate2
  m_account_propertys :: "(string, string) omap"

definition fullunit_output_do_write :: "(xdataunit \<Rightarrow> bytes) \<Rightarrow> heap \<Rightarrow> xfullunit_output \<Rightarrow> bytes" where
  "fullunit_output_do_write wr h u =
     serialize_to (mstate_do_write wr h) (full_account_state u) @ put_map put_string put_string (m_account_propertys u)"

definition fullunit_output_do_read :: "(bytes \<Rightarrow> (xdataunit \<times> bytes) option) \<Rightarrow> heap \<Rightarrow> xfullunit_output \<Rightarrow> bytes
    \<Rightarrow> ((heap \<times> xfullunit_output) \<times> bytes) option" where
  "fullunit_output_do_read rd h u s = do {
     ((h', m), s) \<leftarrow> serialize_from (mstate_do_read rd h (full_account_state u)) s;
     (ps, s) \<leftarrow> get_map get_string get_string (m_account_propertys u) s;
     Some ((h', \<lparr>full_account_state = m, m_account_propertys = ps\<rparr>), s) }"

record xfullunit_block = xblock +
  fu_input :: xfullunit_input
  fu_output :: xfullunit_output

definition create_fullunit :: "u32 \<Rightarrow> xvheader \<Rightarrow> string \<Rightarrow> u64 \<Rightarrow> string \<Rightarrow> string \<Rightarrow> u64 \<Rightarrow> u64 \<Rightarrow> string \<Rightarrow> u64
    \<Rightarrow> xfullunit_input \<Rightarrow> xfullunit_output \<Rightarrow> xfullunit_block" where
  "create_fullunit root_chainid h0 account hgt last_hash justify_hash viewid clock full_hash full_height inp outp =
     \<lparr>blk_header = create_fullunit_header root_chainid h0 account hgt last_hash full_hash justify_hash full_height,
      blk_cert = create_blockcert hgt enum_xconsensus_flag_extend_cert viewid clock, blk_hash = [],
      blk_is_genesis = (hgt = 0), blk_authenticated = (hgt = 0), fu_input = inp, fu_output = outp\<rparr>"

definition create_next_fullunit :: "u32 \<Rightarrow> xvheader \<Rightarrow> xfullunit_input \<Rightarrow> xfullunit_output \<Rightarrow> xblock \<Rightarrow> xfullunit_block" where
  "create_next_fullunit root_chainid h0 inp outp prev =
     (let p = blk_header prev; (full_hash, full_height) = next_full_block prev
      in create_fullunit root_chainid h0 (hdr_account p) (m_height p + 1) (blk_hash prev) []
           (cert_viewid (blk_cert prev) + 1) (cert_clock (qcert (blk_cert prev)) + 1) full_hash full_height inp outp)"

definition create_next_fullunit_io :: "u32 \<Rightarrow> xvheader \<Rightarrow> xfullunit_input \<Rightarrow> xfullunit_output \<Rightarrow> xblock \<Rightarrow> xfullunit_block" where
  "create_next_fullunit_io root_chainid h0 inp outp prev =
     (let p = blk_header prev
      in create_fullunit root_chainid h0 (hdr_account p) (m_height p + 1) (blk_hash prev) []
           (cert_viewid (blk_cert prev) + 1) (cert_clock (qcert (blk_cert prev)) + 1)
           (hdr_last_full_block_hash p) (hdr_last_full_block_height p) inp outp)"

definition create_next_fullunit_of_chain :: "u32 \<Rightarrow> xvheader \<Rightarrow> xblockchain2 \<Rightarrow> xfullunit_block" where
  "create_next_fullunit_of_chain root_chainid h0 ch =
     create_fullunit root_chainid h0 (m_account ch) (m_max_block_height ch + 1) (m_last_state_block_hash ch) [] 1 1
       (m_last_full_block_hash ch) (m_last_full_block_height ch)
       \<lparr>m_first_unit_height = m_last_full_block_height ch, m_first_unit_hash = m_last_full_block_hash ch\<rparr>
       \<lparr>full_account_state = m_account_state ch, m_account_propertys = []\<rparr>"


section \<open>Blocks on the account chain\<close>

text \<open>A block of any class, as the chain receives it.\<close>

datatype any_block = LightUnit xlightunit_block | FullUnit xfullunit_block | OtherBlock xblock

fun base_block :: "any_block \<Rightarrow> xblock" where
  "base_block (LightUnit b) = xblock.truncate b"
| "base_block (FullUnit b) = xblock.truncate b"
| "base_block (OtherBlock b) = b"

text \<open>The changes of the output resource, in the order of \<open>add_light_unit\<close>.\<close>

definition resource_changes :: "i64 \<Rightarrow> xlightunit_output_resource \<Rightarrow> xaccount_mstate2 \<Rightarrow> xaccount_mstate2" where
  "resource_changes burn r m =
     (let m = set_balance_change (out_balance_change r) m;
          m = set_burn_balance_change burn m;
          m = set_pledge_tgas_balance_change (out_pledge_tgas r) m;
          m = set_pledge_disk_balance_change (out_pledge_disk r) m;
          m = set_pledge_vote_balance_change (out_pledge_vote r) m;
          m = set_lock_balance_change (out_lock_balance_change r) m;
          m = set_lock_tgas_change (out_lock_tgas_change r) m;
          m = set_unvote_number_change (out_unvote_num_change r) m;
          m = m\<lparr>m_unconfirm_sendtx_num := out_unconfirm_sendtx_num r\<rparr>;
          m = set_propertys_hash_change (out_property_hash r) m
      in set_native_property_change (out_native_property r) m)"

definition note_send :: "u64 \<Rightarrow> uint256 \<Rightarrow> xaccount_mstate2 \<Rightarrow> xaccount_mstate2" where
  "note_send number hash m = m\<lparr>m_latest_send_trans_number := number, m_latest_send_trans_hash := hash\<rparr>"

definition note_recv :: "u64 \<Rightarrow> uint256 \<Rightarrow> xaccount_mstate2 \<Rightarrow> xaccount_mstate2" where
  "note_recv number hash m =
     m\<lparr>m_latest_recv_trans_number := m_latest_recv_trans_number m + number, m_latest_recv_trans_hash := hash\<rparr>"

definition add_light_unit :: "xutl \<Rightarrow> unit_io \<Rightarrow> heap \<Rightarrow> any_block \<Rightarrow> xblockchain2 \<Rightarrow> (heap \<times> any_block \<times> xblockchain2) option" where
  "add_light_unit U io h blk ch =
     (case blk of
        LightUnit b \<Rightarrow> do {
          (h, b) \<leftarrow> try_load_body io h b;
          c \<leftarrow> m_cache_body b;
          let m = resource_changes (get_burn_balance_change U b) (m_tx_output_resource c) (m_account_state ch);
          (has_send, number, hash) \<leftarrow> get_send_trans_info c 0;
          let m = (if has_send then note_send number hash m else m);
          (has_recv, number, hash) \<leftarrow> get_recv_trans_info c hash;
          let m = (if has_recv then note_recv number hash m else m);
          Some (h, LightUnit b, ch\<lparr>m_account_state := m\<rparr>) }
      | _ \<Rightarrow> None)"

definition add_full_unit :: "any_block \<Rightarrow> xblockchain2 \<Rightarrow> xblockchain2 option" where
  "add_full_unit blk ch =
     (case blk of
        FullUnit b \<Rightarrow>
          Some (ch\<lparr>m_account_state := full_account_state (fu_output b), m_last_full_block_height := m_height (blk_header b),
                   m_last_full_block_hash := blk_hash b\<rparr>)
      | _ \<Rightarrow> None)"

definition update_last_block_state :: "xutl \<Rightarrow> unit_io \<Rightarrow> heap \<Rightarrow> any_block \<Rightarrow> xblockchain2
    \<Rightarrow> (heap \<times> any_block \<times> xblockchain2) option" where
  "update_last_block_state U io h blk ch =
     (if is_lightunit (blk_header (base_block blk)) then add_light_unit U io h blk ch
      else if is_fullunit (blk_header (base_block blk)) then do { ch \<leftarrow> add_full_unit blk ch; Some (h, blk, ch) }
      else Some (h, blk, ch))"

definition update_state_by_genesis_block :: "xutl \<Rightarrow> unit_io \<Rightarrow> heap \<Rightarrow> any_block \<Rightarrow> xblockchain2
    \<Rightarrow> (heap \<times> any_block \<times> xblockchain2) option" where
  "update_state_by_genesis_block U io h blk ch = do {
     let b = base_block blk;
     let ch = (if m_account_create_time (m_account_state ch) = 0 \<and> get_block_class (blk_header b) \<noteq> enum_xvblock_class_nil
               then ch\<lparr>m_account_state := (m_account_state ch)\<lparr>m_account_create_time := get_gmtime (blk_cert b)\<rparr>\<rparr> else ch);
     (h, blk, ch) \<leftarrow> (if m_last_state_block_height ch = 0
        then do { (h, blk, ch) \<leftarrow> update_last_block_state U io h blk ch;
                  Some (h, blk, ch\<lparr>m_last_state_block_height := m_height (blk_header b), m_last_state_block_hash := blk_hash b\<rparr>) }
        else Some (h, blk, ch));
     Some (h, blk, if m_last_full_block_height ch = 0
                   then ch\<lparr>m_last_full_block_height := m_height (blk_header b), m_last_full_block_hash := blk_hash b\<rparr>
                   else ch) }"

definition update_state_by_next_height_block :: "xutl \<Rightarrow> unit_io \<Rightarrow> heap \<Rightarrow> any_block \<Rightarrow> xblockchain2
    \<Rightarrow> (bool \<times> heap \<times> any_block \<times> xblockchain2) option" where
  "update_state_by_next_height_block U io h blk ch =
     (let b = base_block blk
      in if m_last_state_block_height ch + 1 \<noteq> m_height (blk_header b) \<or>
            (m_last_state_block_hash ch \<noteq> m_last_block_hash (blk_header b) \<and> 2 \<le> m_height (blk_header b))
         then Some (False, h, blk, ch)
         else do {
           let ch = (if m_height (blk_header b) = 1 \<and> m_account_create_time (m_account_state ch) = 0
                     then ch\<lparr>m_account_state := (m_account_state ch)\<lparr>m_account_create_time := get_gmtime (blk_cert b)\<rparr>\<rparr> else ch);
           (h, blk, ch) \<leftarrow> update_last_block_state U io h blk ch;
           Some (True, h, blk, ch\<lparr>m_last_state_block_height := m_height (blk_header b), m_last_state_block_hash := blk_hash b\<rparr>) })"

definition update_state_by_full_block :: "xutl \<Rightarrow> unit_io \<Rightarrow> heap \<Rightarrow> any_block \<Rightarrow> xblockchain2
    \<Rightarrow> (bool \<times> heap \<times> any_block \<times> xblockchain2) option" where
  "update_state_by_full_block U io h blk ch =
     (let b = base_block blk
      in if get_block_class (blk_header b) \<noteq> enum_xvblock_class_full then Some (False, h, blk, ch)
         else do {
           (h, blk, ch) \<leftarrow> update_last_block_state U io h blk ch;
           Some (True, h, blk, ch\<lparr>m_last_state_block_height := m_height (blk_header b), m_last_state_block_hash := blk_hash b\<rparr>) })"

section \<open>Reading a table into a used heap\<close>

definition np_bound :: "heap \<Rightarrow> xnative_property \<Rightarrow> bool" where
  "np_bound h np \<longleftrightarrow> om_inv (m_objs np) \<and> (\<forall>n a. om_find (m_objs np) n = Some a \<longrightarrow> a < length h)"

lemma np_inv_is_bound: "np_inv h np \<Longrightarrow> np_bound h np"
  using np_inv_bound by (auto simp: np_bound_def np_inv_def)

lemma np_read_extends:
  assumes "get_loop n (get_pair get_string rd) np_read_item (h, np) s = Some ((h', np'), t)" "np_bound h np"
  shows "(\<exists>e. h' = h @ e) \<and> np_bound h' np'"
  using assms
proof (induction n arbitrary: h np s)
  case (Suc n)
  obtain x u r where x: "get_pair get_string rd s = Some ((x, u), r)"
      and l: "get_loop n (get_pair get_string rd) np_read_item (np_read_item (x, u) (h, np)) r = Some ((h', np'), t)"
    using Suc.prems(1) by (auto split: bind_splits)
  have "np_bound (h @ [u]) (np\<lparr>m_objs := om_set x (length h) (m_objs np)\<rparr>)"
    using Suc.prems(2) by (auto simp: np_bound_def om_inv_set omap_simps less_Suc_eq split: if_splits)
  moreover have "np_read_item (x, u) (h, np) = (h @ [u], np\<lparr>m_objs := om_set x (length h) (m_objs np)\<rparr>)"
    by (simp add: np_read_item_def)
  ultimately have "(\<exists>e. h' = (h @ [u]) @ e) \<and> np_bound h' np'"
    using Suc.IH l by metis
  then show ?case by auto
qed simp

lemma np_read_at:
  assumes codec: "\<And>u t. u \<in> set hx \<Longrightarrow> rd (wr u @ t) = Some (u, t)"
    and d: "np_bound hx d" "length (m_objs d) < 2 ^ 32" "list_all (\<lambda>p. str_ok (fst p)) (m_objs d)"
  shows "\<exists>h' np'. np_do_read rd h np_empty (np_do_write wr hx d @ s) = Some ((h', np'), s) \<and>
    (\<exists>e. h' = h @ e) \<and> np_bound h' np' \<and> np_view h' np' = np_view hx d"
proof -
  have b: "list_all (\<lambda>p. snd p < length hx \<and> str_ok (fst p)) (m_objs d)"
    using d(1,3) om_in_find by (fastforce simp: np_bound_def list_all_iff)
  obtain h' np' where r: "get_loop (length (m_objs d)) (get_pair get_string rd) np_read_item (h, np_empty)
        (concat (map (np_put_item wr hx) (m_objs d)) @ s) = Some ((h', np'), s)"
      "\<forall>x. np_view h' np' x =
        (case om_find (m_objs d) x of None \<Rightarrow> np_view h np_empty x | Some a \<Rightarrow> Some (hx ! a))"
    using np_read_loop [OF codec _ b, where ?np0.0 = np_empty and ?h0.0 = h and s = s] d(1)
    by (auto simp: np_bound_def np_empty_def)
  have "np_view h' np' x = np_view hx d x" for x
    using r(2) d(1)
    by (cases "om_find (m_objs d) x") (auto simp: np_view_def np_empty_def deref_def np_bound_def)
  moreover have "(\<exists>e. h' = h @ e) \<and> np_bound h' np'"
    by (rule np_read_extends [OF r(1)]) (simp add: np_bound_def np_empty_def om_inv_def)
  ultimately show ?thesis
    using r(1) d(2) by (auto simp: np_do_read_def np_do_write_def unat_of_nat)
qed

lemma om_find_fold_set:
  "om_inv m \<Longrightarrow> om_find (fold (\<lambda>(n, a). om_set n a) m c) x =
     (case om_find m x of Some a \<Rightarrow> Some a | None \<Rightarrow> om_find c x)"
proof (induction m arbitrary: c)
  case (Cons p m)
  obtain k v where p: "p = (k, v)" by (cases p)
  have "om_inv m" "om_find m k = None"
    using Cons.prems by (auto simp: om_inv_def p om_find_None_iff)
  moreover have "om_find (p # m) x = (if x = k then Some v else om_find m x)" by (simp add: p om_find_def)
  ultimately show ?case
    using Cons.IH [of "om_set k v c"] by (auto simp: p omap_simps split: option.splits)
qed (simp add: om_find_def)

lemma add_property_view:
  assumes "np_bound h np" "np_bound (h @ e) d"
  shows "np_view (h @ e) (add_property np d) = np_view h np ++ np_view (h @ e) d"
proof
  fix x
  show "np_view (h @ e) (add_property np d) x = (np_view h np ++ np_view (h @ e) d) x"
    using assms om_find_fold_set [of "m_objs d" "m_objs np" x]
    by (cases "om_find (m_objs d) x"; cases "om_find (m_objs np) x")
      (auto simp: np_view_def add_property_def np_bound_def deref_def map_add_def nth_append intro: trans_less_add1)
qed


section \<open>The output resource read back\<close>

definition resource_fits :: "unit_io \<Rightarrow> heap \<Rightarrow> xlightunit_output_resource \<Rightarrow> bool" where
  "resource_fits io h r \<longleftrightarrow>
     np_bound h (out_native_property r) \<and> length (m_objs (out_native_property r)) < 2 ^ 32 \<and>
     list_all (\<lambda>p. str_ok (fst p)) (m_objs (out_native_property r)) \<and>
     length (np_do_write (io_wr io) h (out_native_property r)) < 2 ^ 32 \<and>
     om_inv (out_property_hash r) \<and> length (out_property_hash r) < 2 ^ 32 \<and>
     list_all (\<lambda>p. str_ok (fst p) \<and> str_ok (snd p)) (out_property_hash r)"

text \<open>The documented behaviour of the framework: an object is read back from its own bytes.\<close>

definition io_reads_back :: "unit_io \<Rightarrow> heap \<Rightarrow> xaccount_binlog option \<Rightarrow> bool" where
  "io_reads_back io h log \<longleftrightarrow>
     (\<forall>b. io_unframe io (io_frame io b) = Some b) \<and>
     (\<forall>u \<in> set h. \<forall>t. io_rd io (io_wr io u @ t) = Some (u, t)) \<and>
     (\<forall>l t. log = Some l \<longrightarrow> io_rd_log io (io_wr_log io l @ t) = Some (l, t))"

lemma map_simple_put:
  assumes "list_all (\<lambda>p. str_ok (fst p) \<and> str_ok (snd p)) m" "length m < 2 ^ 32" "om_inv m"
  shows "map_deserialize_simple get_string get_string [] (put_map put_string put_string m @ s) = Some (m, s)"
  using assms fold_om_emplace_append [of "[]" m]
  by (simp add: map_deserialize_simple_def put_map_def unat_of_nat strstr.p.get_loop_put)

lemma get_put_ptr: "(\<And>l. p = Some l \<Longrightarrow> rd (wr l @ s) = Some (l, s)) \<Longrightarrow> get_ptr rd None (put_ptr wr p @ s) = Some (p, s)"
  by (cases p) (simp_all add: get_ptr_def put_ptr_def)

lemma resource_read_at:
  assumes fits: "resource_fits io hx r" and io: "io_reads_back io hx (m_binlog r)"
  shows "\<exists>h' np'. resource_do_read io h output_resource_new (resource_do_write io hx r @ s) =
      Some ((h', r\<lparr>out_native_property := np'\<rparr>), s) \<and>
    (\<exists>e. h' = h @ e) \<and> np_bound h' np' \<and> np_view h' np' = np_view hx (out_native_property r)"
proof -
  let ?d = "out_native_property r"
  obtain h' np' where r: "np_do_read (io_rd io) h np_empty (np_do_write (io_wr io) hx ?d @ []) = Some ((h', np'), [])"
      and v: "\<exists>e. h' = h @ e" "np_bound h' np'" "np_view h' np' = np_view hx ?d"
    using np_read_at [of hx "io_rd io" "io_wr io" ?d h "[]"] fits io
    by (auto simp: resource_fits_def io_reads_back_def)
  have "serialize_from (np_do_read (io_rd io) h np_empty) (serialize_to (np_do_write (io_wr io) hx) ?d @ t) =
      Some ((h', np'), t)" for t
    using r fits by (simp add: serialize_from_def serialize_to_def get_buffer_put resource_fits_def)
  then have "resource_do_read io h output_resource_new (resource_do_write io hx r @ s) =
      Some ((h', r\<lparr>out_native_property := np'\<rparr>), s)"
    using fits map_simple_put [of "out_property_hash r"] io get_put_ptr [of "m_binlog r" "io_rd_log io" "io_wr_log io" s]
    by (simp add: resource_do_read_def resource_do_write_def output_resource_new_def resource_fits_def io_reads_back_def)
  with v show ?thesis by blast
qed


section \<open>A unit applied by another node\<close>

definition raw_present :: "xlightunit_input_entity \<Rightarrow> bool" where
  "raw_present i \<longleftrightarrow>
     (is_self_tx (in_tx_key i) \<or> is_send_tx (in_tx_key i) \<or> is_recv_tx (in_tx_key i) \<longrightarrow> in_raw_tx i \<noteq> None)"

lemma input_entity_raw: "raw_present (input_entity ty tx c st clk)"
  by (simp add: raw_present_def input_entity_def is_self_tx_def is_send_tx_def is_recv_tx_def)

lemma those_length: "those xs = Some ys \<Longrightarrow> length ys = length xs"
  by (induction xs arbitrary: ys) (auto split: option.splits)

lemma those_all: "those (map f xs) = Some ys \<Longrightarrow> (\<And>x y. f x = Some y \<Longrightarrow> P y) \<Longrightarrow> list_all P ys"
  by (induction xs arbitrary: ys) (auto split: option.splits)

lemma blockbody_shape:
  assumes "get_blockbody_from_para U io h para = Some (ins, outs, res)"
  shows "length outs = length ins" "list_all raw_present ins"
    "res = io_frame io (resource_do_write io h (output_resource para))"
proof -
  obtain ys where y: "those (map (input_entity_of_tx U) (m_raw_txs para)) = Some ys"
      "ins = ys @ map contract_input_entity (m_contract_txs (m_tx_result para))"
      "outs = map output_entity_of_tx (m_raw_txs para @ m_contract_txs (m_tx_result para))"
      "res = io_frame io (resource_do_write io h (output_resource para))"
    using assms by (auto simp: get_blockbody_from_para_def split: bind_splits)
  have "raw_present i" if "input_entity_of_tx U c = Some i" for c i
    using that by (auto simp: input_entity_of_tx_def input_entity_raw split: if_splits bind_splits)
  then have "list_all raw_present ys" using those_all [OF y(1)] by blast
  then show "list_all raw_present ins"
    by (auto simp: y contract_input_entity_def input_entity_raw list_all_iff)
  show "length outs = length ins" using those_length [OF y(1)] by (simp add: y)
  show "res = io_frame io (resource_do_write io h (output_resource para))" by (simp add: y)
qed

lemma send_loop_total:
  "list_all raw_present is \<Longrightarrow> \<exists>p. send_trans_loop (map tx_info_of (zip is es)) n hash = Some p"
  by (induction "is" es arbitrary: n hash rule: list_induct2') (auto simp: raw_present_def tx_info_of_def split: option.splits)

lemma recv_loop_total:
  "list_all raw_present is \<Longrightarrow> \<exists>p. recv_trans_loop (map tx_info_of (zip is es)) n hash = Some p"
  by (induction "is" es arbitrary: n hash rule: list_induct2') (auto simp: raw_present_def tx_info_of_def split: option.splits)

lemma created_unit_loads:
  assumes b: "create_lightunit U io cid h0 hx account hgt lh jh vid clk fh fhgt para = Some b"
    and fits: "resource_fits io hx (output_resource para)" "io_reads_back io hx (m_binlog (output_resource para))"
  shows "\<exists>h' np'. try_load_body io h b = Some (h', b\<lparr>m_cache_body :=
        Some \<lparr>m_tx_infos = map tx_info_of (zip (lu_inputs b) (lu_outputs b)),
              m_tx_output_resource = (output_resource para)\<lparr>out_native_property := np'\<rparr>\<rparr>\<rparr>) \<and>
      (\<exists>e. h' = h @ e) \<and> np_bound h' np' \<and> np_view h' np' = np_view hx (out_native_property (output_resource para)) \<and>
      list_all raw_present (lu_inputs b)"
proof -
  obtain ins outs res where g: "get_blockbody_from_para U io hx para = Some (ins, outs, res)"
      and f: "lu_inputs b = ins" "lu_outputs b = outs" "lu_output_resource b = res" "m_cache_body b = None"
    using b by (auto simp: create_lightunit_def split: bind_splits)
  obtain h' np' where r: "resource_do_read io h output_resource_new (resource_do_write io hx (output_resource para) @ []) =
      Some ((h', (output_resource para)\<lparr>out_native_property := np'\<rparr>), [])"
      and v: "\<exists>e. h' = h @ e" "np_bound h' np'" "np_view h' np' = np_view hx (out_native_property (output_resource para))"
    using resource_read_at [OF fits, of h "[]"] by blast
  show ?thesis
    using r v blockbody_shape [OF g] fits(2)
    by (auto simp: try_load_body_def load_body_def f io_reads_back_def)
qed

lemma delta_resource:
  assumes "np_inv hx (m_native_property res)"
  shows "out_native_property (output_resource (set_transaction_result res para)) =
    copy_modify_objs_only np_empty (m_native_property res)"
  using assms fold_om_set_append [of "[]" "m_modify_objs (m_native_property res)"]
  by (simp add: output_resource_def set_transaction_result_def copy_modify_objs_only_def add_property_def np_empty_def
      np_inv_def Let_def)

definition result_applied :: "xtransaction_result \<Rightarrow> i64 \<Rightarrow> xaccount_mstate2 \<Rightarrow> xaccount_mstate2 \<Rightarrow> bool" where
  "result_applied res burn m m' \<longleftrightarrow>
     m_account_balance m' = m_account_balance m + m_balance_change res \<and>
     m_account_burn_balance m' = m_account_burn_balance m + burn \<and>
     pledge_tgas m' = pledge_tgas m + pledge_change_tgas res \<and>
     pledge_disk m' = pledge_disk m + pledge_change_disk res \<and>
     pledge_vote m' = pledge_vote m + pledge_change_vote res \<and>
     m_account_lock_balance m' = m_account_lock_balance m + m_lock_balance_change res \<and>
     m_account_lock_tgas m' = m_account_lock_tgas m + m_lock_tgas_change res \<and>
     m_account_unvote_num m' = m_account_unvote_num m + m_unvote_num_change res \<and>
     m_account_create_time m' = m_account_create_time m"

lemmas mstate_change_defs = set_balance_change_def set_burn_balance_change_def set_pledge_tgas_balance_change_def
  set_pledge_disk_balance_change_def set_pledge_vote_balance_change_def set_lock_balance_change_def
  set_lock_tgas_change_def set_unvote_number_change_def set_propertys_hash_change_def set_native_property_change_def

lemma native_change:
  "mstate_native_property (set_native_property_change np m) = add_property (mstate_native_property m) np"
  by (cases "m_objs np = []") (simp_all add: set_native_property_change_def add_property_def)

lemma result_applied_resource:
  "result_applied res burn m (resource_changes burn ((output_resource (set_transaction_result res para))\<lparr>out_native_property := np\<rparr>) m)"
  by (simp add: result_applied_def resource_changes_def mstate_change_defs output_resource_def
      set_transaction_result_def Let_def)

lemma resource_changes_native [simp]:
  "mstate_native_property (resource_changes burn r m) = add_property (mstate_native_property m) (out_native_property r)"
  unfolding resource_changes_def Let_def native_change by (simp add: mstate_change_defs)

lemma resource_changes_unconfirm [simp]:
  "m_unconfirm_sendtx_num (resource_changes burn r m) = out_unconfirm_sendtx_num r"
  by (simp add: resource_changes_def mstate_change_defs Let_def)

text \<open>After the resource only the transaction counters and hashes change.\<close>

lemma note_other [simp]:
  "mstate_native_property (note_send n x m) = mstate_native_property m"
  "mstate_native_property (note_recv n x m) = mstate_native_property m"
  "m_unconfirm_sendtx_num (note_send n x m) = m_unconfirm_sendtx_num m"
  "m_unconfirm_sendtx_num (note_recv n x m) = m_unconfirm_sendtx_num m"
  "result_applied res burn m0 (note_send n x m) = result_applied res burn m0 m"
  "result_applied res burn m0 (note_recv n x m) = result_applied res burn m0 m"
  by (simp_all add: note_send_def note_recv_def result_applied_def)

lemma add_light_unit_state:
  assumes "try_load_body io h b = Some (h', b')" "m_cache_body b' = Some c"
    and "send_trans_loop (m_tx_infos c) 0 0 = Some (sn, sh)" "recv_trans_loop (m_tx_infos c) 0 sh = Some (rn, rh)"
  shows "add_light_unit U io h (LightUnit b) ch = Some (h', LightUnit b', ch\<lparr>m_account_state :=
      (if rn \<noteq> 0 then note_recv rn rh else id) ((if sn \<noteq> 0 then note_send sn sh else id)
        (resource_changes (get_burn_balance_change U b') (m_tx_output_resource c) (m_account_state ch)))\<rparr>)"
  using assms by (simp add: add_light_unit_def get_send_trans_info_def get_recv_trans_info_def Let_def)

text \<open>
  A node that did not execute a unit arrives at the executing node's account state.  The
  executing node runs any sequence of native property operations on its table, puts the result
  into the block parameters and serializes the unit; another node whose table has the same content
  loads the unit on top of its own objects and applies it.  The application succeeds, the table
  then has exactly the executed content, and balance, burned amount, pledges, locks and vote
  number change by the executed amounts.
\<close>

lemma replica_applies_execution:
  assumes exec: "np_inv h0 np0" "m_modify_objs np0 = []" "np_run ops (h0, np0) = (hx, m_native_property res)"
    and para: "para = set_transaction_result res para0"
    and b: "create_lightunit U io cid hdr hx account hgt lh jh vid clk fh fhgt para = Some b"
    and fits: "resource_fits io hx (output_resource para)" "io_reads_back io hx (m_prop_log res)"
    and replica: "np_bound h (mstate_native_property (m_account_state ch))"
      "np_view h (mstate_native_property (m_account_state ch)) = np_view h0 np0"
  shows "\<exists>h' b' ch'. add_light_unit U io h (LightUnit b) ch = Some (h', LightUnit b', ch') \<and>
    np_view h' (mstate_native_property (m_account_state ch')) = np_view hx (m_native_property res) \<and>
    result_applied res (get_burn_balance_change U b) (m_account_state ch) (m_account_state ch') \<and>
    m_unconfirm_sendtx_num (m_account_state ch') = out_unconfirm_sendtx_num (output_resource para)"
proof -
  let ?m = "m_account_state ch"
  have log: "m_binlog (output_resource para) = m_prop_log res"
    by (simp add: para output_resource_def set_transaction_result_def Let_def)
  obtain h' np' where l: "try_load_body io h b = Some (h', b\<lparr>m_cache_body :=
        Some \<lparr>m_tx_infos = map tx_info_of (zip (lu_inputs b) (lu_outputs b)),
              m_tx_output_resource = (output_resource para)\<lparr>out_native_property := np'\<rparr>\<rparr>\<rparr>)"
      and v: "\<exists>e. h' = h @ e" "np_bound h' np'" "np_view h' np' = np_view hx (out_native_property (output_resource para))"
      and raw: "list_all raw_present (lu_inputs b)"
    using created_unit_loads [OF b fits(1) fits(2) [folded log], of h] by blast
  obtain e where e: "h' = h @ e" using v(1) by blast
  have "np_view h' (add_property (mstate_native_property ?m) np') = np_view h0 np0 ++ np_view h' np'"
    using add_property_view [OF replica(1) v(2) [unfolded e]] replica(2) by (simp add: e)
  also have "\<dots> = np_view hx (m_native_property res)"
    using np_delta_view [OF exec] v(3) delta_resource [OF np_run_inv [OF exec], of para0] by (simp add: para)
  finally have view: "np_view h' (add_property (mstate_native_property ?m) np') = np_view hx (m_native_property res)" .
  obtain sn sh where s: "send_trans_loop (map tx_info_of (zip (lu_inputs b) (lu_outputs b))) 0 0 = Some (sn, sh)"
    using send_loop_total [OF raw] by (metis surj_pair)
  obtain rn rh where r: "recv_trans_loop (map tx_info_of (zip (lu_inputs b) (lu_outputs b))) 0 sh = Some (rn, rh)"
    using recv_loop_total [OF raw] by (metis surj_pair)
  have burn: "get_burn_balance_change U (b\<lparr>m_cache_body := c\<rparr>) = get_burn_balance_change U b" for c
    by (simp add: get_burn_balance_change_def)
  show ?thesis
    using add_light_unit_state [OF l, of _ sn sh rn rh U ch] s r view
    by (simp add: burn para result_applied_resource)
qed

definition sample_io :: unit_io where
  "sample_io = \<lparr>io_frame = (\<lambda>b. b), io_unframe = Some, io_wr = tagged_write, io_rd = tagged_read,
     io_wr_log = account_binlog_do_write, io_rd_log = account_binlog_do_read\<rparr>"

definition sample_np :: xnative_property where
  "sample_np = \<lparr>m_objs = [(''@1'', 0), (''@2'', 1)], m_modify_objs = [(''@2'', 1)]\<rparr>"

definition sample_result :: xtransaction_result where
  "sample_result = transaction_result_new\<lparr>m_balance_change := - 5, m_native_property := sample_np\<rparr>"

definition sample_chain :: xblockchain2 where
  "sample_chain = (blockchain_new ''a'')\<lparr>m_account_state := mstate_new\<lparr>m_account_balance := 100,
     mstate_native_property := \<lparr>m_objs = [(''@1'', 1)], m_modify_objs = []\<rparr>\<rparr>\<rparr>"

definition sample_light_unit :: xlightunit_block where
  "sample_light_unit = the (create_lightunit sample_utl sample_io 0 vheader_new [XString ''7'', XDeque [''v'']] ''a'' 1 ''h''
     [] 1 1 ''h'' 0 (set_transaction_result sample_result (set_one_input_tx (cons_transaction transaction_new) block_para_new)))"

theorem replica_applies_execution_witness:
  "\<exists>h' b' ch'. add_light_unit sample_utl sample_io [XDeque [], XString ''7''] (LightUnit sample_light_unit) sample_chain =
      Some (h', LightUnit b', ch') \<and>
    np_view h' (mstate_native_property (m_account_state ch')) = np_view [XString ''7'', XDeque [''v'']] sample_np \<and>
    result_applied sample_result (get_burn_balance_change sample_utl sample_light_unit)
      (m_account_state sample_chain) (m_account_state ch')"
proof -
  let ?para = "set_transaction_result sample_result (set_one_input_tx (cons_transaction transaction_new) block_para_new)"
  let ?np0 = "\<lparr>m_objs = [(''@1'', 0)], m_modify_objs = []\<rparr>"
  have run: "np_run [DequePushBack ''@2'' ''v''] ([XString ''7''], ?np0) =
      ([XString ''7'', XDeque [''v'']], m_native_property sample_result)"
    by (simp add: native_deque_push_back_def deque_get_def property_get_def om_find_def np_make_def
        property_set_def xdeque_push_back_def sample_result_def sample_np_def)
  have inv: "np_inv [XString ''7''] ?np0" by (simp add: np_inv_def om_inv_def)
  have made: "create_lightunit sample_utl sample_io 0 vheader_new [XString ''7'', XDeque [''v'']] ''a'' 1 ''h''
     [] 1 1 ''h'' 0 ?para = Some sample_light_unit"
    by (simp add: sample_light_unit_def create_lightunit_def get_blockbody_from_para_def set_transaction_result_def
        set_one_input_tx_def block_para_new_def input_entity_of_tx_def cons_subtype_def cons_transaction_def
        update_transation_def Let_def tx_subtype_defs)
  have nat: "out_native_property (output_resource ?para) = copy_modify_objs_only np_empty sample_np"
    using delta_resource [of "[XString ''7'', XDeque [''v'']]" sample_result] np_run_inv [OF inv _ run]
    by (simp add: sample_result_def)
  have fits: "resource_fits sample_io [XString ''7'', XDeque [''v'']] (output_resource ?para)"
    unfolding resource_fits_def nat
    by (simp add: np_bound_def copy_modify_objs_only_def np_empty_def sample_np_def om_find_def om_inv_def str_ok_def
        np_do_write_def np_put_item_def sample_io_def tagged_write_def put_string_def xdeque_do_write_def
        put_uint_defs output_resource_def set_transaction_result_def sample_result_def transaction_result_new_def Let_def)
  have io: "io_reads_back sample_io [XString ''7'', XDeque [''v'']] (m_prop_log sample_result)"
    by (simp add: io_reads_back_def sample_io_def sample_result_def transaction_result_new_def tagged_read_def
        tagged_write_def xstring_do_read_def xstring_do_write_def xdeque_do_read_write str_ok_def)
  have replica: "np_bound [XDeque [], XString ''7''] (mstate_native_property (m_account_state sample_chain))"
      "np_view [XDeque [], XString ''7''] (mstate_native_property (m_account_state sample_chain)) = np_view [XString ''7''] ?np0"
    by (auto simp: np_bound_def sample_chain_def om_inv_def om_find_def np_view_def deref_def fun_eq_iff)
  show ?thesis
    using replica_applies_execution [OF inv _ run refl made fits io replica] by (auto simp: sample_result_def)
qed

end
