(* ===== verification/XChainState.thy ===== *)
theory XChainState
  imports XLightUnit
begin

text \<open>
  What the units of \<open>XLightUnit\<close> guarantee along an account chain: the number of unconfirmed
  sends, the nonce of the last send, the order in which blocks are accepted, the pointer to the
  last full block, full units as checkpoints, and the receipts of a committed unit.
\<close>

section \<open>Unconfirmed sends\<close>

text \<open>
  C25 The number of unconfirmed sends in a unit is the number before, less the confirmed ones,
  plus all new sends, contract-created ones included, as long as it fits its 16 bits; and the unit
  is marked as having all earlier sends confirmed exactly if every one of them is confirmed.
\<close>

theorem unconfirmed_count:
  fixes para
  defines "c \<equiv> length (filter (\<lambda>t. cons_subtype t = enum_transaction_subtype_confirm) (m_raw_txs para))"
    and "s \<equiv> length (filter (\<lambda>t. cons_subtype t = enum_transaction_subtype_send) (m_raw_txs para))
               + length (m_contract_txs (m_tx_result para))"
    and "n \<equiv> unat (m_account_unconfirm_sendtx_num para)"
  assumes "c \<le> n" "n < 2 ^ 16" "n - c + s < 2 ^ 16"
  shows "unat (out_unconfirm_sendtx_num (output_resource para)) = n - c + s \<and>
    (is_prev_sendtx_confirmed (output_resource para) \<longleftrightarrow> c = n)"
proof -
  let ?n = "m_account_unconfirm_sendtx_num para"
  have c: "confirm_tx_num para = of_nat c" and s: "send_tx_num para = of_nat s"
    by (simp_all add: confirm_tx_num_def send_tx_num_def c_def s_def)
  have "unat (?n - of_nat c) = n - c"
    using assms(4,5) by (simp add: unat_sub word_le_nat_alt unat_of_nat n_def)
  then have 1: "unat (ucast (?n - of_nat c) :: u16) = n - c"
    using assms(5) by (simp add: unsigned_ucast_eq take_bit_nat_eq_self)
  have 2: "unat (ucast (of_nat s :: u32) :: u16) = s"
    using assms(6) by (simp add: unsigned_ucast_eq unat_of_nat take_bit_nat_eq_self)
  show ?thesis
    using 1 2 assms(4,6)
    by (auto simp: output_resource_def is_prev_sendtx_confirmed_def Let_def c s unat_word_ariths word_unat_eq_iff)
qed

definition sample_cons :: "u8 \<Rightarrow> xcons_transaction" where
  "sample_cons ty = \<lparr>m_tx = transaction_new\<lparr>m_tx_subtype := ty\<rparr>, m_receipt = None, m_is_confirmed = False, m_execute_state = []\<rparr>"

theorem unconfirmed_count_witness:
  "let para = \<lparr>m_account_unconfirm_sendtx_num = 1,
       m_raw_txs = [sample_cons enum_transaction_subtype_confirm, sample_cons enum_transaction_subtype_send],
       m_tx_result = transaction_result_new\<lparr>m_contract_txs := [sample_cons enum_transaction_subtype_send]\<rparr>\<rparr>
   in unat (out_unconfirm_sendtx_num (output_resource para)) = 2 \<and> is_prev_sendtx_confirmed (output_resource para)"
  using unconfirmed_count [of "\<lparr>m_account_unconfirm_sendtx_num = 1,
       m_raw_txs = [sample_cons enum_transaction_subtype_confirm, sample_cons enum_transaction_subtype_send],
       m_tx_result = transaction_result_new\<lparr>m_contract_txs := [sample_cons enum_transaction_subtype_send]\<rparr>\<rparr>"]
  by (simp add: sample_cons_def cons_subtype_def tx_subtype_defs Let_def)


section \<open>The nonce of the last send\<close>

definition own_send :: "xlightunit_tx_info \<Rightarrow> bool" where
  "own_send i \<longleftrightarrow> is_self_tx (info_tx_key i) \<or> is_send_tx (info_tx_key i)"

definition own_sends :: "xlightunit_tx_info list \<Rightarrow> xtransaction option list" where
  "own_sends is = map info_raw_tx (filter own_send is)"

fun consecutive :: "nat \<Rightarrow> xtransaction list \<Rightarrow> bool" where
  "consecutive n [] \<longleftrightarrow> True"
| "consecutive n (t # ts) \<longleftrightarrow> unat (get_tx_nonce t) = Suc n \<and> consecutive (Suc n) ts"

lemma send_loop_consecutive:
  assumes "own_sends is = map Some ts" "consecutive k ts" "unat n \<le> k"
  shows "send_trans_loop is n hash = Some (if ts = [] then (n, hash) else (get_tx_nonce (last ts), m_transaction_hash (last ts)))"
  using assms
proof (induction "is" arbitrary: n hash ts k)
  case (Cons i "is")
  show ?case
  proof (cases "own_send i")
    case True
    then obtain t ts' where ts: "ts = t # ts'" "info_raw_tx i = Some t" "own_sends is = map Some ts'"
      using Cons.prems(1) by (cases ts) (auto simp: own_sends_def)
    have "n < get_tx_nonce t" using Cons.prems(2,3) by (simp add: ts word_less_nat_alt)
    then show ?thesis
      using Cons.IH [OF ts(3), of "Suc k" "get_tx_nonce t"] Cons.prems(2) True by (simp add: ts own_send_def)
  next
    case False
    then show ?thesis
      using Cons.IH [of ts k n hash] Cons.prems by (simp add: own_sends_def own_send_def)
  qed
qed (simp add: own_sends_def)

lemma consecutive_last: "consecutive k ts \<Longrightarrow> ts \<noteq> [] \<Longrightarrow> unat (get_tx_nonce (last ts)) = k + length ts"
  by (induction ts arbitrary: k) auto

lemma resource_changes_latest [simp]:
  "m_latest_send_trans_number (resource_changes burn r m) = m_latest_send_trans_number m"
  "m_latest_send_trans_hash (resource_changes burn r m) = m_latest_send_trans_hash m"
  by (simp_all add: resource_changes_def mstate_change_defs Let_def)

lemma note_recv_latest [simp]:
  "m_latest_send_trans_number (note_recv n x m) = m_latest_send_trans_number m"
  "m_latest_send_trans_hash (note_recv n x m) = m_latest_send_trans_hash m"
  by (simp_all add: note_recv_def)

text \<open>
  C24 A unit moves the account's send counter over exactly its own sends: when the self and send
  transactions of the unit carry consecutive nonces that continue the counter, applying the unit
  advances the counter by their number and keeps the hash of the last one, so that the next
  transaction of the account links to it; without such a transaction both stay.
\<close>

theorem unit_advances_nonce:
  assumes load: "try_load_body io h b = Some (h', b')" "m_cache_body b' = Some c"
    and sends: "own_sends (m_tx_infos c) = map Some ts"
      "consecutive (unat (m_latest_send_trans_number (m_account_state ch))) ts"
    and add: "add_light_unit U io h (LightUnit b) ch = Some (h2, b2, ch')"
  shows "unat (m_latest_send_trans_number (m_account_state ch')) =
      unat (m_latest_send_trans_number (m_account_state ch)) + length ts \<and>
    m_latest_send_trans_hash (m_account_state ch') =
      (if ts = [] then m_latest_send_trans_hash (m_account_state ch) else m_transaction_hash (last ts))"
proof -
  let ?n = "m_latest_send_trans_number (m_account_state ch)"
  obtain sn sh where s: "send_trans_loop (m_tx_infos c) 0 0 = Some (sn, sh)"
      and v: "(sn, sh) = (if ts = [] then (0, 0) else (get_tx_nonce (last ts), m_transaction_hash (last ts)))"
    using send_loop_consecutive [OF sends, of 0 0] by (cases "ts = []") simp_all
  obtain rn rh where r: "recv_trans_loop (m_tx_infos c) 0 sh = Some (rn, rh)"
    using add load s
    by (cases "recv_trans_loop (m_tx_infos c) 0 sh")
      (auto simp: add_light_unit_def get_send_trans_info_def get_recv_trans_info_def Let_def)
  have "unat sn = (if ts = [] then 0 else unat ?n + length ts)"
    using v consecutive_last [OF sends(2)] by (auto split: if_splits)
  moreover from this have "sn = 0 \<longleftrightarrow> ts = []" by (auto simp: word_unat_eq_iff)
  ultimately show ?thesis
    using add_light_unit_state [OF load s r, of U ch] add v
    by (auto simp: note_send_def split: if_splits)
qed

definition sample_loaded_unit :: xlightunit_block where
  "sample_loaded_unit =
     \<lparr>blk_header = vheader_new, blk_cert = create_blockcert 1 4 1 1, blk_hash = ''h'', blk_is_genesis = False,
      blk_authenticated = False, lu_inputs = [], lu_outputs = [], lu_output_resource = [],
      m_cache_body = Some \<lparr>m_tx_infos = [\<lparr>info_tx_key = \<lparr>m_txhash = [], m_subtype = enum_transaction_subtype_send\<rparr>,
          info_inputtx_props = [], info_raw_tx = Some transaction_new, info_exec_state = []\<rparr>],
        m_tx_output_resource = output_resource_new\<rparr>\<rparr>"

theorem unit_advances_nonce_witness:
  "\<exists>h' b' ch'. add_light_unit sample_utl sample_io [] (LightUnit sample_loaded_unit) (blockchain_new ''a'') = Some (h', b', ch') \<and>
     unat (m_latest_send_trans_number (m_account_state ch')) = 1 \<and>
     m_latest_send_trans_hash (m_account_state ch') = m_transaction_hash transaction_new"
proof -
  let ?b = sample_loaded_unit
  obtain c where c: "m_cache_body ?b = Some c" "own_sends (m_tx_infos c) = map Some [transaction_new]"
    by (simp add: sample_loaded_unit_def own_sends_def own_send_def is_send_tx_def)
  have l: "try_load_body sample_io [] ?b = Some ([], ?b)"
    by (simp add: try_load_body_def c)
  have k: "consecutive (unat (m_latest_send_trans_number (m_account_state (blockchain_new ''a'')))) [transaction_new]"
    by (simp add: blockchain_new_def mstate_new_def transaction_new_def get_tx_nonce_def header_new_def)
  have "send_trans_loop (m_tx_infos c) 0 0 = Some (get_tx_nonce transaction_new, m_transaction_hash transaction_new)"
    using send_loop_consecutive [OF c(2) k, of 0 0] by simp
  moreover have "recv_trans_loop (m_tx_infos c) 0 hash = Some (0, hash)" for hash
    using c(1) by (auto simp: sample_loaded_unit_def is_recv_tx_def tx_subtype_defs)
  ultimately obtain h' b' ch' where
    a: "add_light_unit sample_utl sample_io [] (LightUnit ?b) (blockchain_new ''a'') = Some (h', b', ch')"
    using add_light_unit_state [OF l c(1)] by blast
  from unit_advances_nonce [OF l c k a] show ?thesis
    using a by (auto simp: blockchain_new_def mstate_new_def)
qed


section \<open>Order of blocks\<close>

definition next_ok :: "xblockchain2 \<Rightarrow> xblock \<Rightarrow> bool" where
  "next_ok ch b \<longleftrightarrow> m_height (blk_header b) = m_last_state_block_height ch + 1 \<and>
     (2 \<le> m_height (blk_header b) \<longrightarrow> m_last_block_hash (blk_header b) = m_last_state_block_hash ch)"

text \<open>The state follows a list of blocks; it stops at the first refused one.\<close>

fun follow :: "xutl \<Rightarrow> unit_io \<Rightarrow> heap \<Rightarrow> any_block list \<Rightarrow> xblockchain2 \<Rightarrow> (bool \<times> heap \<times> xblockchain2) option" where
  "follow U io h [] ch = Some (True, h, ch)"
| "follow U io h (b # bs) ch = do {
     (ok, h, _, ch) \<leftarrow> update_state_by_next_height_block U io h b ch;
     if ok then follow U io h bs ch else Some (False, h, ch) }"

lemma update_next_cases:
  assumes "update_state_by_next_height_block U io h blk ch = Some (ok, h', blk', ch')"
  shows "ok \<longleftrightarrow> next_ok ch (base_block blk)"
    and "\<not> ok \<Longrightarrow> h' = h \<and> blk' = blk \<and> ch' = ch"
    and "ok \<Longrightarrow> m_last_state_block_height ch' = m_height (blk_header (base_block blk)) \<and>
           m_last_state_block_hash ch' = blk_hash (base_block blk)"
  using assms
  by (auto simp: update_state_by_next_height_block_def next_ok_def Let_def split: if_splits bind_splits)

fun chain_linked :: "u64 \<Rightarrow> string \<Rightarrow> xblock list \<Rightarrow> bool" where
  "chain_linked n hash [] \<longleftrightarrow> True"
| "chain_linked n hash (b # bs) \<longleftrightarrow>
     m_height (blk_header b) = n + 1 \<and> (2 \<le> n + 1 \<longrightarrow> m_last_block_hash (blk_header b) = hash) \<and>
     chain_linked (n + 1) (blk_hash b) bs"

text \<open>
  C6 The account state only ever follows a linked chain: when a list of blocks has been accepted
  one after the other, their heights are consecutive from the state's height on and every block
  of height two or more names the hash of the block before it (the code does not compare the hash
  that block 1 names); the state ends at the last block.  The first block that does not continue the chain is
  refused and stops the run: the state is then exactly the one that the accepted blocks alone lead to.
\<close>

theorem state_follows_linked_chain:
  assumes "follow U io h bs ch = Some (ok, h', ch')"
  shows "\<exists>as cs. bs = as @ cs \<and> (ok \<longleftrightarrow> cs = []) \<and>
    chain_linked (m_last_state_block_height ch) (m_last_state_block_hash ch) (map base_block as) \<and>
    (as \<noteq> [] \<longrightarrow> m_last_state_block_height ch' = m_height (blk_header (base_block (last as))) \<and>
       m_last_state_block_hash ch' = blk_hash (base_block (last as))) \<and>
    (as = [] \<longrightarrow> h' = h \<and> ch' = ch) \<and> follow U io h as ch = Some (True, h', ch') \<and>
    (cs \<noteq> [] \<longrightarrow> \<not> next_ok ch' (base_block (hd cs)))"
  using assms
proof (induction bs arbitrary: h ch)
  case (Cons b bs)
  obtain o1 h1 b1 ch1 where u: "update_state_by_next_height_block U io h b ch = Some (o1, h1, b1, ch1)"
      and f: "(if o1 then follow U io h1 bs ch1 else Some (False, h1, ch1)) = Some (ok, h', ch')"
    using Cons.prems by (auto split: bind_splits)
  show ?case
  proof (cases o1)
    case True
    obtain as cs where ih: "bs = as @ cs" "ok \<longleftrightarrow> cs = []"
        "chain_linked (m_last_state_block_height ch1) (m_last_state_block_hash ch1) (map base_block as)"
        "as \<noteq> [] \<longrightarrow> m_last_state_block_height ch' = m_height (blk_header (base_block (last as))) \<and>
           m_last_state_block_hash ch' = blk_hash (base_block (last as))"
        "as = [] \<longrightarrow> h' = h1 \<and> ch' = ch1" "follow U io h1 as ch1 = Some (True, h', ch')" "cs \<noteq> [] \<longrightarrow> \<not> next_ok ch' (base_block (hd cs))"
      using Cons.IH [of h1 ch1] f True by auto
    show ?thesis
      using ih update_next_cases [OF u] True u
      by (intro exI [of _ "b # as"] exI [of _ cs]) (auto simp: next_ok_def)
  next
    case False
    then show ?thesis
      using f update_next_cases [OF u] by (intro exI [of _ "[]"] exI [of _ "b # bs"]) auto
  qed
qed auto

definition sample_nil_block :: "u64 \<Rightarrow> string \<Rightarrow> string \<Rightarrow> any_block" where
  "sample_nil_block hgt prev hash = OtherBlock
     \<lparr>blk_header = vheader_new\<lparr>m_types := 0x0200, m_height := hgt, m_last_block_hash := prev\<rparr>,
      blk_cert = create_blockcert 1 0 1 1, blk_hash = hash, blk_is_genesis = False, blk_authenticated = False\<rparr>"

lemma sample_nil_step:
  "update_state_by_next_height_block U io h (sample_nil_block n p x) ch =
     (if m_last_state_block_height ch + 1 \<noteq> n \<or> m_last_state_block_hash ch \<noteq> p \<and> 2 \<le> n
      then Some (False, h, sample_nil_block n p x, ch)
      else Some (True, h, sample_nil_block n p x,
        (if n = 1 \<and> m_account_create_time (m_account_state ch) = 0
         then ch\<lparr>m_account_state := (m_account_state ch)\<lparr>m_account_create_time := get_gmtime (create_blockcert 1 0 1 1)\<rparr>\<rparr>
         else ch)\<lparr>m_last_state_block_height := n, m_last_state_block_hash := x\<rparr>))"
proof -
  let ?b = "base_block (sample_nil_block n p x)"
  have "\<not> is_lightunit (blk_header ?b)" "\<not> is_fullunit (blk_header ?b)"
    by (simp_all add: sample_nil_block_def is_lightunit_def is_fullunit_def get_block_class_def block_kind_defs)
  then have "update_last_block_state U io h (sample_nil_block n p x) c = Some (h, sample_nil_block n p x, c)" for c
    by (simp add: update_last_block_state_def)
  moreover have "m_height (blk_header ?b) = n" "m_last_block_hash (blk_header ?b) = p" "blk_hash ?b = x"
      "blk_cert ?b = create_blockcert 1 0 1 1"
    by (simp_all add: sample_nil_block_def)
  ultimately show ?thesis by (simp only: update_state_by_next_height_block_def Let_def Option.bind.simps prod.case)
qed

theorem state_follows_linked_chain_witness:
  "\<exists>h' ch' as cs. follow sample_utl sample_io []
      [sample_nil_block 1 ''g'' ''a'', sample_nil_block 3 ''a'' ''c''] (blockchain_new ''a'') =
      Some (False, h', ch') \<and>
    [sample_nil_block 1 ''g'' ''a'', sample_nil_block 3 ''a'' ''c''] = as @ cs \<and> cs \<noteq> [] \<and>
    chain_linked 0 [] (map base_block as)"
proof -
  let ?bs = "[sample_nil_block 1 ''g'' ''a'', sample_nil_block 3 ''a'' ''c'']"
  obtain h' ch' where f: "follow sample_utl sample_io [] ?bs (blockchain_new ''a'') = Some (False, h', ch')"
    by (simp add: sample_nil_step blockchain_new_def word_le_nat_alt)
  from state_follows_linked_chain [OF f] show ?thesis
    using f by (auto simp: blockchain_new_def)
qed


section \<open>The last full block\<close>

lemma header_word_other [simp]:
  "m_height (set_block_level l h) = m_height h" "m_height (set_block_class l h) = m_height h"
  "m_height (set_block_type l h) = m_height h"
  "hdr_account (set_block_level l h) = hdr_account h" "hdr_account (set_block_class l h) = hdr_account h"
  "hdr_account (set_block_type l h) = hdr_account h"
  by (simp_all add: set_block_level_def set_block_class_def set_block_type_def)

lemma header_fields_word [simp]:
  "get_block_class (h\<lparr>m_weight := w\<rparr>) = get_block_class h" "get_block_level (h\<lparr>m_weight := w\<rparr>) = get_block_level h"
  "get_block_class (h\<lparr>m_extra_data := e\<rparr>) = get_block_class h" "get_block_level (h\<lparr>m_extra_data := e\<rparr>) = get_block_level h"
  "get_block_class (h\<lparr>m_last_block_hash := x\<rparr>) = get_block_class h" "get_block_level (h\<lparr>m_last_block_hash := x\<rparr>) = get_block_level h"
  "get_block_class (set_last_full_block x n h) = get_block_class h" "get_block_level (set_last_full_block x n h) = get_block_level h"
  by (simp_all add: get_block_class_def get_block_level_def set_last_full_block_def)

lemma created_header:
  assumes "height para \<noteq> 0" "block_level para < 8" "block_class para < 8" "block_type para < 128"
  shows "get_block_level (create_blockheader h0 para) = block_level para"
    "get_block_class (create_blockheader h0 para) = block_class para"
    "m_height (create_blockheader h0 para) = height para"
    "hdr_account (create_blockheader h0 para) = para_account para"
    "m_last_block_hash (create_blockheader h0 para) = last_block_hash para"
    "hdr_last_full_block_hash (create_blockheader h0 para) = last_full_block_hash para"
    "hdr_last_full_block_height (create_blockheader h0 para) = last_full_block_height para"
  using assms by (simp_all add: create_blockheader_def Let_def) (simp_all add: set_last_full_block_def)

definition tracks :: "xblockchain2 \<Rightarrow> xblock \<Rightarrow> bool" where
  "tracks ch b \<longleftrightarrow> m_last_state_block_hash ch = blk_hash b \<and> m_last_state_block_height ch = m_height (blk_header b) \<and>
     (m_last_full_block_hash ch, m_last_full_block_height ch) = next_full_block b"

text \<open>A block made on top of another by one of the \<open>create_next_*\<close> functions, once it has its hash.\<close>

definition made_next :: "xutl \<Rightarrow> unit_io \<Rightarrow> u32 \<Rightarrow> xvheader \<Rightarrow> xblock \<Rightarrow> any_block \<Rightarrow> bool" where
  "made_next U io cid h0 prev blk \<longleftrightarrow>
     (\<exists>hx para b x. create_next_lightunit U io cid h0 hx para prev = Some b \<and> blk = LightUnit (b\<lparr>blk_hash := x\<rparr>)) \<or>
     (\<exists>i u x. blk = FullUnit ((create_next_fullunit cid h0 i u prev)\<lparr>blk_hash := x\<rparr>)) \<or>
     (\<exists>ty x. ty < 128 \<and> blk = OtherBlock
        \<lparr>blk_header = fst (create_next_emptyblock cid h0 prev ty), blk_cert = snd (create_next_emptyblock cid h0 prev ty),
         blk_hash = x, blk_is_genesis = False, blk_authenticated = False\<rparr>)"

lemma add_light_unit_keeps:
  "add_light_unit U io h blk ch = Some (h', blk', ch') \<Longrightarrow> \<exists>m. ch' = ch\<lparr>m_account_state := m\<rparr>"
  by (auto simp: add_light_unit_def Let_def split: any_block.splits bind_splits) (rule exI, rule refl)+

lemma made_next_header:
  assumes "made_next U io cid h0 prev blk" "m_height (blk_header prev) + 1 \<noteq> 0"
    and "get_block_level (blk_header prev) = level_unit"
  shows "m_height (blk_header (base_block blk)) = m_height (blk_header prev) + 1"
    "m_last_block_hash (blk_header (base_block blk)) = blk_hash prev"
    "(hdr_last_full_block_hash (blk_header (base_block blk)), hdr_last_full_block_height (blk_header (base_block blk))) =
       next_full_block prev"
    "\<not> blk_is_genesis (base_block blk)"
    "get_block_level (blk_header (base_block blk)) = level_unit"
    "get_block_class (blk_header (base_block blk)) =
       (case blk of LightUnit _ \<Rightarrow> enum_xvblock_class_light | FullUnit _ \<Rightarrow> enum_xvblock_class_full
        | OtherBlock _ \<Rightarrow> enum_xvblock_class_nil)"
  using assms
  by (auto simp: made_next_def create_next_lightunit_def create_lightunit_def create_next_fullunit_def create_fullunit_def
      create_next_emptyblock_def create_emptyblock_def create_lightunit_header_def create_fullunit_header_def
      created_header xblock.truncate_def block_kind_defs Let_def case_prod_beta split: bind_splits)

text \<open>
  C10 The chain and the blocks agree on the last full block: if the chain state stands at a block,
  and a light, full or empty unit is made on top of that block, the state accepts it, then stands
  at the new block, and the full block it remembers is the one the next block made on top will
  name.
\<close>

theorem chain_tracks_full_block:
  assumes "tracks ch prev" "made_next U io cid h0 prev blk" "m_height (blk_header prev) + 1 \<noteq> 0"
    and "get_block_level (blk_header prev) = level_unit"
    and "update_state_by_next_height_block U io h blk ch = Some (ok, h', blk', ch')"
  shows "ok \<and> tracks ch' (base_block blk)"
proof -
  note hd = made_next_header [OF assms(2-4)]
  have ok: ok
    using assms(1) hd update_next_cases(1) [OF assms(5)] by (auto simp: tracks_def next_ok_def)
  then obtain ch0 ch1 h1 where u: "update_last_block_state U io h blk ch0 = Some (h1, blk', ch1)"
      and ch: "m_last_full_block_hash ch0 = m_last_full_block_hash ch"
        "m_last_full_block_height ch0 = m_last_full_block_height ch"
        "m_last_full_block_hash ch' = m_last_full_block_hash ch1"
        "m_last_full_block_height ch' = m_last_full_block_height ch1"
    using assms(5) by (auto simp: update_state_by_next_height_block_def Let_def split: if_splits bind_splits)
  have "(m_last_full_block_hash ch1, m_last_full_block_height ch1) = next_full_block (base_block blk)"
  proof (cases blk)
    case (LightUnit b)
    then show ?thesis
      using u hd assms(1) ch add_light_unit_keeps [of U io h blk ch0]
      by (auto simp: update_last_block_state_def is_lightunit_def next_full_block_def [of "xblock.truncate b"] tracks_def
          block_kind_defs)
  next
    case (FullUnit b)
    then show ?thesis
      using u hd
      by (auto simp: update_last_block_state_def is_lightunit_def is_fullunit_def add_full_unit_def next_full_block_def
          xblock.truncate_def block_kind_defs)
  next
    case (OtherBlock b)
    then show ?thesis
      using u hd assms(1) ch
      by (auto simp: update_last_block_state_def is_lightunit_def is_fullunit_def next_full_block_def [of b] tracks_def
          block_kind_defs)
  qed
  then show ?thesis
    using ok ch update_next_cases(3) [OF assms(5) ok] by (simp add: tracks_def)
qed

definition sample_genesis :: xblock where
  "sample_genesis = \<lparr>blk_header = vheader_new, blk_cert = create_blockcert 0 0 0 0, blk_hash = ''g'', blk_is_genesis = True,
     blk_authenticated = True\<rparr>"

theorem chain_tracks_full_block_witness:
  "let blk = FullUnit ((create_next_fullunit 0 vheader_new \<lparr>m_first_unit_height = 0, m_first_unit_hash = []\<rparr>
         \<lparr>full_account_state = mstate_new, m_account_propertys = []\<rparr> sample_genesis)\<lparr>blk_hash := ''f''\<rparr>);
       ch = (blockchain_new ''a'')\<lparr>m_last_state_block_hash := ''g'', m_last_full_block_hash := ''g''\<rparr>
   in \<exists>h' blk' ch'. update_state_by_next_height_block sample_utl sample_io [] blk ch = Some (True, h', blk', ch') \<and>
        tracks ch' (base_block blk)"
proof -
  let ?blk = "FullUnit ((create_next_fullunit 0 vheader_new \<lparr>m_first_unit_height = 0, m_first_unit_hash = []\<rparr>
      \<lparr>full_account_state = mstate_new, m_account_propertys = []\<rparr> sample_genesis)\<lparr>blk_hash := ''f''\<rparr>)"
  let ?ch = "(blockchain_new ''a'')\<lparr>m_last_state_block_hash := ''g'', m_last_full_block_hash := ''g''\<rparr>"
  have t: "tracks ?ch sample_genesis"
    by (simp add: tracks_def blockchain_new_def sample_genesis_def vheader_new_def next_full_block_def)
  have m: "made_next sample_utl sample_io 0 vheader_new sample_genesis ?blk"
    unfolding made_next_def by blast
  have g: "m_height (blk_header sample_genesis) + 1 \<noteq> 0" "get_block_level (blk_header sample_genesis) = level_unit"
    by (simp_all add: sample_genesis_def vheader_new_def get_block_level_def block_kind_defs)
  note hd = made_next_header [OF m g]
  have "update_state_by_next_height_block sample_utl sample_io [] ?blk ?ch \<noteq> None"
    using hd by (simp add: update_state_by_next_height_block_def update_last_block_state_def is_lightunit_def is_fullunit_def
        add_full_unit_def block_kind_defs Let_def) blast
  then obtain ok h' blk' ch' where u: "update_state_by_next_height_block sample_utl sample_io [] ?blk ?ch = Some (ok, h', blk', ch')"
    by auto
  from chain_tracks_full_block [OF t m g u] show ?thesis
    using u by (auto simp: Let_def)
qed


section \<open>Full units as checkpoints\<close>

lemma chain_fullunit_kind:
  assumes "m_max_block_height ch + 1 \<noteq> 0"
  shows "is_fullunit (blk_header (create_next_fullunit_of_chain cid h0 ch))"
    "\<not> is_lightunit (blk_header (create_next_fullunit_of_chain cid h0 ch))"
    "m_height (blk_header (create_next_fullunit_of_chain cid h0 ch)) = m_max_block_height ch + 1"
  using assms
  by (simp_all add: create_next_fullunit_of_chain_def create_fullunit_def create_fullunit_header_def created_header
      is_fullunit_def is_lightunit_def block_kind_defs)

lemma fullunit_output_read_back:
  assumes "mstate_fits wr h (full_account_state u)" "length (mstate_do_write wr h (full_account_state u)) < 2 ^ 32"
    and "\<And>v t. v \<in> set h \<Longrightarrow> rd (wr v @ t) = Some (v, t)" "m_account_propertys u = []"
  shows "\<exists>h' np'. fullunit_output_do_read rd [] \<lparr>full_account_state = mstate_new, m_account_propertys = []\<rparr>
      (fullunit_output_do_write wr h u @ s) =
      Some ((h', u\<lparr>full_account_state := (full_account_state u)\<lparr>mstate_native_property := np'\<rparr>\<rparr>), s) \<and>
    np_view h' np' = np_view h (mstate_native_property (full_account_state u))"
proof -
  let ?m = "full_account_state u"
  obtain h' np' where r: "mstate_do_read rd [] mstate_new (mstate_do_write wr h ?m @ []) =
      Some ((h', ?m\<lparr>mstate_native_property := np'\<rparr>), [])"
      and v: "np_view h' np' = np_view h (mstate_native_property ?m)"
    using mstate_read_write [OF assms(1,3), of "[]"] by blast
  have "serialize_from (mstate_do_read rd [] mstate_new) (serialize_to (mstate_do_write wr h) ?m @ t) =
      Some ((h', ?m\<lparr>mstate_native_property := np'\<rparr>), t)" for t
    using r assms(2) by (simp add: serialize_from_def serialize_to_def get_buffer_put)
  then show ?thesis
    using v assms(4) strstr.get_map_put [of "[]" s]
    by (intro exI [of _ h'] exI [of _ np']) (simp add: fullunit_output_do_read_def fullunit_output_do_write_def)
qed

text \<open>
  C9 A full unit is a checkpoint: a node with any earlier state of the account that reads the
  full unit made from a chain and applies it has the account state of that chain, with the same
  content of every native property, stands at the height and hash of the unit, and takes it as
  the last full block.
\<close>

theorem fullunit_is_checkpoint:
  fixes ch cid h0
  defines "u \<equiv> create_next_fullunit_of_chain cid h0 ch"
  assumes fits: "mstate_fits wr h (m_account_state ch)" "length (mstate_do_write wr h (m_account_state ch)) < 2 ^ 32"
    and codec: "\<And>v t. v \<in> set h \<Longrightarrow> rd (wr v @ t) = Some (v, t)" and hgt: "m_max_block_height ch + 1 \<noteq> 0"
  shows "\<exists>h' out' ch' np'.
    fullunit_output_do_read rd [] \<lparr>full_account_state = mstate_new, m_account_propertys = []\<rparr>
      (fullunit_output_do_write wr h (fu_output u) @ s) = Some ((h', out'), s) \<and>
    update_state_by_full_block U io h' (FullUnit (u\<lparr>blk_hash := x, fu_output := out'\<rparr>)) other =
      Some (True, h', FullUnit (u\<lparr>blk_hash := x, fu_output := out'\<rparr>), ch') \<and>
    m_account_state ch' = (m_account_state ch)\<lparr>mstate_native_property := np'\<rparr> \<and>
    np_view h' np' = np_view h (mstate_native_property (m_account_state ch)) \<and>
    m_last_state_block_height ch' = m_max_block_height ch + 1 \<and> m_last_state_block_hash ch' = x \<and>
    m_last_full_block_height ch' = m_max_block_height ch + 1 \<and> m_last_full_block_hash ch' = x"
proof -
  have o: "full_account_state (fu_output u) = m_account_state ch" "m_account_propertys (fu_output u) = []"
    by (simp_all add: u_def create_next_fullunit_of_chain_def create_fullunit_def)
  obtain h' np' where r: "fullunit_output_do_read rd [] \<lparr>full_account_state = mstate_new, m_account_propertys = []\<rparr>
      (fullunit_output_do_write wr h (fu_output u) @ s) =
      Some ((h', (fu_output u)\<lparr>full_account_state := (m_account_state ch)\<lparr>mstate_native_property := np'\<rparr>\<rparr>), s)"
      and v: "np_view h' np' = np_view h (mstate_native_property (m_account_state ch))"
    using fullunit_output_read_back [of wr h "fu_output u" rd s] fits codec o by auto
  show ?thesis
    using r v chain_fullunit_kind [OF hgt, of cid h0, folded u_def]
    by (intro exI) (auto simp: update_state_by_full_block_def update_last_block_state_def add_full_unit_def
        is_fullunit_def xblock.truncate_def)
qed

theorem fullunit_is_checkpoint_witness:
  "let u = create_next_fullunit_of_chain 0 vheader_new (blockchain_new ''a'')
   in \<exists>h' out' ch'. fullunit_output_do_read tagged_read [] \<lparr>full_account_state = mstate_new, m_account_propertys = []\<rparr>
        (fullunit_output_do_write tagged_write [] (fu_output u) @ ''tail'') = Some ((h', out'), ''tail'') \<and>
      update_state_by_full_block sample_utl sample_io h' (FullUnit (u\<lparr>blk_hash := ''f'', fu_output := out'\<rparr>)) sample_chain =
        Some (True, h', FullUnit (u\<lparr>blk_hash := ''f'', fu_output := out'\<rparr>), ch') \<and>
      m_account_balance (m_account_state ch') = 0 \<and> m_last_full_block_height ch' = 1"
  using fullunit_is_checkpoint [of tagged_write "[]" "blockchain_new ''a''" tagged_read 0 vheader_new "''tail''"
      sample_utl sample_io "''f''" sample_chain]
  by (auto simp: blockchain_new_def mstate_new_def mstate_fits_def np_inv_def np_empty_def om_inv_def np_do_write_def
      mstate_do_write_def put_uint_defs put_uint256_def put_map_def serialize_to_def put_buffer_def Let_def)


section \<open>Receipts of a committed unit\<close>

definition same_tx :: "xlightunit_input_entity \<Rightarrow> xlightunit_output_entity \<Rightarrow> bool" where
  "same_tx i e \<longleftrightarrow> (\<exists>ty tx st. e = output_entity ty tx st \<and> m_subtype (in_tx_key i) = ty \<and>
     (ty = enum_transaction_subtype_send \<or> ty = enum_transaction_subtype_recv \<longrightarrow> in_raw_tx i = Some tx))"

lemma those_pairs:
  "those (map f xs) = Some ys \<Longrightarrow> (\<And>x y. f x = Some y \<Longrightarrow> P y (g x)) \<Longrightarrow> list_all2 P ys (map g xs)"
  by (induction xs arbitrary: ys) (auto split: option.splits)

lemma blockbody_pairs:
  assumes "get_blockbody_from_para U io h para = Some (ins, outs, res)"
  shows "list_all2 same_tx ins outs"
proof -
  obtain ys where y: "those (map (input_entity_of_tx U) (m_raw_txs para)) = Some ys"
      "ins = ys @ map contract_input_entity (m_contract_txs (m_tx_result para))"
      "outs = map output_entity_of_tx (m_raw_txs para) @ map output_entity_of_tx (m_contract_txs (m_tx_result para))"
    using assms by (auto simp: get_blockbody_from_para_def split: bind_splits)
  have one: "same_tx (input_entity (cons_subtype c) (m_tx c) b st clk) (output_entity_of_tx c)" for c b st clk
    by (auto simp: same_tx_def input_entity_def output_entity_of_tx_def)
  then have "same_tx i (output_entity_of_tx c)" if "input_entity_of_tx U c = Some i" for c i
    using that by (auto simp: input_entity_of_tx_def split: if_splits bind_splits)
  then have "list_all2 same_tx ys (map output_entity_of_tx (m_raw_txs para))"
    by (rule those_pairs [OF y(1)])
  moreover have "list_all2 same_tx (map contract_input_entity cs) (map output_entity_of_tx cs)" for cs
    using one by (induction cs) (simp_all add: contract_input_entity_def)
  ultimately show ?thesis by (simp add: y list_all2_appendI)
qed

text \<open>The unit carries the root over its outputs and the path of its hash in the parent block.\<close>

definition committed :: "(bytes \<Rightarrow> uint256) \<Rightarrow> xvqcert \<Rightarrow> bytes list \<Rightarrow> xlightunit_block \<Rightarrow> bool" where
  "committed H parent units b \<longleftrightarrow>
     (let cert = qcert (blk_cert b)
      in cert_extend_cert (blk_cert b) \<noteq> [] \<and> length (lu_outputs b) < 2 ^ 31 \<and>
         cert_output_root_hash cert = get_root_hash H (map get_merkle_leaf (lu_outputs b)) \<and>
         cert_hash_to_sign cert \<in> set units \<and> cert_hash_to_sign cert \<noteq> [] \<and> length units < 2 ^ 31 \<and>
         cert_justify_cert_hash parent = get_root_hash H units \<and>
         fst (calc_merkle_path H units (cert_hash_to_sign cert) []) \<and>
         cert_extend_data cert = serialize_to path_do_write (snd (calc_merkle_path H units (cert_hash_to_sign cert) [])))"

definition receipt_accepted :: "(bytes \<Rightarrow> uint256) \<Rightarrow> xvqcert \<Rightarrow> xcons_transaction option \<Rightarrow> bool" where
  "receipt_accepted H parent c \<longleftrightarrow>
     (\<exists>c0 c'. c = Some c0 \<and> set_commit_prove_with_parent_cert parent c0 = Some c' \<and> verify_cons_transaction H c' = Some True)"

definition copies :: "(xtransaction \<Rightarrow> bytes) \<Rightarrow> (bytes \<Rightarrow> (xtransaction \<times> bytes) option) \<Rightarrow> xlightunit_input_entity \<Rightarrow> bool" where
  "copies wr rd i \<longleftrightarrow>
     (\<forall>tx. in_raw_tx i = Some tx \<longrightarrow> (\<exists>t r. rd (wr tx) = Some (t, r) \<and> m_transaction_hash t = m_transaction_hash tx))"

lemma create_txreceipt_accepted:
  assumes "committed H parent units b" "e \<in> set (lu_outputs b)" "e = output_entity ty tx st"
    and "ty = enum_transaction_subtype_send \<or> ty = enum_transaction_subtype_recv"
    and "rd (wr tx) = Some (t, r)" "m_transaction_hash t = m_transaction_hash tx"
  shows "\<exists>c. create_txreceipt H wr rd b tx e = Some c \<and> receipt_accepted H parent c"
proof -
  let ?cert = "qcert (blk_cert b)" and ?ls = "map get_merkle_leaf (lu_outputs b)"
  have c: "length (lu_outputs b) < 2 ^ 31" "cert_output_root_hash ?cert = get_root_hash H ?ls"
      "cert_hash_to_sign ?cert \<in> set units" "cert_hash_to_sign ?cert \<noteq> []" "length units < 2 ^ 31"
      "cert_justify_cert_hash parent = get_root_hash H units"
      "calc_merkle_path H units (cert_hash_to_sign ?cert) [] = (True, snd (calc_merkle_path H units (cert_hash_to_sign ?cert) []))"
      "cert_extend_data ?cert = serialize_to path_do_write (snd (calc_merkle_path H units (cert_hash_to_sign ?cert) []))"
      "cert_extend_cert (blk_cert b) \<noteq> []"
    using assms(1) by (simp_all add: committed_def Let_def prod_eq_iff)
  obtain p where p: "calc_merkle_path H ?ls (get_merkle_leaf e) [] = (True, p)"
    using block_path_validates [of "get_merkle_leaf e" ?ls H] assms(2) c(1) by auto
  have root: "get_root_hash H ?ls \<noteq> []"
    using assms(2) length_root_loop [of "hash_leafs H (get_merkle_leafs ?ls)" H]
    by (auto simp: get_root_hash_def get_merkle_leafs_def calc_root_def hash_leafs_def filter_empty_conv Let_def list_all_iff)
  have "\<exists>c0 c'. cons_transaction_receipt wr rd tx (tx_receipt e p ?cert) = Some c0 \<and>
      set_commit_prove_with_parent_cert parent c0 = Some c' \<and> verify_cons_transaction H c' = Some True"
    using block_receipt_verifies [where rd = rd and wr = wr, OF assms(3,2) c(1) assms(4) c(2) p c(3-8) assms(5,6)] by blast
  then show ?thesis
    using c(2,8,9) p root by (auto simp: create_txreceipt_def calc_output_merkle_path_def receipt_accepted_def serialize_to_def)
qed

lemma txreceipts_loop_accepted:
  assumes "committed H parent units b" "list_all2 same_tx is es" "set es \<subseteq> set (lu_outputs b)"
    and "list_all (copies wr rd) is"
  shows "\<exists>ss rs. txreceipts_loop H wr rd b is es (S, R) = Some (S @ ss, R @ rs) \<and>
    length ss = length (filter (\<lambda>i. is_send_tx (in_tx_key i)) is) \<and>
    length rs = length (filter (\<lambda>i. is_recv_tx (in_tx_key i)) is) \<and>
    list_all (receipt_accepted H parent) (ss @ rs)"
  using assms(2-4)
proof (induction "is" es arbitrary: S R rule: list_all2_induct)
  case (Cons i "is" e es)
  obtain ty tx st where e: "e = output_entity ty tx st" "m_subtype (in_tx_key i) = ty"
      "ty = enum_transaction_subtype_send \<or> ty = enum_transaction_subtype_recv \<longrightarrow> in_raw_tx i = Some tx"
    using Cons.hyps(1) by (auto simp: same_tx_def)
  have rest: "set es \<subseteq> set (lu_outputs b)" "list_all (copies wr rd) is" using Cons.prems by simp_all
  show ?case
  proof (cases "ty = enum_transaction_subtype_send \<or> ty = enum_transaction_subtype_recv")
    case True
    then obtain t r where t: "rd (wr tx) = Some (t, r)" "m_transaction_hash t = m_transaction_hash tx"
      using Cons.prems(2) e(3) by (auto simp: copies_def)
    obtain c where c: "create_txreceipt H wr rd b tx e = Some c" "receipt_accepted H parent c"
      using create_txreceipt_accepted [where rd = rd and wr = wr, OF assms(1) _ e(1) True t] Cons.prems(1) by auto
    show ?thesis
    proof (cases "ty = enum_transaction_subtype_send")
      case True
      obtain ss rs where ih: "txreceipts_loop H wr rd b is es (S @ [c], R) = Some ((S @ [c]) @ ss, R @ rs)"
          "length ss = length (filter (\<lambda>i. is_send_tx (in_tx_key i)) is)"
          "length rs = length (filter (\<lambda>i. is_recv_tx (in_tx_key i)) is)" "list_all (receipt_accepted H parent) (ss @ rs)"
        using Cons.IH [OF rest, of "S @ [c]" R] by blast
      show ?thesis
        using ih True e c by (intro exI [of _ "c # ss"] exI [of _ rs]) (simp add: is_send_tx_def is_recv_tx_def tx_subtype_defs)
    next
      case False
      obtain ss rs where ih: "txreceipts_loop H wr rd b is es (S, R @ [c]) = Some (S @ ss, (R @ [c]) @ rs)"
          "length ss = length (filter (\<lambda>i. is_send_tx (in_tx_key i)) is)"
          "length rs = length (filter (\<lambda>i. is_recv_tx (in_tx_key i)) is)" "list_all (receipt_accepted H parent) (ss @ rs)"
        using Cons.IH [OF rest, of S "R @ [c]"] by blast
      show ?thesis
        using ih False True e c
        by (intro exI [of _ ss] exI [of _ "c # rs"]) (simp add: is_send_tx_def is_recv_tx_def tx_subtype_defs)
    qed
  next
    case False
    then show ?thesis
      using Cons.IH [OF rest, of S R] e by (simp add: is_send_tx_def is_recv_tx_def)
  qed
qed simp

text \<open>
  C5 Every send and every receive of a committed light unit gets a receipt that the other side
  accepts: for a unit made from block parameters and committed by its parent block,
  \<open>create_txreceipts\<close> returns exactly one receipt per send and one per receive, none of them
  null, and each passes the verification once the proof of the parent block is attached.
\<close>

theorem committed_unit_receipts:
  assumes "get_blockbody_from_para U io h para = Some (lu_inputs b, lu_outputs b, res)"
    and "committed H parent units b" "list_all (copies wr rd) (lu_inputs b)"
  shows "\<exists>ss rs. create_txreceipts H wr rd b = Some (ss, rs) \<and>
    length ss = length (filter (\<lambda>i. is_send_tx (in_tx_key i)) (lu_inputs b)) \<and>
    length rs = length (filter (\<lambda>i. is_recv_tx (in_tx_key i)) (lu_inputs b)) \<and>
    list_all (receipt_accepted H parent) (ss @ rs)"
  using txreceipts_loop_accepted [OF assms(2) blockbody_pairs [OF assms(1)] subset_refl assms(3), of "[]" "[]"]
  by (simp add: create_txreceipts_def)

definition sample_committed_unit :: xlightunit_block where
  "sample_committed_unit =
     (let e = output_entity enum_transaction_subtype_send (m_tx (sample_cons enum_transaction_subtype_send)) []
      in \<lparr>blk_header = vheader_new,
          blk_cert = (create_blockcert 1 4 1 1)\<lparr>cert_extend_cert := ''p'', qcert := xvqcert_new\<lparr>cert_hash_to_sign := ''u'',
            cert_output_root_hash := get_root_hash (\<lambda>_. 0) [get_merkle_leaf e],
            cert_extend_data := serialize_to path_do_write []\<rparr>\<rparr>,
          blk_hash = ''h'', blk_is_genesis = False, blk_authenticated = True,
          lu_inputs = [input_entity enum_transaction_subtype_send (m_tx (sample_cons enum_transaction_subtype_send)) False enum_xunit_tx_exec_status_success 0],
          lu_outputs = [e], lu_output_resource = [], m_cache_body = None\<rparr>)"

theorem committed_unit_receipts_witness:
  "\<exists>c. create_txreceipts (\<lambda>_. 0) (\<lambda>_. []) (\<lambda>_. Some (m_tx (sample_cons enum_transaction_subtype_send), [])) sample_committed_unit = Some ([c], []) \<and>
     receipt_accepted (\<lambda>_. 0) (xvqcert_new\<lparr>cert_justify_cert_hash := get_root_hash (\<lambda>_. 0) [''u'']\<rparr>) c"
proof -
  let ?b = sample_committed_unit and ?H = "\<lambda>_. 0 :: uint256"
  let ?parent = "xvqcert_new\<lparr>cert_justify_cert_hash := get_root_hash ?H [''u'']\<rparr>"
  have g: "get_blockbody_from_para sample_utl sample_io [] \<lparr>m_account_unconfirm_sendtx_num = 0,
      m_raw_txs = [sample_cons enum_transaction_subtype_send], m_tx_result = transaction_result_new\<rparr> =
      Some (lu_inputs ?b, lu_outputs ?b, resource_do_write sample_io [] (output_resource \<lparr>m_account_unconfirm_sendtx_num = 0,
      m_raw_txs = [sample_cons enum_transaction_subtype_send], m_tx_result = transaction_result_new\<rparr>))"
    by (simp add: get_blockbody_from_para_def input_entity_of_tx_def sample_cons_def cons_subtype_def tx_subtype_defs
        sample_committed_unit_def sample_io_def output_entity_of_tx_def transaction_result_new_def input_entity_def
        output_entity_def get_digest_str_def Let_def)
  have c: "committed ?H ?parent [''u''] ?b"
    by (simp add: committed_def sample_committed_unit_def Let_def single_leaf_path)
  have k: "list_all (copies (\<lambda>_. []) (\<lambda>_. Some (m_tx (sample_cons enum_transaction_subtype_send), []))) (lu_inputs ?b)"
    by (simp add: copies_def sample_committed_unit_def input_entity_def Let_def)
  from committed_unit_receipts [OF g c k] show ?thesis
    by (auto simp: sample_committed_unit_def input_entity_def is_send_tx_def is_recv_tx_def tx_subtype_defs Let_def length_Suc_conv)
qed

end
