(* ===== verification/XVoteRate.thy ===== *)
theory XVoteRate
  imports XConfig "HOL-Library.Log_Nat"
begin

text \<open>
  The price of votes: \<open>get_top_vote_rate\<close> (\<open>xconfig/src/xconfig_register.cpp\<close>) and the amount of
  TOP that a number of votes costs, which the code computes in \<open>double\<close>.  A finite positive
  \<open>double\<close> is the rational it denotes and \<open>dbl\<close> rounds to the nearest one, ties to even; the
  values here are far from overflow and from the subnormal range.
\<close>

section \<open>Double precision numbers\<close>

text \<open>The exponent of a positive rational: the largest \<open>e\<close> with \<open>2 ^ e\<close> not above it.\<close>

definition exponent :: "rat \<Rightarrow> int" where
  "exponent x =
     (let (p, q) = quotient_of x; e = bitlen p - bitlen q
      in if x < 2 powi e then e - 1 else e)"

definition round_even :: "rat \<Rightarrow> int" where
  "round_even m =
     (let n = \<lfloor>m\<rfloor>; f = m - of_int n in if 1 / 2 < f \<or> f = 1 / 2 \<and> odd n then n + 1 else n)"

definition dbl :: "rat \<Rightarrow> rat" where
  "dbl x = (if x \<le> 0 then 0 else let u = 2 powi (exponent x - 52) in of_int (round_even (x / u)) * u)"

definition u64_dbl :: "u64 \<Rightarrow> rat" where "u64_dbl w = dbl (of_int (uint w))"

text \<open>The conversion back truncates; beyond 64 bits it is undefined.\<close>

definition dbl_u64 :: "rat \<Rightarrow> u64 option" where
  "dbl_u64 x = (if x < 2 ^ 64 then Some (of_int \<lfloor>x\<rfloor>) else None)"


section \<open>The vote rate\<close>

definition min_vote_lock_days :: u16 where "min_vote_lock_days = 30"
definition max_vote_lock_days :: u16 where "max_vote_lock_days = 570"

text \<open>The base is the \<open>float\<close> next to 1.04, whose value is 1090519 / 2 ^ 20.  Its powers from -1 to 17
  times a million have a fractional part between 0.14 and 0.97, except the power 0, which is exactly
  one million, so the truncation of the rounded product is the floor of the exact one.\<close>

definition exp_base :: rat where "exp_base = 1090519 / 1048576"

definition get_top_vote_rate :: "u16 \<Rightarrow> rat" where
  "get_top_vote_rate duration =
     (if duration < max_vote_lock_days
      then dbl (of_int \<lfloor>exp_base powi (int (unat (duration div min_vote_lock_days)) - 1) * 1000000\<rfloor> / 1000000)
      else 2)"

text \<open>\<open>TOP_UNIT * vote_num / get_top_vote_rate(duration)\<close>: the product is a 64-bit integer, the
  quotient a \<open>double\<close>.\<close>

definition vote_price :: "u64 \<Rightarrow> u16 \<Rightarrow> rat" where
  "vote_price vote_num duration = dbl (u64_dbl (TOP_UNIT * vote_num) / get_top_vote_rate duration)"

end
