(* ===== verification/XAccountContext.thy ===== *)
theory XAccountContext
  imports XAccountCmd XLightUnit XVoteRate
begin

text \<open>
  The account context \<open>xaccount_context_t\<close> (\<open>xstore/xaccount_context.h\<close>, \<open>.cpp\<close>): the object on
  which the transactions of one account are executed.  It holds a clone of the account chain, a
  table of native properties that shares its objects with that clone, the commands on user
  properties, and the changes of balances that the execution has collected.  Every method is a
  function on the record \<open>xaccount_context\<close>; a method that can throw or has undefined behaviour
  on some path returns an option.  The heap of native objects is a field of the record.
\<close>

section \<open>State\<close>

record xaccount_context =
  ctx_address :: string
  ctx_account :: xblockchain2
  ctx_accountcmd :: xaccount_cmd
  ctx_contract_txs :: "xcons_transaction list"
  ctx_balance_change :: i64
  ctx_pledge_tgas :: i64
  ctx_pledge_disk :: i64
  ctx_pledge_vote :: i64
  ctx_lock_balance_change :: i64
  ctx_lock_tgas_change :: i64
  ctx_unvote_num_change :: i64
  ctx_heap :: heap
  ctx_native :: xnative_property
  ctx_source_pay_info :: xproperty_asset
  ctx_timestamp :: u64
  ctx_timer_height :: u64
  ctx_tgas_limit :: u64
  ctx_random_seed :: string
  ctx_sys_total_lock_tgas_token :: u64
  ctx_cur_used_tgas :: u32

text \<open>What the context calls: the current parameters, the string utilities and hashes outside of
  the sources, and the stored user properties of the account.\<close>

record xenv =
  env_conf :: xconf
  env_utl :: xutl
  env_hashes :: xhashes
  env_props :: xprop_source
  env_unit_hash :: "xdataunit option \<Rightarrow> string"

text \<open>The constructor; \<open>clone_account\<close> of the store gives the account or null.\<close>

definition context_new :: "string \<Rightarrow> xblockchain2 option \<Rightarrow> heap \<Rightarrow> xaccount_context" where
  "context_new address acct h =
     (let account = (case acct of None \<Rightarrow> blockchain_new address | Some a \<Rightarrow> a);
          np = (case acct of None \<Rightarrow> np_empty | Some a \<Rightarrow> clear_dirty (get_native_property a))
      in \<lparr>ctx_address = address, ctx_account = account,
          ctx_accountcmd = cmd_new (m_max_block_height account), ctx_contract_txs = [],
          ctx_balance_change = 0, ctx_pledge_tgas = 0, ctx_pledge_disk = 0, ctx_pledge_vote = 0,
          ctx_lock_balance_change = 0, ctx_lock_tgas_change = 0, ctx_unvote_num_change = 0,
          ctx_heap = h, ctx_native = np, ctx_source_pay_info = top_asset 0, ctx_timestamp = 0,
          ctx_timer_height = 0, ctx_tgas_limit = 0, ctx_random_seed = [],
          ctx_sys_total_lock_tgas_token = 0, ctx_cur_used_tgas = 0\<rparr>)"

definition set_context_para :: "u64 \<Rightarrow> string \<Rightarrow> u64 \<Rightarrow> u64 \<Rightarrow> xaccount_context \<Rightarrow> xaccount_context" where
  "set_context_para clock random_seed timestamp lock_token c =
     c\<lparr>ctx_timer_height := clock, ctx_random_seed := random_seed, ctx_timestamp := timestamp,
       ctx_sys_total_lock_tgas_token := lock_token\<rparr>"

definition ctx_set_lock_balance_change :: "i64 \<Rightarrow> xaccount_context \<Rightarrow> xaccount_context" where
  "ctx_set_lock_balance_change d c = c\<lparr>ctx_lock_balance_change := ctx_lock_balance_change c + d\<rparr>"

definition ctx_set_balance_change :: "i64 \<Rightarrow> xaccount_context \<Rightarrow> xaccount_context" where
  "ctx_set_balance_change d c = c\<lparr>ctx_balance_change := ctx_balance_change c + d\<rparr>"

definition ctx_set_vote_balance_change :: "i64 \<Rightarrow> xaccount_context \<Rightarrow> xaccount_context" where
  "ctx_set_vote_balance_change d c = c\<lparr>ctx_pledge_vote := ctx_pledge_vote c + d\<rparr>"

definition ctx_set_lock_tgas_change :: "i64 \<Rightarrow> xaccount_context \<Rightarrow> xaccount_context" where
  "ctx_set_lock_tgas_change d c = c\<lparr>ctx_lock_tgas_change := ctx_lock_tgas_change c + d\<rparr>"

definition ctx_set_unvote_num_change :: "i64 \<Rightarrow> xaccount_context \<Rightarrow> xaccount_context" where
  "ctx_set_unvote_num_change d c = c\<lparr>ctx_unvote_num_change := ctx_unvote_num_change c + d\<rparr>"


section \<open>Native properties of the context\<close>

definition XPROPERTY_CONTRACT_CODE :: string where "XPROPERTY_CONTRACT_CODE = ''@1''"
definition XPROPERTY_ALIAS_NAME :: string where "XPROPERTY_ALIAS_NAME = ''@3''"
definition XPROPERTY_LOCK_TOKEN_KEY :: string where "XPROPERTY_LOCK_TOKEN_KEY = ''@4''"
definition XPROPERTY_LOCK_TOKEN_SUM_KEY :: string where "XPROPERTY_LOCK_TOKEN_SUM_KEY = ''@5''"
definition XPROPERTY_AUTHORIZE_KEY :: string where "XPROPERTY_AUTHORIZE_KEY = ''@6''"
definition XPROPERTY_ACCOUNT_KEYS :: string where "XPROPERTY_ACCOUNT_KEYS = ''@7''"
definition XPROPERTY_ACCOUNT_VOTE_KEY :: string where "XPROPERTY_ACCOUNT_VOTE_KEY = ''@8''"
definition XPROPERTY_ACCOUNT_TRANSFER_KEY :: string where "XPROPERTY_ACCOUNT_TRANSFER_KEY = ''@9''"
definition XPROPERTY_ACCOUNT_DATA_KEY :: string where "XPROPERTY_ACCOUNT_DATA_KEY = ''@10''"
definition XPROPERTY_ACCOUNT_CONSENSUS_KEY :: string where "XPROPERTY_ACCOUNT_CONSENSUS_KEY = ''@11''"
definition XPORPERTY_PARENT_ACCOUNT_KEY :: string where "XPORPERTY_PARENT_ACCOUNT_KEY = ''@12''"
definition XPORPERTY_SUB_ACCOUNT_KEY :: string where "XPORPERTY_SUB_ACCOUNT_KEY = ''@13''"
definition XPORPERTY_CONTRACT_SUB_ACCOUNT_KEY :: string where "XPORPERTY_CONTRACT_SUB_ACCOUNT_KEY = ''@14''"
definition XPORPERTY_CONTRACT_PARENT_ACCOUNT_KEY :: string where "XPORPERTY_CONTRACT_PARENT_ACCOUNT_KEY = ''@15''"
definition XPORPERTY_CONTRACT_NATIVE_TOKEN_KEY :: string where "XPORPERTY_CONTRACT_NATIVE_TOKEN_KEY = ''@16''"
definition XPROPERTY_CONTRACT_VOTE_KEY :: string where "XPROPERTY_CONTRACT_VOTE_KEY = ''@18''"
definition XPROPERTY_CONTRACT_VOTE_OUT_KEY :: string where "XPROPERTY_CONTRACT_VOTE_OUT_KEY = ''@19''"
definition XPROPERTY_USED_DISK_KEY :: string where "XPROPERTY_USED_DISK_KEY = ''@34''"
definition XPROPERTY_CONTRACT_TGAS_LIMIT_KEY :: string where "XPROPERTY_CONTRACT_TGAS_LIMIT_KEY = ''@37''"
definition XPROPERTY_PLEDGE_VOTE_KEY :: string where "XPROPERTY_PLEDGE_VOTE_KEY = ''@45''"
definition XPROPERTY_EXPIRE_VOTE_TOKEN_KEY :: string where "XPROPERTY_EXPIRE_VOTE_TOKEN_KEY = ''@46''"

lemmas property_key_defs = XPROPERTY_USED_TGAS_KEY_def XPROPERTY_LAST_TX_HOUR_KEY_def
  XPROPERTY_CONTRACT_CODE_def XPROPERTY_ALIAS_NAME_def XPROPERTY_LOCK_TOKEN_KEY_def
  XPROPERTY_LOCK_TOKEN_SUM_KEY_def XPROPERTY_AUTHORIZE_KEY_def XPROPERTY_ACCOUNT_KEYS_def
  XPROPERTY_ACCOUNT_VOTE_KEY_def XPROPERTY_ACCOUNT_TRANSFER_KEY_def XPROPERTY_ACCOUNT_DATA_KEY_def
  XPROPERTY_ACCOUNT_CONSENSUS_KEY_def XPORPERTY_PARENT_ACCOUNT_KEY_def XPORPERTY_SUB_ACCOUNT_KEY_def
  XPORPERTY_CONTRACT_SUB_ACCOUNT_KEY_def XPORPERTY_CONTRACT_PARENT_ACCOUNT_KEY_def
  XPORPERTY_CONTRACT_NATIVE_TOKEN_KEY_def XPROPERTY_CONTRACT_VOTE_KEY_def
  XPROPERTY_CONTRACT_VOTE_OUT_KEY_def XPROPERTY_USED_DISK_KEY_def XPROPERTY_CONTRACT_TGAS_LIMIT_KEY_def
  XPROPERTY_PLEDGE_VOTE_KEY_def XPROPERTY_EXPIRE_VOTE_TOKEN_KEY_def

text \<open>A call \<open>m_native_property.f(..)\<close> that changes the table, and one that only reads it.\<close>

definition native :: "(heap \<Rightarrow> xnative_property \<Rightarrow> xret \<times> heap \<times> xnative_property) \<Rightarrow> xaccount_context
    \<Rightarrow> xret \<times> xaccount_context" where
  "native f c = (let (r, h, np) = f (ctx_heap c) (ctx_native c) in (r, c\<lparr>ctx_heap := h, ctx_native := np\<rparr>))"

abbreviation native_do :: "(heap \<Rightarrow> xnative_property \<Rightarrow> xret \<times> heap \<times> xnative_property) \<Rightarrow> xaccount_context
    \<Rightarrow> xaccount_context" where
  "native_do f c \<equiv> snd (native f c)"

abbreviation native_see :: "(heap \<Rightarrow> xnative_property \<Rightarrow> 'a) \<Rightarrow> xaccount_context \<Rightarrow> 'a" where
  "native_see f c \<equiv> f (ctx_heap c) (ctx_native c)"

definition get_lock_token_sum :: "xaccount_context \<Rightarrow> u64 option" where
  "get_lock_token_sum c = native_see (native_number XPROPERTY_LOCK_TOKEN_SUM_KEY) c"

definition set_lock_token_sum :: "u64 \<Rightarrow> xaccount_context \<Rightarrow> xaccount_context" where
  "set_lock_token_sum v c = native_do (native_string_set XPROPERTY_LOCK_TOKEN_SUM_KEY (to_string v)) c"

definition can_work :: "xenv \<Rightarrow> xaccount_context \<Rightarrow> bool option" where
  "can_work E c =
     (if is_sys_contract_address (ctx_address c) then Some True
      else do { lock_sum \<leftarrow> get_lock_token_sum c; Some (\<not> lock_sum < min_account_deposit (env_conf E)) })"


section \<open>Tokens\<close>

definition sys_contract_zec_reward_addr :: string where
  "sys_contract_zec_reward_addr = ''T200024uV5yB1ZCnXe7SbViA86ufhouFjpDKNRd3X@0''"

definition top_token_transfer_out :: "xenv \<Rightarrow> u64 \<Rightarrow> u64 \<Rightarrow> u64 \<Rightarrow> xaccount_context
    \<Rightarrow> (xret \<times> xaccount_context) option" where
  "top_token_transfer_out E amount gas_fee service_fee c =
     (if m_account (ctx_account c) = sys_contract_zec_reward_addr then Some (xsuccess, c)
      else do {
        lock_sum \<leftarrow> get_lock_token_sum c;
        work \<leftarrow> (if amount \<noteq> 0 then can_work E c else Some True);
        if \<not> work then Some (EStore xaccount_balance_not_enough, c)
        else do {
          let bal = balance (ctx_account c);
          deduct \<leftarrow> Option.bind (xadd amount gas_fee) (\<lambda>r. xadd r service_fee);
          if sint (bal + ctx_balance_change c) < sint deduct then Some (EStore xaccount_balance_not_enough, c)
          else Some (xsuccess, c\<lparr>ctx_balance_change := ctx_balance_change c - deduct\<rparr>) } })"

definition other_token_transfer_out :: "xenv \<Rightarrow> xproperty_asset \<Rightarrow> u64 \<Rightarrow> u64 \<Rightarrow> xaccount_context
    \<Rightarrow> (xret \<times> xaccount_context) option" where
  "other_token_transfer_out E asset gas_fee service_fee c =
     (case native_see (native_map_get XPORPERTY_CONTRACT_NATIVE_TOKEN_KEY (m_token_name asset)) c of
        Inl _ \<Rightarrow> Some (EStore xaccount_balance_not_enough, c)
      | Inr token_value \<Rightarrow> do {
          v \<leftarrow> stoull token_value;
          if m_amount asset \<le> v then do {
            let (ret, c) = native (native_map_set XPORPERTY_CONTRACT_NATIVE_TOKEN_KEY (m_token_name asset)
                                     (to_string (v - m_amount asset))) c;
            if ret = xsuccess \<and> (0 < gas_fee \<or> 0 < service_fee) then top_token_transfer_out E 0 gas_fee service_fee c
            else Some (ret, c) }
          else Some (EStore xaccount_balance_not_enough, c) })"

definition token_transfer_out :: "xenv \<Rightarrow> xproperty_asset \<Rightarrow> u64 \<Rightarrow> u64 \<Rightarrow> xaccount_context
    \<Rightarrow> (xret \<times> xaccount_context) option" where
  "token_transfer_out E asset gas_fee service_fee c =
     (if is_top_token asset then top_token_transfer_out E (m_amount asset) gas_fee service_fee c
      else other_token_transfer_out E asset gas_fee service_fee c)"

text \<open>The first tokens of an account are locked until the sum of locked tokens reaches the minimum
  deposit.\<close>

definition top_token_transfer_in :: "xenv \<Rightarrow> u64 \<Rightarrow> xaccount_context \<Rightarrow> (xret \<times> xaccount_context) option" where
  "top_token_transfer_in E amount c =
     (if amount = 0 then Some (xsuccess, c)
      else if is_sys_contract_address (ctx_address c)
      then Some (xsuccess, c\<lparr>ctx_balance_change := ctx_balance_change c + amount\<rparr>)
      else do {
        let min_deposit = min_account_deposit (env_conf E);
        lock_sum \<leftarrow> get_lock_token_sum c;
        if lock_sum = 0 then
          if amount < 1 then Some (EStore xaccount_transfer_less_than_safe_amount, c)
          else
            let lock_amount = (if min_deposit < amount then min_deposit else amount);
                c = set_lock_token_sum lock_amount c
            in Some (xsuccess, c\<lparr>ctx_balance_change := ctx_balance_change c + (amount - lock_amount)\<rparr>)
        else if lock_sum < min_deposit then
          let need_lock = min_deposit - lock_sum;
              lock_amount = (if need_lock < amount then need_lock else amount);
              c = set_lock_token_sum (lock_amount + lock_sum) c
          in Some (xsuccess, c\<lparr>ctx_balance_change := ctx_balance_change c + (amount - lock_amount)\<rparr>)
        else Some (xsuccess, c\<lparr>ctx_balance_change := ctx_balance_change c + amount\<rparr>) })"

definition other_token_transfer_in :: "xproperty_asset \<Rightarrow> xaccount_context \<Rightarrow> (xret \<times> xaccount_context) option" where
  "other_token_transfer_in asset c = do {
     empty \<leftarrow> (if balance (ctx_account c) = 0 then map_option (\<lambda>s. s = 0) (get_lock_token_sum c) else Some False);
     if empty \<and> \<not> is_sys_contract_address (ctx_address c) then Some (EStore xaccount_account_not_exist, c)
     else do {
       bal \<leftarrow> (case native_see (native_map_get XPORPERTY_CONTRACT_NATIVE_TOKEN_KEY (m_token_name asset)) c of
                 Inl _ \<Rightarrow> Some (m_amount asset)
               | Inr v \<Rightarrow> Option.bind (stoull v) (\<lambda>v. xadd v (m_amount asset)));
       Some (native (native_map_set XPORPERTY_CONTRACT_NATIVE_TOKEN_KEY (m_token_name asset) (to_string bal)) c) } }"

definition token_transfer_in :: "xenv \<Rightarrow> xproperty_asset \<Rightarrow> xaccount_context \<Rightarrow> (xret \<times> xaccount_context) option" where
  "token_transfer_in E asset c =
     (if is_top_token asset then top_token_transfer_in E (m_amount asset) c else other_token_transfer_in asset c)"

definition get_source_transfer_in :: "xaccount_context \<Rightarrow> xproperty_asset" where
  "get_source_transfer_in c =
     top_asset (if 0 \<le> sint (ctx_balance_change c) then ctx_balance_change c else 0)"


section \<open>Accounts, parents and keys\<close>

definition ctx_create_user_account :: "xenv \<Rightarrow> xaccount_context \<Rightarrow> xret \<times> xaccount_context" where
  "ctx_create_user_account E c =
     (if m_max_block_height (ctx_account c) \<noteq> 0 then (EStore xaccount_unit_height_should_zero, c)
      else (xsuccess, (set_lock_token_sum (min_account_deposit (env_conf E)) c)\<lparr>ctx_balance_change := ASSET_TOP 100000000\<rparr>))"

definition exist_sub_or_contract_account :: "xaccount_context \<Rightarrow> xret" where
  "exist_sub_or_contract_account c =
     (let some = (\<lambda>k. case native_see (native_deque_size k) c of Inr n \<Rightarrow> 0 < sint n | Inl _ \<Rightarrow> False)
      in if some XPORPERTY_SUB_ACCOUNT_KEY then EStore xaccount_property_sub_account_exist
         else if some XPORPERTY_CONTRACT_SUB_ACCOUNT_KEY then EStore xaccount_property_contract_sub_account_exist
         else xsuccess)"

text \<open>The two checks differ in the property and in the limit, 32 contracts or 256 sub accounts.\<close>

definition sub_check :: "string \<Rightarrow> int \<Rightarrow> string \<Rightarrow> xaccount_context \<Rightarrow> xret" where
  "sub_check key max_num v c =
     (if native_see (native_deque_exist key v) c then EStore xaccount_property_sub_account_exist
      else case native_see (native_deque_size key) c of
             Inr n \<Rightarrow> if max_num \<le> sint n then EStore xaccount_property_sub_account_overflow else xsuccess
           | Inl _ \<Rightarrow> xsuccess)"

definition sub_contract_sub_account_check :: "string \<Rightarrow> xaccount_context \<Rightarrow> xret" where
  "sub_contract_sub_account_check v c = sub_check XPORPERTY_CONTRACT_SUB_ACCOUNT_KEY 32 v c"

definition sub_account_check :: "string \<Rightarrow> xaccount_context \<Rightarrow> xret" where
  "sub_account_check v c = sub_check XPORPERTY_SUB_ACCOUNT_KEY 256 v c"

definition set_contract_sub_account :: "string \<Rightarrow> xaccount_context \<Rightarrow> xret \<times> xaccount_context" where
  "set_contract_sub_account v c = native (native_deque_push_back XPORPERTY_CONTRACT_SUB_ACCOUNT_KEY v) c"

definition set_sub_account :: "string \<Rightarrow> xaccount_context \<Rightarrow> xret \<times> xaccount_context" where
  "set_sub_account v c = native (native_deque_push_back XPORPERTY_SUB_ACCOUNT_KEY v) c"

definition remove_sub_account :: "string \<Rightarrow> xaccount_context \<Rightarrow> xret \<times> xaccount_context" where
  "remove_sub_account v c = native (native_deque_erase XPORPERTY_SUB_ACCOUNT_KEY v) c"

definition remove_contract_sub_account :: "string \<Rightarrow> xaccount_context \<Rightarrow> xret \<times> xaccount_context" where
  "remove_contract_sub_account v c = native (native_deque_erase XPORPERTY_CONTRACT_SUB_ACCOUNT_KEY v) c"

text \<open>The result of the transfer of the rest above the minimum deposit is not looked at.\<close>

definition set_parent :: "xenv \<Rightarrow> string \<Rightarrow> u64 \<Rightarrow> string \<Rightarrow> xaccount_context \<Rightarrow> (xret \<times> xaccount_context) option" where
  "set_parent E key amount v c =
     (case native_see (native_string_get key) c of
        Inr _ \<Rightarrow> Some (EStore xaccount_property_parent_account_exist, c)
      | Inl _ \<Rightarrow> do {
          let min_deposit = min_account_deposit (env_conf E);
          let c = set_lock_token_sum min_deposit c;
          (_, c) \<leftarrow> top_token_transfer_in E (if min_deposit < amount then amount - min_deposit else 0) c;
          Some (native (native_string_set key v) c) })"

definition set_contract_parent_account :: "xenv \<Rightarrow> u64 \<Rightarrow> string \<Rightarrow> xaccount_context
    \<Rightarrow> (xret \<times> xaccount_context) option" where
  "set_contract_parent_account E amount v c = set_parent E XPORPERTY_CONTRACT_PARENT_ACCOUNT_KEY amount v c"

definition set_parent_account :: "xenv \<Rightarrow> u64 \<Rightarrow> string \<Rightarrow> xaccount_context
    \<Rightarrow> (xret \<times> xaccount_context) option" where
  "set_parent_account E amount v c = set_parent E XPORPERTY_PARENT_ACCOUNT_KEY amount v c"

text \<open>The code returned for a parent that is there is \<open>xaccount_property_parent_account_exist\<close>.\<close>

definition get_parent_account :: "xaccount_context \<Rightarrow> xret \<times> string" where
  "get_parent_account c =
     (case native_see (native_string_get XPORPERTY_CONTRACT_PARENT_ACCOUNT_KEY) c of
        Inr v \<Rightarrow> (EStore xaccount_property_parent_account_exist, v)
      | Inl _ \<Rightarrow> (EStore xaccount_property_parent_account_not_exist, []))"

definition account_alias_name_set :: "xenv \<Rightarrow> string \<Rightarrow> xaccount_context \<Rightarrow> (xret \<times> xaccount_context) option" where
  "account_alias_name_set E name c = do {
     lock_sum \<leftarrow> get_lock_token_sum c;
     work \<leftarrow> can_work E c;
     Some (if \<not> work then (EStore xaccount_balance_not_enough, c)
           else if m_max_block_height (ctx_account c) = 0 then (EStore xaccount_unit_height_should_not_zero, c)
           else native (native_string_set XPROPERTY_ALIAS_NAME name) c) }"

definition account_set_keys :: "xenv \<Rightarrow> string \<Rightarrow> string \<Rightarrow> xaccount_context \<Rightarrow> (xret \<times> xaccount_context) option" where
  "account_set_keys E key v c = do {
     lock_sum \<leftarrow> get_lock_token_sum c;
     work \<leftarrow> can_work E c;
     Some (if \<not> work then (EStore xaccount_balance_not_enough, c)
           else if key \<noteq> XPROPERTY_ACCOUNT_VOTE_KEY \<and> key \<noteq> XPROPERTY_ACCOUNT_TRANSFER_KEY \<and>
                   key \<noteq> XPROPERTY_ACCOUNT_DATA_KEY \<and> key \<noteq> XPROPERTY_ACCOUNT_CONSENSUS_KEY
           then (EStore xaccount_set_keys_key_illegal, c)
           else native (native_map_set XPROPERTY_ACCOUNT_KEYS key v) c) }"

definition authorize_key :: "string \<Rightarrow> xaccount_context \<Rightarrow> xret \<times> xaccount_context" where
  "authorize_key params c = (xsuccess, native_do (native_map_set XPROPERTY_AUTHORIZE_KEY XPROPERTY_ACCOUNT_TRANSFER_KEY params) c)"


section \<open>Gas and disk\<close>

definition ctx_token_price :: "xenv \<Rightarrow> xaccount_context \<Rightarrow> u32 option" where
  "ctx_token_price E c = get_token_price (env_conf E) (ctx_sys_total_lock_tgas_token c)"

text \<open>The available gas is computed on the account clone, with the used gas of its own table.\<close>

definition get_available_tgas :: "xenv \<Rightarrow> xaccount_context \<Rightarrow> u64 option" where
  "get_available_tgas E c = do {
     price \<leftarrow> ctx_token_price E c;
     blockchain_available_tgas (env_conf E) (ctx_timer_height c) price (ctx_heap c) (ctx_account c) }"

definition ctx_total_tgas :: "xenv \<Rightarrow> xaccount_context \<Rightarrow> u64 option" where
  "ctx_total_tgas E c = do { price \<leftarrow> ctx_token_price E c; Some (get_total_tgas (env_conf E) price (ctx_account c)) }"

definition set_pledge_token_tgas :: "u64 \<Rightarrow> xaccount_context \<Rightarrow> xret \<times> xaccount_context" where
  "set_pledge_token_tgas num c =
     (if num = 0 then (EStore xtransaction_non_positive_pledge_token, c)
      else if balance (ctx_account c) < num then (EStore xtransaction_not_enough_token, c)
      else (xsuccess, c\<lparr>ctx_pledge_tgas := ctx_pledge_tgas c + num,
              ctx_account := (ctx_account c)\<lparr>m_account_state :=
                (m_account_state (ctx_account c))\<lparr>pledge_tgas := num + tgas_balance (ctx_account c)\<rparr>\<rparr>\<rparr>))"

definition redeem_pledge_token_tgas :: "u64 \<Rightarrow> xaccount_context \<Rightarrow> xret \<times> xaccount_context" where
  "redeem_pledge_token_tgas num c =
     (let pledge_token = tgas_balance (ctx_account c)
      in if pledge_token < num then (EStore xtransaction_not_enough_pledge_token_tgas, c)
         else (xsuccess, c\<lparr>ctx_pledge_tgas := ctx_pledge_tgas c - num,
                ctx_account := (ctx_account c)\<lparr>m_account_state :=
                  (m_account_state (ctx_account c))\<lparr>pledge_tgas := pledge_token - num\<rparr>\<rparr>\<rparr>))"

definition set_pledge_token_disk :: "u64 \<Rightarrow> xaccount_context \<Rightarrow> xret \<times> xaccount_context" where
  "set_pledge_token_disk num c =
     (if balance (ctx_account c) < num then (EStore xtransaction_pledge_too_much_token, c)
      else (xsuccess, c\<lparr>ctx_pledge_disk := ctx_pledge_disk c + num,
              ctx_account := (ctx_account c)\<lparr>m_account_state :=
                (m_account_state (ctx_account c))\<lparr>pledge_disk := num + disk_balance (ctx_account c)\<rparr>\<rparr>\<rparr>))"

definition redeem_pledge_token_disk :: "u64 \<Rightarrow> xaccount_context \<Rightarrow> xret \<times> xaccount_context" where
  "redeem_pledge_token_disk num c =
     (let pledge_token = disk_balance (ctx_account c)
      in if pledge_token < num then (EStore xtransaction_not_enough_pledge_token_disk, c)
         else (xsuccess, c\<lparr>ctx_pledge_disk := ctx_pledge_disk c - num,
                ctx_account := (ctx_account c)\<lparr>m_account_state :=
                  (m_account_state (ctx_account c))\<lparr>pledge_disk := pledge_token - num\<rparr>\<rparr>\<rparr>))"

definition ctx_get_used_tgas :: "xaccount_context \<Rightarrow> u64 option" where
  "ctx_get_used_tgas c = native_see (native_number XPROPERTY_USED_TGAS_KEY) c"

definition get_last_tx_hour :: "xaccount_context \<Rightarrow> u64 option" where
  "get_last_tx_hour c = native_see (native_number XPROPERTY_LAST_TX_HOUR_KEY) c"

definition set_last_tx_hour :: "u64 \<Rightarrow> xaccount_context \<Rightarrow> xaccount_context" where
  "set_last_tx_hour num c = native_do (native_string_set XPROPERTY_LAST_TX_HOUR_KEY (to_string num)) c"

definition ctx_set_used_tgas :: "u64 \<Rightarrow> xaccount_context \<Rightarrow> xaccount_context" where
  "ctx_set_used_tgas num c =
     (let c = native_do (native_string_set XPROPERTY_USED_TGAS_KEY (to_string num)) c
      in native_do (native_string_set XPROPERTY_LAST_TX_HOUR_KEY (to_string (ctx_timer_height c))) c)"

text \<open>The used gas after decay, on the table of the context.  A timer before the last hour is not
  treated apart: the difference wraps.\<close>

definition calc_decayed_tgas :: "xenv \<Rightarrow> xaccount_context \<Rightarrow> u64 option" where
  "calc_decayed_tgas E c = do {
     hour \<leftarrow> get_last_tx_hour c;
     let last_hour = (ucast (ucast hour :: u32) :: u64);
     let decay_time = (ucast (usedgas_decay_cycle (env_conf E)) :: u64);
     if ctx_timer_height c - last_hour < decay_time then do {
       used \<leftarrow> ctx_get_used_tgas c;
       udiv ((decay_time - (ctx_timer_height c - last_hour)) * used) decay_time }
     else Some 0 }"

definition incr_used_tgas :: "xenv \<Rightarrow> u64 \<Rightarrow> xaccount_context \<Rightarrow> xaccount_context option" where
  "incr_used_tgas E num c = do { used \<leftarrow> calc_decayed_tgas E c; Some (ctx_set_used_tgas (num + used) c) }"

definition get_tgas_limit :: "xaccount_context \<Rightarrow> u64 option" where
  "get_tgas_limit c = native_see (native_number XPROPERTY_CONTRACT_TGAS_LIMIT_KEY) c"

text \<open>The result, the gas usage and the deposit usage; the last two are output parameters.\<close>

definition check_used_tgas :: "xenv \<Rightarrow> u64 \<Rightarrow> u64 \<Rightarrow> u64 \<Rightarrow> xaccount_context \<Rightarrow> (xret \<times> u64 \<times> u64) option" where
  "check_used_tgas E cur_tgas_usage deposit deposit_usage c = do {
     last_hour \<leftarrow> get_last_tx_hour c;
     available \<leftarrow> get_available_tgas E c;
     let ratio = tx_deposit_gas_exchange_ratio (env_conf E);
     deposit_gas \<leftarrow> udiv deposit ratio;
     Some (if available + deposit_gas < cur_tgas_usage
           then (EStore xtransaction_not_enough_pledge_token_tgas, available, deposit)
           else if available < cur_tgas_usage
           then (xsuccess, available, (cur_tgas_usage - available) * ratio)
           else (xsuccess, cur_tgas_usage, deposit_usage)) }"

definition update_tgas_sender :: "xenv \<Rightarrow> u64 \<Rightarrow> u32 \<Rightarrow> u64 \<Rightarrow> xaccount_context
    \<Rightarrow> (xret \<times> u64 \<times> xaccount_context) option" where
  "update_tgas_sender E tgas_usage deposit deposit_usage c = do {
     (ret, tgas_usage, deposit_usage) \<leftarrow> check_used_tgas E tgas_usage (ucast deposit) deposit_usage c;
     c \<leftarrow> (if ret = xsuccess then incr_used_tgas E tgas_usage c else Some c);
     Some (ret, deposit_usage, c) }"

text \<open>The result, the deposit usage, the frozen gas that is left, and the context.\<close>

definition update_tgas_contract_recv :: "xenv \<Rightarrow> u64 \<Rightarrow> u32 \<Rightarrow> u64 \<Rightarrow> u64 \<Rightarrow> u64 \<Rightarrow> xaccount_context
    \<Rightarrow> (xret \<times> u64 \<times> u64 \<times> xaccount_context) option" where
  "update_tgas_contract_recv E sender_used_deposit deposit deposit_usage frozen deal c = do {
     available \<leftarrow> get_available_tgas E c;
     if deal \<le> frozen then Some (xsuccess, deposit_usage, frozen - deal, c)
     else do {
       let deal = deal - frozen;
       let min_tgas = min available (min frozen (ctx_tgas_limit c));
       if deal \<le> min_tgas then do {
         used \<leftarrow> calc_decayed_tgas E c;
         Some (xsuccess, deposit_usage, 0, ctx_set_used_tgas (used + deal) (c\<lparr>ctx_cur_used_tgas := ucast deal\<rparr>)) }
       else do {
         let deal = deal - min_tgas;
         let c = c\<lparr>ctx_cur_used_tgas := ucast min_tgas\<rparr>;
         let ratio = tx_deposit_gas_exchange_ratio (env_conf E);
         deposit_tgas \<leftarrow> udiv (ucast deposit - sender_used_deposit) ratio;
         let deposit_tgas = deposit_tgas - frozen;
         if deposit_tgas < deal then Some (EStore xtransaction_contract_not_enough_tgas, deposit_usage, 0, c)
         else do {
           used \<leftarrow> calc_decayed_tgas E c;
           Some (xsuccess, deal * ratio, 0, ctx_set_used_tgas (used + min_tgas) c) } } } }"

text \<open>The result, the gas, the used deposit, and the context.\<close>

definition calc_resource :: "xenv \<Rightarrow> u64 \<Rightarrow> u32 \<Rightarrow> u32 \<Rightarrow> xaccount_context
    \<Rightarrow> (xret \<times> u64 \<times> u32 \<times> xaccount_context) option" where
  "calc_resource E tgas deposit used_deposit c = do {
     used \<leftarrow> calc_decayed_tgas E c;
     available \<leftarrow> get_available_tgas E c;
     let ratio = tx_deposit_gas_exchange_ratio (env_conf E);
     deposit_gas \<leftarrow> udiv (ucast (deposit - used_deposit)) ratio;
     let (ret, tgas, used_deposit, c) =
       (if available + deposit_gas < tgas
        then (EStore xtransaction_not_enough_pledge_token_tgas, available - used, deposit,
              ctx_set_used_tgas (available + used) c)
        else if available < tgas
        then (xsuccess, tgas, used_deposit + ucast ((tgas - available) * ratio), ctx_set_used_tgas (available + used) c)
        else (xsuccess, tgas, used_deposit, ctx_set_used_tgas (used + tgas) c));
     Some (ret, tgas, used_deposit, c\<lparr>ctx_balance_change := ctx_balance_change c - ucast used_deposit\<rparr>) }"

definition ctx_get_used_disk :: "xaccount_context \<Rightarrow> u64 option" where
  "ctx_get_used_disk c = native_see (native_number XPROPERTY_USED_DISK_KEY) c"

definition ctx_set_used_disk :: "u64 \<Rightarrow> xaccount_context \<Rightarrow> xaccount_context" where
  "ctx_set_used_disk num c = native_do (native_string_set XPROPERTY_USED_DISK_KEY (to_string num)) c"

definition ctx_update_disk :: "u64 \<Rightarrow> xaccount_context \<Rightarrow> xret \<times> xaccount_context" where
  "ctx_update_disk disk_usage c = (xsuccess, c)"


section \<open>Locked tokens\<close>

text \<open>The record of a lock: the clock of the lock and the raw parameter of the lock action.\<close>

definition put_lock :: "u64 \<Rightarrow> string \<Rightarrow> bytes" where
  "put_lock clock params = put_u64 clock @ put_string params"

definition get_lock :: "bytes \<Rightarrow> (u64 \<times> xaction_lock_account_token) option" where
  "get_lock v = do { (clock, s) \<leftarrow> get_u64 v; (raw, s) \<leftarrow> get_string s; l \<leftarrow> lock_read_param raw; Some (clock, l) }"

definition lock_token :: "xenv \<Rightarrow> string \<Rightarrow> u64 \<Rightarrow> string \<Rightarrow> xaccount_context \<Rightarrow> (xret \<times> xaccount_context) option" where
  "lock_token E hash_str amount tran_params c = do {
     lock_sum \<leftarrow> get_lock_token_sum c;
     work \<leftarrow> can_work E c;
     Some (if \<not> work then (EStore xaccount_balance_not_enough, c)
           else if balance (ctx_account c) + ctx_balance_change c < amount then (EStore xaccount_lock_less_min_deposit, c)
           else case native_see (native_map_get XPROPERTY_LOCK_TOKEN_KEY hash_str) c of
             Inr _ \<Rightarrow> (EStore xaccount_property_lock_token_key_same, c)
           | Inl _ \<Rightarrow>
               let c = c\<lparr>ctx_balance_change := ctx_balance_change c - amount\<rparr>;
                   c = native_do (native_map_set XPROPERTY_LOCK_TOKEN_KEY hash_str
                         (put_lock (ctx_timer_height c) tran_params)) c
               in (xsuccess, set_lock_token_sum (lock_sum + amount) c)) }"

text \<open>Whether a time lock has run out; the first unlock value is the time in seconds.\<close>

definition lock_expired :: "xenv \<Rightarrow> u64 \<Rightarrow> u64 \<Rightarrow> xaction_lock_account_token \<Rightarrow> bool option" where
  "lock_expired E now clock l =
     (case m_unlock_values l of
        [] \<Rightarrow> None
      | v # _ \<Rightarrow> Some (\<not> (now - clock) * 10 < touint64 (env_utl E) v))"

text \<open>Key locks: the signatures are copied into fixed buffers of 65 bytes, reading past the end of a
  shorter text, and then not checked.\<close>

definition copy_signatures :: "string list \<Rightarrow> string list \<Rightarrow> unit option" where
  "copy_signatures keys signs =
     (if list_all (\<lambda>k. 64 \<le> length k) keys \<and> list_all (\<lambda>k. 64 \<le> length k) signs then Some () else None)"

definition unlock_token :: "xenv \<Rightarrow> string \<Rightarrow> string list \<Rightarrow> xaccount_context \<Rightarrow> (xret \<times> xaccount_context) option" where
  "unlock_token E lock_hash_str signs c = do {
     lock_sum \<leftarrow> get_lock_token_sum c;
     work \<leftarrow> can_work E c;
     if \<not> work then Some (EStore xaccount_balance_not_enough, c)
     else case native_see (native_map_get XPROPERTY_LOCK_TOKEN_KEY lock_hash_str) c of
       Inl _ \<Rightarrow> Some (EStore xaccount_property_unlock_token_key_not_exist, c)
     | Inr v \<Rightarrow> do {
         (clock, l) \<leftarrow> get_lock v;
         free \<leftarrow> (if m_unlock_type l = UT_time then lock_expired E (ctx_timer_height c) clock l
                  else do { _ \<leftarrow> copy_signatures (m_unlock_values l) signs; Some True });
         if \<not> free then Some (EStore xaccount_property_unlock_token_time_not_reach, c)
         else do {
           let (ret, c) = native (native_map_erase XPROPERTY_LOCK_TOKEN_KEY lock_hash_str) c;
           if ret \<noteq> xsuccess then Some (EStore xaccount_property_unlock_token_key_not_exist, c)
           else let c = set_lock_token_sum (lock_sum - lock_amount l) c
                in Some (xsuccess, c\<lparr>ctx_balance_change := ctx_balance_change c + lock_amount l\<rparr>) } } }"

text \<open>The loop over a copy of the lock records.  \<open>lock_sum\<close> is read once, before the loop.\<close>

fun unlock_all_loop :: "xenv \<Rightarrow> u64 \<Rightarrow> (string \<times> string) list \<Rightarrow> string \<Rightarrow> xaccount_context
    \<Rightarrow> (xret \<times> xaccount_context) option" where
  "unlock_all_loop E lock_sum [] v c = Some (xsuccess, c)"
| "unlock_all_loop E lock_sum ((hash, _) # txs) v c = do {
     let v = (case native_see (native_map_get XPROPERTY_LOCK_TOKEN_KEY hash) c of Inr v \<Rightarrow> v | Inl _ \<Rightarrow> v);
     (clock, l) \<leftarrow> get_lock v;
     free \<leftarrow> (if m_unlock_type l = UT_time then lock_expired E (ctx_timer_height c) clock l else Some False);
     if \<not> free then unlock_all_loop E lock_sum txs v c
     else do {
       let (ret, c) = native (native_map_erase XPROPERTY_LOCK_TOKEN_KEY hash) c;
       if ret \<noteq> xsuccess then Some (EStore xaccount_property_unlock_token_key_not_exist, c)
       else
         let c = set_lock_token_sum (lock_sum - lock_amount l) c
         in unlock_all_loop E lock_sum txs v (c\<lparr>ctx_balance_change := ctx_balance_change c + lock_amount l\<rparr>) } }"

definition unlock_all_token :: "xenv \<Rightarrow> xaccount_context \<Rightarrow> (xret \<times> xaccount_context) option" where
  "unlock_all_token E c = do {
     lock_sum \<leftarrow> get_lock_token_sum c;
     work \<leftarrow> can_work E c;
     if \<not> work then Some (EStore xaccount_balance_not_enough, c)
     else case native_see (\<lambda>h np. map_get h np XPROPERTY_LOCK_TOKEN_KEY) c of
       None \<Rightarrow> Some (xsuccess, c)
     | Some (_, lock_txs) \<Rightarrow> unlock_all_loop E lock_sum lock_txs [] c }"


section \<open>Pledged votes\<close>

definition serilize_vote :: "u64 \<Rightarrow> u16 \<Rightarrow> u64 \<Rightarrow> string" where
  "serilize_vote vote_num duration lock_time = put_u64 vote_num @ put_u16 duration @ put_u64 lock_time"

definition deserilize_vote :: "string \<Rightarrow> (u64 \<times> u16 \<times> u64) option" where
  "deserilize_vote str = do {
     (vote_num, s) \<leftarrow> get_u64 str; (duration, s) \<leftarrow> get_u16 s; (lock_time, s) \<leftarrow> get_u64 s;
     Some (vote_num, duration, lock_time) }"

definition vote_expired :: "u64 \<Rightarrow> u16 \<Rightarrow> u64 \<Rightarrow> bool" where
  "vote_expired now duration lock_time \<longleftrightarrow> ucast duration * 24 * 60 * 6 \<le> now - lock_time"

text \<open>\<open>expire_token += TOP_UNIT * vote_num / rate\<close> adds in \<open>double\<close> and converts back.\<close>

definition add_expire_token :: "u64 \<Rightarrow> u64 \<Rightarrow> u16 \<Rightarrow> u64 option" where
  "add_expire_token expire_token vote_num duration =
     dbl_u64 (dbl (u64_dbl expire_token + vote_price vote_num duration))"

fun merge_loop :: "string list \<Rightarrow> u64 \<Rightarrow> u64 \<Rightarrow> xaccount_context \<Rightarrow> (u64 \<times> u64 \<times> xaccount_context) option" where
  "merge_loop [] vote_sum expire_token c = Some (vote_sum, expire_token, c)"
| "merge_loop (str # ds) vote_sum expire_token c = do {
     (vote_num, duration, lock_time) \<leftarrow> deserilize_vote str;
     if vote_expired (ctx_timer_height c) duration lock_time then do {
       let c = native_do (native_deque_erase XPROPERTY_PLEDGE_VOTE_KEY str) c;
       expire_token \<leftarrow> (if duration \<noteq> 0 then add_expire_token expire_token vote_num duration else Some expire_token);
       merge_loop ds (vote_sum + vote_num) expire_token c }
     else merge_loop ds vote_sum expire_token c }"

definition merge_pledge_vote_property :: "xenv \<Rightarrow> xaccount_context \<Rightarrow> xaccount_context option" where
  "merge_pledge_vote_property E c =
     (case native_see (\<lambda>h np. deque_get h np XPROPERTY_PLEDGE_VOTE_KEY) c of
        None \<Rightarrow> Some c
      | Some (_, ds) \<Rightarrow> do {
          (vote_sum, expire_token, c) \<leftarrow> merge_loop ds 0 0 c;
          let c = (if 0 < vote_sum then native_do (native_deque_push_back XPROPERTY_PLEDGE_VOTE_KEY (serilize_vote vote_sum 0 0)) c
                   else c);
          let val = (case native_see (native_string_get XPROPERTY_EXPIRE_VOTE_TOKEN_KEY) c of Inr v \<Rightarrow> v | Inl _ \<Rightarrow> []);
          Some (if 0 < expire_token
                then native_do (native_string_set XPROPERTY_EXPIRE_VOTE_TOKEN_KEY
                       (tostring (env_utl E) (expire_token + touint64 (env_utl E) val))) c
                else c) })"

text \<open>The search of a record to merge with: the number of votes, the lock time of the record read
  last, and the context.\<close>

fun insert_loop :: "u64 \<Rightarrow> u16 \<Rightarrow> string list \<Rightarrow> u64 \<Rightarrow> xaccount_context \<Rightarrow> (u64 \<times> u64 \<times> xaccount_context) option" where
  "insert_loop action_num action_duration [] last_time c = Some (action_num, last_time, c)"
| "insert_loop action_num action_duration (str # ds) last_time c = do {
     (vote_num, duration, lock_time) \<leftarrow> deserilize_vote str;
     if action_duration = duration \<and> ctx_timer_height c - lock_time < 24 * 60 * 6
     then Some (action_num + vote_num, lock_time, native_do (native_deque_erase XPROPERTY_PLEDGE_VOTE_KEY str) c)
     else insert_loop action_num action_duration ds lock_time c }"

definition insert_pledge_vote_property :: "u64 \<Rightarrow> u16 \<Rightarrow> xaccount_context \<Rightarrow> (xret \<times> xaccount_context) option" where
  "insert_pledge_vote_property num duration c =
     (if (case native_see (native_deque_size XPROPERTY_PLEDGE_VOTE_KEY) c of Inr n \<Rightarrow> 128 \<le> sint n | Inl _ \<Rightarrow> False)
      then Some (EStore xtransaction_pledge_redeem_vote_err, c)
      else do {
        let ds = (case native_see (\<lambda>h np. deque_get h np XPROPERTY_PLEDGE_VOTE_KEY) c of Some (_, ds) \<Rightarrow> ds | None \<Rightarrow> []);
        (num, lock_time, c) \<leftarrow> insert_loop num duration ds 0 c;
        Some (native (native_deque_push_back XPROPERTY_PLEDGE_VOTE_KEY
               (serilize_vote num duration (if lock_time = 0 then ctx_timer_height c else lock_time))) c) })"

definition update_pledge_vote_property :: "xenv \<Rightarrow> u64 \<Rightarrow> u16 \<Rightarrow> xaccount_context \<Rightarrow> (xret \<times> xaccount_context) option" where
  "update_pledge_vote_property E num duration c = do {
     c \<leftarrow> merge_pledge_vote_property E c; insert_pledge_vote_property num duration c }"

fun redeem_loop :: "xenv \<Rightarrow> u64 \<Rightarrow> string list \<Rightarrow> xaccount_context \<Rightarrow> (xret \<times> xaccount_context) option" where
  "redeem_loop E num [] c = Some (EStore xtransaction_pledge_redeem_vote_err, c)"
| "redeem_loop E num (str # ds) c = do {
     (vote_num, duration, lock_time) \<leftarrow> deserilize_vote str;
     if duration = 0 then
       if vote_num < num then Some (EStore xtransaction_pledge_redeem_vote_err, c)
       else do {
         let c = native_do (native_deque_erase XPROPERTY_PLEDGE_VOTE_KEY str) c;
         let val = (case native_see (native_string_get XPROPERTY_EXPIRE_VOTE_TOKEN_KEY) c of Inr v \<Rightarrow> v | Inl _ \<Rightarrow> []);
         let expire_token = touint64 (env_utl E) val;
         balance_change \<leftarrow> udiv (num * expire_token) vote_num;
         let c = native_do (native_string_set XPROPERTY_EXPIRE_VOTE_TOKEN_KEY
                   (tostring (env_utl E) (expire_token - balance_change))) c;
         let c = (if 0 < vote_num - num
                  then native_do (native_deque_push_back XPROPERTY_PLEDGE_VOTE_KEY (serilize_vote (vote_num - num) 0 0)) c
                  else c);
         Some (xsuccess, ctx_set_vote_balance_change (- balance_change)
                (ctx_set_balance_change balance_change (ctx_set_unvote_num_change (- num) c))) }
     else redeem_loop E num ds c }"

definition redeem_pledge_vote_property :: "xenv \<Rightarrow> u64 \<Rightarrow> xaccount_context \<Rightarrow> (xret \<times> xaccount_context) option" where
  "redeem_pledge_vote_property E num c =
     redeem_loop E num (case native_see (\<lambda>h np. deque_get h np XPROPERTY_PLEDGE_VOTE_KEY) c of Some (_, ds) \<Rightarrow> ds | None \<Rightarrow> []) c"

end
