(* ===== verification/XContextProps.thy ===== *)
theory XContextProps
  imports XAccountContext
begin

text \<open>
  The rest of \<open>xaccount_context_t\<close>: the contract code, the property interface of contracts with its
  guard of native names, the transactions a contract creates, the vote records of the vote
  contract, and the result that the context hands to the unit.
\<close>

section \<open>Property interface\<close>

definition is_native_property :: "string \<Rightarrow> bool" where
  "is_native_property name \<longleftrightarrow> take 1 name = ''@''"

text \<open>A call on the commands of the context.\<close>

definition cmd_op :: "(xaccount_cmd \<Rightarrow> 'r \<times> xaccount_cmd) \<Rightarrow> xaccount_context \<Rightarrow> 'r \<times> xaccount_context" where
  "cmd_op f c = (let (r, cmd) = f (ctx_accountcmd c) in (r, c\<lparr>ctx_accountcmd := cmd\<rparr>))"

definition check_create_property :: "xenv \<Rightarrow> string \<Rightarrow> xaccount_context \<Rightarrow> xret" where
  "check_create_property E key c =
     (if is_native_property key then EStore xstore_user_contract_should_not_do_native_property
      else if unat (custom_property_name_max_len (env_conf E)) \<le> length key
      then EStore xaccount_property_name_length_exceed_max
      else if custom_property_max_number (env_conf E) \<le> of_nat (length (m_property_hash (m_account_state (ctx_account c))))
      then EStore xaccount_property_number_exceed_max
      else xsuccess)"

definition prop_create :: "(xprop_source \<Rightarrow> string \<Rightarrow> bool \<Rightarrow> xaccount_cmd \<Rightarrow> xret \<times> xaccount_cmd)
    \<Rightarrow> xenv \<Rightarrow> string \<Rightarrow> xaccount_context \<Rightarrow> xret \<times> xaccount_context" where
  "prop_create create E key c =
     (let ret = check_create_property E key c
      in if ret \<noteq> xsuccess then (ret, c) else cmd_op (create (env_props E) key True) c)"

definition ctx_string_create :: "xenv \<Rightarrow> string \<Rightarrow> xaccount_context \<Rightarrow> xret \<times> xaccount_context" where
  "ctx_string_create = prop_create string_create"
definition ctx_list_create :: "xenv \<Rightarrow> string \<Rightarrow> xaccount_context \<Rightarrow> xret \<times> xaccount_context" where
  "ctx_list_create = prop_create list_create"
definition ctx_map_create :: "xenv \<Rightarrow> string \<Rightarrow> xaccount_context \<Rightarrow> xret \<times> xaccount_context" where
  "ctx_map_create = prop_create map_create"

text \<open>A change of a property: the guard \<open>CHECK_PROPERTY_NAME_NATIVE_RIGHT\<close>, then the commands for a
  user property or the native table.\<close>

definition prop_write :: "(xaccount_cmd \<Rightarrow> xret \<times> xaccount_cmd) \<Rightarrow> (heap \<Rightarrow> xnative_property \<Rightarrow> xret \<times> heap \<times> xnative_property)
    \<Rightarrow> string \<Rightarrow> bool \<Rightarrow> xaccount_context \<Rightarrow> xret \<times> xaccount_context" where
  "prop_write user table key native_flag c =
     (if \<not> native_flag \<and> is_native_property key then (EStore xstore_user_contract_should_not_do_native_property, c)
      else if \<not> is_native_property key then cmd_op user c
      else native table c)"

definition ctx_string_set :: "xenv \<Rightarrow> string \<Rightarrow> string \<Rightarrow> bool \<Rightarrow> xaccount_context \<Rightarrow> xret \<times> xaccount_context" where
  "ctx_string_set E key v = prop_write (string_set (env_props E) key v True) (native_string_set key v) key"
definition ctx_list_push_back :: "xenv \<Rightarrow> string \<Rightarrow> string \<Rightarrow> bool \<Rightarrow> xaccount_context \<Rightarrow> xret \<times> xaccount_context" where
  "ctx_list_push_back E key v = prop_write (list_push_back (env_props E) key v True) (native_deque_push_back key v) key"
definition ctx_list_push_front :: "xenv \<Rightarrow> string \<Rightarrow> string \<Rightarrow> bool \<Rightarrow> xaccount_context \<Rightarrow> xret \<times> xaccount_context" where
  "ctx_list_push_front E key v = prop_write (list_push_front (env_props E) key v True) (native_deque_push_front key v) key"
definition ctx_list_clear :: "xenv \<Rightarrow> string \<Rightarrow> bool \<Rightarrow> xaccount_context \<Rightarrow> xret \<times> xaccount_context" where
  "ctx_list_clear E key = prop_write (list_clear (env_props E) key True) (native_deque_clear key) key"
definition ctx_map_set :: "xenv \<Rightarrow> string \<Rightarrow> string \<Rightarrow> string \<Rightarrow> bool \<Rightarrow> xaccount_context \<Rightarrow> xret \<times> xaccount_context" where
  "ctx_map_set E key field v = prop_write (map_set (env_props E) key field v True) (native_map_set key field v) key"
definition ctx_map_remove :: "xenv \<Rightarrow> string \<Rightarrow> string \<Rightarrow> bool \<Rightarrow> xaccount_context \<Rightarrow> xret \<times> xaccount_context" where
  "ctx_map_remove E key field = prop_write (map_remove (env_props E) key field True) (native_map_erase key field) key"
definition ctx_map_clear :: "xenv \<Rightarrow> string \<Rightarrow> bool \<Rightarrow> xaccount_context \<Rightarrow> xret \<times> xaccount_context" where
  "ctx_map_clear E key = prop_write (map_clear (env_props E) key True) (native_map_clear key) key"

text \<open>The popped value is an output parameter as well; for a user property it is the end of the list
  as the commands see it.\<close>

definition prop_pop :: "(xaccount_cmd \<Rightarrow> (xret + string) \<times> xaccount_cmd) \<Rightarrow> (xaccount_cmd \<Rightarrow> xret \<times> xaccount_cmd)
    \<Rightarrow> (heap \<Rightarrow> xnative_property \<Rightarrow> string option \<times> xret \<times> heap \<times> xnative_property)
    \<Rightarrow> string \<Rightarrow> bool \<Rightarrow> xaccount_context \<Rightarrow> string option \<times> xret \<times> xaccount_context" where
  "prop_pop seen user table key native_flag c =
     (((if is_native_property key then (if native_flag then fst (native_see table c) else None)
        else case fst (seen (ctx_accountcmd c)) of Inr v \<Rightarrow> Some v | Inl _ \<Rightarrow> None),
       prop_write user (\<lambda>h np. snd (table h np)) key native_flag c))"

definition ctx_list_pop_back :: "xenv \<Rightarrow> string \<Rightarrow> bool \<Rightarrow> xaccount_context \<Rightarrow> string option \<times> xret \<times> xaccount_context" where
  "ctx_list_pop_back E key =
     prop_pop (cmd_list_get_back (env_props E) key) (list_pop_back (env_props E) key True) (native_deque_pop_back key) key"
definition ctx_list_pop_front :: "xenv \<Rightarrow> string \<Rightarrow> bool \<Rightarrow> xaccount_context \<Rightarrow> string option \<times> xret \<times> xaccount_context" where
  "ctx_list_pop_front E key =
     prop_pop (cmd_list_get_front (env_props E) key) (list_pop_front (env_props E) key True) (native_deque_pop_front key) key"

text \<open>\<open>string_read_get\<close>, \<open>deque_read_get\<close> and \<open>map_read_get\<close>: every failure becomes the same error.\<close>

definition prop_read :: "(xdataunit \<Rightarrow> 'x option) \<Rightarrow> ('x \<Rightarrow> xret + 'y) \<Rightarrow> xenv \<Rightarrow> string \<Rightarrow> xaccount_context
    \<Rightarrow> (xret + 'y) \<times> xaccount_context" where
  "prop_read as f E key c =
     (if is_native_property key
      then ((case native_see (\<lambda>h np. property_get as h np key) c of
               Some (_, x) \<Rightarrow> f x | None \<Rightarrow> Inl (EStore xaccount_property_not_create)), c)
      else let (r, c) = cmd_op (get_property_with_type as (env_props E) key) c
           in ((case r of Inr x \<Rightarrow> f x | Inl _ \<Rightarrow> Inl (EStore xaccount_property_not_create)), c))"

text \<open>A read with the address of another account makes a context of that account and reads there;
  \<open>peer\<close> is what the store has of it.\<close>

type_synonym xpeer = "string \<Rightarrow> xprop_source \<times> xblockchain2 option \<times> heap"

definition read_at :: "(xenv \<Rightarrow> xaccount_context \<Rightarrow> (xret + 'y) \<times> xaccount_context) \<Rightarrow> xpeer \<Rightarrow> xenv \<Rightarrow> string
    \<Rightarrow> xaccount_context \<Rightarrow> (xret + 'y) \<times> xaccount_context" where
  "read_at read peer E addr c =
     (if addr = [] then read E c
      else let (src, acct, h) = peer addr in (fst (read (E\<lparr>env_props := src\<rparr>) (context_new addr acct h)), c))"

definition get_contract_code :: "xenv \<Rightarrow> xaccount_context \<Rightarrow> (xret + string) \<times> xaccount_context" where
  "get_contract_code E c = cmd_op (cmd_string_get (env_props E) XPROPERTY_CONTRACT_CODE) c"

definition set_contract_code :: "xenv \<Rightarrow> string \<Rightarrow> xaccount_context \<Rightarrow> xret \<times> xaccount_context" where
  "set_contract_code E code c =
     (if m_max_block_height (ctx_account c) \<noteq> 0 then (EStore xaccount_unit_height_should_zero, c)
      else if code = [] \<or> unat (application_contract_code_max_len (env_conf E)) < length code
      then (EStore xaccount_property_contract_code_size_invalid, c)
      else let (ret, c) = cmd_op (string_create (env_props E) XPROPERTY_CONTRACT_CODE True) c
           in if ret \<noteq> xsuccess then (ret, c) else cmd_op (string_set (env_props E) XPROPERTY_CONTRACT_CODE code True) c)"

definition ctx_string_get :: "xpeer \<Rightarrow> xenv \<Rightarrow> string \<Rightarrow> string \<Rightarrow> xaccount_context \<Rightarrow> (xret + string) \<times> xaccount_context" where
  "ctx_string_get peer E key addr c =
     (if addr \<noteq> [] \<and> key = XPROPERTY_CONTRACT_CODE then read_at get_contract_code peer E addr c
      else read_at (\<lambda>E. prop_read as_string Inr E key) peer E addr c)"
definition ctx_string_empty :: "xenv \<Rightarrow> string \<Rightarrow> xaccount_context \<Rightarrow> (xret + bool) \<times> xaccount_context" where
  "ctx_string_empty = prop_read as_string (\<lambda>s. Inr (s = []))"
definition ctx_string_size :: "xenv \<Rightarrow> string \<Rightarrow> xaccount_context \<Rightarrow> (xret + i32) \<times> xaccount_context" where
  "ctx_string_size = prop_read as_string (\<lambda>s. Inr (of_nat (length s)))"
definition ctx_list_get_back :: "xenv \<Rightarrow> string \<Rightarrow> xaccount_context \<Rightarrow> (xret + string) \<times> xaccount_context" where
  "ctx_list_get_back = prop_read as_deque (\<lambda>q. or_fail xaccount_property_operate_fail (xdeque_get_back q))"
definition ctx_list_get_front :: "xenv \<Rightarrow> string \<Rightarrow> xaccount_context \<Rightarrow> (xret + string) \<times> xaccount_context" where
  "ctx_list_get_front = prop_read as_deque (\<lambda>q. or_fail xaccount_property_operate_fail (xdeque_get_front q))"
definition ctx_list_get :: "xpeer \<Rightarrow> xenv \<Rightarrow> string \<Rightarrow> u32 \<Rightarrow> string \<Rightarrow> xaccount_context \<Rightarrow> (xret + string) \<times> xaccount_context" where
  "ctx_list_get peer E key i addr =
     read_at (\<lambda>E. prop_read as_deque (\<lambda>q. or_fail xaccount_property_operate_fail (xdeque_get (unat i) q)) E key) peer E addr"
definition ctx_list_empty :: "xenv \<Rightarrow> string \<Rightarrow> xaccount_context \<Rightarrow> (xret + bool) \<times> xaccount_context" where
  "ctx_list_empty = prop_read as_deque (\<lambda>q. Inr (q = []))"
definition ctx_list_size :: "xpeer \<Rightarrow> xenv \<Rightarrow> string \<Rightarrow> string \<Rightarrow> xaccount_context \<Rightarrow> (xret + i32) \<times> xaccount_context" where
  "ctx_list_size peer E key addr = read_at (\<lambda>E. prop_read as_deque (\<lambda>q. Inr (of_nat (length q))) E key) peer E addr"
definition ctx_list_get_range :: "xenv \<Rightarrow> string \<Rightarrow> i32 \<Rightarrow> i32 \<Rightarrow> xaccount_context \<Rightarrow> (xret + string list) \<times> xaccount_context" where
  "ctx_list_get_range E key start stop =
     prop_read as_deque (\<lambda>q. let size = sint (of_nat (length q) :: i32); stop' = (if sint stop > size then size else sint stop)
                             in Inr (map (deque_at q) [sint start..stop' - 1])) E key"
definition ctx_list_get_all :: "xpeer \<Rightarrow> xenv \<Rightarrow> string \<Rightarrow> string \<Rightarrow> xaccount_context \<Rightarrow> (xret + string list) \<times> xaccount_context" where
  "ctx_list_get_all peer E key addr =
     read_at (\<lambda>E. prop_read as_deque (\<lambda>q. Inr (map (deque_at q) [0..sint (of_nat (length q) :: i32) - 1])) E key) peer E addr"
definition ctx_list_copy_get :: "xenv \<Rightarrow> string \<Rightarrow> xaccount_context \<Rightarrow> (xret + string list) \<times> xaccount_context" where
  "ctx_list_copy_get = prop_read as_deque Inr"
definition ctx_map_get :: "xpeer \<Rightarrow> xenv \<Rightarrow> string \<Rightarrow> string \<Rightarrow> string \<Rightarrow> xaccount_context \<Rightarrow> (xret + string) \<times> xaccount_context" where
  "ctx_map_get peer E key field addr =
     read_at (\<lambda>E. prop_read as_map (\<lambda>m. or_fail xaccount_property_map_field_not_create (xmap_get field m)) E key) peer E addr"
definition ctx_map_empty :: "xenv \<Rightarrow> string \<Rightarrow> xaccount_context \<Rightarrow> (xret + bool) \<times> xaccount_context" where
  "ctx_map_empty = prop_read as_map (\<lambda>m. Inr (m = []))"
definition ctx_map_size :: "xpeer \<Rightarrow> xenv \<Rightarrow> string \<Rightarrow> string \<Rightarrow> xaccount_context \<Rightarrow> (xret + i32) \<times> xaccount_context" where
  "ctx_map_size peer E key addr = read_at (\<lambda>E. prop_read as_map (\<lambda>m. Inr (of_nat (length m))) E key) peer E addr"
definition ctx_map_copy_get :: "xpeer \<Rightarrow> xenv \<Rightarrow> string \<Rightarrow> string \<Rightarrow> xaccount_context \<Rightarrow> (xret + xstrmap_t) \<times> xaccount_context" where
  "ctx_map_copy_get peer E key addr = read_at (\<lambda>E. prop_read as_map Inr E key) peer E addr"
definition map_property_exist :: "xenv \<Rightarrow> string \<Rightarrow> xaccount_context \<Rightarrow> xret \<times> xaccount_context" where
  "map_property_exist E key c =
     (let (r, c) = prop_read as_map Inr E key c in ((case r of Inr _ \<Rightarrow> xsuccess | Inl e \<Rightarrow> e), c))"

definition do_prop_set :: "xenv \<Rightarrow> xproperty_instruction \<Rightarrow> string \<Rightarrow> xaccount_context \<Rightarrow> xret \<times> xaccount_context" where
  "do_prop_set E i key c = cmd_op (do_instruction (env_props E) key i True) c"


section \<open>Transactions created by a contract\<close>

text \<open>Both makers advance the send counter of the account clone before they look at the limit.\<close>

definition push_contract_tx :: "xenv \<Rightarrow> xtransaction \<times> xblockchain2 \<Rightarrow> xaccount_context \<Rightarrow> xret \<times> xaccount_context" where
  "push_contract_tx E made c =
     (let (tx, account) = made; c = c\<lparr>ctx_account := account\<rparr>
      in if unat (contract_call_contracts_num (env_conf E)) \<le> length (ctx_contract_txs c)
         then (EStore xaccount_contract_number_exceed_max, c)
         else (xsuccess, c\<lparr>ctx_contract_txs := ctx_contract_txs c @ [cons_transaction tx]\<rparr>))"

definition create_transfer_tx :: "xenv \<Rightarrow> string \<Rightarrow> u64 \<Rightarrow> xaccount_context \<Rightarrow> xret \<times> xaccount_context" where
  "create_transfer_tx E receiver amount c =
     (if is_user_contract_address (ctx_address c) then (EStore xstore_user_contract_can_not_initiate_transaction, c)
      else push_contract_tx E (make_transfer_tx (env_hashes E) (ctx_account c) receiver amount (ctx_timestamp c) 0 0) c)"

definition generate_tx :: "xenv \<Rightarrow> string \<Rightarrow> string \<Rightarrow> string \<Rightarrow> xaccount_context \<Rightarrow> xret \<times> xaccount_context" where
  "generate_tx E target_addr func_name func_param c =
     (if is_user_contract_address (ctx_address c) then (EStore xstore_user_contract_can_not_initiate_transaction, c)
      else push_contract_tx E (make_run_contract_tx (env_hashes E) (ctx_account c) target_addr func_name func_param 0
             (ctx_timestamp c) 0 0) c)"


section \<open>Vote records of the vote contract\<close>

record xproperty_vote =
  vote_lock_hash :: string
  vote_amount :: u64
  vote_available :: u64
  vote_expiration :: u64

record xproperty_vote_out =
  out_address :: string
  out_lock_hash :: string
  out_amount :: u64
  out_expiration :: u64

definition vote_do_write :: "xproperty_vote \<Rightarrow> bytes" where
  "vote_do_write v = put_string (vote_lock_hash v) @ put_u64 (vote_amount v) @ put_u64 (vote_available v) @ put_u64 (vote_expiration v)"

definition vote_do_read :: "bytes \<Rightarrow> (xproperty_vote \<times> bytes) option" where
  "vote_do_read s = do {
     (h, s) \<leftarrow> get_string s; (a, s) \<leftarrow> get_u64 s; (b, s) \<leftarrow> get_u64 s; (e, s) \<leftarrow> get_u64 s;
     Some (\<lparr>vote_lock_hash = h, vote_amount = a, vote_available = b, vote_expiration = e\<rparr>, s) }"

definition vote_out_do_write :: "xproperty_vote_out \<Rightarrow> bytes" where
  "vote_out_do_write v = put_string (out_address v) @ put_string (out_lock_hash v) @ put_u64 (out_amount v) @ put_u64 (out_expiration v)"

definition vote_out_do_read :: "bytes \<Rightarrow> (xproperty_vote_out \<times> bytes) option" where
  "vote_out_do_read s = do {
     (a, s) \<leftarrow> get_string s; (h, s) \<leftarrow> get_string s; (n, s) \<leftarrow> get_u64 s; (e, s) \<leftarrow> get_u64 s;
     Some (\<lparr>out_address = a, out_lock_hash = h, out_amount = n, out_expiration = e\<rparr>, s) }"

text \<open>\<open>serialize_to\<close> and \<open>serialize_from\<close> wrap the fields in a length; the rest of the record is not
  looked at.\<close>

definition read_vote :: "string \<Rightarrow> xproperty_vote option" where
  "read_vote s = map_option fst (serialize_from vote_do_read s)"

definition read_vote_out :: "string \<Rightarrow> xproperty_vote_out option" where
  "read_vote_out s = map_option fst (serialize_from vote_out_do_read s)"

text \<open>The search takes record after record from the front and puts it back behind the others; it
  stops at the first match, which stays out of the list.\<close>

fun rotate_find :: "string \<Rightarrow> (string \<Rightarrow> bool option) \<Rightarrow> nat \<Rightarrow> string \<Rightarrow> xaccount_context
    \<Rightarrow> (string option \<times> xaccount_context) option" where
  "rotate_find key matches 0 v c = Some (None, c)"
| "rotate_find key matches (Suc n) v c = do {
     let (popped, _) = native_see (native_deque_pop_front key) c;
     let c = native_do (\<lambda>h np. snd (native_deque_pop_front key h np)) c;
     let v = (case popped of Some w \<Rightarrow> w | None \<Rightarrow> v);
     m \<leftarrow> matches v;
     if m then Some (Some v, c)
     else rotate_find key matches n v (native_do (native_deque_push_back key v) c) }"

definition deque_count :: "string \<Rightarrow> xaccount_context \<Rightarrow> nat" where
  "deque_count key c = (case native_see (native_deque_size key) c of Inr n \<Rightarrow> nat (sint n) | Inl _ \<Rightarrow> 0)"

definition get_vote_info :: "string \<Rightarrow> xaccount_context \<Rightarrow> (string option \<times> xaccount_context) option" where
  "get_vote_info lock_hash c =
     rotate_find XPROPERTY_CONTRACT_VOTE_KEY (\<lambda>s. map_option (\<lambda>v. lock_hash = vote_lock_hash v) (read_vote s))
       (deque_count XPROPERTY_CONTRACT_VOTE_KEY c) [] c"

definition get_vote_out_info :: "string \<Rightarrow> string \<Rightarrow> xaccount_context \<Rightarrow> (string option \<times> xaccount_context) option" where
  "get_vote_out_info addr_to lock_hash c =
     rotate_find XPROPERTY_CONTRACT_VOTE_OUT_KEY
       (\<lambda>s. map_option (\<lambda>v. out_address v = addr_to \<and> out_lock_hash v = lock_hash) (read_vote_out s))
       (deque_count XPROPERTY_CONTRACT_VOTE_OUT_KEY c) [] c"

definition vote_out :: "string \<Rightarrow> string \<Rightarrow> u64 \<Rightarrow> u64 \<Rightarrow> xaccount_context \<Rightarrow> (xret \<times> xaccount_context) option" where
  "vote_out addr_to lock_hash amount expiration c = do {
     (found, c) \<leftarrow> get_vote_info lock_hash c;
     case found of
       None \<Rightarrow> Some (EStore xaccount_property_not_exist, c)
     | Some value \<Rightarrow> do {
         v \<leftarrow> read_vote value;
         if vote_expiration v \<noteq> expiration \<or> vote_expiration v < ctx_timer_height c \<or> vote_available v < amount
         then Some (EStore xaccount_property_not_exist, native_do (native_deque_push_back XPROPERTY_CONTRACT_VOTE_KEY value) c)
         else do {
           let v = v\<lparr>vote_available := vote_available v - amount\<rparr>;
           let c = native_do (native_deque_push_back XPROPERTY_CONTRACT_VOTE_KEY (serialize_to vote_do_write v)) c;
           (old, c) \<leftarrow> get_vote_out_info addr_to lock_hash c;
           out \<leftarrow> (case old of
                    Some s \<Rightarrow> map_option (\<lambda>w. w\<lparr>out_amount := out_amount w + amount\<rparr>) (read_vote_out s)
                  | None \<Rightarrow> Some \<lparr>out_address = addr_to, out_lock_hash = vote_lock_hash v, out_amount = amount,
                                  out_expiration = vote_expiration v\<rparr>);
           Some (xsuccess, native_do (native_deque_push_back XPROPERTY_CONTRACT_VOTE_OUT_KEY (serialize_to vote_out_do_write out)) c) } } }"

definition vote_in :: "string \<Rightarrow> string \<Rightarrow> u64 \<Rightarrow> xaccount_context \<Rightarrow> (xret \<times> xaccount_context) option" where
  "vote_in addr_to lock_hash amount c = do {
     (found, c) \<leftarrow> get_vote_out_info addr_to lock_hash c;
     case found of
       None \<Rightarrow> Some (EStore xaccount_property_not_exist, c)
     | Some value \<Rightarrow> do {
         out \<leftarrow> read_vote_out value;
         (ret, out, c) \<leftarrow>
           (if out_amount out < amount
            then Some (xminus_one, out, native_do (native_deque_push_back XPROPERTY_CONTRACT_VOTE_OUT_KEY value) c)
            else do {
              let out = out\<lparr>out_amount := out_amount out - amount\<rparr>;
              (fv, c) \<leftarrow> get_vote_info lock_hash c;
              case fv of
                None \<Rightarrow> Some (EStore xaccount_property_not_exist, out, c)
              | Some s \<Rightarrow> do {
                  v \<leftarrow> read_vote s;
                  Some (xsuccess, out, native_do (native_deque_push_back XPROPERTY_CONTRACT_VOTE_KEY
                          (serialize_to vote_do_write (v\<lparr>vote_available := vote_available v + amount\<rparr>))) c) } });
         Some (ret, if out_amount out \<noteq> 0
                    then native_do (native_deque_push_back XPROPERTY_CONTRACT_VOTE_OUT_KEY (serialize_to vote_out_do_write out)) c
                    else c) } }"

fun clear_vote_out_loop :: "string \<Rightarrow> nat \<Rightarrow> xret \<Rightarrow> string \<Rightarrow> xaccount_context \<Rightarrow> (xret \<times> xaccount_context) option" where
  "clear_vote_out_loop lock_hash 0 ret v c = Some (ret, c)"
| "clear_vote_out_loop lock_hash (Suc n) ret v c = do {
     let (popped, _) = native_see (native_deque_pop_front XPROPERTY_CONTRACT_VOTE_OUT_KEY) c;
     let c = native_do (\<lambda>h np. snd (native_deque_pop_front XPROPERTY_CONTRACT_VOTE_OUT_KEY h np)) c;
     let v = (case popped of Some w \<Rightarrow> w | None \<Rightarrow> v);
     out \<leftarrow> read_vote_out v;
     if out_lock_hash out = lock_hash then clear_vote_out_loop lock_hash n xsuccess v c
     else clear_vote_out_loop lock_hash n ret v (native_do (native_deque_push_back XPROPERTY_CONTRACT_VOTE_OUT_KEY v) c) }"

definition clear_vote_out_info :: "string \<Rightarrow> xaccount_context \<Rightarrow> (xret \<times> xaccount_context) option" where
  "clear_vote_out_info lock_hash c =
     clear_vote_out_loop lock_hash (deque_count XPROPERTY_CONTRACT_VOTE_OUT_KEY c) (EStore xaccount_property_not_exist) [] c"


section \<open>The result of the execution\<close>

definition get_transaction_result :: "xenv \<Rightarrow> xaccount_context \<Rightarrow> xtransaction_result" where
  "get_transaction_result E c =
     \<lparr>m_balance_change = ctx_balance_change c, pledge_change_tgas = ctx_pledge_tgas c,
      pledge_change_disk = ctx_pledge_disk c, pledge_change_vote = ctx_pledge_vote c,
      m_lock_balance_change = ctx_lock_balance_change c, m_lock_tgas_change = ctx_lock_tgas_change c,
      m_unvote_num_change = ctx_unvote_num_change c,
      m_props = get_property_hashes (env_unit_hash E) (ctx_accountcmd c),
      m_contract_txs = ctx_contract_txs c, m_native_property = ctx_native c,
      m_prop_log = get_property_log (ctx_accountcmd c)\<rparr>"

end
