(* ===== verification/XTxFee.thy ===== *)
theory XTxFee
  imports XContextProps
begin

text \<open>
  \<open>xtransaction_fee_t\<close> (\<open>xtxexecutor/xtransaction_fee.h\<close>, \<open>.cpp\<close>): what a transaction costs on the
  sending side, on the contract it calls, and when it is confirmed.  The fee object works on the
  account context and on the execution state of the transaction; the record \<open>txrun\<close> holds both and
  the two members of the object.
\<close>

section \<open>Results and the running transaction\<close>

datatype xverifier_error =
    xverifier_error_src_dst_addr_same
  | xverifier_error_tx_min_deposit_invalid
  | xverifier_error_transfer_tx_min_amount_invalid
  | xverifier_error_transfer_tx_amount_over_max
  | xverifier_error_trnsafer_tx_src_dst_amount_not_same

text \<open>A handler returns one of the codes of \<open>XErrors\<close>, a code of the verifier, or the error number
  of the virtual machine.\<close>

datatype xexec_ret = Ret xret | EVerifier xverifier_error | EVm i32

abbreviation ok :: xexec_ret where "ok \<equiv> Ret xsuccess"

record txrun =
  run_ctx :: xaccount_context
  run_tx :: xcons_transaction
  m_used_deposit :: u64
  m_service_fee :: u64

definition run_new :: "xaccount_context \<Rightarrow> xcons_transaction \<Rightarrow> txrun" where
  "run_new c tx = \<lparr>run_ctx = c, run_tx = tx, m_used_deposit = 0, m_service_fee = 0\<rparr>"

definition tx_is :: "u8 \<Rightarrow> xcons_transaction \<Rightarrow> bool" where
  "tx_is ty tx \<longleftrightarrow> m_tx_subtype (m_tx tx) = ty"

text \<open>A change of the execution state of the transaction, and of the context.\<close>

definition note_state :: "(xtransaction_exec_state \<Rightarrow> xtransaction_exec_state) \<Rightarrow> txrun \<Rightarrow> txrun" where
  "note_state f r = r\<lparr>run_tx := (run_tx r)\<lparr>m_execute_state := f (m_execute_state (run_tx r))\<rparr>\<rparr>"

definition on_ctx :: "(xaccount_context \<Rightarrow> xaccount_context) \<Rightarrow> txrun \<Rightarrow> txrun" where
  "on_ctx f r = r\<lparr>run_ctx := f (run_ctx r)\<rparr>"

definition ctx_do :: "(xaccount_context \<Rightarrow> (xret \<times> xaccount_context) option) \<Rightarrow> txrun \<Rightarrow> (xret \<times> txrun) option" where
  "ctx_do f r = do { (ret, c) \<leftarrow> f (run_ctx r); Some (ret, r\<lparr>run_ctx := c\<rparr>) }"

abbreviation "run_deposit r \<equiv> get_deposit (m_tx (run_tx r))"
abbreviation "run_source r \<equiv> get_source_addr (m_tx (run_tx r))"
abbreviation "run_target r \<equiv> get_target_addr (m_tx (run_tx r))"


section \<open>Sending side\<close>

text \<open>The build option \<open>ENABLE_SCALE\<close> is off: every size counts once, three times for a transaction
  that crosses accounts.\<close>

definition get_tgas_usage :: "txrun \<Rightarrow> u32" where
  "get_tgas_usage r =
     (if tx_is enum_transaction_subtype_self (run_tx r) then 1 else 3) * ucast (m_transaction_len (tx_header (m_tx (run_tx r))))"

definition get_disk_usage :: "txrun \<Rightarrow> u32" where
  "get_disk_usage r = 0"

definition fee_update_disk :: "txrun \<Rightarrow> xret \<times> txrun" where
  "fee_update_disk r =
     (let (ret, c) = ctx_update_disk (ucast (get_disk_usage r)) (run_ctx r) in (ret, r\<lparr>run_ctx := c\<rparr>))"

definition need_use_tgas_disk :: "string \<Rightarrow> bool" where
  "need_use_tgas_disk source_addr \<longleftrightarrow> \<not> is_sys_contract_address source_addr"

text \<open>The result, the used deposit, and the state.\<close>

definition fee_update_tgas_sender :: "xenv \<Rightarrow> txrun \<Rightarrow> (xret \<times> u64 \<times> txrun) option" where
  "fee_update_tgas_sender E r = do {
     let tgas_usage = (ucast (get_tgas_usage r) :: u64);
     (ret, used_deposit, c) \<leftarrow> update_tgas_sender E tgas_usage (run_deposit r) 0 (run_ctx r);
     q \<leftarrow> udiv used_deposit (tx_deposit_gas_exchange_ratio (env_conf E));
     Some (ret, used_deposit,
       note_state (set_used_deposit (ucast used_deposit) \<circ> set_used_tgas (ucast (tgas_usage - q))) (r\<lparr>run_ctx := c\<rparr>)) }"

definition update_tgas_disk_sender :: "xenv \<Rightarrow> u64 \<Rightarrow> bool \<Rightarrow> txrun \<Rightarrow> (xret \<times> txrun) option" where
  "update_tgas_disk_sender E amount is_contract r =
     (let bal = balance (ctx_account (run_ctx r)); deposit = run_deposit r
      in if bal < amount then Some (ETx xconsensus_service_error_balance_not_enough, r)
         else if bal - amount < ucast deposit then Some (ETx xtransaction_too_much_deposit, r)
         else if \<not> is_sys_contract_address (run_source r) \<and> deposit < min_tx_deposit (env_conf E)
         then Some (ETx xtransaction_not_enough_deposit, r)
         else do {
           (ret, tgas_used_deposit, r) \<leftarrow> fee_update_tgas_sender E r;
           if ret \<noteq> xsuccess then Some (ret, r)
           else do {
             q \<leftarrow> udiv (ucast deposit - tgas_used_deposit) (tx_deposit_gas_exchange_ratio (env_conf E));
             available \<leftarrow> get_available_tgas E (run_ctx r);
             let frozen_tgas = min q (available - lock_tgas (ctx_account (run_ctx r)));
             let (ret, r) = fee_update_disk r;
             let r = note_state (set_used_disk (get_disk_usage r)) r;
             if ret \<noteq> xsuccess then Some (ret, r)
             else do {
               let r = r\<lparr>m_used_deposit := tgas_used_deposit\<rparr>;
               let r = (if is_contract
                        then on_ctx (ctx_set_lock_tgas_change frozen_tgas) (note_state (set_send_tx_lock_tgas (ucast frozen_tgas)) r)
                        else r);
               Some (ret, on_ctx (ctx_set_balance_change (- ucast deposit) \<circ> ctx_set_lock_balance_change (ucast deposit)) r) } } })"

definition cal_service_fee :: "xenv \<Rightarrow> string \<Rightarrow> string \<Rightarrow> u64" where
  "cal_service_fee E source target =
     (if \<not> is_sys_contract_address source \<and> is_beacon_contract_address (env_utl E) target
      then beacon_tx_fee (env_conf E) else 0)"

definition update_service_fee :: "xenv \<Rightarrow> txrun \<Rightarrow> txrun" where
  "update_service_fee E r = r\<lparr>m_service_fee := cal_service_fee E (run_source r) (run_target r)\<rparr>"


section \<open>The contract side\<close>

text \<open>What the virtual machine reports of a run.\<close>

record xtransaction_trace =
  m_errno :: i32
  m_instruction_usage :: u32
  trace_tgas_usage :: u32

text \<open>The result, the frozen gas that is left, and the state.\<close>

definition fee_update_tgas_contract_recv :: "xenv \<Rightarrow> u64 \<Rightarrow> u64 \<Rightarrow> txrun \<Rightarrow> (xret \<times> u64 \<times> txrun) option" where
  "fee_update_tgas_contract_recv E frozen deal r = do {
     let sender_used_deposit = (ucast (get_last_action_used_deposit (env_utl E) (run_tx r)) :: u64);
     (ret, used_deposit, frozen, c) \<leftarrow> update_tgas_contract_recv E sender_used_deposit (run_deposit r) 0 frozen deal (run_ctx r);
     Some (ret, frozen,
       note_state (set_used_deposit (ucast (sender_used_deposit + used_deposit)) \<circ> set_used_tgas (ctx_cur_used_tgas c))
         (r\<lparr>run_ctx := c\<rparr>)) }"

definition update_tgas_disk_contract_recv :: "xenv \<Rightarrow> u64 \<Rightarrow> u64 \<Rightarrow> txrun \<Rightarrow> (xret \<times> u64 \<times> txrun) option" where
  "update_tgas_disk_contract_recv E frozen deal r =
     (if run_deposit r < min_tx_deposit (env_conf E) then Some (ETx xtransaction_not_enough_deposit, frozen, r)
      else do {
        (ret, frozen, r) \<leftarrow> fee_update_tgas_contract_recv E frozen deal r;
        if ret \<noteq> xsuccess then Some (ret, frozen, r)
        else let (ret, r) = fee_update_disk r in Some (ret, frozen, note_state (set_used_disk (get_disk_usage r)) r) })"

definition update_tgas_disk_after_sc_exec :: "xenv \<Rightarrow> xtransaction_trace \<Rightarrow> txrun \<Rightarrow> (xret \<times> txrun) option" where
  "update_tgas_disk_after_sc_exec E trace r =
     (let instruction_usage = m_instruction_usage trace + trace_tgas_usage trace
      in if m_errno trace = 0 \<and> instruction_usage = 0 then Some (xsuccess, r)
         else do {
           let lock = get_last_action_send_tx_lock_tgas (env_utl E) (run_tx r);
           deal \<leftarrow> udiv (instruction_usage * 40) (cpu_gas_exchange_ratio (env_conf E));
           (ret, frozen, r) \<leftarrow> update_tgas_disk_contract_recv E (ucast lock) (ucast deal) r;
           if ret \<noteq> xsuccess then Some (ret, r)
           else
             let lock = get_last_action_send_tx_lock_tgas (env_utl E) (run_tx r)
             in Some (ret, note_state (set_recv_tx_use_send_tx_tgas (ucast (ucast lock - frozen)) \<circ> set_send_tx_lock_tgas lock) r) })"


section \<open>Receiving and confirming\<close>

definition update_fee_recv :: "xenv \<Rightarrow> txrun \<Rightarrow> txrun" where
  "update_fee_recv E r = note_state (set_used_deposit (get_last_action_used_deposit (env_utl E) (run_tx r))) r"

text \<open>The deposit is released and the used part is paid; a failed payment is not reported.\<close>

definition release_deposit :: "txrun \<Rightarrow> txrun" where
  "release_deposit r =
     on_ctx (ctx_set_balance_change (ucast (run_deposit r)) \<circ> ctx_set_lock_balance_change (- ucast (run_deposit r))) r"

definition update_fee_recv_self :: "xenv \<Rightarrow> txrun \<Rightarrow> (xret \<times> txrun) option" where
  "update_fee_recv_self E r = do {
     let r = release_deposit r;
     (_, r) \<leftarrow> ctx_do (top_token_transfer_out E 0 (m_used_deposit r) 0) r;
     Some (xsuccess, r) }"

definition update_fee_confirm :: "xenv \<Rightarrow> txrun \<Rightarrow> (xret \<times> txrun) option" where
  "update_fee_confirm E r = do {
     let r = release_deposit r;
     let used = get_last_action_used_deposit (env_utl E) (run_tx r);
     let r = note_state (set_used_deposit used) r;
     (_, r) \<leftarrow> ctx_do (top_token_transfer_out E 0 (ucast used) 0) r;
     Some (xsuccess, r) }"

definition update_contract_fee_confirm :: "xenv \<Rightarrow> u64 \<Rightarrow> txrun \<Rightarrow> (xret \<times> txrun) option" where
  "update_contract_fee_confirm E amount r = do {
     let U = env_utl E;
     let used = get_last_action_used_deposit U (run_tx r);
     let status = get_last_action_exec_status U (run_tx r);
     let r = on_ctx (ctx_set_lock_tgas_change (- ucast (get_last_action_send_tx_lock_tgas U (run_tx r)))) r;
     let r = release_deposit r;
     let target_used_tgas = ucast (get_last_action_recv_tx_use_send_tx_tgas U (run_tx r));
     (ret, tgas, used, c) \<leftarrow> calc_resource E target_used_tgas (run_deposit r) used (run_ctx r);
     let r = note_state (set_used_deposit used \<circ> set_used_tgas (ucast tgas)) (r\<lparr>run_ctx := c\<rparr>);
     let lock = lock_balance (ctx_account (run_ctx r));
     r \<leftarrow> (if status = enum_xunit_tx_exec_status_fail
           then if sint amount \<le> sint lock
                then do { (_, r) \<leftarrow> ctx_do (top_token_transfer_in E amount) r;
                          Some (on_ctx (ctx_set_lock_balance_change (- amount)) r) }
                else Some r
           else Some (on_ctx (ctx_set_lock_balance_change (- amount)) r));
     Some (ret, r) }"

end
