(* ===== verification/XTxContext.thy ===== *)
theory XTxContext
  imports XTxFee XCrypto
begin

text \<open>
  The transaction handlers of \<open>xtxexecutor/xtransaction_context.h\<close> and \<open>.cpp\<close>: one class per
  transaction type with its parsing, its check and its actions on the sending, receiving and
  confirming side, and \<open>xtransaction_context_t\<close>, which runs them.  The handler object is the
  datatype \<open>xtx_obj\<close> of the parsed actions.  The virtual machine, the JSON reader and the curve
  library are outside of the sources and are fields of the record \<open>xexec\<close>.
\<close>

section \<open>Handler objects\<close>

datatype xtx_obj =
    CreateContract xproperty_asset u64 string
  | RunContract xproperty_asset string bytes
  | TransferTx xproperty_asset xproperty_asset
  | SetKeys string string
  | LockToken xaction_lock_account_token
  | UnlockToken xaction_unlock_account_token
  | AliasName string
  | CreateSub xproperty_asset xproperty_asset
  | VoteTx string bytes
  | AbolishVote string bytes
  | PledgeTgas xproperty_asset
  | RedeemTgas xproperty_asset
  | PledgeDisk xproperty_asset
  | RedeemDisk xproperty_asset
  | PledgeVote u64 u16
  | RedeemVote u64

record ('r, 'k, 's) xexec =
  x_env :: xenv
  x_ecc :: "('r, 'k, 's) ecc"
  x_json :: "string \<Rightarrow> string \<Rightarrow> string option"
  x_sha2 :: "bytes \<Rightarrow> bytes"
  x_peer :: xpeer
  x_deal :: "xtransaction \<Rightarrow> xaccount_context \<Rightarrow> xtransaction_trace \<times> xaccount_context"

text \<open>First the source action, then the target action; an exception of the stream is not a
  \<open>std::exception\<close> and leaves \<open>parse\<close>.\<close>

definition parse_two :: "(xret + 'a) option \<Rightarrow> (xret + 'b) option \<Rightarrow> ('a \<Rightarrow> 'b \<Rightarrow> xtx_obj) \<Rightarrow> (xret + xtx_obj) option" where
  "parse_two s t mk = do {
     s \<leftarrow> s;
     case s of Inl e \<Rightarrow> Some (Inl e)
     | Inr a \<Rightarrow> do { t \<leftarrow> t; Some (case t of Inl e \<Rightarrow> Inl e | Inr b \<Rightarrow> Inr (mk a b)) } }"

definition null_source :: "xaction \<Rightarrow> (xret + unit) option" where
  "null_source a = (let r = source_null_parse a in Some (if r = xsuccess then Inr () else Inl r))"

definition tx_parse :: "xtransaction \<Rightarrow> (xret + xtx_obj) option" where
  "tx_parse t =
     (let ty = get_tx_type t; src = m_source_action t; dst = m_target_action t
      in if ty = xtransaction_type_create_contract_account
         then parse_two (Some (asset_out_parse src)) (Some (deploy_contract_parse dst)) (\<lambda>a (g, code). CreateContract a g code)
         else if ty = xtransaction_type_run_contract
         then parse_two (Some (if m_action_param src = [] then Inr (top_asset 0) else asset_out_parse src))
                (Some (run_contract_parse dst)) (\<lambda>a (f, p). RunContract a f p)
         else if ty = xtransaction_type_transfer
         then parse_two (Some (asset_out_parse src)) (Some (asset_proc_parse xaction_type_asset_in dst)) TransferTx
         else if ty = xtransaction_type_set_account_keys
         then map_option (map_sum id (\<lambda>(k, v). SetKeys k v)) (set_account_keys_parse dst)
         else if ty = xtransaction_type_lock_token then map_option (map_sum id LockToken) (lock_parse dst)
         else if ty = xtransaction_type_unlock_token then map_option (map_sum id UnlockToken) (unlock_parse dst)
         else if ty = xtransaction_type_alias_name
         then parse_two (null_source src) (Some (alias_name_parse dst)) (\<lambda>_ n. AliasName n)
         else if ty = xtransaction_type_create_sub_account
         then parse_two (Some (asset_out_parse src)) (Some (asset_out_parse dst)) CreateSub
         else if ty = xtransaction_type_vote
         then parse_two (null_source src) (Some (run_contract_parse dst)) (\<lambda>_ (f, p). VoteTx f p)
         else if ty = xtransaction_type_abolish_vote
         then parse_two (null_source src) (Some (run_contract_parse dst)) (\<lambda>_ (f, p). AbolishVote f p)
         else if ty = xtransaction_type_pledge_token_tgas
         then parse_two (null_source src) (Some (asset_proc_parse xaction_type_pledge_token dst)) (\<lambda>_. PledgeTgas)
         else if ty = xtransaction_type_redeem_token_tgas
         then parse_two (null_source src) (Some (asset_proc_parse xaction_type_redeem_token dst)) (\<lambda>_. RedeemTgas)
         else if ty = xtransaction_type_pledge_token_disk
         then parse_two (null_source src) (Some (asset_proc_parse xaction_type_pledge_token dst)) (\<lambda>_. PledgeDisk)
         else if ty = xtransaction_type_redeem_token_disk
         then parse_two (null_source src) (Some (asset_proc_parse xaction_type_redeem_token dst)) (\<lambda>_. RedeemDisk)
         else if ty = xtransaction_type_pledge_token_vote
         then parse_two (null_source src) (pledge_token_vote_parse dst) (\<lambda>_ (n, d). PledgeVote n d)
         else if ty = xtransaction_type_redeem_token_vote
         then parse_two (null_source src) (redeem_token_vote_parse dst) (\<lambda>_. RedeemVote)
         else Some (Inl (ETx xtransaction_parse_type_invalid)))"


section \<open>Checks\<close>

definition TOTAL_ISSUANCE :: u64 where "TOTAL_ISSUANCE = 20000000000000000"

definition verify_account_min_deposit :: "xenv \<Rightarrow> u64 \<Rightarrow> bool" where
  "verify_account_min_deposit E amount \<longleftrightarrow> \<not> amount < min_account_deposit (env_conf E)"

definition verify_tx_min_deposit :: "xenv \<Rightarrow> u64 \<Rightarrow> bool" where
  "verify_tx_min_deposit E deposit \<longleftrightarrow> \<not> deposit < ucast (min_tx_deposit (env_conf E))"

definition check_transfer :: "xenv \<Rightarrow> xproperty_asset \<Rightarrow> xproperty_asset \<Rightarrow> xtransaction \<Rightarrow> xexec_ret" where
  "check_transfer E out inn t =
     (if get_source_addr t = get_target_addr t then EVerifier xverifier_error_src_dst_addr_same
      else if \<not> is_sys_contract_address (get_source_addr t) \<and> \<not> verify_tx_min_deposit E (ucast (get_deposit t))
      then EVerifier xverifier_error_tx_min_deposit_invalid
      else if m_amount out = 0 then EVerifier xverifier_error_transfer_tx_min_amount_invalid
      else if TOTAL_ISSUANCE < m_amount out then EVerifier xverifier_error_transfer_tx_amount_over_max
      else if m_amount out \<noteq> m_amount inn then EVerifier xverifier_error_trnsafer_tx_src_dst_amount_not_same
      else ok)"

text \<open>The ledger id of the main chain and the consensus zone, of which the address of a contract is made.\<close>

definition check_create_contract :: "('r, 'k, 's) xexec \<Rightarrow> xproperty_asset \<Rightarrow> xtransaction \<Rightarrow> xexec_ret" where
  "check_create_contract X out t =
     (let auth = action_get_authorization (x_json X) (m_target_action t)
      in if \<not> is_top_token out \<or> \<not> verify_account_min_deposit (x_env X) (m_amount out)
         then Ret (ETx xconsensus_service_error_min_deposit_error)
         else if m_action_type (m_source_action t) \<noteq> xaction_type_asset_out \<or>
                 m_action_type (m_target_action t) \<noteq> xaction_type_create_contract_account
         then Ret (ETx xconsensus_service_error_action_not_valid)
         else if \<not> is_user_contract_address (get_target_addr t) then Ret (ETx xconsensus_service_error_addr_type_error)
         else if length auth \<noteq> 65 then Ret (ETx xconsensus_service_error_sign_error)
         else if get_target_addr t \<noteq> pubkey_to_child_address (x_ecc X) (env_utl (x_env X)) auth (get_source_addr t)
                   addr_type_custom_contract (make_ledger_id 0 (ucast zone_consensus_index))
         then Ret (ETx xconsensus_service_error_sign_error)
         else ok)"

text \<open>A shorter authorization is read beyond its end, which is \<open>None\<close>.\<close>

definition check_create_sub :: "('r, 'k, 's) xexec \<Rightarrow> xproperty_asset \<Rightarrow> xproperty_asset \<Rightarrow> xtransaction \<Rightarrow> xexec_ret option" where
  "check_create_sub X out inn t =
     (let auth = action_get_authorization (x_json X) (m_target_action t)
      in if \<not> is_top_token out \<or> \<not> is_top_token inn \<or> \<not> verify_account_min_deposit (x_env X) (m_amount out) \<or>
            m_amount out \<noteq> m_amount inn
         then Some (Ret (ETx xconsensus_service_error_min_deposit_error))
         else if m_action_type (m_source_action t) \<noteq> xaction_type_asset_out \<or>
                 m_action_type (m_target_action t) \<noteq> xaction_type_asset_out
         then Some (Ret (ETx xconsensus_service_error_action_not_valid))
         else if \<not> is_sub_account_address (get_target_addr t) then Some (Ret (ETx xconsensus_service_error_addr_type_error))
         else if length auth + 1 < 65 then None
         else if \<not> key_verify_child_signature (x_ecc X) (env_utl (x_env X)) (get_target_addr t)
                   (take 65 (auth @ [CHR 0x00])) (action_sha2 (x_sha2 X) (m_target_action t)) (get_source_addr t)
         then Some (Ret (ETx xconsensus_service_error_sign_error))
         else Some ok)"

definition obj_check :: "('r, 'k, 's) xexec \<Rightarrow> xtx_obj \<Rightarrow> xtransaction \<Rightarrow> xexec_ret option" where
  "obj_check X obj t =
     (case obj of
        CreateContract out g code \<Rightarrow> Some (check_create_contract X out t)
      | TransferTx out inn \<Rightarrow> Some (check_transfer (x_env X) out inn t)
      | SetKeys k v \<Rightarrow>
          Some (if k \<in> {XPROPERTY_ACCOUNT_VOTE_KEY, XPROPERTY_ACCOUNT_TRANSFER_KEY, XPROPERTY_ACCOUNT_DATA_KEY,
                        XPROPERTY_ACCOUNT_CONSENSUS_KEY} then ok else Ret xminus_one)
      | LockToken l \<Rightarrow> Some (if lock_amount l = 0 then Ret xminus_one else ok)
      | CreateSub out inn \<Rightarrow> check_create_sub X out inn t
      | AliasName n \<Rightarrow>
          Some (if n = [] \<or> unat (config_property_alias_name_max_len (env_conf (x_env X))) < length n
                then Ret (ETx xconsensus_service_error_action_not_valid) else ok)
      | PledgeVote n d \<Rightarrow>
          Some (if n < ucast (min_stake_votes_num (env_conf (x_env X))) \<or> d mod min_vote_lock_days \<noteq> 0 \<or> d = 0
                then Ret (ETx xtransaction_pledge_redeem_vote_err_tx) else ok)
      | _ \<Rightarrow> Some ok)"


section \<open>The sending side\<close>

definition lift_ret :: "(xret \<times> 'a) option \<Rightarrow> (xexec_ret \<times> 'a) option" where
  "lift_ret r = map_option (\<lambda>(e, x). (Ret e, x)) r"

definition vote_token_lock :: "u64 \<Rightarrow> u16 \<Rightarrow> u64 option" where
  "vote_token_lock vote_num duration = dbl_u64 (vote_price vote_num duration)"

definition parse_vote_info :: "string \<Rightarrow> u64 option" where
  "parse_vote_info para = do {
     (vote_infos, _) \<leftarrow> get_map get_string get_u64 [] para;
     Some (fold (\<lambda>(_, n) acc. acc + n) vote_infos 0) }"

text \<open>The fee of the sender.  \<open>m_lock_token\<close> of a vote pledge is set here; it is the second
  component, zero for the others.\<close>

definition source_fee_exec :: "xenv \<Rightarrow> xtx_obj \<Rightarrow> txrun \<Rightarrow> (xret \<times> u64 \<times> txrun) option" where
  "source_fee_exec E obj r =
     (let pay = (\<lambda>amount is_contract. map_option (\<lambda>(e, r). (e, 0, r)) (update_tgas_disk_sender E amount is_contract r));
          free = Some (xsuccess, 0, r)
      in case obj of
           CreateContract out g code \<Rightarrow> if need_use_tgas_disk (run_source r) then pay (m_amount out) True else free
         | RunContract out f p \<Rightarrow> if need_use_tgas_disk (run_source r) then pay (m_amount out) True else free
         | TransferTx out inn \<Rightarrow>
             if \<not> is_contract_address (run_source r) \<and> m_amount out \<noteq> 0 then pay (m_amount out) False else free
         | LockToken l \<Rightarrow> pay (lock_amount l) False
         | CreateSub out inn \<Rightarrow> pay (m_amount out) False
         | PledgeTgas a \<Rightarrow> if \<not> is_sys_contract_address (run_source r) then pay (m_amount a) False else free
         | PledgeDisk a \<Rightarrow> if \<not> is_sys_contract_address (run_source r) then pay (m_amount a) False else free
         | RedeemTgas a \<Rightarrow> if \<not> is_sys_contract_address (run_source r) then pay 0 False else free
         | RedeemDisk a \<Rightarrow> if \<not> is_sys_contract_address (run_source r) then pay 0 False else free
         | PledgeVote n d \<Rightarrow> do {
             m_lock_token \<leftarrow> vote_token_lock n d;
             (e, r) \<leftarrow> update_tgas_disk_sender E m_lock_token False r;
             Some (e, m_lock_token, r) }
         | _ \<Rightarrow> pay 0 False)"

definition black_hole_addr :: string where "black_hole_addr = ''T!000131R4UAjgF6ZBWnwZESMWx4nCnqL1GhM3nT3''"

definition source_create_contract :: "('r, 'k, 's) xexec \<Rightarrow> xproperty_asset \<Rightarrow> txrun \<Rightarrow> (xexec_ret \<times> txrun) option" where
  "source_create_contract X out r = do {
     let E = x_env X;
     (ret, r) \<leftarrow> ctx_do (top_token_transfer_out E (m_amount out) 0 0) r;
     if ret \<noteq> xsuccess then Some (Ret ret, r)
     else do {
       let r = on_ctx (ctx_set_lock_balance_change (m_amount out)) r;
       let ret = sub_contract_sub_account_check (run_target r) (run_ctx r);
       if ret \<noteq> xsuccess then Some (Ret ret, r)
       else do {
         let (ret, c) = set_contract_sub_account (run_target r) (run_ctx r);
         let r = r\<lparr>run_ctx := c\<rparr>;
         if ret \<noteq> xsuccess then Some (Ret ret, r)
         else do {
           let (src, acct, h) = x_peer X (run_target r);
           (ret, trial) \<leftarrow> set_contract_parent_account E (m_amount out) (run_source r) (context_new (run_target r) acct h);
           if ret \<noteq> xsuccess then Some (Ret ret, r)
           else
             let trial = set_context_para (ctx_timer_height (run_ctx r)) (ctx_random_seed (run_ctx r)) 0 0 trial;
                 (trace, _) = x_deal X (m_tx (run_tx r)) trial
             in Some (if m_errno trace \<noteq> 0 then EVm (m_errno trace) else Ret ret, r) } } } }"

definition source_action_exec :: "('r, 'k, 's) xexec \<Rightarrow> xtx_obj \<Rightarrow> txrun \<Rightarrow> (xexec_ret \<times> txrun) option" where
  "source_action_exec X obj r =
     (let E = x_env X
      in case obj of
           CreateContract out g code \<Rightarrow> source_create_contract X out r
         | RunContract out f p \<Rightarrow>
             if m_amount out = 0 then Some (ok, r)
             else do {
               (ret, r) \<leftarrow> ctx_do (top_token_transfer_out E (m_amount out) 0 0) r;
               Some (if ret \<noteq> xsuccess then (Ret ret, r) else (ok, on_ctx (ctx_set_lock_balance_change (m_amount out)) r)) }
         | TransferTx out inn \<Rightarrow> do {
             (ret, r) \<leftarrow> (if m_amount out \<noteq> 0 then ctx_do (unlock_all_token E) r else Some (xsuccess, r));
             if ret \<noteq> xsuccess then Some (Ret ret, r)
             else do {
               (ret, r) \<leftarrow> ctx_do (token_transfer_out E out 0 0) r;
               Some (Ret ret, if ret = xsuccess \<and> run_target r = black_hole_addr
                              then note_state (set_self_burn_balance (m_amount out)) r else r) } }
         | CreateSub out inn \<Rightarrow> do {
             let ret = sub_account_check (run_target r) (run_ctx r);
             if ret \<noteq> xsuccess then Some (Ret ret, r)
             else do {
               (ret, r) \<leftarrow> ctx_do (top_token_transfer_out E (m_amount out) 0 0) r;
               if ret \<noteq> xsuccess then Some (Ret ret, r)
               else lift_ret (ctx_do (\<lambda>c. Some (set_sub_account (run_target r) c)) r) } }
         | VoteTx f p \<Rightarrow> do {
             vote_num \<leftarrow> parse_vote_info p;
             Some (if unvote_num (ctx_account (run_ctx r)) < vote_num then (Ret (ETx xtransaction_pledge_redeem_vote_err_tx), r)
                   else (ok, on_ctx (ctx_set_unvote_num_change (- vote_num)) r)) }
         | _ \<Rightarrow> Some (ok, r))"


section \<open>The receiving side\<close>

definition check_parent :: "txrun \<Rightarrow> xret" where
  "check_parent r =
     (let (ret, parent) = get_parent_account (run_ctx r)
      in if ret \<noteq> EStore xaccount_property_parent_account_exist then EStore xaccount_property_parent_account_not_exist
         else if run_source r \<noteq> parent then ETx xtransaction_contract_pledge_token_source_target_mismatch
         else xsuccess)"

definition assemble_lock_token_param :: "xenv \<Rightarrow> u64 \<Rightarrow> u32 \<Rightarrow> string" where
  "assemble_lock_token_param E amount version =
     put_u32 version @ put_u64 amount @ put_u32 UT_time @ put_u32 1 @
     put_string (to_string (ucast (unlock_gas_staked_delay_time (env_conf E) * 10)))"

definition pledge_token :: "xenv \<Rightarrow> (u64 \<Rightarrow> xaccount_context \<Rightarrow> xret \<times> xaccount_context) \<Rightarrow> xproperty_asset \<Rightarrow> txrun
    \<Rightarrow> (xexec_ret \<times> txrun) option" where
  "pledge_token E set_resource asset r =
     (let ret = (if run_source r \<noteq> run_target r then check_parent r else xsuccess)
      in if ret \<noteq> xsuccess then Some (Ret ret, r)
         else do {
           (ret, r) \<leftarrow> ctx_do (\<lambda>c. Some (set_resource (m_amount asset) c)) r;
           if ret \<noteq> xsuccess then Some (Ret ret, r)
           else lift_ret (ctx_do (top_token_transfer_out E (m_amount asset) 0 0) r) })"

definition redeem_token :: "xenv \<Rightarrow> (u64 \<Rightarrow> xaccount_context \<Rightarrow> xret \<times> xaccount_context) \<Rightarrow> u32 \<Rightarrow> xproperty_asset \<Rightarrow> txrun
    \<Rightarrow> (xexec_ret \<times> txrun) option" where
  "redeem_token E redeem_resource redeem_type asset r =
     (let ret = (if run_source r \<noteq> run_target r then check_parent r else xsuccess)
      in if ret \<noteq> xsuccess then Some (Ret ret, r)
         else do {
           (ret, r) \<leftarrow> ctx_do (\<lambda>c. Some (redeem_resource (m_amount asset) c)) r;
           if ret \<noteq> xsuccess then Some (Ret ret, r)
           else do {
             (_, r) \<leftarrow> ctx_do (token_transfer_in E asset) r;
             lift_ret (ctx_do (lock_token E (get_digest_str (m_tx (run_tx r))) (m_amount asset)
               (assemble_lock_token_param E (m_amount asset) redeem_type)) r) } })"

text \<open>The machine runs on the context itself; the fee of the run is charged unless the target is a
  system contract.\<close>

definition run_vm :: "('r, 'k, 's) xexec \<Rightarrow> txrun \<Rightarrow> xtransaction_trace \<times> txrun" where
  "run_vm X r = (let (trace, c) = x_deal X (m_tx (run_tx r)) (run_ctx r) in (trace, r\<lparr>run_ctx := c\<rparr>))"

definition after_vm :: "xtransaction_trace \<Rightarrow> xret \<times> txrun \<Rightarrow> xexec_ret \<times> txrun" where
  "after_vm trace p = (if m_errno trace \<noteq> 0 then EVm (m_errno trace) else Ret (fst p), snd p)"

definition target_create_contract :: "('r, 'k, 's) xexec \<Rightarrow> xproperty_asset \<Rightarrow> u64 \<Rightarrow> txrun \<Rightarrow> (xexec_ret \<times> txrun) option" where
  "target_create_contract X out tgas_limit r = do {
     let E = x_env X;
     (ret, r) \<leftarrow> ctx_do (set_contract_parent_account E (m_amount out) (run_source r)) r;
     if ret \<noteq> xsuccess then Some (Ret ret, r)
     else do {
       let r = on_ctx (\<lambda>c. c\<lparr>ctx_tgas_limit := tgas_limit\<rparr>) r;
       let (trace, r) = run_vm X r;
       p \<leftarrow> (if need_use_tgas_disk (run_target r) then update_tgas_disk_after_sc_exec E trace r else Some (ret, r));
       Some (after_vm trace p) } }"

definition target_run_contract :: "('r, 'k, 's) xexec \<Rightarrow> xproperty_asset \<Rightarrow> txrun \<Rightarrow> (xexec_ret \<times> txrun) option" where
  "target_run_contract X out r = do {
     let E = x_env X; let U = env_utl E;
     (ret, r) \<leftarrow> (if m_amount out \<noteq> 0 then ctx_do (top_token_transfer_in E (m_amount out)) r else Some (xsuccess, r));
     if ret \<noteq> xsuccess then Some (Ret ret, r)
     else do {
       limit \<leftarrow> get_tgas_limit (run_ctx r);
       let r = on_ctx (\<lambda>c. c\<lparr>ctx_tgas_limit := limit, ctx_source_pay_info := out\<rparr>) r;
       let (trace, r) = run_vm X r;
       p \<leftarrow> (if need_use_tgas_disk (run_target r) then update_tgas_disk_after_sc_exec E trace r
             else let tx = run_tx r
                  in Some (xsuccess, note_state (set_used_deposit (get_last_action_used_deposit U tx) \<circ>
                       set_recv_tx_use_send_tx_tgas 0 \<circ> set_send_tx_lock_tgas (get_last_action_send_tx_lock_tgas U tx)) r));
       Some (after_vm trace p) } }"

definition target_fee_exec :: "xenv \<Rightarrow> xtx_obj \<Rightarrow> txrun \<Rightarrow> (xret \<times> txrun) option" where
  "target_fee_exec E obj r =
     (case obj of
        CreateContract out g code \<Rightarrow> Some (xsuccess, r)
      | RunContract out f p \<Rightarrow> Some (xsuccess, r)
      | _ \<Rightarrow> if tx_is enum_transaction_subtype_self (run_tx r) then update_fee_recv_self E r
             else Some (xsuccess, update_fee_recv E r))"

text \<open>\<open>lock\<close> is the member \<open>m_lock_token\<close> of a vote pledge.\<close>

definition target_action_exec :: "('r, 'k, 's) xexec \<Rightarrow> u64 \<Rightarrow> xtx_obj \<Rightarrow> txrun \<Rightarrow> (xexec_ret \<times> txrun) option" where
  "target_action_exec X lock obj r =
     (let E = x_env X
      in case obj of
           CreateContract out g code \<Rightarrow> target_create_contract X out g r
         | RunContract out f p \<Rightarrow> target_run_contract X out r
         | TransferTx out inn \<Rightarrow> lift_ret (ctx_do (token_transfer_in E inn) r)
         | SetKeys k v \<Rightarrow> lift_ret (ctx_do (account_set_keys E k v) r)
         | LockToken l \<Rightarrow> lift_ret (ctx_do (lock_token E (get_digest_str (m_tx (run_tx r))) (lock_amount l) (m_params l)) r)
         | UnlockToken u \<Rightarrow> lift_ret (ctx_do (unlock_token E (m_lock_tran_hash u) (m_signatures u)) r)
         | AliasName n \<Rightarrow> lift_ret (ctx_do (account_alias_name_set E n) r)
         | CreateSub out inn \<Rightarrow> lift_ret (ctx_do (set_parent_account E (m_amount inn) (run_source r)) r)
         | VoteTx f p \<Rightarrow> (let (trace, r) = run_vm X r in Some (after_vm trace (xsuccess, r)))
         | AbolishVote f p \<Rightarrow> (let (trace, r) = run_vm X r in Some (after_vm trace (xsuccess, r)))
         | PledgeTgas a \<Rightarrow> pledge_token E set_pledge_token_tgas a r
         | RedeemTgas a \<Rightarrow> redeem_token E redeem_pledge_token_tgas 0 a r
         | PledgeDisk a \<Rightarrow> pledge_token E set_pledge_token_disk a r
         | RedeemDisk a \<Rightarrow> redeem_token E redeem_pledge_token_disk 1 a r
         | PledgeVote n d \<Rightarrow> do {
             (ret, r) \<leftarrow> ctx_do (top_token_transfer_out E lock 0 0) r;
             if ret \<noteq> xsuccess then Some (Ret ret, r)
             else lift_ret (ctx_do (update_pledge_vote_property E n d)
                    (on_ctx (ctx_set_unvote_num_change n \<circ> ctx_set_vote_balance_change lock) r)) }
         | RedeemVote n \<Rightarrow>
             if unvote_num (ctx_account (run_ctx r)) < n then Some (Ret (ETx xtransaction_pledge_redeem_vote_err_tx), r)
             else do {
               c \<leftarrow> merge_pledge_vote_property E (run_ctx r);
               lift_ret (ctx_do (redeem_pledge_vote_property E n) (r\<lparr>run_ctx := c\<rparr>)) })"


section \<open>The confirming side and the whole execution\<close>

definition source_confirm_fee_exec :: "xenv \<Rightarrow> xtx_obj \<Rightarrow> txrun \<Rightarrow> (xret \<times> txrun) option" where
  "source_confirm_fee_exec E obj r =
     (let contract = (\<lambda>amount. if tx_is enum_transaction_subtype_self (run_tx r) \<or> is_sys_contract_address (run_source r)
                               then Some (xsuccess, r) else update_contract_fee_confirm E amount r)
      in case obj of
           CreateContract out g code \<Rightarrow> contract (m_amount out)
         | RunContract out f p \<Rightarrow> contract (m_amount out)
         | _ \<Rightarrow> update_fee_confirm E r)"

definition source_confirm_action_exec :: "xenv \<Rightarrow> xtx_obj \<Rightarrow> txrun \<Rightarrow> (xret \<times> txrun) option" where
  "source_confirm_action_exec E obj r =
     (let failed = (get_last_action_exec_status (env_utl E) (run_tx r) = enum_xunit_tx_exec_status_fail)
      in case obj of
           VoteTx f p \<Rightarrow> do {
             vote_num \<leftarrow> parse_vote_info p;
             Some (xsuccess, if failed then on_ctx (ctx_set_unvote_num_change vote_num) r else r) }
         | AbolishVote f p \<Rightarrow>
             if failed then Some (xsuccess, r)
             else do { vote_num \<leftarrow> parse_vote_info p; Some (xsuccess, on_ctx (ctx_set_unvote_num_change vote_num) r) }
         | _ \<Rightarrow> Some (xsuccess, r))"

definition source_service_fee_exec :: "xenv \<Rightarrow> txrun \<Rightarrow> (xret \<times> txrun) option" where
  "source_service_fee_exec E r = do {
     let r = update_service_fee E r;
     (ret, r) \<leftarrow> ctx_do (top_token_transfer_out E 0 0 (m_service_fee r)) r;
     Some (ret, note_state (set_beacon_service_fee (m_service_fee r)) r) }"

text \<open>\<open>source_action_exec\<close> of \<open>xtransaction_context_t\<close>: service fee, fee, action.\<close>

definition exec_source :: "('r, 'k, 's) xexec \<Rightarrow> xtx_obj \<Rightarrow> txrun \<Rightarrow> (xexec_ret \<times> u64 \<times> txrun) option" where
  "exec_source X obj r = do {
     (ret, r) \<leftarrow> source_service_fee_exec (x_env X) r;
     if ret \<noteq> xsuccess then Some (Ret ret, 0, r)
     else do {
       (ret, lock, r) \<leftarrow> source_fee_exec (x_env X) obj r;
       if ret \<noteq> xsuccess then Some (Ret ret, lock, r)
       else do { (ret, r) \<leftarrow> source_action_exec X obj r; Some (ret, lock, r) } } }"

definition exec_target :: "('r, 'k, 's) xexec \<Rightarrow> u64 \<Rightarrow> xtx_obj \<Rightarrow> txrun \<Rightarrow> (xexec_ret \<times> txrun) option" where
  "exec_target X lock obj r = do {
     (ret, r) \<leftarrow> target_fee_exec (x_env X) obj r;
     if ret \<noteq> xsuccess then Some (Ret ret, r)
     else if tx_is enum_transaction_subtype_self (run_tx r) \<and> is_black_hole_address (run_target r) then Some (ok, r)
     else target_action_exec X lock obj r }"

definition exec_confirm :: "xenv \<Rightarrow> xtx_obj \<Rightarrow> txrun \<Rightarrow> (xexec_ret \<times> txrun) option" where
  "exec_confirm E obj r = do {
     (ret, r) \<leftarrow> source_confirm_fee_exec E obj r;
     if ret \<noteq> xsuccess then Some (Ret ret, r) else lift_ret (source_confirm_action_exec E obj r) }"

text \<open>\<open>xtransaction_context_t::check\<close> and \<open>exec\<close>: a self transaction runs both sides.\<close>

definition tx_check :: "('r, 'k, 's) xexec \<Rightarrow> xtransaction \<Rightarrow> (xexec_ret + xtx_obj) option" where
  "tx_check X t = do {
     p \<leftarrow> tx_parse t;
     case p of
       Inl e \<Rightarrow> Some (Inl (Ret e))
     | Inr obj \<Rightarrow> do { ret \<leftarrow> obj_check X obj t; Some (if ret = ok then Inr obj else Inl ret) } }"

definition tx_exec :: "('r, 'k, 's) xexec \<Rightarrow> xaccount_context \<Rightarrow> xcons_transaction
    \<Rightarrow> (xexec_ret \<times> xaccount_context \<times> xcons_transaction) option" where
  "tx_exec X c tx = do {
     let out = (\<lambda>(ret, r). (ret, run_ctx r, run_tx r));
     chk \<leftarrow> tx_check X (m_tx tx);
     case chk of
       Inl e \<Rightarrow> Some (e, c, tx)
     | Inr obj \<Rightarrow> do {
         let self = tx_is enum_transaction_subtype_self tx;
         (ret, lock, r) \<leftarrow> (if self \<or> tx_is enum_transaction_subtype_send tx then exec_source X obj (run_new c tx)
                          else Some (ok, 0, run_new c tx));
         if ret \<noteq> ok then Some (out (ret, r))
         else do {
           (ret, r) \<leftarrow> (if self \<or> tx_is enum_transaction_subtype_recv tx then exec_target X lock obj r else Some (ok, r));
           if ret \<noteq> ok then Some (out (ret, r))
           else do {
             (ret, r) \<leftarrow> (if tx_is enum_transaction_subtype_confirm tx then exec_confirm (x_env X) obj r else Some (ok, r));
             Some (out (ret, r)) } } } }"

end
