(* ===== verification/XExecutor.thy ===== *)
theory XExecutor
  imports XTxContext
begin

text \<open>
  The executor (\<open>xtxexecutor/src/xtransaction_executor.cpp\<close>) runs the transactions of a unit one
  after the other on one account context, and the unit maker (\<open>xunit_blockmaker.cpp\<close>) turns the
  result into the parameters of a light unit or of a full unit.  Consensus transactions are shared
  pointers: the state noted on a transaction is seen by every holder, so every function returns
  the transactions it was given as they are afterwards.
\<close>

section \<open>One transaction\<close>

text \<open>\<open>result\<close> is an output parameter that keeps its value when the execution fails.\<close>

definition exec_one_tx :: "('r, 'k, 's) xexec \<Rightarrow> xaccount_context \<Rightarrow> xcons_transaction \<Rightarrow> xtransaction_result
    \<Rightarrow> (xexec_ret \<times> xaccount_context \<times> xcons_transaction \<times> xtransaction_result) option" where
  "exec_one_tx X c tx result = do {
     (ret, c, tx) \<leftarrow> tx_exec X c tx;
     if ret \<noteq> ok then Some (ret, c, tx, result)
     else
       let result = get_transaction_result (x_env X) c
       in Some (if tx_is enum_transaction_subtype_self tx \<and> is_sys_contract_address (get_source_addr (m_tx tx)) \<and>
                   \<not> is_dirty (m_native_property result) \<and> m_prop_log result = None
                then Ret (ETx xunit_contract_exec_no_property_change) else ok, c, tx, result) }"

text \<open>The transactions that the first one has created run in order.  The context and the result
  hold the same objects, so the executed transaction is written back to both.\<close>

definition put_contract_tx :: "nat \<Rightarrow> xcons_transaction \<Rightarrow> xaccount_context \<Rightarrow> xaccount_context" where
  "put_contract_tx i tx c = c\<lparr>ctx_contract_txs := (ctx_contract_txs c)[i := tx]\<rparr>"

fun exec_created :: "('r, 'k, 's) xexec \<Rightarrow> nat list \<Rightarrow> xaccount_context \<Rightarrow> xtransaction_result
    \<Rightarrow> (xexec_ret \<times> xaccount_context \<times> xtransaction_result) option" where
  "exec_created X [] c result = Some (ok, c, result)"
| "exec_created X (i # is) c result = do {
     (ret, c, tx, result) \<leftarrow> exec_one_tx X c (ctx_contract_txs c ! i) result;
     let c = put_contract_tx i tx c;
     let result = result\<lparr>m_contract_txs := (m_contract_txs result)[i := tx]\<rparr>;
     if ret \<noteq> ok then Some (ret, c, result) else exec_created X is c result }"

definition nonce_matches :: "xenv \<Rightarrow> xaccount_context \<Rightarrow> xtransaction \<Rightarrow> bool" where
  "nonce_matches E c t \<longleftrightarrow>
     m_latest_send_trans_number (m_account_state (ctx_account c)) = get_last_nonce t \<and>
     check_last_trans_hash (env_hashes E) (m_latest_send_trans_hash (m_account_state (ctx_account c))) t"

definition note_sent :: "xtransaction \<Rightarrow> xaccount_context \<Rightarrow> xaccount_context" where
  "note_sent t c = c\<lparr>ctx_account := (ctx_account c)\<lparr>m_account_state := (m_account_state (ctx_account c))
      \<lparr>m_latest_send_trans_hash := m_transaction_hash t, m_latest_send_trans_number := get_tx_nonce t\<rparr>\<rparr>\<rparr>"

definition exec_tx :: "('r, 'k, 's) xexec \<Rightarrow> xaccount_context \<Rightarrow> xcons_transaction
    \<Rightarrow> (xexec_ret \<times> xaccount_context \<times> xcons_transaction \<times> xtransaction_result) option" where
  "exec_tx X c tx =
     (let own = (tx_is enum_transaction_subtype_self tx \<or> tx_is enum_transaction_subtype_send tx)
      in if own \<and> \<not> nonce_matches (x_env X) c (m_tx tx)
         then Some (Ret (ETx enum_xtxexecutor_error_tx_nonce_not_match), c, tx, transaction_result_new)
         else do {
           let c = (if own then note_sent (m_tx tx) c else c);
           (ret, c, tx, result) \<leftarrow> exec_one_tx X c tx transaction_result_new;
           if ret \<noteq> ok then Some (ret, c, tx, result)
           else do {
             (ret, c, result) \<leftarrow> exec_created X [0..<length (m_contract_txs result)] c result;
             Some (ret, c, tx, result) } })"


section \<open>A batch\<close>

record xbatch_txs_result =
  succ_txs_result :: xtransaction_result
  m_exec_succ_txs :: "xcons_transaction list"
  m_exec_fail_tx :: "xcons_transaction option"
  m_exec_fail_tx_ret :: xexec_ret

definition batch_new :: xbatch_txs_result where
  "batch_new = \<lparr>succ_txs_result = transaction_result_new, m_exec_succ_txs = [], m_exec_fail_tx = None, m_exec_fail_tx_ret = ok\<rparr>"

definition set_status :: "u8 \<Rightarrow> xcons_transaction \<Rightarrow> xcons_transaction" where
  "set_status s tx = tx\<lparr>m_execute_state := set_tx_exec_status s (m_execute_state tx)\<rparr>"

text \<open>A result holds the property log and the created transactions by pointer.  They are the objects of the
  context, which only appends to its vector of created transactions, so a result that was taken earlier sees
  what later executions do to them; the objects of its native table are shared through the heap.\<close>

definition shared_result :: "xaccount_context \<Rightarrow> xtransaction_result \<Rightarrow> xtransaction_result" where
  "shared_result c result =
     result\<lparr>m_contract_txs := take (length (m_contract_txs result)) (ctx_contract_txs c),
            m_prop_log := (if m_prop_log result = None then None else Some (m_proplogs (ctx_accountcmd c)))\<rparr>"

text \<open>The result, the context, the batch result, and the transactions of the batch afterwards.  A
  failed receipt or confirmation does not stop the batch; a failed send does, and the batch still
  succeeds if a transaction before it has.\<close>

fun exec_batch_loop :: "('r, 'k, 's) xexec \<Rightarrow> xcons_transaction list \<Rightarrow> xaccount_context \<Rightarrow> xbatch_txs_result
    \<Rightarrow> (xexec_ret \<times> xaccount_context \<times> xbatch_txs_result \<times> xcons_transaction list) option" where
  "exec_batch_loop X [] c res = Some (ok, c, res, [])"
| "exec_batch_loop X (tx # txs) c res = do {
     (action_ret, c, tx, result) \<leftarrow> exec_tx X c tx;
     let res = res\<lparr>succ_txs_result := shared_result c (succ_txs_result res)\<rparr>;
     if action_ret \<noteq> ok then
       let tx = set_status enum_xunit_tx_exec_status_fail tx
       in if tx_is enum_transaction_subtype_recv tx \<or> tx_is enum_transaction_subtype_confirm tx
          then do {
            (ret, c, res, done) \<leftarrow> exec_batch_loop X txs c (res\<lparr>m_exec_succ_txs := m_exec_succ_txs res @ [tx]\<rparr>);
            Some (ret, c, res, tx # done) }
          else Some (if m_exec_succ_txs res \<noteq> [] then ok else action_ret, c,
                     res\<lparr>m_exec_fail_tx := Some tx, m_exec_fail_tx_ret := action_ret\<rparr>, tx # txs)
     else do {
       let tx = set_status enum_xunit_tx_exec_status_success tx;
       (ret, c, res, done) \<leftarrow> exec_batch_loop X txs c
         (res\<lparr>succ_txs_result := result, m_exec_succ_txs := m_exec_succ_txs res @ [tx]\<rparr>);
       Some (ret, c, res, tx # done) } }"

definition exec_batch_txs :: "('r, 'k, 's) xexec \<Rightarrow> xaccount_context \<Rightarrow> xcons_transaction list
    \<Rightarrow> (xexec_ret \<times> xaccount_context \<times> xbatch_txs_result \<times> xcons_transaction list) option" where
  "exec_batch_txs X c txs = exec_batch_loop X txs c batch_new"


section \<open>The unit maker\<close>

text \<open>All transactions of the batch become the inputs of the unit.\<close>

definition make_lightunit_output :: "('r, 'k, 's) xexec \<Rightarrow> xaccount_context \<Rightarrow> xcons_transaction list
    \<Rightarrow> (xexec_ret \<times> xaccount_context \<times> xlightunit_block_para) option" where
  "make_lightunit_output X c txs = do {
     (ret, c, res, txs) \<leftarrow> exec_batch_txs X c txs;
     Some (if ret \<noteq> ok then (ret, c, block_para_new)
           else (ok, c, set_account_unconfirm_sendtx_num (ucast (m_unconfirm_sendtx_num (m_account_state (ctx_account c))))
                   (set_transaction_result (succ_txs_result res) (set_input_txs txs block_para_new)))) }"

definition can_make_full_unit :: "xenv \<Rightarrow> xaccount_context \<Rightarrow> xblock \<Rightarrow> bool" where
  "can_make_full_unit E c prev =
     (let current_height = m_height (blk_header prev) + 1;
          current_fullunit_height = (if get_block_class (blk_header prev) = enum_xvblock_class_full
            then m_height (blk_header prev) else hdr_last_full_block_height (blk_header prev));
          current_lightunit_count = current_height - current_fullunit_height
      in ucast (fullunit_contain_of_unit_num (env_conf E)) \<le> current_lightunit_count \<and>
         m_unconfirm_sendtx_num (m_account_state (ctx_account c)) = 0)"

datatype xmaker_error =
    enum_xtxexecutor_error_unit_property_behind
  | enum_xtxexecutor_error_proposal_unit_should_be_fullunit
  | enum_xtxexecutor_error_proposal_unit_should_be_lightunit

text \<open>The stored value of every property must have the hash that the account state names.\<close>

fun collect_propertys :: "xenv \<Rightarrow> (xdataunit \<Rightarrow> bytes) \<Rightarrow> (string \<times> string) list \<Rightarrow> (string, string) omap
    \<Rightarrow> xmaker_error + (string, string) omap" where
  "collect_propertys E wr [] props = Inr props"
| "collect_propertys E wr ((n, hash) # ps) props =
     (case clone_property (env_props E) n of
        None \<Rightarrow> Inl enum_xtxexecutor_error_unit_property_behind
      | Some u \<Rightarrow>
          if env_unit_hash E (Some u) \<noteq> hash then Inl enum_xtxexecutor_error_unit_property_behind
          else collect_propertys E wr ps (om_set n (wr u) props))"

definition make_fullunit_output :: "xenv \<Rightarrow> (xdataunit \<Rightarrow> bytes) \<Rightarrow> xaccount_context
    \<Rightarrow> xmaker_error + xfullunit_input \<times> xfullunit_output" where
  "make_fullunit_output E wr c =
     (case collect_propertys E wr (m_property_hash (m_account_state (ctx_account c))) [] of
        Inl e \<Rightarrow> Inl e
      | Inr props \<Rightarrow>
          Inr (\<lparr>m_first_unit_height = m_last_full_block_height (ctx_account c),
                m_first_unit_hash = m_last_full_block_hash (ctx_account c)\<rparr>,
               \<lparr>full_account_state = m_account_state (ctx_account c), m_account_propertys = props\<rparr>))"

definition verify_proposal_block_class :: "xenv \<Rightarrow> xaccount_context \<Rightarrow> xvheader \<Rightarrow> xblock \<Rightarrow> xmaker_error option" where
  "verify_proposal_block_class E c unitheader latest_unit =
     (let can_fullunit = can_make_full_unit E c latest_unit
      in if can_fullunit \<and> get_block_class unitheader \<noteq> enum_xvblock_class_full
         then Some enum_xtxexecutor_error_proposal_unit_should_be_fullunit
         else if \<not> can_fullunit \<and> get_block_class unitheader \<noteq> enum_xvblock_class_light
         then Some enum_xtxexecutor_error_proposal_unit_should_be_lightunit
         else None)"

text \<open>The choice between the two kinds of units and their construction on top of the last unit.  What
  the block library fills in are the fields of \<open>xmaker\<close>.\<close>

record xmaker =
  mk_io :: unit_io
  mk_chainid :: u32
  mk_header :: xvheader
  mk_write :: "xdataunit \<Rightarrow> bytes"

datatype xmake_ret = ExecError xexec_ret | MakeError xmaker_error

definition maker_create_lightunit :: "('r, 'k, 's) xexec \<Rightarrow> xmaker \<Rightarrow> xaccount_context \<Rightarrow> xblock \<Rightarrow> xcons_transaction list
    \<Rightarrow> (xmake_ret + xlightunit_block \<times> xaccount_context) option" where
  "maker_create_lightunit X M c prev input_txs = do {
     (ret, c, para) \<leftarrow> make_lightunit_output X c input_txs;
     if ret \<noteq> ok then Some (Inl (ExecError ret))
     else do {
       b \<leftarrow> create_next_lightunit (env_utl (x_env X)) (mk_io M) (mk_chainid M) (mk_header M) (ctx_heap c) para prev;
       Some (Inr (b, c)) } }"

definition maker_create_fullunit :: "xenv \<Rightarrow> xmaker \<Rightarrow> xaccount_context \<Rightarrow> xblock \<Rightarrow> xmake_ret + xfullunit_block" where
  "maker_create_fullunit E M c prev =
     (case make_fullunit_output E (mk_write M) c of
        Inl e \<Rightarrow> Inl (MakeError e)
      | Inr (inp, outp) \<Rightarrow> Inr (create_next_fullunit (mk_chainid M) (mk_header M) inp outp prev))"

definition create_unit_block :: "('r, 'k, 's) xexec \<Rightarrow> xmaker \<Rightarrow> xaccount_context \<Rightarrow> xblock \<Rightarrow> xcons_transaction list
    \<Rightarrow> (xmake_ret + any_block \<times> xaccount_context) option" where
  "create_unit_block X M c prev input_txs =
     (if can_make_full_unit (x_env X) c prev
      then Some (map_sum id (\<lambda>b. (FullUnit b, c)) (maker_create_fullunit (x_env X) M c prev))
      else map_option (map_sum id (\<lambda>(b, c). (LightUnit b, c))) (maker_create_lightunit X M c prev input_txs))"

end
