(* ===== verification/XAccountLaws.thy ===== *)
theory XAccountLaws
  imports XContextProps
begin

text \<open>
  What the operations of \<open>XAccountContext\<close> and \<open>XContextProps\<close> promise: transfers and their bounds,
  the lock and unlock cycle, gas on the sending side, and the bookkeeping of pledged votes.  The
  native table of a context is seen through its view, the table of typed values of
  \<open>XNativeProperty\<close>.
\<close>

section \<open>The native table of a context\<close>

definition ctx_view :: "xaccount_context \<Rightarrow> ptable" where
  "ctx_view c = np_view (ctx_heap c) (ctx_native c)"

definition ctx_ok :: "xaccount_context \<Rightarrow> bool" where
  "ctx_ok c \<longleftrightarrow> np_inv (ctx_heap c) (ctx_native c)"

lemma native_fields [simp]:
  "ctx_address (native_do f c) = ctx_address c" "ctx_account (native_do f c) = ctx_account c"
  "ctx_accountcmd (native_do f c) = ctx_accountcmd c" "ctx_contract_txs (native_do f c) = ctx_contract_txs c"
  "ctx_balance_change (native_do f c) = ctx_balance_change c" "ctx_pledge_tgas (native_do f c) = ctx_pledge_tgas c"
  "ctx_pledge_disk (native_do f c) = ctx_pledge_disk c" "ctx_pledge_vote (native_do f c) = ctx_pledge_vote c"
  "ctx_lock_balance_change (native_do f c) = ctx_lock_balance_change c"
  "ctx_lock_tgas_change (native_do f c) = ctx_lock_tgas_change c"
  "ctx_unvote_num_change (native_do f c) = ctx_unvote_num_change c" "ctx_timer_height (native_do f c) = ctx_timer_height c"
  "ctx_tgas_limit (native_do f c) = ctx_tgas_limit c" "ctx_cur_used_tgas (native_do f c) = ctx_cur_used_tgas c"
  "ctx_sys_total_lock_tgas_token (native_do f c) = ctx_sys_total_lock_tgas_token c"
  by (simp_all add: native_def case_prod_beta Let_def)

lemma np_exec_fun:
  "native_string_set n v = np_exec (StringSet n v)" "native_map_set n k v = np_exec (MapSet n k v)"
  "native_map_clear n = np_exec (MapClear n)" "native_map_erase n k = np_exec (MapErase n k)"
  "native_deque_push_back n v = np_exec (DequePushBack n v)" "native_deque_push_front n v = np_exec (DequePushFront n v)"
  "native_deque_erase n v = np_exec (DequeErase n v)" "native_deque_clear n = np_exec (DequeClear n)"
  "(\<lambda>h np. snd (native_deque_pop_front n h np)) = np_exec (DequePopFront n)"
  "(\<lambda>h np. snd (native_deque_pop_back n h np)) = np_exec (DequePopBack n)"
  by (simp_all add: fun_eq_iff)

lemma native_exec:
  assumes "ctx_ok c"
  shows "fst (native (np_exec op) c) = fst (np_spec op (ctx_view c))"
    "ctx_view (native_do (np_exec op) c) = snd (np_spec op (ctx_view c))"
    "ctx_ok (native_do (np_exec op) c)"
  using np_exec_ok [of "ctx_heap c" "ctx_native c" op] assms
  by (auto simp: native_def ctx_view_def ctx_ok_def np_step_ok_def case_prod_beta Let_def)

lemmas native_steps = native_exec [of _ "StringSet n v" for n v, folded np_exec_fun]
  native_exec [of _ "MapSet n k v" for n k v, folded np_exec_fun]
  native_exec [of _ "MapErase n k" for n k, folded np_exec_fun]
  native_exec [of _ "DequePushBack n v" for n v, folded np_exec_fun]
  native_exec [of _ "DequePopFront n" for n, folded np_exec_fun]
  native_exec [of _ "DequeErase n v" for n v, folded np_exec_fun]

lemma view_update [simp]:
  "ctx_view (c\<lparr>ctx_balance_change := x\<rparr>) = ctx_view c" "ctx_ok (c\<lparr>ctx_balance_change := x\<rparr>) = ctx_ok c"
  "ctx_view (ctx_set_balance_change x c) = ctx_view c" "ctx_ok (ctx_set_balance_change x c) = ctx_ok c"
  "ctx_view (ctx_set_vote_balance_change x c) = ctx_view c" "ctx_ok (ctx_set_vote_balance_change x c) = ctx_ok c"
  "ctx_view (ctx_set_unvote_num_change x c) = ctx_view c" "ctx_ok (ctx_set_unvote_num_change x c) = ctx_ok c"
  by (simp_all add: ctx_view_def ctx_ok_def ctx_set_balance_change_def ctx_set_vote_balance_change_def
      ctx_set_unvote_num_change_def)

text \<open>Reads in terms of the view.\<close>

definition num_at :: "ptable \<Rightarrow> string \<Rightarrow> u64 option" where
  "num_at V k = (case V k of Some (XString s) \<Rightarrow> stoull s | _ \<Rightarrow> Some 0)"

lemma native_string_get_view:
  "native_string_get k h np = (case np_view h np k of Some (XString s) \<Rightarrow> Inr s | _ \<Rightarrow> Inl np_not_exist)"
  by (auto simp: native_string_get_def string_get_def property_get_def np_view_def xstring_get_def
      split: option.splits bind_splits xdataunit.splits)

lemma native_number_view: "native_number k h np = num_at (np_view h np) k"
  by (simp add: native_number_def num_at_def native_string_get_view split: option.splits xdataunit.splits)

lemma map_get_view:
  "map_option snd (map_get h np k) = (case np_view h np k of Some (XMap m) \<Rightarrow> Some m | _ \<Rightarrow> None)"
  by (auto simp: map_get_def property_get_def np_view_def split: option.splits bind_splits xdataunit.splits)

lemma deque_get_view:
  "map_option snd (deque_get h np k) = (case np_view h np k of Some (XDeque q) \<Rightarrow> Some q | _ \<Rightarrow> None)"
  by (auto simp: deque_get_def property_get_def np_view_def split: option.splits bind_splits xdataunit.splits)

definition map_at :: "ptable \<Rightarrow> string \<Rightarrow> xstrmap_t" where
  "map_at V k = (case V k of Some (XMap m) \<Rightarrow> m | _ \<Rightarrow> [])"

definition deque_of :: "ptable \<Rightarrow> string \<Rightarrow> xstrdeque_t" where
  "deque_of V k = (case V k of Some (XDeque q) \<Rightarrow> q | _ \<Rightarrow> [])"

lemma native_map_get_view:
  "native_map_get k f h np = (case om_find (map_at (np_view h np) k) f of Some v \<Rightarrow> Inr v | None \<Rightarrow> Inl np_not_exist)"
proof -
  have "native_map_get k f h np = (case map_option snd (map_get h np k) of
      Some m \<Rightarrow> (case xmap_get f m of Some v \<Rightarrow> Inr v | None \<Rightarrow> Inl np_not_exist) | None \<Rightarrow> Inl np_not_exist)"
    by (auto simp: native_map_get_def split: option.splits)
  then show ?thesis
    by (auto simp: map_get_view map_at_def xmap_get_def om_find_def split: option.splits xdataunit.splits)
qed

lemma lock_sum_view: "get_lock_token_sum c = num_at (ctx_view c) XPROPERTY_LOCK_TOKEN_SUM_KEY"
  by (simp add: get_lock_token_sum_def native_number_view ctx_view_def)

text \<open>The properties that the operations use have the type they are used with.\<close>

definition typed_at :: "(xdataunit \<Rightarrow> 'x option) \<Rightarrow> ptable \<Rightarrow> string \<Rightarrow> bool" where
  "typed_at as V k \<longleftrightarrow> (case V k of None \<Rightarrow> True | Some u \<Rightarrow> as u \<noteq> None)"

lemma spec_string_set: "typed_at as_string V k \<Longrightarrow> np_spec (StringSet k v) V = (xsuccess, V(k \<mapsto> XString v))"
  by (auto simp: typed_at_def spec_upsert_def split: option.splits)

lemma spec_map_set: "typed_at as_map V k \<Longrightarrow> np_spec (MapSet k f v) V = (xsuccess, V(k \<mapsto> XMap (om_set f v (map_at V k))))"
  by (auto simp: typed_at_def spec_upsert_def map_at_def split: option.splits xdataunit.splits)

lemma spec_push_back: "typed_at as_deque V k \<Longrightarrow> np_spec (DequePushBack k v) V = (xsuccess, V(k \<mapsto> XDeque (deque_of V k @ [v])))"
  by (auto simp: typed_at_def spec_upsert_def deque_of_def split: option.splits xdataunit.splits)

lemma spec_map_erase: "V k = Some (XMap m) \<Longrightarrow> np_spec (MapErase k f) V = (xsuccess, V(k \<mapsto> XMap (om_erase f m)))"
  by (simp add: spec_update_def)

lemma spec_deque_erase:
  "V k = Some (XDeque q) \<Longrightarrow> v \<in> set q \<Longrightarrow> np_spec (DequeErase k v) V = (xsuccess, V(k \<mapsto> XDeque (remove1 v q)))"
  by (simp add: spec_update_def)

lemma num_at_set [simp]: "num_at (V(k \<mapsto> XString (to_string v))) k = Some v"
  by (simp add: num_at_def)

lemma num_at_other [simp]: "k \<noteq> j \<Longrightarrow> num_at (V(j \<mapsto> u)) k = num_at V k"
  by (simp add: num_at_def)

lemma set_lock_sum_view:
  assumes "ctx_ok c" "typed_at as_string (ctx_view c) XPROPERTY_LOCK_TOKEN_SUM_KEY"
  shows "ctx_view (set_lock_token_sum v c) = (ctx_view c)(XPROPERTY_LOCK_TOKEN_SUM_KEY \<mapsto> XString (to_string v))"
    "ctx_ok (set_lock_token_sum v c)"
  using native_steps(2,3) [OF assms(1)] spec_string_set [OF assms(2)] by (simp_all add: set_lock_token_sum_def)


section \<open>Tokens\<close>

definition avail :: "xaccount_context \<Rightarrow> i64" where
  "avail c = balance (ctx_account c) + ctx_balance_change c"

lemma xadd_small:
  assumes "unat a + unat b < 2 ^ 64"
  shows "xadd (a :: u64) b = Some (a + b)" "unat (a + b) = unat a + unat b"
  using assms by (auto simp: xadd_def word_less_nat_alt word_le_nat_alt unat_word_ariths)

lemma two_powers:
  "(2 :: int) ^ 63 = 9223372036854775808" "(2 :: nat) ^ 63 = 9223372036854775808"
  "(2 :: nat) ^ 64 = 18446744073709551616"
  by simp_all

lemma sint64_small:
  assumes "unat (w :: 64 word) < 2 ^ 63"
  shows "sint w = int (unat w)"
proof -
  have u: "int (unat w) = uint w"
    by simp
  have "uint w < 2 ^ 63"
    using assms u unfolding two_powers by linarith
  moreover have "- (2 ^ 63) \<le> uint w"
    using uint_ge_0 [of w] unfolding two_powers by linarith
  ultimately show ?thesis
    unfolding u using signed_take_bit_int_eq_self [of 63 "uint w"] by (simp add: sint_uint)
qed

lemma sint_nonneg_small:
  assumes "0 \<le> sint (w :: 64 word)"
  shows "unat w < 2 ^ 63" "sint w = int (unat w)"
proof -
  have s: "sint w < 2 ^ 63"
    using sint_lt [of w] by simp
  have "uint w = take_bit 64 (sint w)"
    using uint_sint [of w] by simp
  also have "\<dots> = sint w"
    using assms s by (simp add: take_bit_int_eq_self)
  finally have "uint w = sint w" .
  moreover have u: "int (unat w) = uint w"
    by simp
  ultimately show "unat w < 2 ^ 63" "sint w = int (unat w)"
    using s unfolding two_powers by linarith+
qed

lemma sint_sub_small:
  assumes "0 \<le> sint (b :: 64 word)" "int (unat d) \<le> sint b"
  shows "sint (b - d) = sint b - int (unat d)"
proof -
  have b: "unat b < 2 ^ 63" "sint b = int (unat b)"
    using sint_nonneg_small [OF assms(1)] by blast+
  have d: "unat d \<le> unat b"
    using assms(2) unfolding b(2) by linarith
  then have e: "unat (b - d) = unat b - unat d"
    by (simp add: unat_sub word_le_nat_alt)
  have "sint (b - d) = int (unat (b - d))"
    using b(1) e by (intro sint64_small) linarith
  then show ?thesis
    unfolding e b(2) using d by linarith
qed

lemma unat_of_small: "n < 2 ^ 64 \<Longrightarrow> unat (of_nat n :: 64 word) = n"
  by (simp add: unat_of_nat)

lemma can_work_total:
  "get_lock_token_sum c = Some s \<Longrightarrow>
    can_work E c = Some (is_sys_contract_address (ctx_address c) \<or> min_account_deposit (env_conf E) \<le> s)"
  by (simp add: can_work_def not_less)

lemma transfer_out_eq:
  fixes E c amount gas_fee service_fee
  defines "cost \<equiv> unat amount + unat gas_fee + unat service_fee"
  assumes "m_account (ctx_account c) \<noteq> sys_contract_zec_reward_addr" "get_lock_token_sum c = Some s"
    and "0 \<le> sint (avail c)" "cost < 2 ^ 63"
  shows "top_token_transfer_out E amount gas_fee service_fee c =
    (if (amount = 0 \<or> can_work E c = Some True) \<and> int cost \<le> sint (avail c)
     then Some (xsuccess, c\<lparr>ctx_balance_change := ctx_balance_change c - of_nat cost\<rparr>)
     else Some (EStore xaccount_balance_not_enough, c))"
proof -
  have 1: "xadd amount gas_fee = Some (amount + gas_fee)" "unat (amount + gas_fee) = unat amount + unat gas_fee"
    using assms(5) xadd_small [of amount gas_fee] by (simp_all add: cost_def)
  have 2: "xadd (amount + gas_fee) service_fee = Some (amount + gas_fee + service_fee)"
    "unat (amount + gas_fee + service_fee) = cost"
    using assms(5) xadd_small [of "amount + gas_fee" service_fee] 1 by (simp_all add: cost_def)
  have 3: "amount + gas_fee + service_fee = of_nat cost"
    using 2(2) by (simp flip: 2(2))
  have 4: "sint (of_nat cost :: 64 word) = int cost"
    using sint64_small [of "of_nat cost"] 2(2) 3 assms(5) by metis
  have deduct: "Option.bind (xadd amount gas_fee) (\<lambda>r. xadd r service_fee) = Some (of_nat cost)"
    using 1(1) 2(1) 3 by simp
  show ?thesis
    unfolding top_token_transfer_out_def deduct
    using assms(2,3) can_work_total [OF assms(3), of E] by (auto simp: 4 avail_def Let_def)
qed

text \<open>
  C11 A transfer out of an account is exact.  The reward contract succeeds without any check and
  nothing is taken from it.  For every other account, when the available balance is not negative and the
  cost (amount and both fees) is below 2^63, the transfer succeeds precisely when the cost is available and
  moreover the amount is zero, or the account is a system contract, or the locked tokens reach the
  deposit; it then takes exactly the cost and leaves a balance that is not negative,
  and otherwise reports the missing balance and changes nothing.
\<close>

theorem transfer_out_exact:
  assumes "get_lock_token_sum c = Some s"
    and "0 \<le> sint (avail c)" "unat amount + unat gas_fee + unat service_fee < 2 ^ 63"
  shows "if m_account (ctx_account c) = sys_contract_zec_reward_addr
    then top_token_transfer_out E amount gas_fee service_fee c = Some (xsuccess, c)
    else \<exists>r c'. top_token_transfer_out E amount gas_fee service_fee c = Some (r, c') \<and>
    (r = xsuccess \<longleftrightarrow> int (unat amount + unat gas_fee + unat service_fee) \<le> sint (avail c) \<and>
       (amount = 0 \<or> is_sys_contract_address (ctx_address c) \<or> min_account_deposit (env_conf E) \<le> s)) \<and>
    (r = xsuccess \<longrightarrow> sint (avail c') = sint (avail c) - int (unat amount + unat gas_fee + unat service_fee) \<and>
       0 \<le> sint (avail c') \<and> ctx_view c' = ctx_view c) \<and>
    (r \<noteq> xsuccess \<longrightarrow> r = EStore xaccount_balance_not_enough \<and> c' = c)"
proof (cases "m_account (ctx_account c) = sys_contract_zec_reward_addr")
  case True
  then show ?thesis by (simp add: top_token_transfer_out_def)
next
  case False
  define cost where "cost = unat amount + unat gas_fee + unat service_fee"
  have small: "cost < 2 ^ 63"
    using assms(3) by (simp add: cost_def)
  have u: "unat (of_nat cost :: 64 word) = cost"
    using small unfolding two_powers by (intro unat_of_small) (simp only: two_powers)
  have "sint (avail c - of_nat cost) = sint (avail c) - int cost" if "int cost \<le> sint (avail c)"
    using sint_sub_small [OF assms(2), of "of_nat cost"] that unfolding u by blast
  then have "sint (avail (c\<lparr>ctx_balance_change := ctx_balance_change c - of_nat cost\<rparr>)) = sint (avail c) - int cost"
    if "int cost \<le> sint (avail c)"
    using that by (simp add: avail_def algebra_simps)
  then show ?thesis
    using transfer_out_eq [OF False assms, of E] False
    by (auto simp: can_work_total [OF assms(1)] simp del: of_nat_add simp flip: cost_def)
qed

text \<open>An account with 500 TOP and the deposit of 100000 locked.\<close>

definition sample_env :: xenv where
  "sample_env = \<lparr>env_conf = default_conf\<lparr>min_account_deposit := 100000\<rparr>, env_utl = sample_utl, env_hashes = sample_hashes,
     env_props = \<lparr>has_property_hash = (\<lambda>_. False), clone_property = (\<lambda>_. None)\<rparr>, env_unit_hash = (\<lambda>_. [])\<rparr>"

definition sample_account :: xblockchain2 where
  "sample_account = (blockchain_new ''T00000alice'')\<lparr>m_account_state := mstate_new\<lparr>m_account_balance := 500000000,
     mstate_native_property := \<lparr>m_objs = [(XPROPERTY_LOCK_TOKEN_SUM_KEY, 0)], m_modify_objs = []\<rparr>\<rparr>\<rparr>"

definition sample_ctx :: xaccount_context where
  "sample_ctx = context_new ''T00000alice'' (Some sample_account) [XString (to_string 100000)]"

lemmas sample_ctx_defs = sample_ctx_def sample_account_def sample_env_def context_new_def clear_dirty_def blockchain_new_def

lemma sample_ctx_table:
  "ctx_heap sample_ctx = [XString (to_string 100000)]"
  "ctx_native sample_ctx = \<lparr>m_objs = [(XPROPERTY_LOCK_TOKEN_SUM_KEY, 0)], m_modify_objs = []\<rparr>"
  by (simp_all add: sample_ctx_defs)

lemma sample_ctx_view:
  "ctx_ok sample_ctx" "ctx_view sample_ctx = [XPROPERTY_LOCK_TOKEN_SUM_KEY \<mapsto> XString (to_string 100000)]"
  by (auto simp: ctx_ok_def ctx_view_def sample_ctx_table np_inv_def om_inv_def np_view_def om_find_def deref_def fun_eq_iff)

lemma sample_ctx_facts:
  "ctx_account sample_ctx = sample_account" "ctx_address sample_ctx = ''T00000alice''"
  "m_account sample_account = ''T00000alice''" "balance sample_account = 500000000"
  "ctx_balance_change sample_ctx = 0" "ctx_timer_height sample_ctx = 0"
  "get_lock_token_sum sample_ctx = Some 100000" "avail sample_ctx = 500000000"
  "\<not> is_sys_contract_address ''T00000alice''" "''T00000alice'' \<noteq> sys_contract_zec_reward_addr"
  "min_account_deposit (env_conf sample_env) = 100000"
  by (simp_all add: lock_sum_view sample_ctx_view num_at_def avail_def)
    (simp_all add: sample_ctx_defs is_sys_contract_address_def check_address_type_def get_addrtype_from_account_def
      sys_contract_zec_reward_addr_def addr_type_defs)

theorem transfer_out_exact_witness:
  "(\<exists>r c'. top_token_transfer_out sample_env 1200 300 0 sample_ctx = Some (r, c') \<and> r = xsuccess \<and>
      sint (avail c') = 499998500) \<and>
    top_token_transfer_out sample_env 600000000 300 0 sample_ctx = Some (EStore xaccount_balance_not_enough, sample_ctx)"
  using transfer_out_exact [of sample_ctx 100000 1200 300 0 sample_env]
    transfer_out_exact [of sample_ctx 100000 600000000 300 0 sample_env] by (auto simp: sample_ctx_facts)


lemma lock_sum_set:
  assumes "ctx_ok c" "typed_at as_string (ctx_view c) XPROPERTY_LOCK_TOKEN_SUM_KEY"
  shows "get_lock_token_sum (set_lock_token_sum v c) = Some v"
  using set_lock_sum_view [OF assms] by (simp add: lock_sum_view)

lemma set_lock_sum_fields [simp]:
  "ctx_balance_change (set_lock_token_sum v c) = ctx_balance_change c"
  "ctx_account (set_lock_token_sum v c) = ctx_account c"
  "ctx_address (set_lock_token_sum v c) = ctx_address c"
  "ctx_timer_height (set_lock_token_sum v c) = ctx_timer_height c"
  by (simp_all add: set_lock_token_sum_def)

lemma lock_sum_change [simp]:
  "get_lock_token_sum (c\<lparr>ctx_balance_change := x\<rparr>) = get_lock_token_sum c"
  by (simp add: get_lock_token_sum_def)

lemma transfer_in_eq:
  fixes c E amount s
  defines "s' \<equiv> if is_sys_contract_address (ctx_address c) \<or> min_account_deposit (env_conf E) \<le> s then s
             else if min_account_deposit (env_conf E) - s < amount then min_account_deposit (env_conf E) else s + amount"
  assumes "ctx_ok c" "typed_at as_string (ctx_view c) XPROPERTY_LOCK_TOKEN_SUM_KEY" "get_lock_token_sum c = Some s"
  shows "\<exists>c'. top_token_transfer_in E amount c = Some (xsuccess, c') \<and> get_lock_token_sum c' = Some s' \<and>
    s' + ctx_balance_change c' = s + ctx_balance_change c + amount \<and> ctx_account c' = ctx_account c"
proof (cases "amount = 0 \<or> is_sys_contract_address (ctx_address c) \<or> (s \<noteq> 0 \<and> min_account_deposit (env_conf E) \<le> s)")
  case True
  then show ?thesis
    using assms(4) by (auto simp: top_token_transfer_in_def s'_def Let_def)
next
  case False
  then have "amount \<noteq> 0" "\<not> is_sys_contract_address (ctx_address c)" "s = 0 \<or> s < min_account_deposit (env_conf E)"
    by auto
  moreover have "\<not> amount < 1"
    using \<open>amount \<noteq> 0\<close> by (metis less_one unat_1 unsigned_eq_0_iff word_less_nat_alt)
  ultimately show ?thesis
    using assms(4) lock_sum_set [OF assms(2,3)]
    by (auto simp: top_token_transfer_in_def s'_def not_less not_le Let_def algebra_simps)
qed

text \<open>
  C12 A transfer into an account conserves the tokens: it succeeds, the locked sum and the balance
  change grow together by exactly the amount, and the locked sum is filled up to the minimum
  deposit first (for a system contract it stays as it is).
\<close>
theorem transfer_in_conserves:
  assumes "ctx_ok c" "typed_at as_string (ctx_view c) XPROPERTY_LOCK_TOKEN_SUM_KEY" "get_lock_token_sum c = Some s"
  shows "\<exists>c' s'. top_token_transfer_in E amount c = Some (xsuccess, c') \<and> get_lock_token_sum c' = Some s' \<and>
    s' + ctx_balance_change c' = s + ctx_balance_change c + amount \<and> ctx_account c' = ctx_account c \<and>
    unat s' = (if is_sys_contract_address (ctx_address c) then unat s
      else max (unat s) (min (unat (min_account_deposit (env_conf E))) (unat s + unat amount)))"
proof -
  let ?dep = "min_account_deposit (env_conf E)"
  let ?s' = "if is_sys_contract_address (ctx_address c) \<or> ?dep \<le> s then s else if ?dep - s < amount then ?dep else s + amount"
  have "unat ?s' = max (unat s) (min (unat ?dep) (unat s + unat amount))" if "\<not> is_sys_contract_address (ctx_address c)"
  proof (cases "?dep \<le> s")
    case True
    then show ?thesis
      using that by (simp add: word_le_nat_alt)
  next
    case False
    then have 1: "unat s \<le> unat ?dep" "unat (?dep - s) = unat ?dep - unat s"
      by (simp_all add: word_le_nat_alt unat_sub)
    have "unat (s + amount) = unat s + unat amount" if "\<not> ?dep - s < amount"
    proof -
      have "unat ?dep < 2 ^ LENGTH(64)"
        by (rule unsigned_less)
      then have "unat s + unat amount < 2 ^ 64"
        using that 1 by (simp add: word_less_nat_alt)
      then show ?thesis
        by (rule xadd_small(2))
    qed
    then show ?thesis
      using that False 1 by (auto simp: word_less_nat_alt)
  qed
  then show ?thesis
    using transfer_in_eq [OF assms, where amount = amount and E = E] by fastforce
qed

theorem transfer_in_conserves_witness:
  "\<exists>c' s'. top_token_transfer_in sample_env 700 sample_ctx = Some (xsuccess, c') \<and> get_lock_token_sum c' = Some s' \<and>
    s' + ctx_balance_change c' = 100700 \<and> unat s' = 100000"
proof -
  have "typed_at as_string (ctx_view sample_ctx) XPROPERTY_LOCK_TOKEN_SUM_KEY"
    by (simp add: typed_at_def sample_ctx_view)
  then show ?thesis
    using transfer_in_conserves [OF sample_ctx_view(1), of 100000 sample_env 700]
    by (auto simp: sample_ctx_facts)
qed


section \<open>Locked tokens\<close>

lemma see_map:
  "native_map_get k f (ctx_heap c) (ctx_native c) =
     (case om_find (map_at (ctx_view c) k) f of Some v \<Rightarrow> Inr v | None \<Rightarrow> Inl np_not_exist)"
  by (simp add: native_map_get_view ctx_view_def)

lemma map_at_inv: "ctx_ok c \<Longrightarrow> om_inv (map_at (ctx_view c) k)"
  using np_view_in [of "ctx_heap c" "ctx_native c" k]
  by (fastforce simp: map_at_def ctx_view_def ctx_ok_def np_inv_def list_all_iff split: option.splits xdataunit.splits)

lemma om_erase_set: "om_inv m \<Longrightarrow> om_find m k = None \<Longrightarrow> om_erase k (om_set k v m) = m"
  by (rule om_ext) (auto simp: om_find_set)

lemma lock_keys_differ [simp]: "XPROPERTY_LOCK_TOKEN_KEY \<noteq> XPROPERTY_LOCK_TOKEN_SUM_KEY"
  "XPROPERTY_LOCK_TOKEN_SUM_KEY \<noteq> XPROPERTY_LOCK_TOKEN_KEY"
  by (simp_all add: property_key_defs)

lemma get_put_lock: "str_ok p \<Longrightarrow> lock_read_param p = Some l \<Longrightarrow> get_lock (put_lock t p) = Some (t, l)"
  using get_string_put [of p "[]"] by (simp add: get_lock_def put_lock_def str_ok_def)

lemma map_set_view:
  assumes "ctx_ok c" "typed_at as_map (ctx_view c) k"
  shows "ctx_view (native_do (native_map_set k f v) c) = (ctx_view c)(k \<mapsto> XMap (om_set f v (map_at (ctx_view c) k)))"
    "ctx_ok (native_do (native_map_set k f v) c)"
  using native_steps(5,6) [OF assms(1)] spec_map_set [OF assms(2)] by simp_all

lemma map_erase_view:
  assumes "ctx_ok c" "ctx_view c k = Some (XMap m)"
  shows "fst (native (native_map_erase k f) c) = xsuccess"
    "ctx_view (native_do (native_map_erase k f) c) = (ctx_view c)(k \<mapsto> XMap (om_erase f m))"
    "ctx_ok (native_do (native_map_erase k f) c)"
  using native_steps(7-9) [OF assms(1)] spec_map_erase [where V = "ctx_view c", OF assms(2)] by simp_all

lemma lock_token_done:
  fixes c E h amount p
  defines "V \<equiv> ctx_view c"
  assumes "ctx_ok c" "typed_at as_map V XPROPERTY_LOCK_TOKEN_KEY" "typed_at as_string V XPROPERTY_LOCK_TOKEN_SUM_KEY"
    and "lock_token E h amount p c = Some (xsuccess, c1)"
  shows "om_find (map_at V XPROPERTY_LOCK_TOKEN_KEY) h = None" "can_work E c = Some True" "ctx_ok c1"
    "\<exists>s. get_lock_token_sum c = Some s \<and>
       ctx_view c1 = V(XPROPERTY_LOCK_TOKEN_KEY \<mapsto> XMap (om_set h (put_lock (ctx_timer_height c) p)
         (map_at V XPROPERTY_LOCK_TOKEN_KEY)), XPROPERTY_LOCK_TOKEN_SUM_KEY \<mapsto> XString (to_string (s + amount)))"
    "ctx_balance_change c1 = ctx_balance_change c - amount" "ctx_address c1 = ctx_address c"
proof -
  let ?c0 = "c\<lparr>ctx_balance_change := ctx_balance_change c - amount\<rparr>"
  let ?r = "put_lock (ctx_timer_height c) p"
  let ?d = "native_do (native_map_set XPROPERTY_LOCK_TOKEN_KEY h ?r) ?c0"
  obtain s where s: "get_lock_token_sum c = Some s"
    using assms(5) by (auto simp: lock_token_def split: bind_splits)
  show w: "can_work E c = Some True" and n: "om_find (map_at V XPROPERTY_LOCK_TOKEN_KEY) h = None"
    using assms(5) by (auto simp: lock_token_def s see_map V_def split: bind_splits if_splits option.splits)
  have c1: "c1 = set_lock_token_sum (s + amount) ?d"
    using assms(5) n by (auto simp: lock_token_def s w see_map V_def Let_def split: if_splits)
  have d: "ctx_view ?d = V(XPROPERTY_LOCK_TOKEN_KEY \<mapsto> XMap (om_set h ?r (map_at V XPROPERTY_LOCK_TOKEN_KEY)))" "ctx_ok ?d"
    using map_set_view [of ?c0 XPROPERTY_LOCK_TOKEN_KEY h ?r] assms(2,3) by (simp_all add: V_def)
  have t: "typed_at as_string (ctx_view ?d) XPROPERTY_LOCK_TOKEN_SUM_KEY"
    using assms(4) by (simp add: d typed_at_def)
  show "ctx_ok c1" "ctx_balance_change c1 = ctx_balance_change c - amount" "ctx_address c1 = ctx_address c"
    using set_lock_sum_view [OF d(2) t] by (simp_all add: c1)
  show "\<exists>s. get_lock_token_sum c = Some s \<and>
       ctx_view c1 = V(XPROPERTY_LOCK_TOKEN_KEY \<mapsto> XMap (om_set h ?r
         (map_at V XPROPERTY_LOCK_TOKEN_KEY)), XPROPERTY_LOCK_TOKEN_SUM_KEY \<mapsto> XString (to_string (s + amount)))"
    using set_lock_sum_view(1) [OF d(2) t] s by (simp add: c1 d(1))
qed

lemma ctx_view_timer [simp]: "ctx_view (c\<lparr>ctx_timer_height := t\<rparr>) = ctx_view c" "ctx_ok (c\<lparr>ctx_timer_height := t\<rparr>) = ctx_ok c"
  by (simp_all add: ctx_view_def ctx_ok_def)

text \<open>
  C13 A time lock holds and is released exactly: after tokens are locked, an unlock before the time
  of the lock fails and changes nothing; an unlock afterwards succeeds, gives the amount back to the
  balance, and restores the sum and the records of the locks as they were before.
\<close>
theorem lock_unlock_round:
  assumes "ctx_ok c" "typed_at as_map (ctx_view c) XPROPERTY_LOCK_TOKEN_KEY"
    "typed_at as_string (ctx_view c) XPROPERTY_LOCK_TOKEN_SUM_KEY"
    and "lock_token E h (lock_amount l) p c = Some (xsuccess, c1)" "str_ok p" "lock_read_param p = Some l"
    and "m_unlock_type l = UT_time" "m_unlock_values l = v # vs"
    and "get_lock_token_sum c = Some s" "unat s + unat (lock_amount l) < 2 ^ 64"
    and "c2 = c1\<lparr>ctx_timer_height := now\<rparr>"
  shows "if (now - ctx_timer_height c) * 10 < touint64 (env_utl E) v
    then unlock_token E h signs c2 = Some (EStore xaccount_property_unlock_token_time_not_reach, c2)
    else \<exists>c3. unlock_token E h signs c2 = Some (xsuccess, c3) \<and> ctx_balance_change c3 = ctx_balance_change c \<and>
      get_lock_token_sum c3 = Some s \<and>
      map_at (ctx_view c3) XPROPERTY_LOCK_TOKEN_KEY = map_at (ctx_view c) XPROPERTY_LOCK_TOKEN_KEY"
proof -
  let ?K = XPROPERTY_LOCK_TOKEN_KEY
  let ?S = XPROPERTY_LOCK_TOKEN_SUM_KEY
  let ?V = "ctx_view c"
  let ?m = "om_set h (put_lock (ctx_timer_height c) p) (map_at ?V ?K)"
  note locked = lock_token_done [OF assms(1-4)]
  have view: "ctx_view c2 = ?V(?K \<mapsto> XMap ?m, ?S \<mapsto> XString (to_string (s + lock_amount l)))" "ctx_ok c2"
    using locked(3,4) assms(9,11) by auto
  have s2: "get_lock_token_sum c2 = Some (s + lock_amount l)"
    by (simp add: lock_sum_view view)
  have "min_account_deposit (env_conf E) \<le> s + lock_amount l \<or> is_sys_contract_address (ctx_address c)"
    using locked(2) can_work_total [OF assms(9), of E] xadd_small(2) [OF assms(10)] by (auto simp: word_le_nat_alt)
  then have w: "can_work E c2 = Some True"
    using can_work_total [OF s2, of E] locked(6) assms(11) by auto
  have m: "map_at (ctx_view c2) ?K = ?m"
    by (simp add: view map_at_def)
  have r: "get_lock (put_lock (ctx_timer_height c) p) = Some (ctx_timer_height c, l)"
    by (rule get_put_lock [OF assms(5,6)])
  have now: "ctx_timer_height c2 = now" "ctx_balance_change c2 = ctx_balance_change c - lock_amount l"
    using locked(5) assms(11) by simp_all
  let ?d = "native_do (native_map_erase ?K h) c2"
  have "om_erase h ?m = map_at ?V ?K"
    by (rule om_erase_set [OF map_at_inv [OF assms(1)] locked(1)])
  then have d: "fst (native (native_map_erase ?K h) c2) = xsuccess" "ctx_ok ?d"
    "ctx_view ?d = ?V(?K \<mapsto> XMap (map_at ?V ?K), ?S \<mapsto> XString (to_string (s + lock_amount l)))"
    using map_erase_view [OF view(2), of ?K ?m h] by (simp_all add: view fun_upd_twist [of ?K ?S])
  have t: "typed_at as_string (ctx_view ?d) ?S"
    by (simp add: d typed_at_def)
  let ?e = "set_lock_token_sum s ?d"
  have e: "get_lock_token_sum ?e = Some s" "map_at (ctx_view ?e) ?K = map_at ?V ?K"
    using lock_sum_set [OF d(2) t] set_lock_sum_view(1) [OF d(2) t] by (simp_all add: d map_at_def)
  show ?thesis
    using e by (auto simp: unlock_token_def s2 w see_map m r now assms(7,8) lock_expired_def case_prod_beta d(1) Let_def)
qed

definition sample_lock_param :: string where
  "sample_lock_param = put_u32 0 @ put_u64 700 @ put_u32 UT_time @ put_u32 1 @ put_string ''600''"

lemma sample_lock_read:
  "str_ok sample_lock_param"
  "lock_read_param sample_lock_param = Some \<lparr>lock_version = 0, lock_amount = 700, m_unlock_type = UT_time,
     m_unlock_values = [''600''], m_params = []\<rparr>"
proof -
  show "str_ok sample_lock_param"
    by (simp add: sample_lock_param_def str_ok_def put_string_def put_uint_defs)
  show "lock_read_param sample_lock_param = Some \<lparr>lock_version = 0, lock_amount = 700, m_unlock_type = UT_time,
     m_unlock_values = [''600''], m_params = []\<rparr>"
    using string_round [of "''600''" "[]"]
    by (simp add: sample_lock_param_def lock_read_param_def str_ok_def emplace_back_def parse_round)
qed

theorem lock_unlock_round_witness:
  "\<exists>c1 c3. lock_token sample_env ''h'' 700 sample_lock_param sample_ctx = Some (xsuccess, c1) \<and>
    unlock_token sample_env ''h'' [] (c1\<lparr>ctx_timer_height := 60\<rparr>) = Some (xsuccess, c3) \<and>
    ctx_balance_change c3 = 0 \<and> get_lock_token_sum c3 = Some 100000"
proof -
  have t: "typed_at as_map (ctx_view sample_ctx) XPROPERTY_LOCK_TOKEN_KEY"
    "typed_at as_string (ctx_view sample_ctx) XPROPERTY_LOCK_TOKEN_SUM_KEY"
    by (simp_all add: typed_at_def sample_ctx_view)
  have "can_work sample_env sample_ctx = Some True"
    using can_work_total [OF sample_ctx_facts(7), of sample_env] by (simp add: sample_ctx_facts)
  then obtain c1 where c1: "lock_token sample_env ''h'' 700 sample_lock_param sample_ctx = Some (xsuccess, c1)"
    by (simp add: lock_token_def sample_ctx_facts see_map sample_ctx_view map_at_def Let_def)
  have "touint64 (env_utl sample_env) ''600'' = 600"
    by (simp add: sample_env_def sample_utl_def dec_val_def is_digit_def of_char_def)
  moreover have "lock_token sample_env ''h'' (lock_amount \<lparr>lock_version = 0, lock_amount = 700, m_unlock_type = UT_time,
     m_unlock_values = [''600''], m_params = []\<rparr>) sample_lock_param sample_ctx = Some (xsuccess, c1)"
    using c1 by simp
  ultimately show ?thesis
    using lock_unlock_round [OF sample_ctx_view(1) t _ sample_lock_read _ _ sample_ctx_facts(7) _ refl,
        of sample_env "''h''" c1 "''600''" "[]" 60 "[]"] c1
    by (auto simp: sample_ctx_facts)
qed


text \<open>One expired record of the loop over all locks.\<close>

lemma unlock_all_step:
  fixes c E s h t p l m
  defines "c' \<equiv> (set_lock_token_sum (s - lock_amount l) (native_do (native_map_erase XPROPERTY_LOCK_TOKEN_KEY h) c))
      \<lparr>ctx_balance_change := ctx_balance_change c + lock_amount l\<rparr>"
  assumes "ctx_ok c" "ctx_view c XPROPERTY_LOCK_TOKEN_KEY = Some (XMap m)" "om_find m h = Some (put_lock t p)"
    and "str_ok p" "lock_read_param p = Some l" "m_unlock_type l = UT_time"
    and "lock_expired E (ctx_timer_height c) t l = Some True"
    and "typed_at as_string (ctx_view c) XPROPERTY_LOCK_TOKEN_SUM_KEY"
  shows "unlock_all_loop E s ((h, x) # txs) v c = unlock_all_loop E s txs (put_lock t p) c'"
    "ctx_ok c'" "ctx_timer_height c' = ctx_timer_height c" "ctx_balance_change c' = ctx_balance_change c + lock_amount l"
    "ctx_view c' = (ctx_view c)(XPROPERTY_LOCK_TOKEN_KEY \<mapsto> XMap (om_erase h m),
       XPROPERTY_LOCK_TOKEN_SUM_KEY \<mapsto> XString (to_string (s - lock_amount l)))"
proof -
  let ?d = "native_do (native_map_erase XPROPERTY_LOCK_TOKEN_KEY h) c"
  have d: "fst (native (native_map_erase XPROPERTY_LOCK_TOKEN_KEY h) c) = xsuccess" "ctx_ok ?d"
    "ctx_view ?d = (ctx_view c)(XPROPERTY_LOCK_TOKEN_KEY \<mapsto> XMap (om_erase h m))"
    using map_erase_view [OF assms(2,3)] by simp_all
  have t: "typed_at as_string (ctx_view ?d) XPROPERTY_LOCK_TOKEN_SUM_KEY"
    using assms(9) by (simp add: d typed_at_def)
  show "ctx_ok c'" "ctx_timer_height c' = ctx_timer_height c" "ctx_balance_change c' = ctx_balance_change c + lock_amount l"
    "ctx_view c' = (ctx_view c)(XPROPERTY_LOCK_TOKEN_KEY \<mapsto> XMap (om_erase h m),
       XPROPERTY_LOCK_TOKEN_SUM_KEY \<mapsto> XString (to_string (s - lock_amount l)))"
    using set_lock_sum_view [OF d(2) t] by (simp_all add: c'_def d(3))
  have "map_at (ctx_view c) XPROPERTY_LOCK_TOKEN_KEY = m"
    by (simp add: map_at_def assms(3))
  then show "unlock_all_loop E s ((h, x) # txs) v c = unlock_all_loop E s txs (put_lock t p) c'"
    by (simp add: see_map assms(4,7,8) get_put_lock [OF assms(5,6)] case_prod_beta d(1) Let_def c'_def)
qed

text \<open>
  C35 Releasing two expired time locks at once pays both amounts to the balance and removes both
  records, but the sum of locked tokens is only reduced by the amount of the last one: it was read
  once before the loop.
\<close>
theorem unlock_all_keeps_sum:
  fixes c E
  defines "V \<equiv> ctx_view c" and "now \<equiv> ctx_timer_height c"
  assumes "ctx_ok c" "V XPROPERTY_LOCK_TOKEN_KEY = Some (XMap [(h1, put_lock t1 p1), (h2, put_lock t2 p2)])"
    "typed_at as_string V XPROPERTY_LOCK_TOKEN_SUM_KEY" "get_lock_token_sum c = Some s" "can_work E c = Some True"
    and "str_ok p1" "lock_read_param p1 = Some l1" "m_unlock_type l1 = UT_time" "lock_expired E now t1 l1 = Some True"
    and "str_ok p2" "lock_read_param p2 = Some l2" "m_unlock_type l2 = UT_time" "lock_expired E now t2 l2 = Some True"
  shows "\<exists>c'. unlock_all_token E c = Some (xsuccess, c') \<and>
    ctx_balance_change c' = ctx_balance_change c + lock_amount l1 + lock_amount l2 \<and>
    map_at (ctx_view c') XPROPERTY_LOCK_TOKEN_KEY = [] \<and> get_lock_token_sum c' = Some (s - lock_amount l2)"
proof -
  let ?K = XPROPERTY_LOCK_TOKEN_KEY
  let ?m = "[(h1, put_lock t1 p1), (h2, put_lock t2 p2)]"
  have m: "map_at V ?K = ?m"
    by (simp add: map_at_def assms(4))
  then have d: "h1 < h2"
    using map_at_inv [OF assms(3), of ?K] by (simp add: V_def om_inv_def)
  obtain a where a: "map_get (ctx_heap c) (ctx_native c) ?K = Some (a, ?m)"
    using map_get_view [of "ctx_heap c" "ctx_native c" ?K] assms(4) by (auto simp: V_def ctx_view_def)
  have f: "om_find ?m h1 = Some (put_lock t1 p1)" "om_erase h1 ?m = [(h2, put_lock t2 p2)]"
    using d by (auto simp: om_find_def om_erase_def)
  let ?c1 = "(set_lock_token_sum (s - lock_amount l1) (native_do (native_map_erase ?K h1) c))
      \<lparr>ctx_balance_change := ctx_balance_change c + lock_amount l1\<rparr>"
  note 1 = unlock_all_step [OF assms(3) assms(4) [unfolded V_def] f(1) assms(8-10) assms(11) [unfolded now_def]
      assms(5) [unfolded V_def], of s]
  have v1: "ctx_view ?c1 ?K = Some (XMap [(h2, put_lock t2 p2)])"
    using 1(5) f(2) by simp
  have t1: "typed_at as_string (ctx_view ?c1) XPROPERTY_LOCK_TOKEN_SUM_KEY"
    using 1(5) by (simp add: typed_at_def)
  have e: "lock_expired E (ctx_timer_height ?c1) t2 l2 = Some True"
    using assms(15) 1(3) by (simp add: now_def)
  let ?c2 = "(set_lock_token_sum (s - lock_amount l2) (native_do (native_map_erase ?K h2) ?c1))
      \<lparr>ctx_balance_change := ctx_balance_change ?c1 + lock_amount l2\<rparr>"
  have f2: "om_find [(h2, put_lock t2 p2)] h2 = Some (put_lock t2 p2)" "om_erase h2 [(h2, put_lock t2 p2)] = []"
    by (simp_all add: om_find_def om_erase_def)
  note 2 = unlock_all_step [OF 1(2) v1 f2(1) assms(12-14) e t1, of s]
  have "unlock_all_token E c = unlock_all_loop E s ?m [] c"
    by (simp add: unlock_all_token_def assms(6,7) a del: unlock_all_loop.simps(2))
  also have "\<dots> = Some (xsuccess, ?c2)"
    by (simp only: 1(1) 2(1) unlock_all_loop.simps(1))
  finally show ?thesis
    using 2(4,5) 1(4) f2(2) by (simp add: lock_sum_view map_at_def)
qed

definition sample_locked :: xaccount_context where
  "sample_locked = sample_ctx\<lparr>ctx_heap := [XMap [(''g'', put_lock 0 sample_lock_param), (''h'', put_lock 0 sample_lock_param)],
       XString (to_string 101400)],
     ctx_native := \<lparr>m_objs = [(XPROPERTY_LOCK_TOKEN_KEY, 0), (XPROPERTY_LOCK_TOKEN_SUM_KEY, 1)], m_modify_objs = []\<rparr>,
     ctx_timer_height := 60\<rparr>"

lemma sample_locked_view:
  "ctx_ok sample_locked"
  "ctx_view sample_locked = [XPROPERTY_LOCK_TOKEN_KEY \<mapsto> XMap [(''g'', put_lock 0 sample_lock_param), (''h'', put_lock 0 sample_lock_param)],
     XPROPERTY_LOCK_TOKEN_SUM_KEY \<mapsto> XString (to_string 101400)]"
  by (auto simp: ctx_ok_def ctx_view_def sample_locked_def np_inv_def om_inv_def np_view_def om_find_def deref_def fun_eq_iff
      property_key_defs)

theorem unlock_all_keeps_sum_witness:
  "\<exists>c'. unlock_all_token sample_env sample_locked = Some (xsuccess, c') \<and> ctx_balance_change c' = 1400 \<and>
    map_at (ctx_view c') XPROPERTY_LOCK_TOKEN_KEY = [] \<and> get_lock_token_sum c' = Some 100700"
proof -
  have s: "get_lock_token_sum sample_locked = Some 101400"
    by (simp add: lock_sum_view sample_locked_view num_at_def)
  have w: "can_work sample_env sample_locked = Some True"
    using can_work_total [OF s, of sample_env] by (simp add: sample_ctx_facts)
  have "touint64 (env_utl sample_env) ''600'' = 600" "ctx_timer_height sample_locked = 60" "ctx_balance_change sample_locked = 0"
    by (simp_all add: sample_env_def sample_utl_def dec_val_def is_digit_def of_char_def sample_locked_def sample_ctx_facts)
  then show ?thesis
    using unlock_all_keeps_sum [OF sample_locked_view(1) _ _ s w sample_lock_read _ _ sample_lock_read, of "''g''" 0 "''h''" 0]
    by (simp add: sample_locked_view typed_at_def lock_expired_def)
qed


section \<open>Gas\<close>

lemma string_set_view:
  assumes "ctx_ok c" "typed_at as_string (ctx_view c) k"
  shows "ctx_view (native_do (native_string_set k v) c) = (ctx_view c)(k \<mapsto> XString v)"
    "ctx_ok (native_do (native_string_set k v) c)"
  using native_steps(2,3) [OF assms(1)] spec_string_set [OF assms(2)] by simp_all

lemma gas_keys_differ [simp]: "XPROPERTY_LAST_TX_HOUR_KEY \<noteq> XPROPERTY_USED_TGAS_KEY"
  "XPROPERTY_USED_TGAS_KEY \<noteq> XPROPERTY_LAST_TX_HOUR_KEY"
  by (simp_all add: property_key_defs)

lemma used_tgas_view: "ctx_get_used_tgas c = num_at (ctx_view c) XPROPERTY_USED_TGAS_KEY"
  "get_last_tx_hour c = num_at (ctx_view c) XPROPERTY_LAST_TX_HOUR_KEY"
  by (simp_all add: ctx_get_used_tgas_def get_last_tx_hour_def native_number_view ctx_view_def)

lemma set_used_view:
  assumes "ctx_ok c" "typed_at as_string (ctx_view c) XPROPERTY_USED_TGAS_KEY"
    "typed_at as_string (ctx_view c) XPROPERTY_LAST_TX_HOUR_KEY"
  shows "ctx_view (ctx_set_used_tgas g c) = (ctx_view c)(XPROPERTY_USED_TGAS_KEY \<mapsto> XString (to_string g),
      XPROPERTY_LAST_TX_HOUR_KEY \<mapsto> XString (to_string (ctx_timer_height c)))"
    "ctx_ok (ctx_set_used_tgas g c)"
proof -
  let ?d = "native_do (native_string_set XPROPERTY_USED_TGAS_KEY (to_string g)) c"
  note 1 = string_set_view [OF assms(1,2), of "to_string g"]
  have "typed_at as_string (ctx_view ?d) XPROPERTY_LAST_TX_HOUR_KEY"
    using assms(3) by (simp add: 1 typed_at_def)
  then show "ctx_view (ctx_set_used_tgas g c) = (ctx_view c)(XPROPERTY_USED_TGAS_KEY \<mapsto> XString (to_string g),
      XPROPERTY_LAST_TX_HOUR_KEY \<mapsto> XString (to_string (ctx_timer_height c)))"
    "ctx_ok (ctx_set_used_tgas g c)"
    using string_set_view [OF 1(2), of XPROPERTY_LAST_TX_HOUR_KEY] by (simp_all add: ctx_set_used_tgas_def 1(1) Let_def)
qed

text \<open>The gas that a deposit buys, and the price of the gas beyond the available one.\<close>

lemma gas_with_deposit:
  fixes A R :: u64 and deposit :: u32
  assumes "unat A + unat deposit div unat R < 2 ^ 64"
  shows "unat (A + ucast deposit div R) = unat A + unat deposit div unat R"
proof -
  have "unat deposit < 2 ^ LENGTH(32)"
    by (rule unsigned_less)
  then have "unat ((ucast deposit :: u64) div R) = unat deposit div unat R"
    by (simp add: unat_div_distrib unsigned_ucast_eq take_bit_nat_eq_self)
  then show ?thesis
    using xadd_small(2) [of A "ucast deposit div R"] assms by simp
qed

lemma gas_price:
  fixes A R usage :: u64 and deposit :: u32
  assumes "A < usage" "unat usage \<le> unat A + unat deposit div unat R"
  shows "(unat usage - unat A) * unat R \<le> unat deposit" "unat ((usage - A) * R) = (unat usage - unat A) * unat R"
proof -
  have small: "unat deposit < 2 ^ LENGTH(32)"
    by (rule unsigned_less)
  have u: "unat (usage - A) = unat usage - unat A"
    using assms(1) by (simp add: unat_sub word_less_nat_alt word_le_nat_alt)
  have "(unat usage - unat A) * unat R \<le> unat deposit div unat R * unat R"
    using assms(2) by (intro mult_le_mono1) linarith
  also have "\<dots> \<le> unat deposit"
    by (rule div_times_less_eq_dividend)
  finally show bound: "(unat usage - unat A) * unat R \<le> unat deposit" .
  then show "unat ((usage - A) * R) = (unat usage - unat A) * unat R"
    using small by (simp add: unat_word_ariths u)
qed

text \<open>
  C14 The sender pays for its gas exactly: the fee succeeds precisely when the available gas and the
  gas bought with the deposit cover the usage; the available gas is used first, the rest is taken
  from the deposit at the exchange ratio and never exceeds it, and the used gas is noted at the
  current time.  Otherwise the context is unchanged.
\<close>
theorem gas_sender_paid:
  assumes "ctx_ok c" "typed_at as_string (ctx_view c) XPROPERTY_USED_TGAS_KEY"
    "typed_at as_string (ctx_view c) XPROPERTY_LAST_TX_HOUR_KEY"
    and "get_available_tgas E c = Some A" "calc_decayed_tgas E c = Some used"
    and "R = tx_deposit_gas_exchange_ratio (env_conf E)" "R \<noteq> 0"
    and "unat A + unat deposit div unat R < 2 ^ 64"
  shows "\<exists>r dep c'. update_tgas_sender E usage deposit 0 c = Some (r, dep, c') \<and>
    (if unat usage \<le> unat A + unat deposit div unat R
     then r = xsuccess \<and> unat dep = (unat usage - unat A) * unat R \<and> unat dep \<le> unat deposit \<and>
       ctx_get_used_tgas c' = Some (used + min usage A) \<and> get_last_tx_hour c' = Some (ctx_timer_height c)
     else r = EStore xtransaction_not_enough_pledge_token_tgas \<and> c' = c)"
proof -
  let ?d = "(ucast deposit :: u64) div R"
  obtain hour where hour: "get_last_tx_hour c = Some hour"
    using assms(5) by (auto simp: calc_decayed_tgas_def split: bind_splits)
  note sum = gas_with_deposit [OF assms(8)]
  have inc: "incr_used_tgas E g c = Some (ctx_set_used_tgas (g + used) c)" for g
    by (simp add: incr_used_tgas_def assms(5))
  note view = set_used_view [OF assms(1-3)]
  show ?thesis
  proof (cases "unat usage \<le> unat A + unat deposit div unat R")
    case False
    then have "A + ?d < usage"
      using sum by (simp add: word_less_nat_alt)
    then show ?thesis
      using False assms(6,7) hour by (simp add: update_tgas_sender_def check_used_tgas_def assms(4) udiv_def Let_def)
  next
    case True
    then have le: "\<not> A + ?d < usage"
      using sum by (simp add: word_less_nat_alt)
    show ?thesis
    proof (cases "A < usage")
      case over: True
      note price = gas_price [OF over True]
      have "update_tgas_sender E usage deposit 0 c = Some (xsuccess, (usage - A) * R, ctx_set_used_tgas (A + used) c)"
        using le over assms(6,7) hour
        by (simp add: update_tgas_sender_def check_used_tgas_def assms(4) udiv_def Let_def inc)
      then show ?thesis
        using True over price view by (simp add: used_tgas_view min_def add.commute not_le [symmetric])
    next
      case enough: False
      then have "update_tgas_sender E usage deposit 0 c = Some (xsuccess, 0, ctx_set_used_tgas (usage + used) c)"
        using le assms(6,7) hour
        by (simp add: update_tgas_sender_def check_used_tgas_def assms(4) udiv_def Let_def inc)
      moreover have "unat usage - unat A = 0"
        using enough by (simp add: word_less_nat_alt)
      ultimately show ?thesis
        using True enough view by (simp add: used_tgas_view min_def add.commute not_less)
    qed
  qed
qed

lemma no_gas_on_record:
  assumes "om_find (m_objs (get_native_property b)) XPROPERTY_USED_TGAS_KEY = None"
    "om_find (m_objs (get_native_property b)) XPROPERTY_LAST_TX_HOUR_KEY = None"
  shows "blockchain_used_tgas h b = Some 0" "blockchain_last_tx_hour h b = Some 0"
  using assms
  by (simp_all add: blockchain_used_tgas_def blockchain_last_tx_hour_def native_number_view num_at_def np_view_def)

text \<open>
  C37 The free gas is not used up inside a unit: when the account itself has no used gas on record,
  the available gas after a payment is the same as before, whatever was charged, because it is
  computed on the clone of the account and the charge goes to the table of the context.
\<close>
theorem available_gas_stale:
  assumes "om_find (m_objs (get_native_property (ctx_account c))) XPROPERTY_USED_TGAS_KEY = None"
    "om_find (m_objs (get_native_property (ctx_account c))) XPROPERTY_LAST_TX_HOUR_KEY = None"
    and "update_tgas_sender E usage deposit 0 c = Some (r, dep, c')"
  shows "get_available_tgas E c' = get_available_tgas E c"
proof -
  have "ctx_account c' = ctx_account c" "ctx_timer_height c' = ctx_timer_height c"
    "ctx_sys_total_lock_tgas_token c' = ctx_sys_total_lock_tgas_token c"
    using assms(3) by (auto simp: update_tgas_sender_def incr_used_tgas_def ctx_set_used_tgas_def Let_def
        split: bind_splits if_splits)
  moreover note no_gas_on_record [OF assms(1,2)]
  ultimately show ?thesis
    unfolding get_available_tgas_def ctx_token_price_def blockchain_available_tgas_def blockchain_calc_decayed_tgas_def
    by presburger
qed

lemma sample_no_gas:
  "om_find (m_objs (get_native_property sample_account)) XPROPERTY_USED_TGAS_KEY = None"
  "om_find (m_objs (get_native_property sample_account)) XPROPERTY_LAST_TX_HOUR_KEY = None"
  by (simp_all add: sample_account_def om_find_def property_key_defs)

lemma sample_gas:
  "get_available_tgas sample_env sample_ctx = Some 25000" "calc_decayed_tgas sample_env sample_ctx = Some 0"
  "tx_deposit_gas_exchange_ratio (env_conf sample_env) = 20"
  "typed_at as_string (ctx_view sample_ctx) XPROPERTY_USED_TGAS_KEY"
  "typed_at as_string (ctx_view sample_ctx) XPROPERTY_LAST_TX_HOUR_KEY"
proof -
  have "ctx_token_price sample_env sample_ctx = Some 8640"
    by (simp add: ctx_token_price_def get_token_price_def sample_ctx_defs default_conf_def ASSET_TOP_def TOP_UNIT_def udiv_def)
  then show "get_available_tgas sample_env sample_ctx = Some 25000"
    by (simp add: get_available_tgas_def sample_ctx_facts blockchain_available_tgas_def blockchain_calc_decayed_tgas_def
        no_gas_on_record [OF sample_no_gas] get_total_tgas_def get_free_tgas_def is_user_contract_address_def
        check_address_type_def get_addrtype_from_account_def addr_type_defs)
      (simp add: sample_ctx_defs default_conf_def ASSET_TOP_def TOP_UNIT_def mstate_new_def)
  show "calc_decayed_tgas sample_env sample_ctx = Some 0"
    by (simp add: calc_decayed_tgas_def used_tgas_view sample_ctx_view num_at_def property_key_defs sample_ctx_facts)
      (simp add: sample_env_def default_conf_def used_tgas_view sample_ctx_view num_at_def property_key_defs sample_ctx_facts)
qed (simp_all add: sample_env_def default_conf_def typed_at_def sample_ctx_view property_key_defs)

theorem gas_sender_paid_witness:
  "\<exists>dep c'. update_tgas_sender sample_env 28000 100000 0 sample_ctx = Some (xsuccess, dep, c') \<and> unat dep = 60000 \<and>
    ctx_get_used_tgas c' = Some 25000"
  using gas_sender_paid [OF sample_ctx_view(1) sample_gas(4,5,1,2) sample_gas(3) [symmetric], of 100000 28000]
  by (auto simp: sample_gas(3))

theorem available_gas_stale_witness:
  "\<exists>dep c'. update_tgas_sender sample_env 25000 100000 0 sample_ctx = Some (xsuccess, dep, c') \<and>
    get_available_tgas sample_env c' = Some 25000"
proof -
  obtain dep c' where "update_tgas_sender sample_env 25000 100000 0 sample_ctx = Some (xsuccess, dep, c')"
    by (simp add: update_tgas_sender_def check_used_tgas_def sample_gas used_tgas_view sample_ctx_view num_at_def
        property_key_defs incr_used_tgas_def)
  then show ?thesis
    using available_gas_stale [of sample_ctx sample_env 25000 100000 xsuccess dep c'] sample_no_gas
    by (simp add: sample_ctx_facts sample_gas)
qed

end
