(* ===== verification/XVoteLaws.thy ===== *)
theory XVoteLaws
  imports XAccountLaws "HOL-Library.Multiset"
begin

text \<open>
  The pledged votes of an account: the records of a deque of serialized triples.  The lemmas follow
  the number of votes in the records through merging, inserting and redeeming.
\<close>

section \<open>Records and their votes\<close>

lemma deserilize_serilize [simp]: "deserilize_vote (serilize_vote n d t) = Some (n, d, t)"
  using u64.get_put [OF TrueI, of t "[]"]
  by (simp add: deserilize_vote_def serilize_vote_def)

definition vote_num_of :: "string \<Rightarrow> u64" where
  "vote_num_of s = (case deserilize_vote s of Some (n, _, _) \<Rightarrow> n | None \<Rightarrow> 0)"

definition votes_in :: "string list \<Rightarrow> u64" where
  "votes_in q = sum_list (map vote_num_of q)"

definition vote_records :: "xaccount_context \<Rightarrow> string list" where
  "vote_records c = deque_of (ctx_view c) XPROPERTY_PLEDGE_VOTE_KEY"

lemma vote_num_of_serilize [simp]: "vote_num_of (serilize_vote n d t) = n"
  by (simp add: vote_num_of_def)

lemma votes_in_simps [simp]: "votes_in [] = 0" "votes_in (s # q) = vote_num_of s + votes_in q"
  "votes_in (p @ q) = votes_in p + votes_in q"
  by (simp_all add: votes_in_def)

lemma votes_in_remove1: "s \<in> set q \<Longrightarrow> votes_in (remove1 s q) = votes_in q - vote_num_of s"
  by (induction q) (auto simp: algebra_simps)

lemma vote_keys_differ [simp]: "XPROPERTY_PLEDGE_VOTE_KEY \<noteq> XPROPERTY_EXPIRE_VOTE_TOKEN_KEY"
  "XPROPERTY_EXPIRE_VOTE_TOKEN_KEY \<noteq> XPROPERTY_PLEDGE_VOTE_KEY"
  by (simp_all add: property_key_defs)


section \<open>Steps on the deque of records\<close>

text \<open>A context with a table in order whose vote property is a deque.\<close>

definition votes_ok :: "xaccount_context \<Rightarrow> bool" where
  "votes_ok c \<longleftrightarrow> ctx_ok c \<and> typed_at as_deque (ctx_view c) XPROPERTY_PLEDGE_VOTE_KEY"

lemma see_votes:
  "(case deque_get (ctx_heap c) (ctx_native c) XPROPERTY_PLEDGE_VOTE_KEY of Some (_, ds) \<Rightarrow> ds | None \<Rightarrow> []) = vote_records c"
  using deque_get_view [of "ctx_heap c" "ctx_native c" XPROPERTY_PLEDGE_VOTE_KEY]
  by (auto simp: vote_records_def deque_of_def ctx_view_def split: option.splits xdataunit.splits)

lemma votes_erase:
  assumes "votes_ok c" "s \<in> set (vote_records c)"
  shows "votes_ok (native_do (native_deque_erase XPROPERTY_PLEDGE_VOTE_KEY s) c)"
    "vote_records (native_do (native_deque_erase XPROPERTY_PLEDGE_VOTE_KEY s) c) = remove1 s (vote_records c)"
proof -
  obtain q where q: "ctx_view c XPROPERTY_PLEDGE_VOTE_KEY = Some (XDeque q)" "vote_records c = q"
    using assms(2)
    by (cases "ctx_view c XPROPERTY_PLEDGE_VOTE_KEY") (auto simp: vote_records_def deque_of_def split: xdataunit.splits)
  have ok: "ctx_ok c"
    using assms(1) by (simp add: votes_ok_def)
  have "np_spec (DequeErase XPROPERTY_PLEDGE_VOTE_KEY s) (ctx_view c) =
      (xsuccess, (ctx_view c)(XPROPERTY_PLEDGE_VOTE_KEY \<mapsto> XDeque (remove1 s q)))"
    using spec_deque_erase [where V = "ctx_view c", OF q(1), of s] assms(2) q(2) by blast
  then have "ctx_view (native_do (native_deque_erase XPROPERTY_PLEDGE_VOTE_KEY s) c) =
      (ctx_view c)(XPROPERTY_PLEDGE_VOTE_KEY \<mapsto> XDeque (remove1 s q))"
    using native_steps(17) [OF ok, of XPROPERTY_PLEDGE_VOTE_KEY s] by simp
  then show "votes_ok (native_do (native_deque_erase XPROPERTY_PLEDGE_VOTE_KEY s) c)"
    "vote_records (native_do (native_deque_erase XPROPERTY_PLEDGE_VOTE_KEY s) c) = remove1 s (vote_records c)"
    using native_steps(18) [OF ok] q(2) by (simp_all add: votes_ok_def typed_at_def vote_records_def deque_of_def)
qed

lemma votes_push:
  assumes "votes_ok c"
  shows "fst (native (native_deque_push_back XPROPERTY_PLEDGE_VOTE_KEY s) c) = xsuccess"
    "votes_ok (native_do (native_deque_push_back XPROPERTY_PLEDGE_VOTE_KEY s) c)"
    "vote_records (native_do (native_deque_push_back XPROPERTY_PLEDGE_VOTE_KEY s) c) = vote_records c @ [s]"
proof -
  have ok: "ctx_ok c" and ty: "typed_at as_deque (ctx_view c) XPROPERTY_PLEDGE_VOTE_KEY"
    using assms by (simp_all add: votes_ok_def)
  show "fst (native (native_deque_push_back XPROPERTY_PLEDGE_VOTE_KEY s) c) = xsuccess"
    "votes_ok (native_do (native_deque_push_back XPROPERTY_PLEDGE_VOTE_KEY s) c)"
    "vote_records (native_do (native_deque_push_back XPROPERTY_PLEDGE_VOTE_KEY s) c) = vote_records c @ [s]"
    using native_steps(10-12) [OF ok] spec_push_back [OF ty]
    by (simp_all add: votes_ok_def typed_at_def vote_records_def deque_of_def)
qed

lemma spec_string_other: "k \<noteq> j \<Longrightarrow> snd (np_spec (StringSet j v) V) k = V k"
  by (simp add: spec_upsert_def split: option.splits)

lemma votes_other_string:
  assumes "votes_ok c"
  shows "votes_ok (native_do (native_string_set XPROPERTY_EXPIRE_VOTE_TOKEN_KEY v) c)"
    "vote_records (native_do (native_string_set XPROPERTY_EXPIRE_VOTE_TOKEN_KEY v) c) = vote_records c"
  using native_steps(2,3) [of c XPROPERTY_EXPIRE_VOTE_TOKEN_KEY v] assms
    spec_string_other [of XPROPERTY_PLEDGE_VOTE_KEY XPROPERTY_EXPIRE_VOTE_TOKEN_KEY v "ctx_view c"]
  by (simp_all add: votes_ok_def typed_at_def vote_records_def deque_of_def del: np_spec.simps)


section \<open>Votes are counted\<close>

lemma merge_loop_votes:
  assumes "votes_ok c" "mset ds \<subseteq># mset (vote_records c)" "merge_loop ds n e c = Some (n', e', c')"
  shows "votes_ok c' \<and> votes_in (vote_records c') + n' = votes_in (vote_records c) + n"
  using assms
proof (induction ds arbitrary: n e c)
  case Nil
  then show ?case
    by simp
next
  case (Cons s ds)
  obtain k d t where s: "deserilize_vote s = Some (k, d, t)"
    using Cons.prems(3) by (auto split: bind_splits)
  have k: "vote_num_of s = k"
    by (simp add: vote_num_of_def s)
  have mem: "s \<in> set (vote_records c)"
    using mset_subset_eqD [OF Cons.prems(2), of s] by simp
  show ?case
  proof (cases "vote_expired (ctx_timer_height c) d t")
    case True
    let ?c = "native_do (native_deque_erase XPROPERTY_PLEDGE_VOTE_KEY s) c"
    obtain e2 where "merge_loop ds (n + k) e2 ?c = Some (n', e', c')"
      using Cons.prems(3) True by (auto simp: s Let_def split: bind_splits if_splits)
    moreover have "mset ds \<subseteq># mset (vote_records ?c)"
      using Cons.prems(2) votes_erase(2) [OF Cons.prems(1) mem] by (simp add: insert_subset_eq_iff)
    ultimately show ?thesis
      using Cons.IH [OF votes_erase(1) [OF Cons.prems(1) mem]] votes_erase(2) [OF Cons.prems(1) mem]
        votes_in_remove1 [OF mem] by (simp add: k)
  next
    case False
    have "mset ds \<subseteq># mset (vote_records c)"
      using subset_mset.order_trans [OF _ Cons.prems(2), of "mset ds"] by simp
    then show ?thesis
      using Cons.IH [OF Cons.prems(1)] Cons.prems(3) False by (simp add: s)
  qed
qed

lemma merge_votes:
  assumes "votes_ok c" "merge_pledge_vote_property E c = Some c'"
  shows "votes_ok c'" "votes_in (vote_records c') = votes_in (vote_records c)"
proof -
  have "votes_ok c' \<and> votes_in (vote_records c') = votes_in (vote_records c)"
  proof (cases "deque_get (ctx_heap c) (ctx_native c) XPROPERTY_PLEDGE_VOTE_KEY")
    case None
    then show ?thesis
      using assms by (simp add: merge_pledge_vote_property_def)
  next
    case (Some p)
    obtain a ds where p: "p = (a, ds)"
      by (cases p)
    have ds: "ds = vote_records c"
      using see_votes [of c] by (simp add: Some p)
    obtain n e c1 where loop: "merge_loop ds 0 0 c = Some (n, e, c1)"
      using assms(2) by (auto simp: merge_pledge_vote_property_def Some p split: bind_splits)
    have 1: "votes_ok c1" "votes_in (vote_records c1) + n = votes_in (vote_records c)"
      using merge_loop_votes [OF assms(1) _ loop] by (simp_all add: ds)
    let ?c2 = "if 0 < n then native_do (native_deque_push_back XPROPERTY_PLEDGE_VOTE_KEY (serilize_vote n 0 0)) c1 else c1"
    have 2: "votes_ok ?c2" "votes_in (vote_records ?c2) = votes_in (vote_records c)"
      using 1 votes_push [OF 1(1)] by (auto simp: word_neq_0_conv [symmetric])
    show ?thesis
      using assms(2) 2 votes_other_string [OF 2(1)]
      by (auto simp: merge_pledge_vote_property_def Some p loop Let_def split: if_splits)
  qed
  then show "votes_ok c'" "votes_in (vote_records c') = votes_in (vote_records c)"
    by simp_all
qed

lemma insert_loop_votes:
  assumes "votes_ok c" "set ds \<subseteq> set (vote_records c)" "insert_loop n d ds t c = Some (n', t', c')"
  shows "votes_ok c' \<and> votes_in (vote_records c') + n' = votes_in (vote_records c) + n"
  using assms
proof (induction ds arbitrary: t)
  case (Cons s ds)
  obtain k d' t2 where s: "deserilize_vote s = Some (k, d', t2)"
    using Cons.prems(3) by (auto split: bind_splits)
  have k: "vote_num_of s = k"
    by (simp add: vote_num_of_def s)
  show ?case
    using Cons votes_erase [OF Cons.prems(1), of s] votes_in_remove1 [of s "vote_records c"]
    by (auto simp: s k split: if_splits)
qed simp

lemma insert_votes:
  assumes "votes_ok c" "insert_pledge_vote_property n d c = Some (r, c')"
  shows "votes_ok c' \<and> votes_in (vote_records c') = votes_in (vote_records c) + (if r = xsuccess then n else 0)"
proof (cases "case native_deque_size XPROPERTY_PLEDGE_VOTE_KEY (ctx_heap c) (ctx_native c) of Inr n \<Rightarrow> 128 \<le> sint n | Inl _ \<Rightarrow> False")
  case True
  then show ?thesis
    using assms by (auto simp: insert_pledge_vote_property_def)
next
  case False
  then obtain n' t c1 where 1: "insert_loop n d (vote_records c) 0 c = Some (n', t, c1)"
    "(r, c') = native (native_deque_push_back XPROPERTY_PLEDGE_VOTE_KEY
       (serilize_vote n' d (if t = 0 then ctx_timer_height c1 else t))) c1"
    using assms(2) by (auto simp: insert_pledge_vote_property_def see_votes split: bind_splits)
  note 2 = insert_loop_votes [OF assms(1) order_refl 1(1)]
  let ?s = "serilize_vote n' d (if t = 0 then ctx_timer_height c1 else t)"
  have c': "r = fst (native (native_deque_push_back XPROPERTY_PLEDGE_VOTE_KEY ?s) c1)"
    "c' = native_do (native_deque_push_back XPROPERTY_PLEDGE_VOTE_KEY ?s) c1"
    using 1(2) by (simp_all add: prod_eq_iff)
  show ?thesis
    using votes_push [of c1 ?s] 2 by (simp add: c' algebra_simps)
qed

lemma update_votes:
  assumes ok: "votes_ok c" and u: "update_pledge_vote_property E n d c = Some (r, c')"
  shows "votes_in (vote_records c') = votes_in (vote_records c) + (if r = xsuccess then n else 0)"
proof -
  obtain c1 where c1: "merge_pledge_vote_property E c = Some c1" "insert_pledge_vote_property n d c1 = Some (r, c')"
    using u by (auto simp: update_pledge_vote_property_def split: bind_splits)
  show ?thesis
    using insert_votes [OF merge_votes(1) [OF ok c1(1)] c1(2)] merge_votes(2) [OF ok c1(1)] by simp
qed

text \<open>
  C15 Votes are neither lost nor created by the records: pledging adds exactly the pledged number to
  the votes in the records, also when expired records are merged and when the new votes join an
  older record; a refused pledge leaves the number as it was.
\<close>
theorem pledge_votes_counted:
  assumes "ctx_ok c" "typed_at as_deque (ctx_view c) XPROPERTY_PLEDGE_VOTE_KEY"
    and "update_pledge_vote_property E n d c = Some (r, c')"
  shows "votes_in (vote_records c') = votes_in (vote_records c) + (if r = xsuccess then n else 0)"
  using update_votes [OF _ assms(3)] assms(1,2) by (simp add: votes_ok_def)


definition sample_votes :: "string list \<Rightarrow> xaccount_context" where
  "sample_votes q = sample_ctx\<lparr>ctx_heap := [XDeque q, XString ''90''],
     ctx_native := \<lparr>m_objs = [(XPROPERTY_PLEDGE_VOTE_KEY, 0), (XPROPERTY_EXPIRE_VOTE_TOKEN_KEY, 1)], m_modify_objs = []\<rparr>,
     ctx_timer_height := 100\<rparr>"

lemma sample_votes_view:
  "ctx_ok (sample_votes q)"
  "ctx_view (sample_votes q) = [XPROPERTY_PLEDGE_VOTE_KEY \<mapsto> XDeque q, XPROPERTY_EXPIRE_VOTE_TOKEN_KEY \<mapsto> XString ''90'']"
  by (auto simp: ctx_ok_def ctx_view_def sample_votes_def np_inv_def om_inv_def np_view_def om_find_def deref_def fun_eq_iff
      property_key_defs)

lemma sample_votes_facts:
  "typed_at as_deque (ctx_view (sample_votes q)) XPROPERTY_PLEDGE_VOTE_KEY" "votes_ok (sample_votes q)"
  "vote_records (sample_votes q) = q" "ctx_timer_height (sample_votes q) = 100" "ctx_balance_change (sample_votes q) = 0"
  by (simp_all add: sample_votes_view typed_at_def votes_ok_def vote_records_def deque_of_def)
    (simp_all add: sample_votes_def sample_ctx_facts)

lemma deque_size_votes:
  "native_deque_size XPROPERTY_PLEDGE_VOTE_KEY (ctx_heap c) (ctx_native c) =
     (case ctx_view c XPROPERTY_PLEDGE_VOTE_KEY of Some (XDeque q) \<Rightarrow> Inr (of_nat (length q)) | _ \<Rightarrow> Inl np_not_exist)"
  using deque_get_view [of "ctx_heap c" "ctx_native c" XPROPERTY_PLEDGE_VOTE_KEY]
  by (auto simp: native_deque_size_def ctx_view_def split: option.splits xdataunit.splits)

theorem pledge_votes_counted_witness:
  "\<exists>c'. update_pledge_vote_property sample_env 100 30 (sample_votes [serilize_vote 40 30 5]) = Some (xsuccess, c') \<and>
    votes_in (vote_records c') = 140"
proof -
  let ?c = "sample_votes [serilize_vote 40 30 5]"
  obtain a where a: "deque_get (ctx_heap ?c) (ctx_native ?c) XPROPERTY_PLEDGE_VOTE_KEY = Some (a, [serilize_vote 40 30 5])"
    using deque_get_view [of "ctx_heap ?c" "ctx_native ?c" XPROPERTY_PLEDGE_VOTE_KEY] sample_votes_view(2)
    by (auto simp: ctx_view_def)
  have m: "merge_pledge_vote_property sample_env ?c = Some ?c"
    by (simp add: merge_pledge_vote_property_def a vote_expired_def sample_votes_facts Let_def)
  have mem: "serilize_vote 40 30 5 \<in> set (vote_records ?c)"
    by (simp add: sample_votes_facts)
  let ?d = "native_do (native_deque_erase XPROPERTY_PLEDGE_VOTE_KEY (serilize_vote 40 30 5)) ?c"
  have i: "insert_pledge_vote_property 100 30 ?c =
      Some (native (native_deque_push_back XPROPERTY_PLEDGE_VOTE_KEY (serilize_vote 140 30 5)) ?d)"
    by (simp add: insert_pledge_vote_property_def deque_size_votes sample_votes_view a sample_votes_facts)
  have "fst (native (native_deque_push_back XPROPERTY_PLEDGE_VOTE_KEY (serilize_vote 140 30 5)) ?d) = xsuccess"
    by (rule votes_push(1) [OF votes_erase(1) [OF sample_votes_facts(2) mem]])
  then obtain c' where "update_pledge_vote_property sample_env 100 30 ?c = Some (xsuccess, c')"
    using i by (metis (mono_tags, lifting) bind.bind_lunit fst_conv m old.prod.exhaust update_pledge_vote_property_def)
  then show ?thesis
    using pledge_votes_counted [OF sample_votes_view(1) sample_votes_facts(1)] by (simp add: sample_votes_facts)
qed

text \<open>What a redemption does with the first record without a duration.\<close>

lemma redeem_loop_votes:
  assumes "votes_ok c" "set ds \<subseteq> set (vote_records c)" "redeem_loop E n ds c = Some (r, c')"
  shows "votes_in (vote_records c') = votes_in (vote_records c) - (if r = xsuccess then n else 0) \<and>
    ctx_unvote_num_change c' = ctx_unvote_num_change c - (if r = xsuccess then n else 0)"
  using assms
proof (induction ds)
  case (Cons s ds)
  obtain k d t where s: "deserilize_vote s = Some (k, d, t)"
    using Cons.prems(3) by (auto split: bind_splits)
  have mem: "s \<in> set (vote_records c)"
    using Cons.prems(2) by simp
  let ?c1 = "native_do (native_deque_erase XPROPERTY_PLEDGE_VOTE_KEY s) c"
  note 1 = votes_erase [OF Cons.prems(1) mem]
  have k: "votes_in (remove1 s (vote_records c)) = votes_in (vote_records c) - k"
    using votes_in_remove1 [OF mem] by (simp add: vote_num_of_def s)
  show ?case
  proof (cases "d = 0")
    case False
    then show ?thesis
      using Cons s by simp
  next
    case d: True
    show ?thesis
    proof (cases "k < n")
      case True
      then show ?thesis
        using Cons.prems(3) s d by auto
    next
      case False
      obtain v p where c': "r = xsuccess"
        "c' = ctx_set_vote_balance_change (- p) (ctx_set_balance_change p (ctx_set_unvote_num_change (- n)
          (let c2 = native_do (native_string_set XPROPERTY_EXPIRE_VOTE_TOKEN_KEY v) ?c1
           in if 0 < k - n then native_do (native_deque_push_back XPROPERTY_PLEDGE_VOTE_KEY (serilize_vote (k - n) 0 0)) c2 else c2)))"
        using Cons.prems(3) False s d by (auto simp: Let_def split: bind_splits)
      let ?c2 = "native_do (native_string_set XPROPERTY_EXPIRE_VOTE_TOKEN_KEY v) ?c1"
      note 2 = votes_other_string [OF 1(1), of v]
      have "votes_in (vote_records c') = votes_in (vote_records c) - n"
        using votes_push [OF 2(1), of "serilize_vote (k - n) 0 0"] 2 1 k
        by (auto simp: c' vote_records_def Let_def word_neq_0_conv [symmetric])
      then show ?thesis
        by (simp add: c' ctx_set_vote_balance_change_def ctx_set_balance_change_def ctx_set_unvote_num_change_def Let_def)
    qed
  qed
qed auto

text \<open>
  C16 Redeeming takes exactly the redeemed number from the votes in the records and from the number of
  unused votes; a refused redemption changes neither.
\<close>
theorem redeem_votes_counted:
  assumes "ctx_ok c" "typed_at as_deque (ctx_view c) XPROPERTY_PLEDGE_VOTE_KEY"
    and "redeem_pledge_vote_property E n c = Some (r, c')"
  shows "votes_in (vote_records c') = votes_in (vote_records c) - (if r = xsuccess then n else 0) \<and>
    ctx_unvote_num_change c' = ctx_unvote_num_change c - (if r = xsuccess then n else 0)"
  using redeem_loop_votes [of c "vote_records c" E n r c'] assms
  by (simp add: redeem_pledge_vote_property_def see_votes votes_ok_def)

theorem redeem_votes_counted_witness:
  "\<exists>c'. redeem_pledge_vote_property sample_env 10 (sample_votes [serilize_vote 40 0 0]) = Some (xsuccess, c') \<and>
    votes_in (vote_records c') = 30"
proof -
  let ?c = "sample_votes [serilize_vote 40 0 0]"
  obtain c' where "redeem_pledge_vote_property sample_env 10 ?c = Some (xsuccess, c')"
    by (simp add: redeem_pledge_vote_property_def see_votes sample_votes_facts Let_def)
  then show ?thesis
    using redeem_votes_counted [OF sample_votes_view(1) sample_votes_facts(1)] by (fastforce simp: sample_votes_facts)
qed

text \<open>The tokens that wait for the redemption of expired votes.\<close>

definition expire_token_of :: "xenv \<Rightarrow> xaccount_context \<Rightarrow> u64" where
  "expire_token_of E c = touint64 (env_utl E)
     (case ctx_view c XPROPERTY_EXPIRE_VOTE_TOKEN_KEY of Some (XString v) \<Rightarrow> v | _ \<Rightarrow> [])"

lemma see_string:
  "(case native_string_get k (ctx_heap c) (ctx_native c) of Inr v \<Rightarrow> v | Inl _ \<Rightarrow> []) =
     (case ctx_view c k of Some (XString v) \<Rightarrow> v | _ \<Rightarrow> [])"
  by (simp add: native_string_get_view ctx_view_def split: option.splits xdataunit.splits)

lemma spec_erase_other: "k \<noteq> j \<Longrightarrow> snd (np_spec (DequeErase j v) V) k = V k"
  by (simp add: spec_update_def split: option.splits)

lemma redeem_payment:
  assumes "votes_ok c" "vote_records c = pre @ s # post" "deserilize_vote s = Some (k, 0, t)"
    and "list_all (\<lambda>s. \<exists>n d t. deserilize_vote s = Some (n, d, t) \<and> d \<noteq> 0) pre" "n \<le> k" "k \<noteq> 0"
  shows "\<exists>c'. redeem_pledge_vote_property E n c = Some (xsuccess, c') \<and>
    ctx_balance_change c' = ctx_balance_change c + n * expire_token_of E c div k"
proof -
  let ?c1 = "native_do (native_deque_erase XPROPERTY_PLEDGE_VOTE_KEY s) c"
  have skip: "redeem_loop E n (pre @ s # post) c = redeem_loop E n (s # post) c"
    using assms(4) by (induction pre) auto
  have "ctx_view ?c1 XPROPERTY_EXPIRE_VOTE_TOKEN_KEY = ctx_view c XPROPERTY_EXPIRE_VOTE_TOKEN_KEY"
    using native_steps(17) [of c XPROPERTY_PLEDGE_VOTE_KEY s] assms(1)
      spec_erase_other [of XPROPERTY_EXPIRE_VOTE_TOKEN_KEY XPROPERTY_PLEDGE_VOTE_KEY s "ctx_view c"]
    by (simp add: votes_ok_def del: np_spec.simps)
  then have "expire_token_of E ?c1 = expire_token_of E c"
    by (simp add: expire_token_of_def)
  then have tok: "touint64 (env_utl E) (case native_string_get XPROPERTY_EXPIRE_VOTE_TOKEN_KEY (ctx_heap ?c1) (ctx_native ?c1) of
      Inr v \<Rightarrow> v | Inl _ \<Rightarrow> []) = expire_token_of E c"
    by (simp add: see_string expire_token_of_def)
  show ?thesis
    unfolding redeem_pledge_vote_property_def see_votes assms(2) skip
    using assms(3,5,6) tok
    by (simp add: Let_def not_less [symmetric] ctx_set_vote_balance_change_def ctx_set_balance_change_def
        ctx_set_unvote_num_change_def)
qed

lemma mod_less_self: "0 < m \<Longrightarrow> x mod m < x \<longleftrightarrow> m \<le> (x :: nat)"
  by (cases "m \<le> x") (auto intro: order_less_le_trans [OF mod_less_divisor])

text \<open>
  C32 The payment for redeemed votes is the product of the votes and the waiting tokens, cut to 64
  bits, divided by all expired votes: without overflow it is the share of the redeemed votes, and
  all of the tokens when all votes are redeemed; when the product of all votes and tokens does not
  fit 64 bits, redeeming all votes pays less than the tokens.
\<close>
theorem redeem_pays_share:
  assumes "ctx_ok c" "typed_at as_deque (ctx_view c) XPROPERTY_PLEDGE_VOTE_KEY"
    and "vote_records c = pre @ s # post" "deserilize_vote s = Some (k, 0, t)"
    and "list_all (\<lambda>s. \<exists>n d t. deserilize_vote s = Some (n, d, t) \<and> d \<noteq> 0) pre" "n \<le> k" "k \<noteq> 0"
  shows "\<exists>c' p. redeem_pledge_vote_property E n c = Some (xsuccess, c') \<and>
    ctx_balance_change c' = ctx_balance_change c + p \<and>
    (unat n * unat (expire_token_of E c) < 2 ^ 64 \<longrightarrow> unat p = unat n * unat (expire_token_of E c) div unat k) \<and>
    (n = k \<longrightarrow> (unat p < unat (expire_token_of E c) \<longleftrightarrow> 2 ^ 64 \<le> unat k * unat (expire_token_of E c)))"
proof -
  let ?tok = "expire_token_of E c"
  have p: "unat (n * ?tok div k) = (unat n * unat ?tok mod 2 ^ 64) div unat k"
    by (simp add: unat_div_distrib unat_word_ariths)
  have "unat (k * ?tok div k) < unat ?tok \<longleftrightarrow> 2 ^ 64 \<le> unat k * unat ?tok"
  proof -
    have "unat k * unat ?tok mod 2 ^ 64 < unat k * unat ?tok \<longleftrightarrow> 2 ^ 64 \<le> unat k * unat ?tok"
      using mod_less_self [of "2 ^ 64" "unat k * unat ?tok"] by simp
    moreover have "0 < unat k"
      using assms(7) by (metis gr0I unsigned_eq_0_iff)
    ultimately show ?thesis
      by (simp add: unat_div_distrib unat_word_ariths div_less_iff_less_mult mult.commute)
  qed
  then show ?thesis
    using redeem_payment [of c pre s post k t n E] assms p by (auto simp: votes_ok_def)
qed

theorem redeem_pays_share_witness:
  "\<exists>c' p. redeem_pledge_vote_property sample_env 0x4000000000000000 (sample_votes [serilize_vote 0x4000000000000000 0 0]) =
      Some (xsuccess, c') \<and> ctx_balance_change c' = p \<and> unat p < 90"
proof -
  let ?q = "[serilize_vote 0x4000000000000000 0 0]"
  let ?c = "sample_votes ?q"
  have "expire_token_of sample_env ?c = 90"
    by (simp add: expire_token_of_def sample_votes_view sample_env_def sample_utl_def dec_val_def is_digit_def of_char_def)
  then show ?thesis
    using redeem_pays_share [OF sample_votes_view(1) [of ?q] sample_votes_facts(1) [of ?q] _ deserilize_serilize,
        of "[]" "0x4000000000000000" 0 "[]" "0x4000000000000000" sample_env]
    by (auto simp: sample_votes_facts)
qed

text \<open>
  C36 A new pledge inherits the lock time of an older record that it does not join: when the last
  record has another duration and a lock time, the votes are recorded with that lock time and not
  with the current one, so they expire early and, if the duration has passed since then, at once.
\<close>
theorem pledge_inherits_lock_time:
  assumes "ctx_ok c" "ctx_view c XPROPERTY_PLEDGE_VOTE_KEY = Some (XDeque [serilize_vote k d0 t0])"
    and "d \<noteq> d0" "t0 \<noteq> 0" "ctx_timer_height c = now" "ucast d * 24 * 60 * 6 \<le> now - t0"
  shows "\<exists>c'. insert_pledge_vote_property n d c = Some (xsuccess, c') \<and>
    vote_records c' = [serilize_vote k d0 t0, serilize_vote n d t0] \<and> vote_expired now d t0"
proof -
  have ok: "votes_ok c" and q: "vote_records c = [serilize_vote k d0 t0]"
    using assms(1,2) by (simp_all add: votes_ok_def typed_at_def vote_records_def deque_of_def)
  have "insert_pledge_vote_property n d c =
      Some (native (native_deque_push_back XPROPERTY_PLEDGE_VOTE_KEY (serilize_vote n d t0)) c)"
    using assms(3,4) q by (simp add: insert_pledge_vote_property_def deque_size_votes assms(2) see_votes)
  then show ?thesis
    using votes_push [OF ok, of "serilize_vote n d t0"] q assms(6)
    by (cases "native (native_deque_push_back XPROPERTY_PLEDGE_VOTE_KEY (serilize_vote n d t0)) c") (simp add: vote_expired_def)
qed

theorem pledge_inherits_lock_time_witness:
  "let c = (sample_votes [serilize_vote 40 60 5])\<lparr>ctx_timer_height := 300000\<rparr> in
   \<exists>c'. insert_pledge_vote_property 7 30 c = Some (xsuccess, c') \<and>
    vote_records c' = [serilize_vote 40 60 5, serilize_vote 7 30 5] \<and> vote_expired 300000 30 5"
  using pledge_inherits_lock_time [of "(sample_votes [serilize_vote 40 60 5])\<lparr>ctx_timer_height := 300000\<rparr>" 40 60 5 30 300000 7]
  by (simp add: sample_votes_view Let_def)


section \<open>The search for a contract vote\<close>

lemma pop_front_view:
  assumes "ctx_ok c" "ctx_view c k = Some (XDeque (v # q))"
  shows "fst (native_see (native_deque_pop_front k) c) = Some v"
    "ctx_view (native_do (\<lambda>h np. snd (native_deque_pop_front k h np)) c) = (ctx_view c)(k \<mapsto> XDeque q)"
    "ctx_ok (native_do (\<lambda>h np. snd (native_deque_pop_front k h np)) c)"
proof -
  have "map_option snd (deque_get (ctx_heap c) (ctx_native c) k) = Some (v # q)"
    using assms(2) by (simp add: deque_get_view ctx_view_def)
  then show "fst (native_see (native_deque_pop_front k) c) = Some v"
    by (auto simp: native_deque_pop_front_def xdeque_pop_front_def)
  show "ctx_view (native_do (\<lambda>h np. snd (native_deque_pop_front k h np)) c) = (ctx_view c)(k \<mapsto> XDeque q)"
    "ctx_ok (native_do (\<lambda>h np. snd (native_deque_pop_front k h np)) c)"
    using native_steps(14,15) [OF assms(1)] assms(2) by (simp_all add: spec_update_def)
qed

lemma push_back_view:
  assumes "ctx_ok c" "ctx_view c k = Some (XDeque q)"
  shows "ctx_view (native_do (native_deque_push_back k v) c) = (ctx_view c)(k \<mapsto> XDeque (q @ [v]))"
    "ctx_ok (native_do (native_deque_push_back k v) c)"
  using native_steps(11,12) [OF assms(1)] spec_push_back [of "ctx_view c" k v] assms(2)
  by (simp_all add: typed_at_def deque_of_def)

text \<open>The search in terms of the list: what it finds and the list that is left.\<close>

lemma rotate_finds:
  assumes "ctx_ok c" "ctx_view c k = Some (XDeque (q @ seen))" "list_all (\<lambda>s. matches s \<noteq> None) q"
  shows "\<exists>c'. rotate_find k matches (length q) v c =
      Some (List.find (\<lambda>s. matches s = Some True) q, c') \<and> ctx_ok c' \<and>
    ctx_view c' = (ctx_view c)(k \<mapsto> XDeque (case dropWhile (\<lambda>s. matches s = Some False) q of
      [] \<Rightarrow> seen @ q | s # r \<Rightarrow> r @ seen @ takeWhile (\<lambda>s. matches s = Some False) q))"
  using assms
proof (induction q arbitrary: seen v c)
  case (Cons s q)
  note p = pop_front_view [OF Cons.prems(1), of k s "q @ seen"]
  let ?c = "native_do (\<lambda>h np. snd (native_deque_pop_front k h np)) c"
  obtain m where m: "matches s = Some m"
    using Cons.prems(3) by auto
  show ?case
  proof (cases m)
    case True
    then show ?thesis
      using p Cons.prems(2) m by (auto simp: case_prod_beta Let_def)
  next
    case False
    let ?d = "native_do (native_deque_push_back k s) ?c"
    have d: "ctx_ok ?d" "ctx_view ?d = (ctx_view c)(k \<mapsto> XDeque (q @ seen @ [s]))"
      using push_back_view [of ?c k "q @ seen" s] p Cons.prems(2) by simp_all
    have at: "ctx_view ?d k = Some (XDeque (q @ seen @ [s]))" and all: "list_all (\<lambda>s. matches s \<noteq> None) q"
      using d(2) Cons.prems(3) by simp_all
    obtain c' where "rotate_find k matches (length q) s ?d = Some (List.find (\<lambda>s. matches s = Some True) q, c')" "ctx_ok c'"
      "ctx_view c' = (ctx_view ?d)(k \<mapsto> XDeque
        (case dropWhile (\<lambda>s. matches s = Some False) q of
          [] \<Rightarrow> (seen @ [s]) @ q | t # r \<Rightarrow> r @ (seen @ [s]) @ takeWhile (\<lambda>s. matches s = Some False) q))"
      using Cons.IH [OF d(1) at all, of s] by blast
    then show ?thesis
      using p d(2) Cons.prems(2) m False by (auto simp: case_prod_beta Let_def cong: list.case_cong)
  qed
qed auto

lemma deque_count_view:
  assumes "ctx_view c k = Some (XDeque q)" "length q < 2 ^ 31"
  shows "deque_count k c = length q"
proof -
  have "map_option snd (deque_get (ctx_heap c) (ctx_native c) k) = Some q"
    using assms(1) by (simp add: deque_get_view ctx_view_def)
  then show ?thesis
    using assms(2) by (auto simp: deque_count_def native_deque_size_def sint_of_nat_count)
qed

lemma find_split:
  assumes "dropWhile (\<lambda>x. \<not> P x) q = s # bs"
  shows "q = takeWhile (\<lambda>x. \<not> P x) q @ s # bs" "P s" "List.find P q = Some s"
    "list_all (\<lambda>x. \<not> P x) (takeWhile (\<lambda>x. \<not> P x) q)"
  using takeWhile_dropWhile_id [of "\<lambda>x. \<not> P x" q] hd_dropWhile [of "\<lambda>x. \<not> P x" q] assms
  by (simp_all add: find_dropWhile comp_def list_all_iff) (auto dest: set_takeWhileD)

definition vote_has_hash :: "string \<Rightarrow> string \<Rightarrow> bool" where
  "vote_has_hash h s \<longleftrightarrow> map_option vote_lock_hash (read_vote s) = Some h"

text \<open>
  C17 The search for the vote of a lock returns.  It pops the records of the list one after the other and puts those that
  do not match behind the rest; when every record can be read it ends after one round.  Without
  a match the list is as before; otherwise the first match is out of the list and the records in
  front of it now stand behind those that followed it.
\<close>

theorem vote_search_returns:
  assumes "ctx_ok c" "ctx_view c XPROPERTY_CONTRACT_VOTE_KEY = Some (XDeque q)" "length q < 2 ^ 31"
    and "list_all (\<lambda>s. read_vote s \<noteq> None) q"
  shows "\<exists>found c'. get_vote_info h c = Some (found, c') \<and> ctx_ok c' \<and>
    (case found of
       None \<Rightarrow> list_all (\<lambda>s. \<not> vote_has_hash h s) q \<and> ctx_view c' = ctx_view c
     | Some s \<Rightarrow> \<exists>as bs. q = as @ s # bs \<and> list_all (\<lambda>s. \<not> vote_has_hash h s) as \<and> vote_has_hash h s \<and>
         ctx_view c' = (ctx_view c)(XPROPERTY_CONTRACT_VOTE_KEY \<mapsto> XDeque (bs @ as)))"
proof -
  let ?m = "\<lambda>s. map_option (\<lambda>v. h = vote_lock_hash v) (read_vote s)"
  let ?no = "\<lambda>s. ?m s = Some False"
  have m: "(?m s = Some True) = vote_has_hash h s" "read_vote s \<noteq> None \<Longrightarrow> ?no s = (\<not> vote_has_hash h s)" for s
    by (auto simp: vote_has_hash_def)
  obtain c' where c': "get_vote_info h c = Some (List.find (\<lambda>s. ?m s = Some True) q, c')" "ctx_ok c'"
    "ctx_view c' = (ctx_view c)(XPROPERTY_CONTRACT_VOTE_KEY \<mapsto> XDeque (case dropWhile ?no q of
        [] \<Rightarrow> [] @ q | s # r \<Rightarrow> r @ [] @ takeWhile ?no q))"
    using rotate_finds [of c XPROPERTY_CONTRACT_VOTE_KEY q "[]" ?m "[]"] assms
    by (auto simp: get_vote_info_def deque_count_view)
  have drop: "dropWhile ?no q = dropWhile (\<lambda>s. \<not> vote_has_hash h s) q" "takeWhile ?no q = takeWhile (\<lambda>s. \<not> vote_has_hash h s) q"
    using assms(4) m(2) by (auto simp: list_all_iff intro!: dropWhile_cong takeWhile_cong)
  note view = c'(3) [unfolded drop] and found = c'(1) [unfolded m(1)]
  show ?thesis
  proof (cases "dropWhile (\<lambda>s. \<not> vote_has_hash h s) q")
    case Nil
    then have none: "\<forall>s \<in> set q. \<not> vote_has_hash h s"
      by (simp add: dropWhile_eq_Nil_conv)
    then have "List.find (vote_has_hash h) q = None"
      by (simp add: find_None_iff)
    then show ?thesis
      using found c'(2) view none assms(2) by (simp add: Nil list_all_iff fun_upd_idem_iff)
  next
    case (Cons s bs)
    let ?as = "takeWhile (\<lambda>s. \<not> vote_has_hash h s) q"
    note split = find_split [OF Cons]
    have "\<exists>as bs. q = as @ s # bs \<and> list_all (\<lambda>s. \<not> vote_has_hash h s) as \<and> vote_has_hash h s \<and>
         ctx_view c' = (ctx_view c)(XPROPERTY_CONTRACT_VOTE_KEY \<mapsto> XDeque (bs @ as))"
      using split(1,2,4) view by (intro exI [of _ ?as] exI [of _ bs]) (simp add: Cons)
    then show ?thesis
      using found c'(2) split(3) by auto
  qed
qed

lemma read_vote_written:
  assumes "str_ok (vote_lock_hash v)" "length (vote_do_write v) < 2 ^ 32"
  shows "read_vote (serialize_to vote_do_write v) = Some v"
proof -
  have "vote_do_read (vote_do_write v @ []) = Some (v, [])"
    using assms(1) u64.get_put [of "vote_expiration v" "[]"] by (simp add: vote_do_read_def vote_do_write_def)
  then show ?thesis
    using get_buffer_put [of "vote_do_write v" "[]"] assms(2)
    by (simp add: read_vote_def serialize_from_def serialize_to_def)
qed

definition sample_contract_vote :: "string \<Rightarrow> string" where
  "sample_contract_vote h = serialize_to vote_do_write \<lparr>vote_lock_hash = h, vote_amount = 10, vote_available = 10, vote_expiration = 0\<rparr>"

definition sample_contract_votes :: xaccount_context where
  "sample_contract_votes = sample_ctx\<lparr>ctx_heap := [XDeque [sample_contract_vote ''a'', sample_contract_vote ''b'']],
     ctx_native := \<lparr>m_objs = [(XPROPERTY_CONTRACT_VOTE_KEY, 0)], m_modify_objs = []\<rparr>\<rparr>"

theorem vote_search_returns_witness:
  "\<exists>s c'. get_vote_info ''b'' sample_contract_votes = Some (Some s, c') \<and> vote_has_hash ''b'' s"
proof -
  let ?q = "[sample_contract_vote ''a'', sample_contract_vote ''b'']"
  have r: "read_vote (sample_contract_vote h) =
      Some \<lparr>vote_lock_hash = h, vote_amount = 10, vote_available = 10, vote_expiration = 0\<rparr>" if "length h = 1" for h
    unfolding sample_contract_vote_def using that
    by (intro read_vote_written) (simp_all add: str_ok_def vote_do_write_def put_string_def put_uint_defs Let_def)
  have v: "ctx_ok sample_contract_votes" "ctx_view sample_contract_votes XPROPERTY_CONTRACT_VOTE_KEY = Some (XDeque ?q)"
    by (simp_all add: ctx_ok_def ctx_view_def sample_contract_votes_def np_inv_def om_inv_def np_view_def om_find_def deref_def)
  have hit: "vote_has_hash ''b'' (sample_contract_vote ''b'')"
    by (simp add: vote_has_hash_def r)
  have all: "list_all (\<lambda>s. read_vote s \<noteq> None) ?q"
    by (simp add: r)
  obtain found c' where "get_vote_info ''b'' sample_contract_votes = Some (found, c')"
    "case found of None \<Rightarrow> list_all (\<lambda>s. \<not> vote_has_hash ''b'' s) ?q | Some s \<Rightarrow> vote_has_hash ''b'' s"
    using vote_search_returns [OF v _ all, of "''b''"] by (auto split: option.splits)
  then show ?thesis
    using hit by (auto split: option.splits)
qed

text \<open>Taking back more votes than were given is refused, but the record of the given votes is then in the
  list twice.\<close>

lemma vote_in_duplicates:
  assumes "ctx_ok c" "ctx_view c XPROPERTY_CONTRACT_VOTE_OUT_KEY = Some (XDeque [s])" "read_vote_out s = Some v"
    and "out_amount v < amount" "out_amount v \<noteq> 0"
  shows "\<exists>c'. vote_in (out_address v) (out_lock_hash v) amount c = Some (xminus_one, c') \<and>
    ctx_view c' XPROPERTY_CONTRACT_VOTE_OUT_KEY = Some (XDeque [s, serialize_to vote_out_do_write v])"
proof -
  let ?k = XPROPERTY_CONTRACT_VOTE_OUT_KEY
  let ?m = "\<lambda>s. map_option (\<lambda>w. out_address w = out_address v \<and> out_lock_hash w = out_lock_hash v) (read_vote_out s)"
  obtain c1 where c1: "get_vote_out_info (out_address v) (out_lock_hash v) c = Some (Some s, c1)" "ctx_ok c1"
    "ctx_view c1 ?k = Some (XDeque [])"
    using rotate_finds [of c ?k "[s]" "[]" ?m "[]"] assms(1-3) by (auto simp: get_vote_out_info_def deque_count_view)
  let ?c2 = "native_do (native_deque_push_back ?k s) c1"
  have c2: "ctx_ok ?c2" "ctx_view ?c2 ?k = Some (XDeque [s])"
    using push_back_view [OF c1(2,3)] by simp_all
  show ?thesis
    using assms(3-5) c1(1) push_back_view [OF c2] by (auto simp: vote_in_def)
qed

end
