(* ===== verification/XExecutorLaws.thy ===== *)
theory XExecutorLaws
  imports XExecutor XVoteLaws
begin

text \<open>
  The frame of the execution of transactions: every operation of the account context, every handler,
  and with them every execution of a transaction or of a batch, works on the native table only through
  its operations, and leaves the number of unconfirmed sends of the account alone.
\<close>

section \<open>Steps of a context\<close>

text \<open>\<open>c'\<close> is reached from \<open>c\<close> by operations on the native table and changes of the other fields; the
  number of unconfirmed sends of the account clone stays.\<close>

abbreviation "ctx_unconfirmed c \<equiv> m_unconfirm_sendtx_num (m_account_state (ctx_account c))"

definition ctx_steps :: "xaccount_context \<Rightarrow> xaccount_context \<Rightarrow> bool" where
  "ctx_steps c c' \<longleftrightarrow> (\<exists>ops. np_run ops (ctx_heap c, ctx_native c) = (ctx_heap c', ctx_native c')) \<and>
     ctx_unconfirmed c' = ctx_unconfirmed c"

lemma np_run_append: "np_run (xs @ ys) s = np_run ys (np_run xs s)"
  by (induction xs arbitrary: s) simp_all

lemma steps_refl [simp, intro]: "ctx_steps c c"
  unfolding ctx_steps_def by (metis np_run.simps(1))

lemma steps_trans [trans]: "ctx_steps a b \<Longrightarrow> ctx_steps b c \<Longrightarrow> ctx_steps a c"
  unfolding ctx_steps_def by (metis np_run_append)

lemma steps_native_exec: "ctx_steps c (native_do (np_exec op) c)"
  unfolding ctx_steps_def
  by (rule conjI, rule exI [of _ "[op]"]) (simp_all add: native_def case_prod_beta Let_def)

lemma steps_native [simp]:
  assumes "ctx_steps a c"
  shows "ctx_steps a (native_do (native_string_set n v) c)" "ctx_steps a (native_do (native_map_set n k v) c)"
    "ctx_steps a (native_do (native_map_clear n) c)" "ctx_steps a (native_do (native_map_erase n k) c)"
    "ctx_steps a (native_do (native_deque_push_back n v) c)" "ctx_steps a (native_do (native_deque_push_front n v) c)"
    "ctx_steps a (native_do (native_deque_erase n v) c)" "ctx_steps a (native_do (native_deque_clear n) c)"
    "ctx_steps a (native_do (\<lambda>h np. snd (native_deque_pop_front n h np)) c)"
    "ctx_steps a (native_do (\<lambda>h np. snd (native_deque_pop_back n h np)) c)"
  using steps_trans [OF assms steps_native_exec] by (simp_all only: np_exec_fun)

lemma steps_fields [simp]:
  "ctx_steps a (c\<lparr>ctx_balance_change := x\<rparr>) = ctx_steps a c" "ctx_steps a (c\<lparr>ctx_pledge_tgas := x\<rparr>) = ctx_steps a c"
  "ctx_steps a (c\<lparr>ctx_pledge_disk := x\<rparr>) = ctx_steps a c" "ctx_steps a (c\<lparr>ctx_tgas_limit := y\<rparr>) = ctx_steps a c"
  "ctx_steps a (c\<lparr>ctx_cur_used_tgas := z\<rparr>) = ctx_steps a c" "ctx_steps a (c\<lparr>ctx_source_pay_info := p\<rparr>) = ctx_steps a c"
  "ctx_steps a (c\<lparr>ctx_contract_txs := txs\<rparr>) = ctx_steps a c" "ctx_steps a (c\<lparr>ctx_accountcmd := cmd\<rparr>) = ctx_steps a c"
  "ctx_steps a (ctx_set_balance_change x c) = ctx_steps a c" "ctx_steps a (ctx_set_lock_balance_change x c) = ctx_steps a c"
  "ctx_steps a (ctx_set_vote_balance_change x c) = ctx_steps a c" "ctx_steps a (ctx_set_lock_tgas_change x c) = ctx_steps a c"
  "ctx_steps a (ctx_set_unvote_num_change x c) = ctx_steps a c"
  by (simp_all add: ctx_steps_def ctx_set_balance_change_def ctx_set_lock_balance_change_def
      ctx_set_vote_balance_change_def ctx_set_lock_tgas_change_def ctx_set_unvote_num_change_def)

lemma steps_account [simp]:
  "m_unconfirm_sendtx_num (m_account_state b) = ctx_unconfirmed c \<Longrightarrow> ctx_steps a (c\<lparr>ctx_account := b\<rparr>) = ctx_steps a c"
  by (simp add: ctx_steps_def)

lemma steps_set_sum [simp]: "ctx_steps a c \<Longrightarrow> ctx_steps a (set_lock_token_sum v c)"
  by (auto simp: set_lock_token_sum_def)

lemma steps_set_used [simp]: "ctx_steps a c \<Longrightarrow> ctx_steps a (ctx_set_used_tgas v c)"
  by (auto simp: ctx_set_used_tgas_def Let_def)


section \<open>Every operation of the context is such a step\<close>

lemma steps_native_pair:
  "native (native_string_set n v) c = (r, c') \<Longrightarrow> ctx_steps a c \<Longrightarrow> ctx_steps a c'"
  "native (native_map_set n k v) c = (r, c') \<Longrightarrow> ctx_steps a c \<Longrightarrow> ctx_steps a c'"
  "native (native_map_erase n k) c = (r, c') \<Longrightarrow> ctx_steps a c \<Longrightarrow> ctx_steps a c'"
  "native (native_deque_push_back n v) c = (r, c') \<Longrightarrow> ctx_steps a c \<Longrightarrow> ctx_steps a c'"
  using steps_native [of a c] by (metis snd_conv)+

lemma steps_transfer_out: "top_token_transfer_out E m g s c = Some (r, c') \<Longrightarrow> ctx_steps a c \<Longrightarrow> ctx_steps a c'"
  by (auto simp: top_token_transfer_out_def Let_def split: if_splits bind_splits)

lemma steps_other_out: "other_token_transfer_out E m g s c = Some (r, c') \<Longrightarrow> ctx_steps a c \<Longrightarrow> ctx_steps a c'"
  by (auto simp: other_token_transfer_out_def case_prod_beta Let_def intro: steps_transfer_out steps_native_pair
      split: if_splits bind_splits sum.splits)

lemma steps_token_out: "token_transfer_out E m g s c = Some (r, c') \<Longrightarrow> ctx_steps a c \<Longrightarrow> ctx_steps a c'"
  by (auto simp: token_transfer_out_def intro: steps_transfer_out steps_other_out split: if_splits)

lemma steps_transfer_in: "top_token_transfer_in E m c = Some (r, c') \<Longrightarrow> ctx_steps a c \<Longrightarrow> ctx_steps a c'"
  by (auto simp: top_token_transfer_in_def Let_def split: if_splits bind_splits)

lemma steps_other_in: "other_token_transfer_in m c = Some (r, c') \<Longrightarrow> ctx_steps a c \<Longrightarrow> ctx_steps a c'"
  by (auto simp: other_token_transfer_in_def intro: steps_native_pair split: if_splits bind_splits sum.splits)

lemma steps_token_in: "token_transfer_in E m c = Some (r, c') \<Longrightarrow> ctx_steps a c \<Longrightarrow> ctx_steps a c'"
  by (auto simp: token_transfer_in_def intro: steps_transfer_in steps_other_in split: if_splits)

lemma steps_set_parent: "set_parent E k m v c = Some (r, c') \<Longrightarrow> ctx_steps a c \<Longrightarrow> ctx_steps a c'"
  by (auto simp: set_parent_def Let_def split: sum.splits bind_splits)
    (meson steps_native_pair(1) steps_transfer_in steps_set_sum)

lemma steps_set_keys: "account_set_keys E k v c = Some (r, c') \<Longrightarrow> ctx_steps a c \<Longrightarrow> ctx_steps a c'"
  by (auto simp: account_set_keys_def intro: steps_native_pair split: bind_splits if_splits)

lemma steps_alias: "account_alias_name_set E v c = Some (r, c') \<Longrightarrow> ctx_steps a c \<Longrightarrow> ctx_steps a c'"
  by (auto simp: account_alias_name_set_def intro: steps_native_pair split: bind_splits if_splits)

lemma steps_pledge:
  "ctx_steps a c \<Longrightarrow> ctx_steps a (snd (set_pledge_token_tgas n c))" "ctx_steps a c \<Longrightarrow> ctx_steps a (snd (redeem_pledge_token_tgas n c))"
  "ctx_steps a c \<Longrightarrow> ctx_steps a (snd (set_pledge_token_disk n c))" "ctx_steps a c \<Longrightarrow> ctx_steps a (snd (redeem_pledge_token_disk n c))"
  by (simp_all add: set_pledge_token_tgas_def redeem_pledge_token_tgas_def set_pledge_token_disk_def
      redeem_pledge_token_disk_def ctx_steps_def Let_def)

lemma steps_tgas_sender: "update_tgas_sender E u d x c = Some (r, y, c') \<Longrightarrow> ctx_steps a c \<Longrightarrow> ctx_steps a c'"
  by (auto simp: update_tgas_sender_def incr_used_tgas_def split: bind_splits if_splits)

lemma steps_tgas_recv: "update_tgas_contract_recv E u d x f l c = Some (r, y, z, c') \<Longrightarrow> ctx_steps a c \<Longrightarrow> ctx_steps a c'"
  by (auto simp: update_tgas_contract_recv_def Let_def split: bind_splits if_splits)

lemma steps_calc_resource: "calc_resource E g d u c = Some (r, y, z, c') \<Longrightarrow> ctx_steps a c \<Longrightarrow> ctx_steps a c'"
  by (auto simp: calc_resource_def Let_def split: bind_splits if_splits)

lemma steps_lock: "lock_token E h m p c = Some (r, c') \<Longrightarrow> ctx_steps a c \<Longrightarrow> ctx_steps a c'"
  by (auto simp: lock_token_def Let_def split: bind_splits if_splits sum.splits)

lemma steps_unlock: "unlock_token E h s c = Some (r, c') \<Longrightarrow> ctx_steps a c \<Longrightarrow> ctx_steps a c'"
  by (auto simp: unlock_token_def case_prod_beta Let_def split: bind_splits if_splits sum.splits)

lemma steps_unlock_all_loop: "unlock_all_loop E s txs v c = Some (r, c') \<Longrightarrow> ctx_steps a c \<Longrightarrow> ctx_steps a c'"
proof (induction txs arbitrary: v c)
  case (Cons p txs)
  then show ?case
    by (cases p) (auto simp: case_prod_beta Let_def split: bind_splits if_splits)
qed simp

lemma steps_unlock_all: "unlock_all_token E c = Some (r, c') \<Longrightarrow> ctx_steps a c \<Longrightarrow> ctx_steps a c'"
  by (auto simp: unlock_all_token_def intro: steps_unlock_all_loop split: bind_splits if_splits option.splits)

lemma steps_merge_loop: "merge_loop ds n e c = Some (x, y, c') \<Longrightarrow> ctx_steps a c \<Longrightarrow> ctx_steps a c'"
  by (induction ds arbitrary: n e c) (auto simp: Let_def split: bind_splits if_splits)

lemma steps_merge: "merge_pledge_vote_property E c = Some c' \<Longrightarrow> ctx_steps a c \<Longrightarrow> ctx_steps a c'"
  by (auto simp: merge_pledge_vote_property_def Let_def intro!: steps_native dest!: steps_merge_loop
      split: option.splits bind_splits if_splits)

lemma steps_insert_loop: "insert_loop n d ds t c = Some (x, y, c') \<Longrightarrow> ctx_steps a c \<Longrightarrow> ctx_steps a c'"
  by (induction ds arbitrary: t) (auto split: bind_splits if_splits)

lemma steps_insert: "insert_pledge_vote_property n d c = Some (r, c') \<Longrightarrow> ctx_steps a c \<Longrightarrow> ctx_steps a c'"
  by (auto simp: insert_pledge_vote_property_def intro: steps_native_pair steps_insert_loop
      split: option.splits bind_splits if_splits sum.splits)

lemma steps_update_votes: "update_pledge_vote_property E n d c = Some (r, c') \<Longrightarrow> ctx_steps a c \<Longrightarrow> ctx_steps a c'"
  by (auto simp: update_pledge_vote_property_def intro: steps_merge steps_insert split: bind_splits)

lemma steps_redeem_votes: "redeem_pledge_vote_property E n c = Some (r, c') \<Longrightarrow> ctx_steps a c \<Longrightarrow> ctx_steps a c'"
proof -
  have "redeem_loop E n ds c = Some (r, c') \<Longrightarrow> ctx_steps a c \<Longrightarrow> ctx_steps a c'" for ds
    by (induction ds) (auto simp: Let_def split: bind_splits if_splits)
  then show "redeem_pledge_vote_property E n c = Some (r, c') \<Longrightarrow> ctx_steps a c \<Longrightarrow> ctx_steps a c'"
    unfolding redeem_pledge_vote_property_def by blast
qed


section \<open>Every handler is such a step\<close>

abbreviation run_steps :: "txrun \<Rightarrow> txrun \<Rightarrow> bool" where
  "run_steps a r \<equiv> ctx_steps (run_ctx a) (run_ctx r)"

lemma run_fields [simp]:
  "run_ctx (note_state f r) = run_ctx r" "run_ctx (on_ctx g r) = g (run_ctx r)"
  "m_tx (run_tx (note_state f r)) = m_tx (run_tx r)" "run_tx (on_ctx g r) = run_tx r"
  by (simp_all add: note_state_def on_ctx_def)

lemma steps_pay: "update_tgas_disk_sender E m is_contract r = Some (e, r') \<Longrightarrow> ctx_steps a (run_ctx r) \<Longrightarrow> ctx_steps a (run_ctx r')"
  by (auto simp: update_tgas_disk_sender_def fee_update_tgas_sender_def fee_update_disk_def ctx_update_disk_def Let_def
      split: if_splits bind_splits; meson steps_tgas_sender)


lemma release_ctx [simp]: "ctx_steps a (run_ctx (release_deposit r)) = ctx_steps a (run_ctx r)"
  by (simp add: release_deposit_def)

lemma steps_after_sc: "update_tgas_disk_after_sc_exec E t r = Some (e, r') \<Longrightarrow> ctx_steps a (run_ctx r) \<Longrightarrow> ctx_steps a (run_ctx r')"
  by (auto simp: update_tgas_disk_after_sc_exec_def update_tgas_disk_contract_recv_def fee_update_tgas_contract_recv_def
      fee_update_disk_def ctx_update_disk_def Let_def split: if_splits bind_splits; meson steps_tgas_recv)

lemma steps_ctx_transfer_out:
  "ctx_do (top_token_transfer_out E m g s) r = Some (e, r') \<Longrightarrow> ctx_steps a (run_ctx r) \<Longrightarrow> ctx_steps a (run_ctx r')"
  by (auto simp: ctx_do_def split: bind_splits) (meson steps_transfer_out)

lemma steps_ctx_transfer_in:
  "ctx_do (top_token_transfer_in E m) r = Some (e, r') \<Longrightarrow> ctx_steps a (run_ctx r) \<Longrightarrow> ctx_steps a (run_ctx r')"
  by (auto simp: ctx_do_def split: bind_splits) (meson steps_transfer_in)

lemma steps_fee_self: "update_fee_recv_self E r = Some (e, r') \<Longrightarrow> ctx_steps a (run_ctx r) \<Longrightarrow> ctx_steps a (run_ctx r')"
  by (auto simp: update_fee_recv_self_def Let_def split: bind_splits) (metis release_ctx steps_ctx_transfer_out)

lemma steps_fee_confirm: "update_fee_confirm E r = Some (e, r') \<Longrightarrow> ctx_steps a (run_ctx r) \<Longrightarrow> ctx_steps a (run_ctx r')"
  by (auto simp: update_fee_confirm_def Let_def split: bind_splits) (metis release_ctx run_fields(1) steps_ctx_transfer_out)

lemma steps_contract_confirm:
  assumes "update_contract_fee_confirm E m r = Some (e, r')" "ctx_steps a (run_ctx r)"
  shows "ctx_steps a (run_ctx r')"
proof -
  define r1 where "r1 = release_deposit (on_ctx (ctx_set_lock_tgas_change
    (- ucast (get_last_action_send_tx_lock_tgas (env_utl E) (run_tx r)))) r)"
  have 1: "ctx_steps a (run_ctx r1)"
    using assms(2) by (simp add: r1_def)
  show ?thesis
    using assms(1) 1
    by (auto simp: update_contract_fee_confirm_def Let_def ctx_do_def simp flip: r1_def split: bind_splits if_splits;
        meson steps_calc_resource steps_transfer_in)
qed

lemma steps_source_fee:
  assumes "source_fee_exec E obj r = Some (e, l, r')" "ctx_steps a (run_ctx r)"
  shows "ctx_steps a (run_ctx r')"
  using assms
  by (auto simp: source_fee_exec_def Let_def split: xtx_obj.splits bind_splits if_splits; meson steps_pay)

lemma steps_service_fee:
  "source_service_fee_exec E r = Some (e, r') \<Longrightarrow> ctx_steps a (run_ctx r) \<Longrightarrow> ctx_steps a (run_ctx r')"
  by (auto simp: source_service_fee_exec_def update_service_fee_def ctx_do_def Let_def split: bind_splits; meson steps_transfer_out)

lemma steps_target_fee:
  "target_fee_exec E obj r = Some (e, r') \<Longrightarrow> ctx_steps a (run_ctx r) \<Longrightarrow> ctx_steps a (run_ctx r')"
  by (auto simp: target_fee_exec_def update_fee_recv_def split: xtx_obj.splits if_splits; meson steps_fee_self)

lemma steps_confirm:
  "exec_confirm E obj r = Some (e, r') \<Longrightarrow> ctx_steps a (run_ctx r) \<Longrightarrow> ctx_steps a (run_ctx r')"
  by (auto simp: exec_confirm_def source_confirm_fee_exec_def source_confirm_action_exec_def lift_ret_def Let_def
      split: xtx_obj.splits if_splits bind_splits; meson steps_contract_confirm steps_fee_confirm)


text \<open>The virtual machine works on the context through the operations of its interface only.\<close>

definition vm_steps :: "('r, 'k, 's) xexec \<Rightarrow> bool" where
  "vm_steps X \<longleftrightarrow> (\<forall>t c. ctx_steps c (snd (x_deal X t c)))"

lemma steps_run_vm: "vm_steps X \<Longrightarrow> ctx_steps a (run_ctx r) \<Longrightarrow> ctx_steps a (run_ctx (snd (run_vm X r)))"
  by (auto simp: run_vm_def vm_steps_def case_prod_beta Let_def intro: steps_trans)

lemma steps_set_sub [simp]: "ctx_steps a c \<Longrightarrow> ctx_steps a (snd (set_contract_sub_account v c))"
  "ctx_steps a c \<Longrightarrow> ctx_steps a (snd (set_sub_account v c))"
  by (simp_all add: set_contract_sub_account_def set_sub_account_def)

lemma steps_create_source:
  assumes "source_create_contract X out r = Some (e, r')" "ctx_steps a (run_ctx r)"
  shows "ctx_steps a (run_ctx r')"
  using assms
  by (auto simp: source_create_contract_def case_prod_beta Let_def split: bind_splits if_splits dest!: steps_ctx_transfer_out)

lemma steps_source_action:
  assumes "source_action_exec X obj r = Some (e, r')" "ctx_steps a (run_ctx r)"
  shows "ctx_steps a (run_ctx r')"
  using assms
  by (auto simp: source_action_exec_def Let_def lift_ret_def ctx_do_def case_prod_beta
      split: xtx_obj.splits bind_splits if_splits;
      (meson steps_create_source steps_transfer_out steps_token_out steps_unlock_all steps_set_sub)?)


lemma ctx_do_some: "ctx_do (\<lambda>c. Some (f c)) r = Some (e, r') \<Longrightarrow> run_ctx r' = snd (f (run_ctx r))"
  by (cases "f (run_ctx r)") (auto simp: ctx_do_def)

lemma lift_some: "lift_ret m = Some (e, x) \<Longrightarrow> \<exists>e'. m = Some (e', x)"
  by (auto simp: lift_ret_def)

text \<open>The operations that a handler calls on the context.\<close>

definition step_fun :: "(xaccount_context \<Rightarrow> (xret \<times> xaccount_context) option) \<Rightarrow> bool" where
  "step_fun f \<longleftrightarrow> (\<forall>a c e c'. f c = Some (e, c') \<longrightarrow> ctx_steps a c \<longrightarrow> ctx_steps a c')"

lemma step_funs:
  "step_fun (top_token_transfer_out E m g s)" "step_fun (token_transfer_in E asset)" "step_fun (account_set_keys E k v)"
  "step_fun (account_alias_name_set E v)" "step_fun (lock_token E h m p)" "step_fun (unlock_token E h signs)"
  "step_fun (set_parent E k m v)" "step_fun (update_pledge_vote_property E n d)" "step_fun (redeem_pledge_vote_property E n)"
  "step_fun (set_parent_account E m v)"
  unfolding step_fun_def set_parent_account_def
  using steps_transfer_out steps_token_in steps_set_keys steps_alias steps_lock steps_unlock steps_set_parent
    steps_update_votes steps_redeem_votes by meson+

lemma steps_do: "ctx_do f r = Some (e, r') \<Longrightarrow> step_fun f \<Longrightarrow> ctx_steps a (run_ctx r) \<Longrightarrow> ctx_steps a (run_ctx r')"
  by (auto simp: ctx_do_def step_fun_def split: bind_splits)

lemma steps_pledge_token:
  assumes "pledge_token E f asset r = Some (e, r')" "ctx_steps a (snd (f (m_amount asset) (run_ctx r)))" "ctx_steps a (run_ctx r)"
  shows "ctx_steps a (run_ctx r')"
proof (cases "r' = r")
  case False
  then obtain ret r1 where 1: "ctx_do (\<lambda>c. Some (f (m_amount asset) c)) r = Some (ret, r1)"
    "r' = r1 \<or> (\<exists>e. ctx_do (top_token_transfer_out E (m_amount asset) 0 0) r1 = Some (e, r'))"
    using assms(1) by (auto simp: pledge_token_def Let_def split: bind_splits if_splits dest!: lift_some)
  have "ctx_steps a (run_ctx r1)"
    using ctx_do_some [OF 1(1)] assms(2) by simp
  then show ?thesis
    using 1(2) steps_ctx_transfer_out by blast
qed (use assms(3) in simp)

lemma steps_redeem_token:
  assumes "redeem_token E f ty asset r = Some (e, r')" "ctx_steps a (snd (f (m_amount asset) (run_ctx r)))" "ctx_steps a (run_ctx r)"
  shows "ctx_steps a (run_ctx r')"
proof (cases "r' = r")
  case False
  then obtain ret r1 where 1: "ctx_do (\<lambda>c. Some (f (m_amount asset) c)) r = Some (ret, r1)"
    "r' = r1 \<or> (\<exists>e e' r2 h p. ctx_do (token_transfer_in E asset) r1 = Some (e, r2) \<and>
       ctx_do (lock_token E h (m_amount asset) p) r2 = Some (e', r'))"
    using assms(1) by (auto simp: redeem_token_def Let_def split: bind_splits if_splits dest!: lift_some; blast)
  have r1: "ctx_steps a (run_ctx r1)"
    using ctx_do_some [OF 1(1)] assms(2) by simp
  have "ctx_steps a (run_ctx r')" if "ctx_do (token_transfer_in E asset) r1 = Some (e, r2)"
    "ctx_do (lock_token E h (m_amount asset) p) r2 = Some (e', r')" for e e' r2 h p
    using steps_do [OF that(2) step_funs(5)] steps_do [OF that(1) step_funs(2) r1] by blast
  then show ?thesis
    using 1(2) r1 by blast
qed (use assms(3) in simp)

lemma steps_create_target:
  assumes "vm_steps X" "target_create_contract X out g r = Some (e, r')" "ctx_steps a (run_ctx r)"
  shows "ctx_steps a (run_ctx r')"
proof -
  obtain ret r1 where 1: "ctx_do (set_contract_parent_account (x_env X) (m_amount out) (run_source r)) r = Some (ret, r1)"
    using assms(2) by (auto simp: target_create_contract_def Let_def split: bind_splits)
  have s1: "ctx_steps a (run_ctx r1)"
    using 1 assms(3) by (auto simp: ctx_do_def set_contract_parent_account_def split: bind_splits) (meson steps_set_parent)
  define v where "v = run_vm X (on_ctx (\<lambda>c. c\<lparr>ctx_tgas_limit := g\<rparr>) r1)"
  have s2: "ctx_steps a (run_ctx (snd v))"
    unfolding v_def by (rule steps_run_vm [OF assms(1)]) (simp add: s1)
  have "ret \<noteq> xsuccess \<and> r' = r1 \<or> r' = snd v \<or> (\<exists>e. update_tgas_disk_after_sc_exec (x_env X) (fst v) (snd v) = Some (e, r'))"
    using assms(2) 1 by (auto simp: target_create_contract_def case_prod_beta Let_def after_vm_def simp flip: v_def
        split: bind_splits if_splits)
  then show ?thesis
    using s1 s2 steps_after_sc by blast
qed

lemma steps_run_target:
  assumes "vm_steps X" "target_run_contract X out r = Some (e, r')" "ctx_steps a (run_ctx r)"
  shows "ctx_steps a (run_ctx r')"
proof -
  obtain ret r1 where 1: "(if m_amount out \<noteq> 0 then ctx_do (top_token_transfer_in (x_env X) (m_amount out)) r
      else Some (xsuccess, r)) = Some (ret, r1)"
    using assms(2) by (auto simp: target_run_contract_def Let_def split: bind_splits)
  have s1: "ctx_steps a (run_ctx r1)"
    using 1 assms(3) by (auto dest: steps_ctx_transfer_in split: if_splits)
  show ?thesis
  proof (cases "ret = xsuccess")
    case False
    then show ?thesis
      using assms(2) s1 unfolding target_run_contract_def Let_def 1 by auto
  next
    case True
    obtain l where l: "get_tgas_limit (run_ctx r1) = Some l"
      using assms(2) True unfolding target_run_contract_def Let_def 1 by (auto split: bind_splits)
    define v where "v = run_vm X (on_ctx (\<lambda>c. c\<lparr>ctx_tgas_limit := l, ctx_source_pay_info := out\<rparr>) r1)"
    have s2: "ctx_steps a (run_ctx (snd v))"
      unfolding v_def by (rule steps_run_vm [OF assms(1)]) (simp add: s1)
    have "run_ctx r' = run_ctx (snd v) \<or> (\<exists>e. update_tgas_disk_after_sc_exec (x_env X) (fst v) (snd v) = Some (e, r'))"
      using assms(2) True l unfolding target_run_contract_def Let_def 1
      by (auto simp: case_prod_beta after_vm_def simp flip: v_def split: bind_splits if_splits)
    then show ?thesis
      using s2 steps_after_sc by metis
  qed
qed

lemma steps_lifted:
  "lift_ret (ctx_do f r) = Some (e, r') \<Longrightarrow> step_fun f \<Longrightarrow> ctx_steps a (run_ctx r) \<Longrightarrow> ctx_steps a (run_ctx r')"
  by (meson lift_some steps_do)

lemma steps_vote_pledge:
  assumes "target_action_exec X l (PledgeVote n d) r = Some (e, r')" "ctx_steps a (run_ctx r)"
  shows "ctx_steps a (run_ctx r')"
proof -
  obtain ret r1 where 1: "ctx_do (top_token_transfer_out (x_env X) l 0 0) r = Some (ret, r1)"
    "r' = r1 \<or> (\<exists>e. ctx_do (update_pledge_vote_property (x_env X) n d)
       (on_ctx (ctx_set_unvote_num_change n \<circ> ctx_set_vote_balance_change l) r1) = Some (e, r'))"
    using assms(1) by (auto simp: target_action_exec_def Let_def split: bind_splits if_splits dest!: lift_some)
  have "ctx_steps a (run_ctx r1)"
    by (rule steps_ctx_transfer_out [OF 1(1) assms(2)])
  then show ?thesis
    using 1(2) steps_do [OF _ step_funs(8), of _ _ _ "on_ctx (ctx_set_unvote_num_change n \<circ> ctx_set_vote_balance_change l) r1"]
    by auto
qed

lemma steps_vote_redeem:
  assumes "target_action_exec X l (RedeemVote n) r = Some (e, r')" "ctx_steps a (run_ctx r)"
  shows "ctx_steps a (run_ctx r')"
proof -
  obtain c where 1: "r' = r \<or> merge_pledge_vote_property (x_env X) (run_ctx r) = Some c \<and>
       (\<exists>e. ctx_do (redeem_pledge_vote_property (x_env X) n) (r\<lparr>run_ctx := c\<rparr>) = Some (e, r'))"
    using assms(1) by (auto simp: target_action_exec_def Let_def split: bind_splits if_splits dest!: lift_some)
  show ?thesis
    using 1 assms(2) steps_merge [of _ _ c a] steps_do [OF _ step_funs(9), of _ _ "r\<lparr>run_ctx := c\<rparr>" _ r' a] by auto
qed

lemma steps_resource:
  assumes "target_action_exec X l obj r = Some (e, r')" "ctx_steps a (run_ctx r)"
    and "obj \<in> {PledgeTgas x, PledgeDisk x, RedeemTgas x, RedeemDisk x}"
  shows "ctx_steps a (run_ctx r')"
  using assms(1,3) steps_pledge_token [OF _ _ assms(2), of _ _ x] steps_redeem_token [OF _ _ assms(2), of _ _ _ x]
    steps_pledge [OF assms(2)]
  by (auto simp: target_action_exec_def Let_def)

lemma steps_target_action:
  assumes "vm_steps X" "target_action_exec X l obj r = Some (e, r')" "ctx_steps a (run_ctx r)"
  shows "ctx_steps a (run_ctx r')"
proof (cases obj)
  case (PledgeVote n d)
  then show ?thesis
    using assms steps_vote_pledge by blast
next
  case (RedeemVote n)
  then show ?thesis
    using assms steps_vote_redeem by blast
qed (use assms steps_run_vm [OF assms(1,3)] steps_resource [OF assms(2,3)] in
  \<open>auto simp: target_action_exec_def case_prod_beta Let_def after_vm_def
    dest: steps_create_target steps_run_target steps_lifted [OF _ step_funs(2)] steps_lifted [OF _ step_funs(3)]
      steps_lifted [OF _ step_funs(4)] steps_lifted [OF _ step_funs(5)] steps_lifted [OF _ step_funs(6)]
      steps_lifted [OF _ step_funs(10)]\<close>)

lemma steps_exec_source:
  assumes "exec_source X obj r = Some (e, l, r')" "ctx_steps a (run_ctx r)"
  shows "ctx_steps a (run_ctx r')"
proof -
  obtain e1 r1 where 1: "source_service_fee_exec (x_env X) r = Some (e1, r1)"
    using assms(1) by (auto simp: exec_source_def split: bind_splits)
  have s1: "ctx_steps a (run_ctx r1)"
    by (rule steps_service_fee [OF 1 assms(2)])
  then show ?thesis
    using assms(1) steps_source_fee [of "x_env X" obj r1] steps_source_action [of X obj]
    by (fastforce simp: exec_source_def 1 split: bind_splits if_splits)
qed

lemma steps_exec_target:
  assumes "vm_steps X" "exec_target X l obj r = Some (e, r')" "ctx_steps a (run_ctx r)"
  shows "ctx_steps a (run_ctx r')"
proof -
  obtain e1 r1 where 1: "target_fee_exec (x_env X) obj r = Some (e1, r1)"
    using assms(2) by (auto simp: exec_target_def split: bind_splits)
  have s1: "ctx_steps a (run_ctx r1)"
    by (rule steps_target_fee [OF 1 assms(3)])
  then show ?thesis
    using assms(2) steps_target_action [OF assms(1)] by (auto simp: exec_target_def 1 split: if_splits)
qed

lemma steps_tx_exec:
  assumes "vm_steps X" "tx_exec X c tx = Some (e, c', tx')"
  shows "ctx_steps c c'"
proof (cases "tx_check X (m_tx tx)")
  case None
  then show ?thesis
    using assms(2) by (simp add: tx_exec_def)
next
  case (Some chk)
  show ?thesis
  proof (cases chk)
    case (Inl e)
    then show ?thesis
      using assms(2) Some by (simp add: tx_exec_def)
  next
    case (Inr obj)
    let ?self = "tx_is enum_transaction_subtype_self tx"
    obtain e1 l r1 where 1: "(if ?self \<or> tx_is enum_transaction_subtype_send tx then exec_source X obj (run_new c tx)
        else Some (ok, 0, run_new c tx)) = Some (e1, l, r1)"
      using assms(2) Some Inr by (auto simp: tx_exec_def Let_def split: bind_splits)
    have s1: "ctx_steps c (run_ctx r1)"
      using 1 steps_exec_source [of X obj "run_new c tx" e1 l r1 c] by (auto simp: run_new_def split: if_splits)
    show ?thesis
    proof (cases "e1 = ok")
      case False
      then show ?thesis
        using assms(2) s1 unfolding tx_exec_def Some Inr Let_def by (simp add: 1)
    next
      case True
      obtain e2 r2 where 2: "(if ?self \<or> tx_is enum_transaction_subtype_recv tx then exec_target X l obj r1
          else Some (ok, r1)) = Some (e2, r2)"
        using assms(2) True unfolding tx_exec_def Some Inr Let_def by (auto simp: 1 split: bind_splits)
      have s2: "ctx_steps c (run_ctx r2)"
        using 2 s1 steps_exec_target [OF assms(1), of l obj r1 e2 r2 c] by (auto split: if_splits)
      show ?thesis
        using assms(2) True s2 steps_confirm [of "x_env X" obj r2 _ _ c] unfolding tx_exec_def Some Inr Let_def
        by (auto simp: 1 2 split: bind_splits if_splits)
    qed
  qed
qed

lemma steps_exec_one:
  "vm_steps X \<Longrightarrow> exec_one_tx X c tx res = Some (e, c', tx', res') \<Longrightarrow> ctx_steps c c'"
  by (auto simp: exec_one_tx_def Let_def dest: steps_tx_exec split: bind_splits if_splits)

lemma steps_exec_created:
  "vm_steps X \<Longrightarrow> exec_created X is c res = Some (e, c', res') \<Longrightarrow> ctx_steps c c'"
proof (induction "is" arbitrary: c res)
  case (Cons i "is")
  obtain e1 c1 tx1 res1 where 1: "exec_one_tx X c (ctx_contract_txs c ! i) res = Some (e1, c1, tx1, res1)"
    using Cons.prems(2) by (auto split: bind_splits)
  have "ctx_steps c (put_contract_tx i tx1 c1)"
    using steps_exec_one [OF Cons.prems(1) 1] by (simp add: put_contract_tx_def)
  then show ?case
    using Cons.prems(2) Cons.IH [OF Cons.prems(1)] by (auto simp: 1 Let_def intro: steps_trans split: if_splits)
qed simp

lemma steps_exec_tx:
  assumes "vm_steps X" "exec_tx X c tx = Some (e, c', tx', res)"
  shows "ctx_steps c c'"
proof -
  define c0 where "c0 = (if tx_is enum_transaction_subtype_self tx \<or> tx_is enum_transaction_subtype_send tx
    then note_sent (m_tx tx) c else c)"
  have 0: "ctx_steps c c0"
    by (auto simp: c0_def note_sent_def)
  show ?thesis
    using assms(2) 0 steps_exec_one [OF assms(1), of c0] steps_exec_created [OF assms(1)]
    by (auto simp: exec_tx_def Let_def simp flip: c0_def split: if_splits bind_splits; meson steps_trans)
qed

lemma steps_exec_batch:
  "vm_steps X \<Longrightarrow> exec_batch_loop X txs c res = Some (e, c', res', txs') \<Longrightarrow> ctx_steps c c'"
proof (induction txs arbitrary: c res txs')
  case (Cons tx txs)
  obtain e1 c1 tx1 res1 where 1: "exec_tx X c tx = Some (e1, c1, tx1, res1)"
    using Cons.prems(2) by (auto split: bind_splits)
  have "ctx_steps c c1"
    by (rule steps_exec_tx [OF Cons.prems(1) 1])
  then show ?case
    using Cons.prems(2) Cons.IH [OF Cons.prems(1)]
    by (auto simp: 1 Let_def split: if_splits bind_splits; meson steps_trans)
qed simp

end
