(* ===== verification/XUnitLaws.thy ===== *)
theory XUnitLaws
  imports XExecutorLaws XChainState
begin

text \<open>
  What the executor and the unit maker promise together with the ledger: a unit made of executed
  transactions brings every replica to the executed state, the kind of a made unit passes the check
  of the other nodes, and what happens when a transaction of a batch fails.
\<close>

section \<open>The result of a batch\<close>

text \<open>When an execution succeeds, its result is the one of the context it leaves, including the
  transactions that were created and executed on the way.\<close>

lemma exec_one_result:
  "exec_one_tx X c tx res = Some (ok, c', tx', res') \<Longrightarrow> res' = get_transaction_result (x_env X) c'"
  by (auto simp: exec_one_tx_def Let_def split: bind_splits if_splits)

lemma put_contract_result:
  "get_transaction_result E (put_contract_tx i tx c) =
     (get_transaction_result E c)\<lparr>m_contract_txs := (m_contract_txs (get_transaction_result E c))[i := tx]\<rparr>"
  by (simp add: get_transaction_result_def put_contract_tx_def)

lemma exec_created_result:
  "exec_created X is c res = Some (ok, c', res') \<Longrightarrow> res = get_transaction_result (x_env X) c
    \<Longrightarrow> res' = get_transaction_result (x_env X) c'"
proof (induction "is" arbitrary: c res)
  case (Cons i "is")
  obtain c1 tx1 res1 where 1: "exec_one_tx X c (ctx_contract_txs c ! i) res = Some (ok, c1, tx1, res1)"
    using Cons.prems(1) by (auto simp: Let_def split: bind_splits if_splits)
  show ?case
    using Cons.prems(1) Cons.IH [of "put_contract_tx i tx1 c1"] exec_one_result [OF 1]
    by (simp add: 1 put_contract_result)
qed simp

lemma exec_tx_result: "exec_tx X c tx = Some (ok, c', tx', res) \<Longrightarrow> res = get_transaction_result (x_env X) c'"
  by (auto simp: exec_tx_def Let_def split: bind_splits if_splits dest!: exec_one_result exec_created_result)

definition succeeded :: "xutl \<Rightarrow> xcons_transaction \<Rightarrow> bool" where
  "succeeded U tx \<longleftrightarrow> get_tx_exec_status U (m_execute_state tx) = enum_xunit_tx_exec_status_success"

lemma fail_not_succeeded: "utl_round U \<Longrightarrow> \<not> succeeded U (set_status enum_xunit_tx_exec_status_fail tx)"
  by (simp add: succeeded_def set_status_def get_tx_exec_status_def set_tx_exec_status_def para_get_set_uint32
      enum_xunit_tx_exec_status_fail_def enum_xunit_tx_exec_status_success_def)

lemma batch_result:
  assumes "utl_round U" "exec_batch_loop X txs c res = Some (e, c', res', txs')" "list_all (succeeded U) txs'"
  shows "txs = [] \<and> c' = c \<and> res' = res \<or> succ_txs_result res' = get_transaction_result (x_env X) c'"
  using assms(2,3)
proof (induction txs arbitrary: c res txs')
  case (Cons tx txs)
  obtain e1 c1 tx1 res1 where 1: "exec_tx X c tx = Some (e1, c1, tx1, res1)"
    using Cons.prems(1) by (auto split: bind_splits)
  have ok: "e1 = ok"
    using Cons.prems fail_not_succeeded [OF assms(1), of tx1] by (auto simp: 1 Let_def split: if_splits bind_splits)
  then show ?case
    using Cons.prems Cons.IH exec_tx_result [OF 1 [unfolded ok]] by (fastforce simp: 1 Let_def split: bind_splits)
qed simp

text \<open>The number of raw transactions of a unit is the number of transactions given.\<close>

lemma made_output:
  assumes "make_lightunit_output X c txs = Some (ok, c', para)"
  obtains res where "exec_batch_loop X txs c batch_new = Some (ok, c', res, m_raw_txs para)"
    "para = set_transaction_result (succ_txs_result res)
       (set_account_unconfirm_sendtx_num (ucast (ctx_unconfirmed c')) (set_input_txs (m_raw_txs para) block_para_new))"
  using assms
  by (auto simp: make_lightunit_output_def exec_batch_txs_def set_account_unconfirm_sendtx_num_def
      set_transaction_result_def set_input_txs_def split: bind_splits if_splits)

text \<open>
  C1 A replica that did not execute a unit arrives at the executed state.  The leader executes a
  batch of transactions of any kinds on its account context and every one of them succeeds; it puts
  the result into a light unit on top of the last unit.  Another node, whose native table has the content
  that the leader started from, loads and applies that unit: this succeeds, its table then has exactly the
  content of the leader's context, and balance, pledges, locks and vote number change by the amounts
  that the context has accumulated.
\<close>

theorem executed_unit_replicates:
  assumes X: "vm_steps X" "utl_round (env_utl (x_env X))"
    and start: "ctx_ok c" "m_modify_objs (ctx_native c) = []" "txs \<noteq> []"
    and exec: "make_lightunit_output X c txs = Some (ok, c', para)" "list_all (succeeded (env_utl (x_env X))) (m_raw_txs para)"
    and made: "create_next_lightunit (env_utl (x_env X)) io cid hdr (ctx_heap c') para prev = Some b"
    and io: "resource_fits io (ctx_heap c') (output_resource para)"
      "io_reads_back io (ctx_heap c') (get_property_log (ctx_accountcmd c'))"
    and replica: "np_bound h (mstate_native_property (m_account_state ch))"
      "np_view h (mstate_native_property (m_account_state ch)) = ctx_view c"
  shows "\<exists>h' b' ch'. add_light_unit (env_utl (x_env X)) io h (LightUnit b) ch = Some (h', LightUnit b', ch') \<and>
    np_view h' (mstate_native_property (m_account_state ch')) = ctx_view c' \<and>
    result_applied (get_transaction_result (x_env X) c') (get_burn_balance_change (env_utl (x_env X)) b)
      (m_account_state ch) (m_account_state ch')"
proof -
  let ?r = "get_transaction_result (x_env X) c'"
  obtain res where res: "exec_batch_loop X txs c batch_new = Some (ok, c', res, m_raw_txs para)"
    "para = set_transaction_result (succ_txs_result res)
       (set_account_unconfirm_sendtx_num (ucast (ctx_unconfirmed c')) (set_input_txs (m_raw_txs para) block_para_new))"
    by (rule made_output [OF exec(1)])
  have r: "succ_txs_result res = ?r"
    using batch_result [OF X(2) res(1) exec(2)] start(3) by simp
  obtain ops where ops: "np_run ops (ctx_heap c, ctx_native c) = (ctx_heap c', m_native_property ?r)"
    using steps_exec_batch [OF X(1) res(1)] by (auto simp: ctx_steps_def get_transaction_result_def)
  obtain account hgt lh vid clk fh fhgt where b:
    "create_lightunit (env_utl (x_env X)) io cid hdr (ctx_heap c') account hgt lh [] vid clk fh fhgt para = Some b"
    using made by (auto simp: create_next_lightunit_def case_prod_beta Let_def)
  have inv: "np_inv (ctx_heap c) (ctx_native c)"
    using start(1) by (simp add: ctx_ok_def)
  have log: "io_reads_back io (ctx_heap c') (m_prop_log ?r)"
    using io(2) by (simp add: get_transaction_result_def)
  show ?thesis
    using replica_applies_execution [OF inv start(2) ops res(2) [unfolded r] b io(1) log replica(1)
        replica(2) [unfolded ctx_view_def]]
    by (auto simp: ctx_view_def get_transaction_result_def)
qed

definition sample_exec :: "(bytes, bytes, bytes) xexec" where
  "sample_exec = \<lparr>x_env = sample_env, x_ecc = sample_ecc, x_json = (\<lambda>_ _. None), x_sha2 = (\<lambda>b. b),
     x_peer = (\<lambda>_. (env_props sample_env, None, [])),
     x_deal = (\<lambda>t c. (\<lparr>m_errno = 0, m_instruction_usage = 0, trace_tgas_usage = 0\<rparr>, c))\<rparr>"

lemma sample_exec_facts: "vm_steps sample_exec" "x_env sample_exec = sample_env" "env_utl sample_env = sample_utl"
  by (simp_all add: vm_steps_def sample_exec_def sample_env_def)

text \<open>A pledge of 1000 votes for 30 days that another account has sent.\<close>

definition sample_pledge_tx :: xtransaction where
  "sample_pledge_tx = transaction_new\<lparr>tx_header := header_new\<lparr>m_transaction_type := xtransaction_type_pledge_token_vote\<rparr>,
     m_source_action := source_null_serialze_to action_new,
     m_target_action := pledge_token_vote_serialze_to 1000 30 action_new, m_tx_subtype := enum_transaction_subtype_recv\<rparr>"

definition sample_pledge :: xcons_transaction where
  "sample_pledge = \<lparr>m_tx = sample_pledge_tx,
     m_receipt = Some (tx_receipt (output_entity enum_transaction_subtype_send sample_pledge_tx []) []
       \<lparr>cert_clock = 7, cert_output_root_hash = [], cert_justify_cert_hash = [], cert_hash_to_sign = [], cert_extend_data = []\<rparr>),
     m_is_confirmed = False, m_execute_state = []\<rparr>"

lemma pledge_vote_parsed: "pledge_token_vote_parse (pledge_token_vote_serialze_to n d a) = Some (Inr (n, d))"
  using u16.get_put [of d "[]"] by (simp add: pledge_token_vote_parse_def pledge_token_vote_serialze_to_def)

lemma sample_pledge_checked: "tx_check sample_exec sample_pledge_tx = Some (Inr (PledgeVote 1000 30))"
proof -
  have "null_source (source_null_serialze_to action_new) = Some (Inr ())"
    by (simp add: null_source_def source_null_parse_def source_null_serialze_to_def)
  then have p: "tx_parse sample_pledge_tx = Some (Inr (PledgeVote 1000 30))"
    by (simp add: tx_parse_def sample_pledge_tx_def parse_two_def pledge_vote_parsed tx_type_defs)
  have "obj_check sample_exec (PledgeVote 1000 30) sample_pledge_tx = Some ok"
    by (simp add: obj_check_def sample_exec_def sample_env_def default_conf_def min_vote_lock_days_def)
  then show ?thesis
    by (simp add: tx_check_def p)
qed

definition sample_fresh :: xaccount_context where
  "sample_fresh = sample_ctx\<lparr>ctx_heap := [], ctx_native := np_empty\<rparr>"

definition sample_pledged :: xaccount_context where
  "sample_pledged = sample_fresh\<lparr>ctx_heap := [XDeque [serilize_vote 1000 30 0]],
     ctx_native := \<lparr>m_objs = [(XPROPERTY_PLEDGE_VOTE_KEY, 0)], m_modify_objs = [(XPROPERTY_PLEDGE_VOTE_KEY, 0)]\<rparr>,
     ctx_unvote_num_change := 1000\<rparr>"

lemma sample_fresh_facts:
  "ctx_heap sample_fresh = []" "ctx_native sample_fresh = np_empty" "m_account (ctx_account sample_fresh) = ''T00000alice''"
  "balance (ctx_account sample_fresh) = 500000000" "ctx_balance_change sample_fresh = 0" "ctx_timer_height sample_fresh = 0"
  "ctx_unvote_num_change sample_fresh = 0" "ctx_pledge_vote sample_fresh = 0" "ctx_contract_txs sample_fresh = []"
  by (simp_all add: sample_fresh_def sample_ctx_defs mstate_new_def)

lemma sample_fresh_pay: "top_token_transfer_out sample_env 0 0 0 sample_fresh = Some (xsuccess, sample_fresh)"
  by (simp add: top_token_transfer_out_def sample_fresh_facts sys_contract_zec_reward_addr_def lock_sum_view num_at_def
      ctx_view_def np_view_def np_empty_def om_find_def xadd_def)

lemma sample_fresh_votes:
  "update_pledge_vote_property sample_env 1000 30 (ctx_set_unvote_num_change 1000 (ctx_set_vote_balance_change 0 sample_fresh)) =
     Some (xsuccess, sample_pledged)"
  by (simp add: update_pledge_vote_property_def merge_pledge_vote_property_def insert_pledge_vote_property_def
      ctx_set_unvote_num_change_def ctx_set_vote_balance_change_def sample_fresh_facts deque_get_def property_get_def
      np_empty_def om_find_def native_deque_size_def native_def native_deque_push_back_def np_make_def property_set_def
      xdeque_push_back_def sample_pledged_def)

lemma sample_pledge_exec: "tx_exec sample_exec sample_fresh sample_pledge = Some (ok, sample_pledged, sample_pledge)"
proof -
  have chk: "tx_check sample_exec (m_tx sample_pledge) = Some (Inr (PledgeVote 1000 30))"
    by (simp add: sample_pledge_def sample_pledge_checked)
  have kind: "\<not> tx_is enum_transaction_subtype_self sample_pledge" "\<not> tx_is enum_transaction_subtype_send sample_pledge"
    "tx_is enum_transaction_subtype_recv sample_pledge" "\<not> tx_is enum_transaction_subtype_confirm sample_pledge"
    by (simp_all add: tx_is_def sample_pledge_def sample_pledge_tx_def tx_subtype_defs)
  have run: "run_tx (run_new sample_fresh sample_pledge) = sample_pledge"
    by (simp add: run_new_def)
  have fee: "update_fee_recv sample_env (run_new sample_fresh sample_pledge) = run_new sample_fresh sample_pledge"
    by (simp add: update_fee_recv_def note_state_def run_new_def get_last_action_used_deposit_def get_used_deposit_def
        sample_pledge_def tx_receipt_def output_entity_def para_get_uint32_def para_get_value_def om_find_def
        set_used_deposit_def para_set_uint32_def)
  show ?thesis
    by (simp add: tx_exec_def chk kind Let_def exec_target_def target_fee_exec_def sample_exec_facts run fee)
     (simp add: target_action_exec_def kind sample_exec_facts ctx_do_def run_new_def sample_fresh_pay on_ctx_def sample_fresh_votes lift_ret_def Let_def)
qed


definition sample_para :: xlightunit_block_para where
  "sample_para = set_account_unconfirm_sendtx_num 0 (set_transaction_result (get_transaction_result sample_env sample_pledged)
     (set_input_txs [sample_pledge] block_para_new))"

lemma sample_pledged_facts:
  "ctx_contract_txs sample_pledged = []" "ctx_unconfirmed sample_pledged = 0" "ctx_heap sample_pledged = [XDeque [serilize_vote 1000 30 0]]"
  "ctx_native sample_pledged = \<lparr>m_objs = [(XPROPERTY_PLEDGE_VOTE_KEY, 0)], m_modify_objs = [(XPROPERTY_PLEDGE_VOTE_KEY, 0)]\<rparr>"
  "ctx_accountcmd sample_pledged = ctx_accountcmd sample_ctx" "ctx_balance_change sample_pledged = 0"
  "ctx_unvote_num_change sample_pledged = 1000"
  by (simp_all add: sample_pledged_def sample_fresh_facts)
    (simp_all add: sample_fresh_def sample_ctx_defs mstate_new_def)

lemma sample_exec_tx:
  "exec_tx sample_exec sample_fresh sample_pledge =
     Some (ok, sample_pledged, sample_pledge, get_transaction_result sample_env sample_pledged)"
proof -
  have kind: "\<not> tx_is enum_transaction_subtype_self sample_pledge" "\<not> tx_is enum_transaction_subtype_send sample_pledge"
    by (simp_all add: tx_is_def sample_pledge_def sample_pledge_tx_def tx_subtype_defs)
  have one: "exec_one_tx sample_exec sample_fresh sample_pledge transaction_result_new =
      Some (ok, sample_pledged, sample_pledge, get_transaction_result sample_env sample_pledged)"
    by (simp add: exec_one_tx_def sample_pledge_exec kind sample_exec_facts Let_def)
  have none: "m_contract_txs (get_transaction_result sample_env sample_pledged) = []"
    by (simp add: get_transaction_result_def sample_pledged_facts)
  show ?thesis
    by (simp add: exec_tx_def kind one none Let_def)
qed

lemma sample_batch:
  "exec_batch_txs sample_exec sample_fresh [sample_pledge] = Some (ok, sample_pledged,
     batch_new\<lparr>succ_txs_result := get_transaction_result sample_env sample_pledged, m_exec_succ_txs := [sample_pledge]\<rparr>,
     [sample_pledge])"
proof -
  have st: "set_status enum_xunit_tx_exec_status_success t = t" for t
    by (simp add: set_status_def set_tx_exec_status_def)
  show ?thesis
    by (simp add: exec_batch_txs_def batch_new_def sample_exec_tx st Let_def)
qed

lemma sample_made: "make_lightunit_output sample_exec sample_fresh [sample_pledge] = Some (ok, sample_pledged, sample_para)"
  by (simp add: make_lightunit_output_def sample_batch sample_para_def sample_pledged_facts)

lemma sample_accountcmd: "get_property_log (ctx_accountcmd sample_ctx) = None" "get_property_hashes f (ctx_accountcmd sample_ctx) = []"
  by (simp_all add: sample_ctx_defs get_property_log_def get_property_hashes_def get_property_size_def get_change_property_def cmd_new_def)

lemma sample_resource:
  "resource_fits sample_io (ctx_heap sample_pledged) (output_resource sample_para)"
  "io_reads_back sample_io (ctx_heap sample_pledged) (get_property_log (ctx_accountcmd sample_pledged))"
proof -
  have len: "length (serilize_vote 1000 30 0) = 18"
    by (simp add: serilize_vote_def put_uint_defs)
  have np: "out_native_property (output_resource sample_para) =
      \<lparr>m_objs = [(XPROPERTY_PLEDGE_VOTE_KEY, 0)], m_modify_objs = []\<rparr>"
    by (simp add: output_resource_def sample_para_def set_transaction_result_def get_transaction_result_def
        set_account_unconfirm_sendtx_num_def sample_pledged_facts add_property_def np_empty_def Let_def copy_modify_objs_only_def set_input_txs_def block_para_new_def
        transaction_result_new_def)
  have hash: "out_property_hash (output_resource sample_para) = []"
    by (simp add: output_resource_def sample_para_def set_transaction_result_def get_transaction_result_def
        set_account_unconfirm_sendtx_num_def sample_pledged_facts sample_accountcmd Let_def)
  have key: "length XPROPERTY_PLEDGE_VOTE_KEY < 100"
    by (simp add: property_key_defs)
  have "length (np_do_write (io_wr sample_io) (ctx_heap sample_pledged) (out_native_property (output_resource sample_para))) < 1000"
    using key by (simp add: np np_do_write_def np_put_item_def sample_io_def tagged_write_def put_string_def xdeque_do_write_def put_uint_defs
        sample_pledged_facts deref_def len Let_def)
  then show "resource_fits sample_io (ctx_heap sample_pledged) (output_resource sample_para)"
    using key by (simp add: resource_fits_def np hash sample_pledged_facts np_bound_def om_find_def om_inv_def str_ok_def)
  show "io_reads_back sample_io (ctx_heap sample_pledged) (get_property_log (ctx_accountcmd sample_pledged))"
    by (simp add: io_reads_back_def sample_io_def sample_pledged_facts sample_accountcmd tagged_read_def
        tagged_write_def xdeque_do_read_write str_ok_def len)
qed

definition sample_made_unit :: xlightunit_block where
  "sample_made_unit = the (create_next_lightunit sample_utl sample_io 0 vheader_new (ctx_heap sample_pledged) sample_para sample_unit)"

lemma sample_unit_made:
  "create_next_lightunit sample_utl sample_io 0 vheader_new (ctx_heap sample_pledged) sample_para sample_unit = Some sample_made_unit"
proof -
  have "input_entity_of_tx sample_utl sample_pledge \<noteq> None"
    by (simp add: input_entity_of_tx_def sample_pledge_def tx_receipt_def prove_cert_path_def set_prove_path_def
        set_prove_type_def set_prove_class_def)
  moreover have "m_raw_txs sample_para = [sample_pledge]"
    by (simp add: sample_para_def set_account_unconfirm_sendtx_num_def set_transaction_result_def set_input_txs_def)
  ultimately have "create_next_lightunit sample_utl sample_io 0 vheader_new (ctx_heap sample_pledged) sample_para sample_unit \<noteq> None"
    by (auto simp: create_next_lightunit_def create_lightunit_def get_blockbody_from_para_def case_prod_beta Let_def)
  then show ?thesis
    by (simp add: sample_made_unit_def)
qed

theorem executed_unit_replicates_witness:
  "\<exists>h' b' ch'. add_light_unit sample_utl sample_io [] (LightUnit sample_made_unit) (blockchain_new ''T00000alice'') =
      Some (h', LightUnit b', ch') \<and>
    np_view h' (mstate_native_property (m_account_state ch')) = [XPROPERTY_PLEDGE_VOTE_KEY \<mapsto> XDeque [serilize_vote 1000 30 0]] \<and>
    m_account_unvote_num (m_account_state ch') = 1000"
proof -
  have round: "utl_round sample_utl"
    by (rule sample_utl_round)
  have start: "ctx_ok sample_fresh" "m_modify_objs (ctx_native sample_fresh) = []"
    by (simp_all add: ctx_ok_def sample_fresh_facts np_empty_def np_inv_def om_inv_def)
  have succ: "list_all (succeeded sample_utl) (m_raw_txs sample_para)"
    by (simp add: sample_para_def set_account_unconfirm_sendtx_num_def set_transaction_result_def set_input_txs_def
        succeeded_def sample_pledge_def get_tx_exec_status_def para_get_uint32_def para_get_value_def om_find_def)
  have replica: "np_bound [] (mstate_native_property (m_account_state (blockchain_new ''T00000alice'')))"
      "np_view [] (mstate_native_property (m_account_state (blockchain_new ''T00000alice''))) = ctx_view sample_fresh"
    by (simp_all add: np_bound_def blockchain_new_def mstate_new_def np_empty_def om_inv_def om_find_def np_view_def
        ctx_view_def sample_fresh_facts fun_eq_iff)
  have view: "ctx_view sample_pledged = [XPROPERTY_PLEDGE_VOTE_KEY \<mapsto> XDeque [serilize_vote 1000 30 0]]"
    by (simp add: ctx_view_def sample_pledged_facts np_view_def om_find_def deref_def fun_eq_iff)
  obtain h' b' ch' where "add_light_unit sample_utl sample_io [] (LightUnit sample_made_unit) (blockchain_new ''T00000alice'') =
      Some (h', LightUnit b', ch')"
    "np_view h' (mstate_native_property (m_account_state ch')) = ctx_view sample_pledged"
    "result_applied (get_transaction_result sample_env sample_pledged) (get_burn_balance_change sample_utl sample_made_unit)
      (m_account_state (blockchain_new ''T00000alice'')) (m_account_state ch')"
    using executed_unit_replicates [where X = sample_exec, unfolded sample_exec_facts(2,3), OF sample_exec_facts(1) round start _
        sample_made succ sample_unit_made sample_resource replica] by auto
  then show ?thesis
    by (auto simp: view result_applied_def get_transaction_result_def sample_pledged_facts)
      (simp add: blockchain_new_def mstate_new_def)
qed

section \<open>The kind of a unit\<close>

lemma made_full:
  assumes "can_make_full_unit (x_env X) c prev" "create_unit_block X M c prev txs = Some (Inr (b, c'))"
  obtains i u where "b = FullUnit (create_next_fullunit (mk_chainid M) (mk_header M) i u prev)" "c' = c"
  using assms
  by (cases "make_fullunit_output (x_env X) (mk_write M) c") (auto simp: create_unit_block_def maker_create_fullunit_def)

lemma made_light:
  assumes "\<not> can_make_full_unit (x_env X) c prev" "create_unit_block X M c prev txs = Some (Inr (b, c'))"
  obtains para lu where "make_lightunit_output X c txs = Some (ok, c', para)" "b = LightUnit lu"
    "create_next_lightunit (env_utl (x_env X)) (mk_io M) (mk_chainid M) (mk_header M) (ctx_heap c') para prev = Some lu"
proof -
  obtain z where z: "maker_create_lightunit X M c prev txs = Some z" "map_sum id (\<lambda>(b, c). (LightUnit b, c)) z = Inr (b, c')"
    using assms by (auto simp: create_unit_block_def)
  then obtain lu where "maker_create_lightunit X M c prev txs = Some (Inr (lu, c'))" "b = LightUnit lu"
    by (cases z) auto
  then show ?thesis
    using that by (auto simp: maker_create_lightunit_def split: bind_splits if_splits)
qed

lemma made_unit_unconfirmed:
  assumes "vm_steps X" "create_unit_block X M c prev txs = Some (Inr (b, c'))"
  shows "ctx_unconfirmed c' = ctx_unconfirmed c"
proof (cases "can_make_full_unit (x_env X) c prev")
  case True
  show ?thesis
    by (rule made_full [OF True assms(2)]) simp
next
  case False
  obtain para where p: "make_lightunit_output X c txs = Some (ok, c', para)"
    by (rule made_light [OF False assms(2)])
  obtain res where "exec_batch_loop X txs c batch_new = Some (ok, c', res, m_raw_txs para)"
    by (rule made_output [OF p])
  then show ?thesis
    using steps_exec_batch [OF assms(1)] by (simp add: ctx_steps_def)
qed

lemma made_unit_next:
  assumes "create_unit_block X M c prev txs = Some (Inr (b, c'))"
  shows "made_next (env_utl (x_env X)) (mk_io M) (mk_chainid M) (mk_header M) prev b"
    "case b of FullUnit _ \<Rightarrow> can_make_full_unit (x_env X) c prev | LightUnit _ \<Rightarrow> \<not> can_make_full_unit (x_env X) c prev
     | OtherBlock _ \<Rightarrow> False"
proof -
  have same: "u = u\<lparr>blk_hash := blk_hash u\<rparr>" "v = v\<lparr>blk_hash := blk_hash v\<rparr>" for u :: xfullunit_block and v :: xlightunit_block
    by simp_all
  have "made_next (env_utl (x_env X)) (mk_io M) (mk_chainid M) (mk_header M) prev b \<and>
    (case b of FullUnit _ \<Rightarrow> can_make_full_unit (x_env X) c prev | LightUnit _ \<Rightarrow> \<not> can_make_full_unit (x_env X) c prev
     | OtherBlock _ \<Rightarrow> False)"
  proof (cases "can_make_full_unit (x_env X) c prev")
    case True
    then obtain i u where "b = FullUnit (create_next_fullunit (mk_chainid M) (mk_header M) i u prev)"
      using made_full assms by metis
    then show ?thesis
      using True same(1) unfolding made_next_def by (metis any_block.simps(11))
  next
    case False
    then obtain para lu where "b = LightUnit lu"
      "create_next_lightunit (env_utl (x_env X)) (mk_io M) (mk_chainid M) (mk_header M) (ctx_heap c') para prev = Some lu"
      using made_light assms by metis
    then show ?thesis
      using False same(2) unfolding made_next_def by (metis any_block.simps(10))
  qed
  then show "made_next (env_utl (x_env X)) (mk_io M) (mk_chainid M) (mk_header M) prev b"
    "case b of FullUnit _ \<Rightarrow> can_make_full_unit (x_env X) c prev | LightUnit _ \<Rightarrow> \<not> can_make_full_unit (x_env X) c prev
     | OtherBlock _ \<Rightarrow> False"
    by blast+
qed

text \<open>
  C7 The unit that the maker builds on the last unit is one that the other nodes take: it stands at the next
  height, names the last unit and the last full unit, and a node whose account has the same number
  of unconfirmed sends accepts its class, be it a full unit or a light unit, although the check
  runs after the transactions of the unit have been executed.
\<close>

theorem made_unit_accepted:
  assumes "vm_steps X" "create_unit_block X M c prev txs = Some (Inr (b, c'))"
    and "m_height (blk_header prev) + 1 \<noteq> 0" "get_block_level (blk_header prev) = level_unit"
    and "ctx_unconfirmed d = ctx_unconfirmed c'"
  shows "verify_proposal_block_class (x_env X) d (blk_header (base_block b)) prev = None \<and>
    m_height (blk_header (base_block b)) = m_height (blk_header prev) + 1 \<and>
    m_last_block_hash (blk_header (base_block b)) = blk_hash prev \<and>
    (hdr_last_full_block_hash (blk_header (base_block b)), hdr_last_full_block_height (blk_header (base_block b))) =
      next_full_block prev"
proof -
  note n = made_unit_next [OF assms(2)]
  note hdr = made_next_header [OF n(1) assms(3,4)]
  have "can_make_full_unit (x_env X) d prev = can_make_full_unit (x_env X) c prev"
    using assms(5) made_unit_unconfirmed [OF assms(1,2)] by (simp add: can_make_full_unit_def Let_def)
  then show ?thesis
    using hdr n(2) by (cases b) (simp_all add: verify_proposal_block_class_def Let_def)
qed


definition sample_maker :: xmaker where
  "sample_maker = \<lparr>mk_io = sample_io, mk_chainid = 0, mk_header = vheader_new, mk_write = tagged_write\<rparr>"

theorem made_unit_accepted_witness:
  "\<exists>b. create_unit_block sample_exec sample_maker sample_fresh sample_unit [sample_pledge] = Some (Inr (b, sample_pledged)) \<and>
    verify_proposal_block_class sample_env sample_ctx (blk_header (base_block b)) sample_unit = None"
proof -
  have light: "\<not> can_make_full_unit sample_env sample_fresh sample_unit"
    by (simp add: can_make_full_unit_def sample_env_def default_conf_def sample_unit_def vheader_new_def get_block_class_def
        block_kind_defs Let_def word_le_nat_alt)
  have made: "create_unit_block sample_exec sample_maker sample_fresh sample_unit [sample_pledge] =
      Some (Inr (LightUnit sample_made_unit, sample_pledged))"
    using sample_unit_made
    by (simp add: create_unit_block_def light sample_exec_facts maker_create_lightunit_def sample_made sample_maker_def)
  have "ctx_unconfirmed sample_ctx = ctx_unconfirmed sample_pledged"
    by (simp add: sample_pledged_facts) (simp add: sample_ctx_defs mstate_new_def)
  then show ?thesis
    using made_unit_accepted [OF sample_exec_facts(1) made] made
    by (simp add: sample_exec_facts sample_unit_def vheader_new_def get_block_level_def block_kind_defs)
qed

section \<open>A failing transaction\<close>

lemma batch_step:
  assumes "exec_batch_loop X (x # xs) c res = Some (e, c1, res1, ys)" "m_exec_fail_tx res1 = None"
  obtains c2 x2 res2 where
    "\<And>zs. exec_batch_loop X (x # zs) c res = map_option (\<lambda>(e, c, r, ts). (e, c, r, x2 # ts)) (exec_batch_loop X zs c2 res2)"
    "m_exec_succ_txs res2 = m_exec_succ_txs res @ [x2]"
proof -
  have bind_map: "Option.bind m (\<lambda>(a, b, d, t). Some (a, b, d, y # t)) = map_option (\<lambda>(a, b, d, t). (a, b, d, y # t)) m"
    for m :: "(xexec_ret \<times> xaccount_context \<times> xbatch_txs_result \<times> xcons_transaction list) option" and y
    by (cases m) auto
  obtain e1 c2 x1 r where 1: "exec_tx X c x = Some (e1, c2, x1, r)"
    using assms(1) by (auto split: bind_splits)
  consider "e1 = ok" | "e1 \<noteq> ok"
      "tx_is enum_transaction_subtype_recv (set_status enum_xunit_tx_exec_status_fail x1) \<or>
       tx_is enum_transaction_subtype_confirm (set_status enum_xunit_tx_exec_status_fail x1)"
    using assms by (auto simp: 1 Let_def split: if_splits)
  then show ?thesis
  proof cases
    case 1
    show ?thesis
      by (rule that [of "set_status enum_xunit_tx_exec_status_success x1" c2
            "res\<lparr>succ_txs_result := r, m_exec_succ_txs := m_exec_succ_txs res @ [set_status enum_xunit_tx_exec_status_success x1]\<rparr>"])
        (simp_all add: \<open>exec_tx X c x = _\<close> 1 Let_def bind_map)
  next
    case 2
    show ?thesis
      by (rule that [of "set_status enum_xunit_tx_exec_status_fail x1" c2
            "res\<lparr>succ_txs_result := shared_result c2 (succ_txs_result res),
              m_exec_succ_txs := m_exec_succ_txs res @ [set_status enum_xunit_tx_exec_status_fail x1]\<rparr>"])
        (use 2 in \<open>simp_all add: \<open>exec_tx X c x = _\<close> Let_def bind_map\<close>)
  qed
qed

lemma batch_append:
  assumes "exec_batch_loop X xs c res = Some (e, c1, res1, ys)" "m_exec_fail_tx res1 = None"
  shows "exec_batch_loop X (xs @ zs) c res =
    map_option (\<lambda>(e, c, r, ts). (e, c, r, ys @ ts)) (exec_batch_loop X zs c1 res1)"
    "m_exec_succ_txs res1 = m_exec_succ_txs res @ ys" "length ys = length xs"
proof -
  have "exec_batch_loop X (xs @ zs) c res = map_option (\<lambda>(e, c, r, ts). (e, c, r, ys @ ts)) (exec_batch_loop X zs c1 res1) \<and>
    m_exec_succ_txs res1 = m_exec_succ_txs res @ ys \<and> length ys = length xs"
    using assms
  proof (induction xs arbitrary: c res ys)
    case Nil
    then show ?case by (cases "exec_batch_loop X zs c res") auto
  next
    case (Cons x xs)
    obtain c2 x2 res2 where 1:
      "\<And>zs. exec_batch_loop X (x # zs) c res = map_option (\<lambda>(e, c, r, ts). (e, c, r, x2 # ts)) (exec_batch_loop X zs c2 res2)"
      "m_exec_succ_txs res2 = m_exec_succ_txs res @ [x2]"
      using batch_step [OF Cons.prems] by metis
    obtain ts where 2: "exec_batch_loop X xs c2 res2 = Some (e, c1, res1, ts)" "ys = x2 # ts"
      using Cons.prems(1) unfolding 1(1) by auto
    show ?case
      using Cons.IH [OF 2(1) Cons.prems(2)] 1 2(2)
      by (cases "exec_batch_loop X zs c1 res1") (auto simp del: exec_batch_loop.simps)
  qed
  then show "exec_batch_loop X (xs @ zs) c res =
    map_option (\<lambda>(e, c, r, ts). (e, c, r, ys @ ts)) (exec_batch_loop X zs c1 res1)"
    "m_exec_succ_txs res1 = m_exec_succ_txs res @ ys" "length ys = length xs"
    by simp_all
qed

text \<open>
  C33 A failing transaction is part of the unit.  When transactions of a batch have been executed and the next one, a
  send or a call of the account itself, fails, the batch ends and counts as successful; the
  unit gets the result of the executed ones, with the property log and the created transactions as the failed
  one left them, since the result shares these with the context; but its inputs are all transactions of the batch: the
  executed ones, the failed one, and those behind it that were never executed and carry no mark of failure.
\<close>

theorem failed_batch_keeps_inputs:
  assumes "exec_batch_txs X c txs = Some (ok, c1, res, txs')" "txs \<noteq> []" "m_exec_fail_tx res = None"
    and "exec_tx X c1 tx = Some (e, c2, tx', r)" "e \<noteq> ok"
    and "\<not> tx_is enum_transaction_subtype_recv tx'" "\<not> tx_is enum_transaction_subtype_confirm tx'"
  shows "\<exists>para. make_lightunit_output X c (txs @ tx # rest) = Some (ok, c2, para) \<and>
    m_raw_txs para = txs' @ set_status enum_xunit_tx_exec_status_fail tx' # rest \<and>
    para = set_account_unconfirm_sendtx_num (ucast (ctx_unconfirmed c2)) (set_transaction_result (shared_result c2 (succ_txs_result res))
      (set_input_txs (m_raw_txs para) block_para_new))"
proof -
  have st: "tx_is k (set_status s tx') = tx_is k tx'" for k s
    by (simp add: tx_is_def set_status_def)
  have some: "m_exec_succ_txs res \<noteq> []"
    using batch_append(2,3) [OF assms(1) [unfolded exec_batch_txs_def] assms(3)] assms(2) by (auto simp: batch_new_def)
  have "exec_batch_loop X (txs @ tx # rest) c batch_new = Some (ok, c2,
      res\<lparr>succ_txs_result := shared_result c2 (succ_txs_result res),
        m_exec_fail_tx := Some (set_status enum_xunit_tx_exec_status_fail tx'), m_exec_fail_tx_ret := e\<rparr>,
      txs' @ set_status enum_xunit_tx_exec_status_fail tx' # rest)"
    using batch_append(1) [OF assms(1) [unfolded exec_batch_txs_def] assms(3), of "tx # rest"] assms(4-7) some
    by (simp add: st Let_def)
  then show ?thesis
    by (simp add: make_lightunit_output_def exec_batch_txs_def set_account_unconfirm_sendtx_num_def
        set_transaction_result_def set_input_txs_def)
qed


definition sample_late :: xcons_transaction where
  "sample_late = \<lparr>m_tx = transaction_new\<lparr>tx_header := header_new\<lparr>m_last_trans_nonce := 5\<rparr>, m_tx_subtype := enum_transaction_subtype_send\<rparr>,
     m_receipt = None, m_is_confirmed = False, m_execute_state = []\<rparr>"

theorem failed_batch_keeps_inputs_witness:
  "\<exists>c' para. make_lightunit_output sample_exec sample_fresh [sample_pledge, sample_late, sample_late] = Some (ok, c', para) \<and>
    m_raw_txs para = [sample_pledge, set_status enum_xunit_tx_exec_status_fail sample_late, sample_late]"
proof -
  have late: "\<not> nonce_matches sample_env sample_pledged (m_tx sample_late)"
    by (simp add: nonce_matches_def sample_late_def sample_pledged_def sample_fresh_def sample_ctx_defs mstate_new_def)
  have kind: "tx_is enum_transaction_subtype_send sample_late" "\<not> tx_is enum_transaction_subtype_recv sample_late"
    "\<not> tx_is enum_transaction_subtype_confirm sample_late"
    by (simp_all add: tx_is_def sample_late_def tx_subtype_defs)
  have fail: "exec_tx sample_exec sample_pledged sample_late =
      Some (Ret (ETx enum_xtxexecutor_error_tx_nonce_not_match), sample_pledged, sample_late, transaction_result_new)"
    by (simp add: exec_tx_def kind sample_exec_facts late)
  show ?thesis
    using failed_batch_keeps_inputs [OF sample_batch _ _ fail _ kind(2,3), of "[sample_late]"] by (auto simp: batch_new_def)
qed


section \<open>A pledge from another account\<close>

lemma merge_loop_frame:
  "merge_loop ds n e c = Some (x, y, c') \<Longrightarrow> ctx_balance_change c' = ctx_balance_change c \<and>
     ctx_pledge_vote c' = ctx_pledge_vote c \<and> ctx_unvote_num_change c' = ctx_unvote_num_change c"
  by (induction ds arbitrary: n e c) (auto simp: Let_def split: bind_splits if_splits)

lemma insert_loop_frame:
  "insert_loop n d ds t c = Some (x, y, c') \<Longrightarrow> ctx_balance_change c' = ctx_balance_change c \<and>
     ctx_pledge_vote c' = ctx_pledge_vote c \<and> ctx_unvote_num_change c' = ctx_unvote_num_change c"
  by (induction ds arbitrary: t) (auto split: bind_splits if_splits)

lemma native_pair: "native f c = (r, c') \<Longrightarrow> c' = native_do f c"
  by simp

lemma pledge_votes_frame:
  assumes "update_pledge_vote_property E n d c = Some (r, c')"
  shows "ctx_balance_change c' = ctx_balance_change c \<and>
     ctx_pledge_vote c' = ctx_pledge_vote c \<and> ctx_unvote_num_change c' = ctx_unvote_num_change c"
proof -
  obtain c1 where 1: "merge_pledge_vote_property E c = Some c1" "insert_pledge_vote_property n d c1 = Some (r, c')"
    using assms by (auto simp: update_pledge_vote_property_def split: bind_splits)
  have "ctx_balance_change c1 = ctx_balance_change c \<and>
     ctx_pledge_vote c1 = ctx_pledge_vote c \<and> ctx_unvote_num_change c1 = ctx_unvote_num_change c"
    using 1(1) by (auto simp: merge_pledge_vote_property_def Let_def split: option.splits bind_splits dest!: merge_loop_frame)
  moreover have "ctx_balance_change c' = ctx_balance_change c1 \<and>
     ctx_pledge_vote c' = ctx_pledge_vote c1 \<and> ctx_unvote_num_change c' = ctx_unvote_num_change c1"
    using 1(2) by (auto simp: insert_pledge_vote_property_def Let_def split: bind_splits if_splits
        dest!: insert_loop_frame native_pair)
  ultimately show ?thesis by simp
qed

text \<open>
  C34 A pledge for votes that arrives from another account costs the receiver nothing.  The tokens to lock are
  computed on the sending side of the handler only, so on the receiving side the amount is zero:
  the execution succeeds with the pledged votes added to the records and to the unused votes of
  the account, while neither the balance nor the tokens locked for votes change.
\<close>

theorem received_pledge_is_free:
  assumes "ctx_ok c" "typed_at as_deque (ctx_view c) XPROPERTY_PLEDGE_VOTE_KEY"
    and "tx_is enum_transaction_subtype_recv tx" "tx_check X (m_tx tx) = Some (Inr (PledgeVote n d))"
    and "tx_exec X c tx = Some (ok, c', tx')"
  shows "votes_in (vote_records c') = votes_in (vote_records c) + n \<and>
    ctx_unvote_num_change c' = ctx_unvote_num_change c + n \<and>
    ctx_balance_change c' = ctx_balance_change c \<and> ctx_pledge_vote c' = ctx_pledge_vote c"
proof -
  have kind: "\<not> tx_is enum_transaction_subtype_self tx" "\<not> tx_is enum_transaction_subtype_send tx"
    "\<not> tx_is enum_transaction_subtype_confirm tx"
    using assms(3) by (simp_all add: tx_is_def tx_subtype_defs)
  let ?r = "update_fee_recv (x_env X) (run_new c tx)"
  have r: "run_ctx ?r = c" "\<not> tx_is enum_transaction_subtype_self (run_tx ?r)"
    using kind(1) by (simp_all add: update_fee_recv_def run_new_def tx_is_def)
  obtain r' where r': "target_action_exec X 0 (PledgeVote n d) ?r = Some (ok, r')" "c' = run_ctx r'"
    using assms(5) kind r(2)
    by (auto simp: tx_exec_def assms(3,4) exec_target_def target_fee_exec_def Let_def run_new_def split: bind_splits if_splits)
  have out: "top_token_transfer_out (x_env X) 0 0 0 c = Some (ret, c1) \<Longrightarrow> c1 = c" for ret c1
    by (auto simp: top_token_transfer_out_def xadd_def split: bind_splits if_splits)
  have u: "update_pledge_vote_property (x_env X) n d
      (ctx_set_unvote_num_change n (ctx_set_vote_balance_change 0 c)) = Some (xsuccess, c')"
    using r' r(1) out
    by (auto simp: target_action_exec_def ctx_do_def lift_ret_def Let_def split: bind_splits if_splits)
  let ?c = "ctx_set_unvote_num_change n (ctx_set_vote_balance_change 0 c)"
  have "vote_records ?c = vote_records c" "votes_ok ?c"
    using assms(1,2) by (simp_all add: vote_records_def votes_ok_def)
  then show ?thesis
    using update_votes [OF _ u] pledge_votes_frame [OF u]
    by (simp add: ctx_set_unvote_num_change_def ctx_set_vote_balance_change_def)
qed

theorem received_pledge_is_free_witness:
  "tx_exec sample_exec sample_fresh sample_pledge = Some (ok, sample_pledged, sample_pledge) \<and>
    votes_in (vote_records sample_pledged) = 1000 \<and> ctx_unvote_num_change sample_pledged = 1000 \<and>
    ctx_balance_change sample_pledged = 0"
proof -
  have "ctx_ok sample_fresh" "typed_at as_deque (ctx_view sample_fresh) XPROPERTY_PLEDGE_VOTE_KEY" "vote_records sample_fresh = []"
    by (simp_all add: ctx_ok_def ctx_view_def sample_fresh_facts np_empty_def np_inv_def om_inv_def typed_at_def np_view_def
        om_find_def vote_records_def deque_of_def)
  moreover have "tx_is enum_transaction_subtype_recv sample_pledge"
    "tx_check sample_exec (m_tx sample_pledge) = Some (Inr (PledgeVote 1000 30))"
    using sample_pledge_checked by (simp_all add: tx_is_def sample_pledge_def sample_pledge_tx_def)
  ultimately show ?thesis
    using received_pledge_is_free [OF _ _ _ _ sample_pledge_exec, of 1000 30] sample_pledge_exec
    by (simp add: sample_fresh_facts)
qed

end
