(* ===== verification/Spec2Isabelle.thy ===== *)
theory Spec2Isabelle
  imports XAccountCmd XChainState XUnitLaws
begin

text \<open>
  A verification development of the account ledger of TOP-chain: the code under
  \<open>src/src/xtopcom/\<close> that executes transactions on one account, records the result in units, and
  applies units on other nodes.

  \<^bold>\<open>The program.\<close>  An account is a chain of units.  Its state (\<open>xdata/src/xaccount_mstate2.cpp\<close>,
  \<open>xdata/src/xblockchain.cpp\<close>) has balances, pledges, counters, and a table of native properties:
  named strings, maps and deques (\<open>xdata/src/xnative_property.cpp\<close> over \<open>xbase/xdata.h\<close>).  The leader
  of a consensus round takes a batch of transactions (\<open>xdata/src/xtransaction.cpp\<close> with the actions of
  \<open>xaction_parse.cpp\<close>, wrapped with receipts in \<open>xcons_transaction.cpp\<close>) and runs it on an account context
  (\<open>xstore/src/xaccount_context.cpp\<close>) with the handlers and the executor of \<open>xtxexecutor/src\<close>.  The unit
  maker (\<open>xunit_blockmaker.cpp\<close>) builds a light unit with the result, or from time to time a full unit with the
  whole state.  The other nodes apply the unit to their copy of the account
  (\<open>xlightunit.cpp\<close>, \<open>xfullunit.cpp\<close>, \<open>xblockchain.cpp\<close>); receipts of a committed unit carry Merkle
  paths (\<open>xutility/xmerkle.hpp\<close>) that the receiver of a transaction checks
  (\<open>xprovecert.cpp\<close>, \<open>xtxreceipt.cpp\<close>).

  \<^bold>\<open>Conventions.\<close>  A C++ integer is a word of its width, and its arithmetic wraps as in C++; a \<open>double\<close>
  is a real number rounded to 53 bits where the code uses one (\<open>XVoteRate\<close>).  A class is a record, an enumeration a
  datatype or constants with the source's codes, a \<open>std::map\<close> a list of pairs sorted by key.
  A method takes the object and returns it updated.  \<open>None\<close> as the result of an operation is an exception
  that leaves it or undefined behaviour, such as a null dereference, a division by zero or a
  read beyond a buffer; error codes are values of \<open>xret\<close> and \<open>xexec_ret\<close>.  Asserts and log output do
  nothing, as in the release build.  Objects that the code shares through pointers live in a \<open>heap\<close>,
  and tables hold their addresses; the log and the created transactions, which a result shares with its
  context, are brought up to date by \<open>shared_result\<close>.  A string passed on as \<open>const char *\<close> ends at its first zero
  byte (\<open>c_str\<close>).  Code that is not in the sources is a parameter: hash functions
  (\<open>xhashes\<close>), the curve library (\<open>ecc\<close>), number parsing of the utility library (\<open>xutl\<close>), the framing of
  objects (\<open>unit_io\<close>), stored properties (\<open>xprop_source\<close>), and the virtual machine (\<open>x_deal\<close>).  What the
  theorems assume of them is written as named predicates: \<open>utl_round\<close>, \<open>io_reads_back\<close>, \<open>vm_steps\<close>.

  \<^bold>\<open>Foundations.\<close>
  \<^item> \<open>XPrelude\<close>: integer types, C strings, ordered maps with the interface \<open>keyed_map\<close>, decimal and little-endian
    texts, and the checked addition of \<open>xbasic/xutility.h\<close>.
  \<^item> \<open>XStream\<close>: the byte stream of \<open>xbase/xmem.h\<close>.  The locale \<open>codec\<close> states that a reader undoes its
    writer; \<open>codec_pair\<close> and \<open>object_codec\<close> lift it to containers and objects, and every serialized type of the later
    theories is an interpretation.
  \<^item> \<open>XErrors\<close>: the error enumerations and their name tables.
  \<^item> \<open>XConfig\<close>, \<open>XVoteRate\<close>: configuration values and the price of votes.
  \<^item> \<open>XDataUnit\<close>: the property objects.

  \<^bold>\<open>State of an account.\<close>
  \<^item> \<open>XNativeProperty\<close>: the table of native properties.  \<open>np_view\<close> maps a table to its content, \<open>np_spec\<close> says
    what each operation does to the content, and the locale \<open>native_kind\<close>, interpreted for strings, maps and deques,
    carries the refinement.  Every operation refines its specification, the set of modified names is enough
    to reproduce the content, and tables that share objects are described.
  \<^item> \<open>XPropertyLog\<close>, \<open>XAccountCmd\<close>: the instruction log with its compaction and the operations that write it;
    replaying the log of a run gives the state of the run, if the names of the properties hold no zero byte
    and no removal of a map field drops an assignment that matters; both conditions are shown to be needed.
  \<^item> \<open>XAddress\<close>, \<open>XAccount\<close>: addresses, account state, chain and gas.

  \<^bold>\<open>Transactions and proofs.\<close>
  \<^item> \<open>XAction\<close>, \<open>XCrypto\<close>, \<open>XTransaction\<close>: actions, keys and transactions: round trips, what the digest binds,
    and that signed transfers are accepted.
  \<^item> \<open>XMerkle\<close>, \<open>XConsTx\<close>: Merkle trees, proofs and receipts; every leaf is accepted with its path, for any
    number of leaves.

  \<^bold>\<open>Units.\<close>
  \<^item> \<open>XBlock\<close>, \<open>XLightUnit\<close>: headers, certificates, light and full units, and their application.
  \<^item> \<open>XChainState\<close>: sequences of units on a chain: linked blocks, nonces, unconfirmed sends, the last full
    unit, checkpoints, and the receipts of a committed unit.  Blocks are linked by hash from height two on.

  \<^bold>\<open>Execution.\<close>
  \<^item> \<open>XAccountContext\<close>, \<open>XContextProps\<close>: the operations of \<open>xaccount_context_t\<close>: tokens, locks, gas, pledged
    votes, contract properties.
  \<^item> \<open>XTxFee\<close>, \<open>XTxContext\<close>: fees and the handlers of all transaction types on the sending, receiving and
    confirming side.
  \<^item> \<open>XExecutor\<close>: one transaction, a batch, and the unit maker.
  \<^item> \<open>XAccountLaws\<close>, \<open>XVoteLaws\<close>: tokens are conserved, locks can be released only in time, gas is paid exactly,
    votes are neither lost nor created, searches end; and where the code does not do so.
  \<^item> \<open>XExecutorLaws\<close>: the relation \<open>ctx_steps\<close> holds between a context before and after any execution: the
    native table was changed by its operations only.
  \<^item> \<open>XUnitLaws\<close>: the execution and the ledger together: a unit made from executed transactions takes every
    replica to the executed state; a made unit is accepted; and what a failing transaction leaves.

  \<^bold>\<open>Loops.\<close>  Loops over containers are structural recursion over the list they iterate over; a counted
  loop recurses over its counter.  The Merkle loops and the compaction of a log are functions with
  termination proofs.  There is no fuel: no loop of the modelled code is unbounded.

  \<^bold>\<open>Not modelled.\<close>  The base library \<open>xbase\<close> consists of headers of a binary library; of it only what the
  headers define is modelled (streams, data objects, ids), and the event, object and virtual block
  classes are not.  The parts that are built on those classes are left out: the block store, the unit service
  and the transaction pool, which also depend on threads, timers and the network; and \<open>make_block\<close> and
  \<open>verify_block\<close> of the unit maker, which ask the block store.  Consensus (\<open>xBFT\<close>) is left out as well.  Its
  voting rules and message handlers are in the sources and could be stated with the base library as
  an argument; no theory here does so, and no theorem says anything about consensus votes, locked blocks or forks.  Table
  blocks and the root block (\<open>xdata/src/xtableblock.cpp\<close>, \<open>xrootblock.cpp\<close>) aggregate units through the virtual block
  class and are left out.  The election data serve the system contracts, of which the sources hold
  only headers.  Databases,
  networking, remote procedure calls, the command line client, generated protocol buffers and bundled third-party code
  are not modelled; hash functions and signature schemes are parameters.
\<close>

end
